(* ===== verification/Go_Prelude.thy ===== *)
theory Go_Prelude
  imports Main "HOL-Library.Word" "HOL-Library.AList" "HOL-Library.List_Lexorder"
    "HOL-Library.Char_ord" "HOL-Library.Multiset"
begin

text \<open>
  The Go language and standard library as far as the operator uses them: fixed-width
  integers, maps, string formatting of integers (\<open>%d\<close>), \<open>strconv.Atoi\<close>,
  \<open>strings.SplitN\<close> with limit 2, and \<open>sort.Strings\<close>; with the generic lemmas and the
  collections of facts that the component theories share.

  A Go map is an association list with distinct keys. The order of the list is the order in
  which one run of a \<open>range\<close> statement visits the entries, which Go leaves open: a fact that
  must not depend on it is stated for every permutation of the list. A nil map is the empty list.
\<close>

section \<open>Collections of facts\<close>

named_theorems go_simps \<open>evaluation of the Go standard library functions\<close>
named_theorems int32_simps \<open>signed comparisons of fixed-width integers\<close>

section \<open>Fixed-width integers\<close>

type_synonym int32 = "32 word"
type_synonym int64 = "64 word"

text \<open>Go's \<open><\<close> on int32 and int64 is the signed order.\<close>

lemma word_sless_sint [int32_simps]: "(a <s b) = (sint a < sint b)"
  by (simp add: word_sless_alt)

lemma word_sle_sint [int32_simps]: "(a \<le>s b) = (sint a \<le> sint b)"
  by (simp add: word_sle_eq)

lemma sint_inject_iff: "(sint a = sint b) = (a = b)"
  using signed_word_eqI by blast

lemma sint32_bounds: "- (2 ^ 31) \<le> sint (a :: int32)" "sint (a :: int32) < 2 ^ 31"
  using sint_range_size [of a] by (simp_all add: word_size)

lemma sint64_bounds: "- (2 ^ 63) \<le> sint (a :: int64)" "sint (a :: int64) < 2 ^ 63"
  using sint_range_size [of a] by (simp_all add: word_size)

lemma sint32_of_int:
  "- (2 ^ 31) \<le> i \<Longrightarrow> i < 2 ^ 31 \<Longrightarrow> sint (word_of_int i :: int32) = i"
  by (simp add: signed_take_bit_int_eq_self sint_sbintrunc')

section \<open>Maps\<close>

type_synonym gomap = "(string \<times> string) list"

definition wf_map :: "('k \<times> 'v) list \<Rightarrow> bool" where
  "wf_map m \<longleftrightarrow> distinct (map fst m)"

lemma wf_map_Nil [simp]: "wf_map []"
  by (simp add: wf_map_def)

lemma wf_map_update [simp]: "wf_map m \<Longrightarrow> wf_map (AList.update k v m)"
  by (simp add: wf_map_def distinct_update)

text \<open>Two enumerations of one map are permutations of each other and look up alike.\<close>

lemma map_of_mset_eq:
  assumes "wf_map m" and "mset m = mset m'"
  shows "map_of m = map_of m'"
proof -
  from assms(2) have "mset (map fst m) = mset (map fst m')"
    by (metis mset_map)
  with assms(1) have "distinct (map fst m')"
    unfolding wf_map_def using mset_eq_imp_distinct_iff by blast
  moreover from assms(2) have "set m = set m'"
    by (rule mset_eq_setD)
  ultimately show ?thesis
    using assms(1) map_of_inject_set by (fastforce simp: wf_map_def)
qed

section \<open>Formatting and parsing decimal integers\<close>

definition digit_char :: "nat \<Rightarrow> char" where
  "digit_char d = ''0123456789'' ! d"

definition digit_of :: "char \<Rightarrow> nat option" where
  "digit_of c = (let v = of_char c in if 48 \<le> v \<and> v \<le> 57 then Some (v - 48) else None)"

lemma less_10_cases:
  "(d :: nat) < 10 \<Longrightarrow> d \<in> {0, 1, 2, 3, 4, 5, 6, 7, 8, 9}"
  by auto

lemma digit_of_digit_char [go_simps]: "d < 10 \<Longrightarrow> digit_of (digit_char d) = Some d"
  by (drule less_10_cases) (auto simp: digit_of_def digit_char_def)

lemma digit_char_not_sign: "d < 10 \<Longrightarrow> digit_char d \<noteq> CHR ''-'' \<and> digit_char d \<noteq> CHR ''+''"
  by (drule less_10_cases) (auto simp: digit_char_def)

fun nat_digits :: "nat \<Rightarrow> string" where
  "nat_digits n = (if n < 10 then [digit_char n] else nat_digits (n div 10) @ [digit_char (n mod 10)])"

declare nat_digits.simps [simp del]

lemma nat_digits_nonempty [simp]: "nat_digits n \<noteq> []"
  by (subst nat_digits.simps) simp

text \<open>\<open>fmt\<close>'s verb \<open>%d\<close>.\<close>

definition fmt_d :: "int \<Rightarrow> string" where
  "fmt_d i = (if i < 0 then CHR ''-'' # nat_digits (nat (- i)) else nat_digits (nat i))"

datatype atoi_error = ErrSyntax | ErrRange

text \<open>The digit loop of \<open>strconv.ParseUint\<close> for base 10 and 64 bits.\<close>

fun parse_uint :: "nat \<Rightarrow> string \<Rightarrow> nat \<times> atoi_error option" where
  "parse_uint n [] = (n, None)"
| "parse_uint n (c # cs) =
     (case digit_of c of
        None \<Rightarrow> (0, Some ErrSyntax)
      | Some d \<Rightarrow> if n * 10 + d > 2 ^ 64 - 1 then (2 ^ 64 - 1, Some ErrRange)
                  else parse_uint (n * 10 + d) cs)"

definition parse_int :: "bool \<Rightarrow> string \<Rightarrow> int \<times> atoi_error option" where
  "parse_int neg s =
     (if s = [] then (0, Some ErrSyntax)
      else case parse_uint 0 s of
        (_, Some ErrSyntax) \<Rightarrow> (0, Some ErrSyntax)
      | (un, _) \<Rightarrow>
          if \<not> neg \<and> un \<ge> 2 ^ 63 then (2 ^ 63 - 1, Some ErrRange)
          else if neg \<and> un > 2 ^ 63 then (- (2 ^ 63), Some ErrRange)
          else (if neg then - int un else int un, None))"

text \<open>\<open>strconv.Atoi\<close>: value and error, on a platform with 64-bit \<open>int\<close>.\<close>

definition Atoi :: "string \<Rightarrow> int \<times> atoi_error option" where
  "Atoi s =
     (case s of
        [] \<Rightarrow> (0, Some ErrSyntax)
      | c # cs \<Rightarrow> if c = CHR ''-'' then parse_int True cs
                  else if c = CHR ''+'' then parse_int False cs
                  else parse_int False s)"

lemma parse_uint_append:
  "parse_uint n s = (m, None) \<Longrightarrow> parse_uint n (s @ t) = parse_uint m t"
  by (induction n s rule: parse_uint.induct) (auto split: option.splits if_splits)

lemma parse_uint_nat_digits: "n < 2 ^ 64 \<Longrightarrow> parse_uint 0 (nat_digits n) = (n, None)"
proof (induction n rule: nat_digits.induct)
  case (1 n)
  show ?case
  proof (cases "n < 10")
    case True
    with "1.prems" show ?thesis
      by (subst nat_digits.simps) (simp add: go_simps)
  next
    case False
    with "1" have "parse_uint 0 (nat_digits (n div 10)) = (n div 10, None)"
      by simp
    then have "parse_uint 0 (nat_digits (n div 10) @ [digit_char (n mod 10)])
        = parse_uint (n div 10) [digit_char (n mod 10)]"
      by (rule parse_uint_append)
    also have "\<dots> = (n, None)"
      using "1.prems" by (simp add: go_simps)
    finally show ?thesis
      using False by (subst nat_digits.simps) simp
  qed
qed

lemma nat_digits_hd: "hd (nat_digits n) \<noteq> CHR ''-'' \<and> hd (nat_digits n) \<noteq> CHR ''+''"
proof (induction n rule: nat_digits.induct)
  case (1 n)
  then show ?case
    by (subst (1 2) nat_digits.simps) (auto simp: digit_char_not_sign)
qed

text \<open>Printing with \<open>%d\<close> and reading back with \<open>Atoi\<close> is the identity on 64-bit integers.\<close>

lemma Atoi_fmt_d:
  assumes "- (2 ^ 63) \<le> i" and "i < 2 ^ 63"
  shows "Atoi (fmt_d i) = (i, None)"
proof (cases "i < 0")
  case True
  with assms show ?thesis
    by (simp add: Atoi_def fmt_d_def parse_int_def parse_uint_nat_digits nat_le_iff)
next
  case False
  obtain c cs where "nat_digits (nat i) = c # cs"
    by (cases "nat_digits (nat i)") auto
  moreover have "c \<noteq> CHR ''-'' \<and> c \<noteq> CHR ''+''"
    using nat_digits_hd [of "nat i"] calculation by simp
  moreover have "parse_uint 0 (nat_digits (nat i)) = (nat i, None)"
    using assms False by (intro parse_uint_nat_digits) (simp add: nat_less_iff)
  ultimately show ?thesis
    using assms False by (auto simp: Atoi_def fmt_d_def parse_int_def nat_less_iff)
qed

section \<open>Strings\<close>

text \<open>\<open>strings.SplitN(s, sep, 2)\<close> for a one-byte separator.\<close>

definition SplitN2 :: "char \<Rightarrow> string \<Rightarrow> string list" where
  "SplitN2 sep s =
     (case dropWhile (\<lambda>c. c \<noteq> sep) s of
        [] \<Rightarrow> [s]
      | _ # rest \<Rightarrow> [takeWhile (\<lambda>c. c \<noteq> sep) s, rest])"

lemma SplitN2_join [go_simps]:
  assumes "sep \<notin> set a"
  shows "SplitN2 sep (a @ sep # b) = [a, b]"
proof -
  from assms have "\<And>c. c \<in> set a \<Longrightarrow> c \<noteq> sep" by auto
  then have "dropWhile (\<lambda>c. c \<noteq> sep) (a @ sep # b) = sep # b"
    and "takeWhile (\<lambda>c. c \<noteq> sep) (a @ sep # b) = a"
    by (simp_all add: dropWhile_append2 takeWhile_append2)
  then show ?thesis by (simp add: SplitN2_def)
qed

lemma SplitN2_no_sep [go_simps]:
  assumes "sep \<notin> set s"
  shows "SplitN2 sep s = [s]"
proof -
  from assms have "dropWhile (\<lambda>c. c \<noteq> sep) s = []"
    by (auto simp: dropWhile_eq_Nil_conv)
  then show ?thesis by (simp only: SplitN2_def list.case)
qed

text \<open>\<open>sort.Strings\<close>: ascending byte order.\<close>

definition sort_Strings :: "string list \<Rightarrow> string list" where
  "sort_Strings ks = sort ks"

lemma sort_Strings_mset_eq: "mset ks = mset ks' \<Longrightarrow> sort_Strings ks = sort_Strings ks'"
  by (simp add: sort_Strings_def properties_for_sort)

end
