(* ===== verification/K8s.thy ===== *)
theory K8s
  imports Go_Prelude
begin

text \<open>
  The Kubernetes API structs that the operator reads or builds (packages corev1, appsv1,
  autoscalingv2, networkingv1, policyv1, gatewayv1 and metav1, which are not part of the
  repository). Only their data is written down here, restricted to the fields that the
  operator's code names; what the libraries compute is a parameter of the model (theory World).
  A pointer field is an option, nil being \<open>None\<close>. A child object of any kind is a
  \<open>K8sObject\<close>: type and object metadata, a spec and a status.
\<close>

section \<open>metav1\<close>

text \<open>Instants in nanoseconds from Go's zero time.\<close>

type_synonym Time = int

definition Time_IsZero :: "Time option \<Rightarrow> bool" where
  "Time_IsZero t \<longleftrightarrow> t = None \<or> t = Some 0"

record TypeMeta =
  APIVersion :: string
  Kind :: string

text \<open>\<open>metav1.ListMeta\<close>; its remaining fields are not read by the code.\<close>

record ListMeta =
  ListResourceVersion :: string
  Continue :: string
  RemainingItemCount :: "int64 option"

definition zero_ListMeta :: ListMeta where
  "zero_ListMeta = \<lparr>ListResourceVersion = [], Continue = [], RemainingItemCount = None\<rparr>"

record OwnerReference =
  OwnerKind :: string
  OwnerName :: string
  OwnerUID :: string
  Controller :: bool

record Condition =
  Type :: string
  Status :: string
  Reason :: string
  Message :: string
  LastTransitionTime :: Time

abbreviation "ConditionTrue \<equiv> ''True''"
abbreviation "ConditionFalse \<equiv> ''False''"

section \<open>intstr and resource\<close>

datatype IntOrString = FromInt32 int32 | FromString string

text \<open>A parsed \<open>resource.Quantity\<close>, represented by its canonical text.\<close>

datatype quantity = Quantity string

section \<open>Pods and Deployments\<close>

record EnvVar =
  Name :: string
  Value :: string

record EnvFromSource =
  Prefix :: string
  ConfigMapRef :: "string option"
  SecretRef :: "string option"

record ContainerPort =
  Name :: string
  ContainerPort :: int32
  Protocol :: string

record SecurityContext =
  RunAsNonRoot :: "bool option"
  ReadOnlyRootFilesystem :: "bool option"
  AllowPrivilegeEscalation :: "bool option"
  CapabilitiesDrop :: "string list"

record ResourceRequirements =
  Requests :: "(string \<times> quantity) list"
  Limits :: "(string \<times> quantity) list"

record HTTPGetAction =
  Path :: string
  Port :: IntOrString

record Probe =
  HTTPGet :: HTTPGetAction
  InitialDelaySeconds :: int32
  PeriodSeconds :: int32
  TimeoutSeconds :: int32
  FailureThreshold :: int32

record VolumeMount =
  Name :: string
  MountPath :: string

record Container =
  Name :: string
  Image :: string
  ImagePullPolicy :: string
  Ports :: "ContainerPort list"
  Env :: "EnvVar list"
  Resources :: ResourceRequirements
  VolumeMounts :: "VolumeMount list"
  LivenessProbe :: "Probe option"
  ReadinessProbe :: "Probe option"
  SecurityContext :: "SecurityContext option"

datatype VolumeSource = EmptyDir

record Volume =
  Name :: string
  VolumeSource :: VolumeSource

record PodSecurityContext =
  RunAsNonRoot :: "bool option"
  SeccompProfileType :: string

record PodSpec =
  SecurityContext :: "PodSecurityContext option"
  Containers :: "Container list"
  Volumes :: "Volume list"

record PodTemplateSpec =
  TemplateLabels :: gomap
  Spec :: PodSpec

record RollingUpdateDeployment =
  MaxUnavailable :: "IntOrString option"
  MaxSurge :: "IntOrString option"

record DeploymentStrategy =
  Type :: string
  RollingUpdate :: "RollingUpdateDeployment option"

record DeploymentSpec =
  Replicas :: "int32 option"
  Selector :: gomap
  Strategy :: DeploymentStrategy
  Template :: PodTemplateSpec

record DeploymentStatus =
  ReadyReplicas :: int32

section \<open>Services, autoscalers, disruption budgets\<close>

record ServicePort =
  Name :: string
  Port :: int32
  TargetPort :: IntOrString
  Protocol :: string

record CoreServiceSpec =
  Type :: string
  Selector :: gomap
  Ports :: "ServicePort list"

record CrossVersionObjectReference =
  APIVersion :: string
  Kind :: string
  Name :: string

record MetricTarget =
  Type :: string
  AverageUtilization :: "int32 option"

record ResourceMetricSource =
  Name :: string
  Target :: MetricTarget

record MetricSpec =
  Type :: string
  Resource :: "ResourceMetricSource option"

record HorizontalPodAutoscalerSpec =
  ScaleTargetRef :: CrossVersionObjectReference
  MinReplicas :: "int32 option"
  MaxReplicas :: int32
  Metrics :: "MetricSpec list"

record PodDisruptionBudgetSpec =
  MaxUnavailable :: "IntOrString option"
  Selector :: gomap

section \<open>Gateway API routes and network policies\<close>

record HTTPPathMatch =
  Type :: "string option"
  Value :: "string option"

record HTTPRouteMatch =
  Path :: "HTTPPathMatch option"

record HTTPBackendRef =
  Group :: "string option"
  Kind :: "string option"
  Name :: string
  Port :: "int32 option"

record HTTPRouteRule =
  Matches :: "HTTPRouteMatch list"
  BackendRefs :: "HTTPBackendRef list"

record ParentReference =
  Group :: "string option"
  Kind :: "string option"
  Namespace :: "string option"
  Name :: string

record HTTPRouteSpec =
  ParentRefs :: "ParentReference list"
  Hostnames :: "string list"
  Rules :: "HTTPRouteRule list"

record NetworkPolicyPort =
  Protocol :: "string option"
  Port :: "IntOrString option"

record NetworkPolicyIngressRule =
  Ports :: "NetworkPolicyPort list"

record NetworkPolicyEgressRule =
  Ports :: "NetworkPolicyPort list"

record NetworkPolicySpec =
  PodSelector :: gomap
  PolicyTypes :: "string list"
  Ingress :: "NetworkPolicyIngressRule list"
  Egress :: "NetworkPolicyEgressRule list"

section \<open>Unstructured content\<close>

datatype json = JString string | JList "json list" | JMap "(string \<times> json) list"

section \<open>Objects\<close>

record ObjectMeta =
  Name :: string
  Namespace :: string
  UID :: string
  ResourceVersion :: string
  Generation :: int64
  DeletionTimestamp :: "Time option"
  Labels :: gomap
  Annotations :: gomap
  OwnerReferences :: "OwnerReference list"
  Finalizers :: "string list"

text \<open>The zero value of \<open>ObjectMeta\<close>; a composite literal fills in fields of it.\<close>

definition zero_ObjectMeta :: ObjectMeta where
  "zero_ObjectMeta = \<lparr>Name = '''', Namespace = '''', UID = '''', ResourceVersion = '''',
     Generation = 0, DeletionTimestamp = None, Labels = [], Annotations = [],
     OwnerReferences = [], Finalizers = []\<rparr>"

definition zero_TypeMeta :: TypeMeta where
  "zero_TypeMeta = \<lparr>TypeMeta.APIVersion = '''', TypeMeta.Kind = ''''\<rparr>"

record ('spec, 'status) K8sObject =
  TypeMeta :: TypeMeta
  ObjectMeta :: ObjectMeta
  Spec :: 'spec
  Status :: 'status

text \<open>\<open>client.ObjectKey\<close>.\<close>

record ObjectKey =
  KeyNamespace :: string
  KeyName :: string

type_synonym Deployment = "(DeploymentSpec, DeploymentStatus) K8sObject"
type_synonym Service = "(CoreServiceSpec, unit) K8sObject"
type_synonym HorizontalPodAutoscaler = "(HorizontalPodAutoscalerSpec, unit) K8sObject"
type_synonym HTTPRoute = "(HTTPRouteSpec, unit) K8sObject"
type_synonym NetworkPolicy = "(NetworkPolicySpec, unit) K8sObject"
type_synonym PodDisruptionBudget = "(PodDisruptionBudgetSpec, unit) K8sObject"
type_synonym Unstructured = "(json, unit) K8sObject"

end
