(* ===== verification/V1alpha1.thy ===== *)
theory V1alpha1
  imports K8s
begin

text \<open>
  The v1alpha1 API types of \<open>api/v1alpha1/platformapplication_types.go\<close>: one record per
  struct, one field per Go field, int32 and int64 at their width.
\<close>

record ImageSpec =
  Repository :: string
  Tag :: string
  PullPolicy :: string

record ReplicasSpec =
  Min :: int32
  Max :: int32

record ServiceSpec =
  Port :: int32
  Type :: string

record AutoscalingSpec =
  Enabled :: bool
  TargetCPUUtilization :: int32

record GatewaySpec =
  Enabled :: bool
  Host :: string
  GatewayRef :: string
  PathPrefix :: string

record ObservabilitySpec =
  Metrics :: bool

record SecuritySpec =
  NetworkPolicy :: bool

record ResourceSpec =
  CPU :: string
  Memory :: string

record ResourcesSpec =
  Requests :: ResourceSpec
  Limits :: ResourceSpec

record HealthChecksSpec =
  LivenessPath :: string
  ReadinessPath :: string
  Port :: int32

record RolloutSpec =
  Strategy :: string
  MaxUnavailable :: string
  MaxSurge :: string

record PlatformApplicationSpec =
  Image :: ImageSpec
  Replicas :: ReplicasSpec
  Service :: ServiceSpec
  Configuration :: gomap
  Autoscaling :: AutoscalingSpec
  Gateway :: GatewaySpec
  Observability :: ObservabilitySpec
  Security :: SecuritySpec
  Resources :: ResourcesSpec
  HealthChecks :: HealthChecksSpec
  Rollout :: RolloutSpec

record PlatformApplicationStatus =
  ObservedGeneration :: int64
  ReadyReplicas :: int32
  URL :: string
  Conditions :: "Condition list"
  DeployedVersion :: string

text \<open>Condition types for PlatformApplication.\<close>

definition ConditionReady :: string where
  "ConditionReady = ''Ready''"

definition ConditionProgressing :: string where
  "ConditionProgressing = ''Progressing''"

definition ConditionDegraded :: string where
  "ConditionDegraded = ''Degraded''"

definition ConditionConfigurationValid :: string where
  "ConditionConfigurationValid = ''ConfigurationValid''"

lemmas condition_types = ConditionReady_def ConditionProgressing_def ConditionDegraded_def
  ConditionConfigurationValid_def

record PlatformApplication =
  TypeMeta :: TypeMeta
  ObjectMeta :: ObjectMeta
  Spec :: PlatformApplicationSpec
  Status :: PlatformApplicationStatus

text \<open>The zero value \<open>&PlatformApplication{}\<close> that \<open>Reconcile\<close> reads into.\<close>

definition zero_Spec :: PlatformApplicationSpec where
  "zero_Spec = \<lparr>
     PlatformApplicationSpec.Image = \<lparr>Repository = '''', Tag = '''', PullPolicy = ''''\<rparr>,
     PlatformApplicationSpec.Replicas = \<lparr>Min = 0, Max = 0\<rparr>,
     PlatformApplicationSpec.Service = \<lparr>ServiceSpec.Port = 0, ServiceSpec.Type = ''''\<rparr>,
     Configuration = [],
     Autoscaling = \<lparr>AutoscalingSpec.Enabled = False, TargetCPUUtilization = 0\<rparr>,
     Gateway = \<lparr>GatewaySpec.Enabled = False, Host = '''', GatewayRef = '''', PathPrefix = ''''\<rparr>,
     Observability = \<lparr>ObservabilitySpec.Metrics = False\<rparr>,
     Security = \<lparr>SecuritySpec.NetworkPolicy = False\<rparr>,
     PlatformApplicationSpec.Resources =
       \<lparr>ResourcesSpec.Requests = \<lparr>CPU = '''', Memory = ''''\<rparr>,
        ResourcesSpec.Limits = \<lparr>CPU = '''', Memory = ''''\<rparr>\<rparr>,
     HealthChecks = \<lparr>LivenessPath = '''', ReadinessPath = '''', HealthChecksSpec.Port = 0\<rparr>,
     Rollout = \<lparr>RolloutSpec.Strategy = '''', RolloutSpec.MaxUnavailable = '''',
       RolloutSpec.MaxSurge = ''''\<rparr>\<rparr>"

definition zero_PlatformApplication :: PlatformApplication where
  "zero_PlatformApplication =
     \<lparr>PlatformApplication.TypeMeta = zero_TypeMeta,
      PlatformApplication.ObjectMeta = zero_ObjectMeta,
      PlatformApplication.Spec = zero_Spec,
      PlatformApplication.Status =
        \<lparr>ObservedGeneration = 0, PlatformApplicationStatus.ReadyReplicas = 0, URL = '''',
         Conditions = [], DeployedVersion = ''''\<rparr>\<rparr>"

end
