(* ===== verification/Admission.thy ===== *)
theory Admission
  imports Main
begin

text \<open>
  The contract between a defaulting and a validating webhook of one API version. The admission
  chain (\<open>admit\<close>) first lets the defaulter fill the object in and then validates the result, the
  order the comments of both webhook files rely on. The locale states what a defaulter promises;
  the stability of admission under resubmission follows from it once, for every version.
\<close>

definition admit ::
    "('r \<Rightarrow> 'r) \<Rightarrow> ('r \<Rightarrow> string list \<times> string option) \<Rightarrow> 'r \<Rightarrow> string + 'r \<times> string list" where
  "admit dflt validate r =
     (let r' = dflt r in
      case validate r' of (ws, Some e) \<Rightarrow> Inl e | (ws, None) \<Rightarrow> Inr (r', ws))"

locale admission =
  fixes dflt :: "'r \<Rightarrow> 'r"
    and validate :: "'r \<Rightarrow> string list \<times> string option"
    and defaulted :: "'r \<Rightarrow> bool"
    and valid :: "'r \<Rightarrow> bool"
  assumes default_fills: "defaulted (dflt r)"
    and default_keeps: "defaulted r \<Longrightarrow> dflt r = r"
    and validate_iff: "snd (validate r) = None \<longleftrightarrow> valid r"
begin

lemma default_idem: "dflt (dflt r) = dflt r"
  by (rule default_keeps) (rule default_fills)

lemma default_fixpoint: "dflt r = r \<longleftrightarrow> defaulted r"
  using default_fills [of r] default_keeps [of r] by auto

lemma admitted_good:
  assumes "admit dflt validate r = Inr (r', ws)"
  shows "r' = dflt r" and "defaulted r'" and "valid r'" and "validate r' = (ws, None)"
proof -
  from assms have *: "r' = dflt r \<and> validate (dflt r) = (ws, None)"
    by (auto simp: admit_def Let_def split: prod.splits option.splits)
  then show "r' = dflt r" and "validate r' = (ws, None)" by simp_all
  with default_fills validate_iff [of r'] show "defaulted r'" and "valid r'" by simp_all
qed

lemma readmit:
  assumes "admit dflt validate r = Inr (r', ws)"
  shows "admit dflt validate r' = Inr (r', ws)"
  using admitted_good [OF assms] by (simp add: admit_def default_idem)

lemma admit_rejects_iff: "(\<exists>e. admit dflt validate r = Inl e) \<longleftrightarrow> \<not> valid (dflt r)"
  by (auto simp: admit_def Let_def simp flip: validate_iff split: prod.splits option.splits)

end

end
