(* ===== verification/V1beta1.thy ===== *)
theory V1beta1
  imports K8s
begin

text \<open>
  The v1beta1 API types of \<open>api/v1beta1/platformapplication_types.go\<close>, the hub of the version
  conversions: the v1alpha1 structs with \<open>EnvFrom\<close> and \<open>PodAnnotations\<close> added to the spec.
\<close>

record ImageSpec =
  Repository :: string
  Tag :: string
  PullPolicy :: string

record ReplicasSpec =
  Min :: int32
  Max :: int32

record ServiceSpec =
  Port :: int32
  Type :: string

record AutoscalingSpec =
  Enabled :: bool
  TargetCPUUtilization :: int32

record GatewaySpec =
  Enabled :: bool
  Host :: string
  GatewayRef :: string
  PathPrefix :: string

record ObservabilitySpec =
  Metrics :: bool

record SecuritySpec =
  NetworkPolicy :: bool

record ResourceSpec =
  CPU :: string
  Memory :: string

record ResourcesSpec =
  Requests :: ResourceSpec
  Limits :: ResourceSpec

record HealthChecksSpec =
  LivenessPath :: string
  ReadinessPath :: string
  Port :: int32

record RolloutSpec =
  Strategy :: string
  MaxUnavailable :: string
  MaxSurge :: string

record PlatformApplicationSpec =
  Image :: ImageSpec
  Replicas :: ReplicasSpec
  Service :: ServiceSpec
  Configuration :: gomap
  EnvFrom :: "EnvFromSource list"
  PodAnnotations :: gomap
  Autoscaling :: AutoscalingSpec
  Gateway :: GatewaySpec
  Observability :: ObservabilitySpec
  Security :: SecuritySpec
  Resources :: ResourcesSpec
  HealthChecks :: HealthChecksSpec
  Rollout :: RolloutSpec

record PlatformApplicationStatus =
  ObservedGeneration :: int64
  ReadyReplicas :: int32
  URL :: string
  Conditions :: "Condition list"
  DeployedVersion :: string

text \<open>Condition types for PlatformApplication.\<close>

definition ConditionReady :: string where
  "ConditionReady = ''Ready''"

definition ConditionProgressing :: string where
  "ConditionProgressing = ''Progressing''"

definition ConditionDegraded :: string where
  "ConditionDegraded = ''Degraded''"

definition ConditionConfigurationValid :: string where
  "ConditionConfigurationValid = ''ConfigurationValid''"

record PlatformApplication =
  TypeMeta :: TypeMeta
  ObjectMeta :: ObjectMeta
  Spec :: PlatformApplicationSpec
  Status :: PlatformApplicationStatus

end
