(* ===== verification/Webhook_V1beta1.thy ===== *)
theory Webhook_V1beta1
  imports V1beta1 Admission
begin

text \<open>
  The admission webhook of the hub version, \<open>api/v1beta1/webhook_platformapplication.go\<close>: \<open>Default\<close> fills
  optional fields in, \<open>validatePlatformApplication\<close> does the cross-field checks and yields
  warnings. The receiver that the Go code mutates in place is passed and returned.
\<close>

section \<open>Defaulting\<close>

text \<open>One definition per sub-struct of the spec that \<open>Default\<close> touches.\<close>

definition default_Image :: "ImageSpec \<Rightarrow> ImageSpec" where
  "default_Image i = (if PullPolicy i = '''' then i\<lparr>PullPolicy := ''IfNotPresent''\<rparr> else i)"

definition default_Replicas :: "ReplicasSpec \<Rightarrow> ReplicasSpec" where
  "default_Replicas p = (if Max p = 0 then p\<lparr>Max := Min p\<rparr> else p)"

definition default_Service :: "ServiceSpec \<Rightarrow> ServiceSpec" where
  "default_Service v =
     (if ServiceSpec.Type v = '''' then v\<lparr>ServiceSpec.Type := ''ClusterIP''\<rparr> else v)"

definition default_Autoscaling :: "AutoscalingSpec \<Rightarrow> AutoscalingSpec" where
  "default_Autoscaling a =
     (if AutoscalingSpec.Enabled a \<and> TargetCPUUtilization a = 0
      then a\<lparr>TargetCPUUtilization := 80\<rparr> else a)"

definition default_HealthChecks :: "HealthChecksSpec \<Rightarrow> HealthChecksSpec" where
  "default_HealthChecks h =
     (let h = (if LivenessPath h = '''' then h\<lparr>LivenessPath := ''/healthz''\<rparr> else h)
      in if ReadinessPath h = '''' then h\<lparr>ReadinessPath := ''/readyz''\<rparr> else h)"

definition default_Rollout :: "RolloutSpec \<Rightarrow> RolloutSpec" where
  "default_Rollout o' = (if Strategy o' = '''' then o'\<lparr>Strategy := ''RollingUpdate''\<rparr> else o')"

definition default_Gateway :: "GatewaySpec \<Rightarrow> GatewaySpec" where
  "default_Gateway g =
     (if GatewaySpec.Enabled g \<and> PathPrefix g = '''' then g\<lparr>PathPrefix := ''/''\<rparr> else g)"

lemmas beta_default_defs = default_Image_def default_Replicas_def default_Service_def
  default_Autoscaling_def default_HealthChecks_def default_Rollout_def default_Gateway_def

definition Default :: "PlatformApplication \<Rightarrow> PlatformApplication" where
  "Default r =
     r\<lparr>Spec := (Spec r)
       \<lparr>Image := default_Image (Image (Spec r)),
        Replicas := default_Replicas (Replicas (Spec r)),
        Service := default_Service (Service (Spec r)),
        Autoscaling := default_Autoscaling (Autoscaling (Spec r)),
        HealthChecks := default_HealthChecks (HealthChecks (Spec r)),
        Rollout := default_Rollout (Rollout (Spec r)),
        Gateway := default_Gateway (Gateway (Spec r))\<rparr>\<rparr>"

section \<open>Validation\<close>

definition validatePlatformApplication :: "PlatformApplication \<Rightarrow> string list \<times> string option" where
  "validatePlatformApplication r =
     (let s = Spec r; mn = Min (Replicas s); mx = Max (Replicas s);
          p = ServiceSpec.Port (Service s);
          warnings = [] in
      if 0 <s mx \<and> mx <s mn then
        (warnings, Some (''spec.replicas.min ('' @ fmt_d (sint mn)
                         @ '') must be <= spec.replicas.max ('' @ fmt_d (sint mx) @ '')''))
      else if mn <s 1 then
        (warnings, Some (''spec.replicas.min must be >= 1, got '' @ fmt_d (sint mn)))
      else if Repository (Image s) = '''' then
        (warnings, Some ''spec.image.repository must not be empty'')
      else if Tag (Image s) = '''' then
        (warnings, Some ''spec.image.tag must not be empty'')
      else if p <s 1 \<or> 65535 <s p then
        (warnings, Some (''spec.service.port must be between 1 and 65535, got '' @ fmt_d (sint p)))
      else
        (let warnings = (if AutoscalingSpec.Enabled (Autoscaling s) \<and> mn = mx
                         then warnings @ [''autoscaling is enabled but min and max replicas are equal; HPA will have no effect'']
                         else warnings);
             warnings = (if GatewaySpec.Enabled (Gateway s) \<and> Host (Gateway s) = ''''
                         then warnings @ [''gateway is enabled but no host is configured; HTTPRoute will match all hosts'']
                         else warnings)
         in (warnings, None)))"

definition ValidateCreate :: "PlatformApplication \<Rightarrow> string list \<times> string option" where
  "ValidateCreate r = validatePlatformApplication r"

definition ValidateUpdate ::
    "PlatformApplication \<Rightarrow> PlatformApplication \<Rightarrow> string list \<times> string option" where
  "ValidateUpdate old r = validatePlatformApplication r"

definition ValidateDelete :: "PlatformApplication \<Rightarrow> string list \<times> string option" where
  "ValidateDelete r = ([], None)"

section \<open>What the webhook promises\<close>

text \<open>Every optional field that the defaulter owns has a value.\<close>

definition defaulted :: "PlatformApplication \<Rightarrow> bool" where
  "defaulted r \<longleftrightarrow>
     (let s = Spec r in
      PullPolicy (Image s) \<noteq> '''' \<and>
      (Max (Replicas s) = 0 \<longrightarrow> Min (Replicas s) = 0) \<and>
      ServiceSpec.Type (Service s) \<noteq> '''' \<and>
      (AutoscalingSpec.Enabled (Autoscaling s) \<longrightarrow> TargetCPUUtilization (Autoscaling s) \<noteq> 0) \<and>
      LivenessPath (HealthChecks s) \<noteq> '''' \<and> ReadinessPath (HealthChecks s) \<noteq> '''' \<and>
      Strategy (Rollout s) \<noteq> '''' \<and>
      (GatewaySpec.Enabled (Gateway s) \<longrightarrow> PathPrefix (Gateway s) \<noteq> ''''))"

text \<open>The specification of validation, over mathematical integers.\<close>

definition valid_app :: "PlatformApplication \<Rightarrow> bool" where
  "valid_app r \<longleftrightarrow>
     (let s = Spec r; mn = sint (Min (Replicas s)); mx = sint (Max (Replicas s));
          p = sint (ServiceSpec.Port (Service s)) in
      1 \<le> mn \<and> (0 < mx \<longrightarrow> mn \<le> mx) \<and>
      Repository (Image s) \<noteq> '''' \<and> Tag (Image s) \<noteq> '''' \<and> 1 \<le> p \<and> p \<le> 65535)"

lemma beta_default_fills: "defaulted (Default r)"
  by (simp add: Default_def defaulted_def beta_default_defs Let_def)

lemma beta_default_keeps: "defaulted r \<Longrightarrow> Default r = r"
  by (cases r) (auto simp: Default_def defaulted_def beta_default_defs Let_def)

lemma beta_validate_iff: "snd (validatePlatformApplication r) = None \<longleftrightarrow> valid_app r"
  by (auto simp: validatePlatformApplication_def valid_app_def Let_def int32_simps)

interpretation beta: admission Default validatePlatformApplication defaulted valid_app
  by unfold_locales
    (simp_all add: beta_default_fills beta_default_keeps beta_validate_iff)

end
