(* ===== verification/Spoke.thy ===== *)
theory Spoke
  imports K8s
begin

text \<open>
  The contract of a spoke version with the conversion hub. \<open>convert_to src dst\<close> and
  \<open>convert_from src dst\<close> write the receiver's counterpart into \<open>dst\<close> and return it, as the Go
  methods do through pointers. What a round trip keeps is stated by \<open>expressible\<close>: the hub
  objects whose content the spoke can hold. Type metadata is not converted: it stays \<open>dst\<close>'s.
\<close>

locale spoke =
  fixes convert_to :: "'s \<Rightarrow> 'h \<Rightarrow> 'h"
    and convert_from :: "'h \<Rightarrow> 's \<Rightarrow> 's"
    and s_type :: "'s \<Rightarrow> TypeMeta"
    and h_type :: "'h \<Rightarrow> TypeMeta"
    and expressible :: "'h \<Rightarrow> bool"
  assumes to_type: "h_type (convert_to s h) = h_type h"
    and from_type: "s_type (convert_from h s) = s_type s"
    and to_expressible: "expressible (convert_to s h)"
    and from_to: "s_type d = s_type s \<Longrightarrow> convert_from (convert_to s h) d = s"
    and to_from: "expressible h \<Longrightarrow> h_type g = h_type h \<Longrightarrow> convert_to (convert_from h s) g = h"
begin

lemma convert_to_inj:
  assumes "convert_to s h = convert_to s' h'" and "s_type s = s_type s'"
  shows "s = s'"
  using assms by (metis from_to)

text \<open>The content of the result does not depend on the object that is written over.\<close>

lemma convert_from_dst_irrelevant:
  assumes "s_type d = s_type d'" and "expressible h"
  shows "convert_from h d = convert_from h d'"
proof (rule convert_to_inj [of _ h _ h])
  show "convert_to (convert_from h d) h = convert_to (convert_from h d') h"
    using assms(2) by (simp add: to_from)
  show "s_type (convert_from h d) = s_type (convert_from h d')"
    using assms(1) by (simp add: from_type)
qed

text \<open>One trip through the spoke is enough to lose whatever it cannot hold.\<close>

lemma second_trip:
  assumes "h_type d = h_type (convert_to (convert_from h s) d')"
  shows "convert_to (convert_from (convert_to (convert_from h s) d') s') d
       = convert_to (convert_from h s) d'"
  using assms by (intro to_from to_expressible)

end

locale lossless_spoke = spoke +
  assumes all_expressible: "expressible h"
begin

lemma hub_round_trip: "h_type g = h_type h \<Longrightarrow> convert_to (convert_from h s) g = h"
  using all_expressible by (rule to_from)

lemma convert_from_inj:
  assumes "convert_from h s = convert_from h' s'" and "h_type h = h_type h'"
  shows "h = h'"
  using assms by (metis hub_round_trip)

end

end
