(* ===== verification/Conversion_V1alpha1.thy ===== *)
theory Conversion_V1alpha1
  imports V1alpha1 V1beta1 Spoke
begin

text \<open>
  The conversion methods of \<open>api/v1alpha1/platformapplication_conversion.go\<close> between the spoke
  v1alpha1 and the hub v1beta1. Every sub-struct is copied field by field into a fresh struct of
  the other package; the fields that only the hub has are cleared on the way up and dropped on
  the way down.
\<close>

definition ConvertTo ::
    "V1alpha1.PlatformApplication \<Rightarrow> V1beta1.PlatformApplication \<Rightarrow> V1beta1.PlatformApplication" where
  "ConvertTo src dst =
     (let s = V1alpha1.Spec src;
          im = V1alpha1.Image s;
          rp = V1alpha1.Replicas s;
          sv = V1alpha1.Service s;
          au = V1alpha1.Autoscaling s;
          gw = V1alpha1.Gateway s;
          ob = V1alpha1.Observability s;
          se = V1alpha1.Security s;
          rq = V1alpha1.Requests (V1alpha1.Resources s);
          li = V1alpha1.Limits (V1alpha1.Resources s);
          hc = V1alpha1.HealthChecks s;
          ro = V1alpha1.Rollout s;
          t = V1alpha1.Status src in
      dst\<lparr>V1beta1.ObjectMeta := V1alpha1.ObjectMeta src,
       V1beta1.Spec := \<lparr>
         V1beta1.PlatformApplicationSpec.Image = \<lparr>V1beta1.ImageSpec.Repository = V1alpha1.Repository im,
           V1beta1.ImageSpec.Tag = V1alpha1.Tag im,
           V1beta1.ImageSpec.PullPolicy = V1alpha1.PullPolicy im\<rparr>,
         V1beta1.PlatformApplicationSpec.Replicas = \<lparr>V1beta1.ReplicasSpec.Min = V1alpha1.Min rp,
           V1beta1.ReplicasSpec.Max = V1alpha1.Max rp\<rparr>,
         V1beta1.PlatformApplicationSpec.Service = \<lparr>V1beta1.ServiceSpec.Port = V1alpha1.ServiceSpec.Port sv,
           V1beta1.ServiceSpec.Type = V1alpha1.Type sv\<rparr>,
         V1beta1.PlatformApplicationSpec.Configuration = V1alpha1.Configuration s,
         V1beta1.PlatformApplicationSpec.EnvFrom = [],
         V1beta1.PlatformApplicationSpec.PodAnnotations = [],
         V1beta1.PlatformApplicationSpec.Autoscaling = \<lparr>V1beta1.AutoscalingSpec.Enabled = V1alpha1.AutoscalingSpec.Enabled au,
           V1beta1.AutoscalingSpec.TargetCPUUtilization = V1alpha1.TargetCPUUtilization au\<rparr>,
         V1beta1.PlatformApplicationSpec.Gateway = \<lparr>V1beta1.GatewaySpec.Enabled = V1alpha1.GatewaySpec.Enabled gw,
           V1beta1.GatewaySpec.Host = V1alpha1.Host gw,
           V1beta1.GatewaySpec.GatewayRef = V1alpha1.GatewayRef gw,
           V1beta1.GatewaySpec.PathPrefix = V1alpha1.PathPrefix gw\<rparr>,
         V1beta1.PlatformApplicationSpec.Observability = \<lparr>V1beta1.ObservabilitySpec.Metrics = V1alpha1.Metrics ob\<rparr>,
         V1beta1.PlatformApplicationSpec.Security = \<lparr>V1beta1.SecuritySpec.NetworkPolicy = V1alpha1.NetworkPolicy se\<rparr>,
         V1beta1.PlatformApplicationSpec.Resources = \<lparr>V1beta1.ResourcesSpec.Requests = \<lparr>V1beta1.ResourceSpec.CPU = V1alpha1.CPU rq, V1beta1.ResourceSpec.Memory = V1alpha1.Memory rq\<rparr>,
           V1beta1.ResourcesSpec.Limits = \<lparr>V1beta1.ResourceSpec.CPU = V1alpha1.CPU li, V1beta1.ResourceSpec.Memory = V1alpha1.Memory li\<rparr>\<rparr>,
         V1beta1.PlatformApplicationSpec.HealthChecks = \<lparr>V1beta1.HealthChecksSpec.LivenessPath = V1alpha1.LivenessPath hc,
           V1beta1.HealthChecksSpec.ReadinessPath = V1alpha1.ReadinessPath hc,
           V1beta1.HealthChecksSpec.Port = V1alpha1.HealthChecksSpec.Port hc\<rparr>,
         V1beta1.PlatformApplicationSpec.Rollout = \<lparr>V1beta1.RolloutSpec.Strategy = V1alpha1.Strategy ro,
           V1beta1.RolloutSpec.MaxUnavailable = V1alpha1.MaxUnavailable ro,
           V1beta1.RolloutSpec.MaxSurge = V1alpha1.MaxSurge ro\<rparr>\<rparr>,
       V1beta1.Status := \<lparr>
         V1beta1.PlatformApplicationStatus.ObservedGeneration = V1alpha1.ObservedGeneration t,
         V1beta1.PlatformApplicationStatus.ReadyReplicas = V1alpha1.ReadyReplicas t,
         V1beta1.PlatformApplicationStatus.URL = V1alpha1.URL t,
         V1beta1.PlatformApplicationStatus.Conditions = V1alpha1.Conditions t,
         V1beta1.PlatformApplicationStatus.DeployedVersion = V1alpha1.DeployedVersion t\<rparr>\<rparr>)"

definition ConvertFrom ::
    "V1beta1.PlatformApplication \<Rightarrow> V1alpha1.PlatformApplication \<Rightarrow> V1alpha1.PlatformApplication" where
  "ConvertFrom src dst =
     (let s = V1beta1.Spec src;
          im = V1beta1.Image s;
          rp = V1beta1.Replicas s;
          sv = V1beta1.Service s;
          au = V1beta1.Autoscaling s;
          gw = V1beta1.Gateway s;
          ob = V1beta1.Observability s;
          se = V1beta1.Security s;
          rq = V1beta1.Requests (V1beta1.Resources s);
          li = V1beta1.Limits (V1beta1.Resources s);
          hc = V1beta1.HealthChecks s;
          ro = V1beta1.Rollout s;
          t = V1beta1.Status src in
      dst\<lparr>V1alpha1.ObjectMeta := V1beta1.ObjectMeta src,
       V1alpha1.Spec := \<lparr>
         V1alpha1.PlatformApplicationSpec.Image = \<lparr>V1alpha1.ImageSpec.Repository = V1beta1.Repository im,
           V1alpha1.ImageSpec.Tag = V1beta1.Tag im,
           V1alpha1.ImageSpec.PullPolicy = V1beta1.PullPolicy im\<rparr>,
         V1alpha1.PlatformApplicationSpec.Replicas = \<lparr>V1alpha1.ReplicasSpec.Min = V1beta1.Min rp,
           V1alpha1.ReplicasSpec.Max = V1beta1.Max rp\<rparr>,
         V1alpha1.PlatformApplicationSpec.Service = \<lparr>V1alpha1.ServiceSpec.Port = V1beta1.ServiceSpec.Port sv,
           V1alpha1.ServiceSpec.Type = V1beta1.Type sv\<rparr>,
         V1alpha1.PlatformApplicationSpec.Configuration = V1beta1.Configuration s,
         V1alpha1.PlatformApplicationSpec.Autoscaling = \<lparr>V1alpha1.AutoscalingSpec.Enabled = V1beta1.AutoscalingSpec.Enabled au,
           V1alpha1.AutoscalingSpec.TargetCPUUtilization = V1beta1.TargetCPUUtilization au\<rparr>,
         V1alpha1.PlatformApplicationSpec.Gateway = \<lparr>V1alpha1.GatewaySpec.Enabled = V1beta1.GatewaySpec.Enabled gw,
           V1alpha1.GatewaySpec.Host = V1beta1.Host gw,
           V1alpha1.GatewaySpec.GatewayRef = V1beta1.GatewayRef gw,
           V1alpha1.GatewaySpec.PathPrefix = V1beta1.PathPrefix gw\<rparr>,
         V1alpha1.PlatformApplicationSpec.Observability = \<lparr>V1alpha1.ObservabilitySpec.Metrics = V1beta1.Metrics ob\<rparr>,
         V1alpha1.PlatformApplicationSpec.Security = \<lparr>V1alpha1.SecuritySpec.NetworkPolicy = V1beta1.NetworkPolicy se\<rparr>,
         V1alpha1.PlatformApplicationSpec.Resources = \<lparr>V1alpha1.ResourcesSpec.Requests = \<lparr>V1alpha1.ResourceSpec.CPU = V1beta1.CPU rq, V1alpha1.ResourceSpec.Memory = V1beta1.Memory rq\<rparr>,
           V1alpha1.ResourcesSpec.Limits = \<lparr>V1alpha1.ResourceSpec.CPU = V1beta1.CPU li, V1alpha1.ResourceSpec.Memory = V1beta1.Memory li\<rparr>\<rparr>,
         V1alpha1.PlatformApplicationSpec.HealthChecks = \<lparr>V1alpha1.HealthChecksSpec.LivenessPath = V1beta1.LivenessPath hc,
           V1alpha1.HealthChecksSpec.ReadinessPath = V1beta1.ReadinessPath hc,
           V1alpha1.HealthChecksSpec.Port = V1beta1.HealthChecksSpec.Port hc\<rparr>,
         V1alpha1.PlatformApplicationSpec.Rollout = \<lparr>V1alpha1.RolloutSpec.Strategy = V1beta1.Strategy ro,
           V1alpha1.RolloutSpec.MaxUnavailable = V1beta1.MaxUnavailable ro,
           V1alpha1.RolloutSpec.MaxSurge = V1beta1.MaxSurge ro\<rparr>\<rparr>,
       V1alpha1.Status := \<lparr>
         V1alpha1.PlatformApplicationStatus.ObservedGeneration = V1beta1.ObservedGeneration t,
         V1alpha1.PlatformApplicationStatus.ReadyReplicas = V1beta1.ReadyReplicas t,
         V1alpha1.PlatformApplicationStatus.URL = V1beta1.URL t,
         V1alpha1.PlatformApplicationStatus.Conditions = V1beta1.Conditions t,
         V1alpha1.PlatformApplicationStatus.DeployedVersion = V1beta1.DeployedVersion t\<rparr>\<rparr>)"

text \<open>What v1alpha1 can hold of a hub object.\<close>

definition hub_expressible :: "V1beta1.PlatformApplication \<Rightarrow> bool" where
  "hub_expressible h \<longleftrightarrow>
     EnvFrom (V1beta1.Spec h) = [] \<and> PodAnnotations (V1beta1.Spec h) = []"

interpretation v1alpha1: spoke ConvertTo ConvertFrom V1alpha1.PlatformApplication.TypeMeta
    V1beta1.PlatformApplication.TypeMeta hub_expressible
  by unfold_locales
    (simp_all add: ConvertTo_def ConvertFrom_def hub_expressible_def Let_def)

text \<open>The trip hub, spoke, hub in general, over any two objects: exactly the two hub-only fields are lost.\<close>

lemma hub_trip:
  "ConvertTo (ConvertFrom h s) g
   = h\<lparr>V1beta1.PlatformApplication.TypeMeta := V1beta1.PlatformApplication.TypeMeta g,
       V1beta1.Spec := (V1beta1.Spec h)\<lparr>EnvFrom := [], PodAnnotations := []\<rparr>\<rparr>"
  by (simp add: ConvertTo_def ConvertFrom_def Let_def)

end
