(* ===== verification/Conversion_V1.thy ===== *)
theory Conversion_V1
  imports V1 V1beta1 Spoke
begin

text \<open>
  The conversion methods of \<open>api/v1/platformapplication_conversion.go\<close> between the GA version v1
  and the hub v1beta1: one assignment per field of the destination, written as record updates of
  the destination, so that nothing is said about a field the code does not assign.
\<close>

definition ConvertTo ::
    "V1.PlatformApplication \<Rightarrow> V1beta1.PlatformApplication \<Rightarrow> V1beta1.PlatformApplication" where
  "ConvertTo src dst =
     (let s = V1.Spec src;
          im = V1.Image s;
          rp = V1.Replicas s;
          sv = V1.Service s;
          au = V1.Autoscaling s;
          gw = V1.Gateway s;
          ob = V1.Observability s;
          se = V1.Security s;
          rq = V1.Requests (V1.Resources s);
          li = V1.Limits (V1.Resources s);
          hc = V1.HealthChecks s;
          ro = V1.Rollout s;
          t = V1.Status src;
          d = V1beta1.Spec dst in
      dst\<lparr>V1beta1.ObjectMeta := V1.ObjectMeta src,
       V1beta1.Spec := d\<lparr>
         V1beta1.Image := (V1beta1.Image d)\<lparr>V1beta1.Repository := V1.Repository im,
           V1beta1.Tag := V1.Tag im,
           V1beta1.PullPolicy := V1.PullPolicy im\<rparr>,
         V1beta1.Replicas := (V1beta1.Replicas d)\<lparr>V1beta1.Min := V1.Min rp,
           V1beta1.Max := V1.Max rp\<rparr>,
         V1beta1.Service := (V1beta1.Service d)\<lparr>V1beta1.ServiceSpec.Port := V1.ServiceSpec.Port sv,
           V1beta1.Type := V1.Type sv\<rparr>,
         V1beta1.Configuration := V1.Configuration s,
         V1beta1.EnvFrom := V1.EnvFrom s,
         V1beta1.PodAnnotations := V1.PodAnnotations s,
         V1beta1.Autoscaling := (V1beta1.Autoscaling d)\<lparr>V1beta1.AutoscalingSpec.Enabled := V1.AutoscalingSpec.Enabled au,
           V1beta1.TargetCPUUtilization := V1.TargetCPUUtilization au\<rparr>,
         V1beta1.Gateway := (V1beta1.Gateway d)\<lparr>V1beta1.GatewaySpec.Enabled := V1.GatewaySpec.Enabled gw,
           V1beta1.Host := V1.Host gw,
           V1beta1.GatewayRef := V1.GatewayRef gw,
           V1beta1.PathPrefix := V1.PathPrefix gw\<rparr>,
         V1beta1.Observability := (V1beta1.Observability d)\<lparr>V1beta1.Metrics := V1.Metrics ob\<rparr>,
         V1beta1.Security := (V1beta1.Security d)\<lparr>V1beta1.NetworkPolicy := V1.NetworkPolicy se\<rparr>,
         V1beta1.Resources := (V1beta1.Resources d)\<lparr>V1beta1.Requests := (V1beta1.Requests (V1beta1.Resources d))\<lparr>V1beta1.CPU := V1.CPU rq, V1beta1.Memory := V1.Memory rq\<rparr>,
           V1beta1.Limits := (V1beta1.Limits (V1beta1.Resources d))\<lparr>V1beta1.CPU := V1.CPU li, V1beta1.Memory := V1.Memory li\<rparr>\<rparr>,
         V1beta1.HealthChecks := (V1beta1.HealthChecks d)\<lparr>V1beta1.LivenessPath := V1.LivenessPath hc,
           V1beta1.ReadinessPath := V1.ReadinessPath hc,
           V1beta1.HealthChecksSpec.Port := V1.HealthChecksSpec.Port hc\<rparr>,
         V1beta1.Rollout := (V1beta1.Rollout d)\<lparr>V1beta1.Strategy := V1.Strategy ro,
           V1beta1.MaxUnavailable := V1.MaxUnavailable ro,
           V1beta1.MaxSurge := V1.MaxSurge ro\<rparr>\<rparr>,
       V1beta1.Status := (V1beta1.Status dst)\<lparr>
         V1beta1.ObservedGeneration := V1.ObservedGeneration t,
         V1beta1.ReadyReplicas := V1.ReadyReplicas t,
         V1beta1.URL := V1.URL t,
         V1beta1.Conditions := V1.Conditions t,
         V1beta1.DeployedVersion := V1.DeployedVersion t\<rparr>\<rparr>)"

definition ConvertFrom ::
    "V1beta1.PlatformApplication \<Rightarrow> V1.PlatformApplication \<Rightarrow> V1.PlatformApplication" where
  "ConvertFrom src dst =
     (let s = V1beta1.Spec src;
          im = V1beta1.Image s;
          rp = V1beta1.Replicas s;
          sv = V1beta1.Service s;
          au = V1beta1.Autoscaling s;
          gw = V1beta1.Gateway s;
          ob = V1beta1.Observability s;
          se = V1beta1.Security s;
          rq = V1beta1.Requests (V1beta1.Resources s);
          li = V1beta1.Limits (V1beta1.Resources s);
          hc = V1beta1.HealthChecks s;
          ro = V1beta1.Rollout s;
          t = V1beta1.Status src;
          d = V1.Spec dst in
      dst\<lparr>V1.ObjectMeta := V1beta1.ObjectMeta src,
       V1.Spec := d\<lparr>
         V1.Image := (V1.Image d)\<lparr>V1.Repository := V1beta1.Repository im,
           V1.Tag := V1beta1.Tag im,
           V1.PullPolicy := V1beta1.PullPolicy im\<rparr>,
         V1.Replicas := (V1.Replicas d)\<lparr>V1.Min := V1beta1.Min rp,
           V1.Max := V1beta1.Max rp\<rparr>,
         V1.Service := (V1.Service d)\<lparr>V1.ServiceSpec.Port := V1beta1.ServiceSpec.Port sv,
           V1.Type := V1beta1.Type sv\<rparr>,
         V1.Configuration := V1beta1.Configuration s,
         V1.EnvFrom := V1beta1.EnvFrom s,
         V1.PodAnnotations := V1beta1.PodAnnotations s,
         V1.Autoscaling := (V1.Autoscaling d)\<lparr>V1.AutoscalingSpec.Enabled := V1beta1.AutoscalingSpec.Enabled au,
           V1.TargetCPUUtilization := V1beta1.TargetCPUUtilization au\<rparr>,
         V1.Gateway := (V1.Gateway d)\<lparr>V1.GatewaySpec.Enabled := V1beta1.GatewaySpec.Enabled gw,
           V1.Host := V1beta1.Host gw,
           V1.GatewayRef := V1beta1.GatewayRef gw,
           V1.PathPrefix := V1beta1.PathPrefix gw\<rparr>,
         V1.Observability := (V1.Observability d)\<lparr>V1.Metrics := V1beta1.Metrics ob\<rparr>,
         V1.Security := (V1.Security d)\<lparr>V1.NetworkPolicy := V1beta1.NetworkPolicy se\<rparr>,
         V1.Resources := (V1.Resources d)\<lparr>V1.Requests := (V1.Requests (V1.Resources d))\<lparr>V1.CPU := V1beta1.CPU rq, V1.Memory := V1beta1.Memory rq\<rparr>,
           V1.Limits := (V1.Limits (V1.Resources d))\<lparr>V1.CPU := V1beta1.CPU li, V1.Memory := V1beta1.Memory li\<rparr>\<rparr>,
         V1.HealthChecks := (V1.HealthChecks d)\<lparr>V1.LivenessPath := V1beta1.LivenessPath hc,
           V1.ReadinessPath := V1beta1.ReadinessPath hc,
           V1.HealthChecksSpec.Port := V1beta1.HealthChecksSpec.Port hc\<rparr>,
         V1.Rollout := (V1.Rollout d)\<lparr>V1.Strategy := V1beta1.Strategy ro,
           V1.MaxUnavailable := V1beta1.MaxUnavailable ro,
           V1.MaxSurge := V1beta1.MaxSurge ro\<rparr>\<rparr>,
       V1.Status := (V1.Status dst)\<lparr>
         V1.ObservedGeneration := V1beta1.ObservedGeneration t,
         V1.ReadyReplicas := V1beta1.ReadyReplicas t,
         V1.URL := V1beta1.URL t,
         V1.Conditions := V1beta1.Conditions t,
         V1.DeployedVersion := V1beta1.DeployedVersion t\<rparr>\<rparr>)"

interpretation v1: lossless_spoke ConvertTo ConvertFrom V1.PlatformApplication.TypeMeta
    V1beta1.PlatformApplication.TypeMeta "\<lambda>_. True"
  by unfold_locales (simp_all add: ConvertTo_def ConvertFrom_def Let_def)

end
