(* ===== verification/Versions.thy ===== *)
theory Versions
  imports Webhook_V1alpha1 Webhook_V1beta1 Conversion_V1alpha1 Conversion_V1
begin

text \<open>
  Properties of the three API versions together: admission, conversion through the hub, and the
  agreement of the two webhooks across conversion.
\<close>

section \<open>Admission\<close>

text \<open>C19. Admission of a v1alpha1 object (defaulting, then validation) rejects exactly the objects
  whose defaulted form violates the specification \<open>valid_app\<close>. What it admits is the defaulted
  form, valid and complete, and admitting it again changes nothing and gives the same warnings.\<close>

theorem admission_v1alpha1:
  "case admit Webhook_V1alpha1.Default Webhook_V1alpha1.validatePlatformApplication r of
     Inl e \<Rightarrow> \<not> Webhook_V1alpha1.valid_app (Webhook_V1alpha1.Default r)
   | Inr (r', ws) \<Rightarrow>
       r' = Webhook_V1alpha1.Default r \<and>
       Webhook_V1alpha1.valid_app r' \<and> Webhook_V1alpha1.defaulted r' \<and>
       admit Webhook_V1alpha1.Default Webhook_V1alpha1.validatePlatformApplication r' = Inr (r', ws)"
proof (cases "admit Webhook_V1alpha1.Default Webhook_V1alpha1.validatePlatformApplication r")
  case (Inl e)
  then show ?thesis
    using alpha.admit_rejects_iff [of r] by simp
next
  case (Inr p)
  then obtain r' ws where
    "admit Webhook_V1alpha1.Default Webhook_V1alpha1.validatePlatformApplication r = Inr (r', ws)"
    by (cases p) simp
  then show ?thesis
    by (simp add: alpha.readmit alpha.admitted_good(2,3)) (rule alpha.admitted_good(1))
qed

section \<open>The webhooks agree\<close>

lemma Default_ConvertTo:
  "Webhook_V1beta1.Default (Conversion_V1alpha1.ConvertTo r d) =
   Conversion_V1alpha1.ConvertTo (Webhook_V1alpha1.Default r) d"
  by (simp add: Webhook_V1beta1.Default_def Webhook_V1alpha1.Default_def
      Conversion_V1alpha1.ConvertTo_def Let_def alpha_default_defs beta_default_defs)

lemma validate_ConvertTo:
  "Webhook_V1beta1.validatePlatformApplication (Conversion_V1alpha1.ConvertTo r d) =
   Webhook_V1alpha1.validatePlatformApplication r"
  by (simp add: Webhook_V1beta1.validatePlatformApplication_def
      Webhook_V1alpha1.validatePlatformApplication_def Conversion_V1alpha1.ConvertTo_def Let_def)

text \<open>C20. The webhooks of v1alpha1 and v1beta1 are the same webhook: defaulting commutes with conversion
  to the hub and validation gives the same warnings and the same error message, so admitting an object
  in v1alpha1 and converting it is admitting the converted object in v1beta1.\<close>

theorem webhooks_agree_across_conversion:
  "admit Webhook_V1beta1.Default Webhook_V1beta1.validatePlatformApplication (Conversion_V1alpha1.ConvertTo r d) =
   map_sum id (\<lambda>(r', ws). (Conversion_V1alpha1.ConvertTo r' d, ws))
     (admit Webhook_V1alpha1.Default Webhook_V1alpha1.validatePlatformApplication r)"
  by (simp add: admit_def Let_def Default_ConvertTo validate_ConvertTo split: prod.split option.split)

section \<open>Conversion\<close>

text \<open>C21. Writing a v1alpha1 object to the hub and reading it back gives the same object: metadata,
  every field of the spec and the whole status; only the type metadata is that of the object that is
  written over. The hub fields that v1alpha1 lacks are empty in between.\<close>

theorem v1alpha1_survives_hub:
  "Conversion_V1alpha1.ConvertFrom (Conversion_V1alpha1.ConvertTo s h) d =
     s\<lparr>V1alpha1.PlatformApplication.TypeMeta := V1alpha1.PlatformApplication.TypeMeta d\<rparr> \<and>
   hub_expressible (Conversion_V1alpha1.ConvertTo s h)"
proof -
  let ?s = "s\<lparr>V1alpha1.PlatformApplication.TypeMeta := V1alpha1.PlatformApplication.TypeMeta d\<rparr>"
  have "Conversion_V1alpha1.ConvertTo s h = Conversion_V1alpha1.ConvertTo ?s h"
    by (simp add: Conversion_V1alpha1.ConvertTo_def Let_def)
  then show ?thesis
    using v1alpha1.from_to [of d ?s h] by (simp add: v1alpha1.to_expressible)
qed

text \<open>A trip: read in another version, over an object of that version, and written back over any object of
  the first one.\<close>

definition hub_through_v1alpha1 ::
    "V1alpha1.PlatformApplication \<Rightarrow> V1beta1.PlatformApplication \<Rightarrow> V1beta1.PlatformApplication \<Rightarrow> V1beta1.PlatformApplication" where
  "hub_through_v1alpha1 s g h = Conversion_V1alpha1.ConvertTo (Conversion_V1alpha1.ConvertFrom h s) g"

definition v1_through_hub ::
    "V1beta1.PlatformApplication \<Rightarrow> V1.PlatformApplication \<Rightarrow> V1.PlatformApplication \<Rightarrow> V1.PlatformApplication" where
  "v1_through_hub h d s = Conversion_V1.ConvertFrom (Conversion_V1.ConvertTo s h) d"

definition hub_through_v1 ::
    "V1.PlatformApplication \<Rightarrow> V1beta1.PlatformApplication \<Rightarrow> V1beta1.PlatformApplication \<Rightarrow> V1beta1.PlatformApplication" where
  "hub_through_v1 s g h = Conversion_V1.ConvertTo (Conversion_V1.ConvertFrom h s) g"

text \<open>C22. The way down and up again loses exactly the two fields that only the hub has: sending a hub
  object through v1alpha1 and writing it back, over whatever hub object, clears \<open>envFrom\<close> and
  \<open>podAnnotations\<close> and keeps everything else of the object that was sent, metadata, spec and status; only
  the type metadata is that of the object that is written over. So written over itself it is the identity
  exactly on the objects that have neither field, and a second trip loses nothing more.\<close>

theorem hub_trip_through_v1alpha1:
  "hub_through_v1alpha1 s g h =
     h\<lparr>V1beta1.PlatformApplication.TypeMeta := V1beta1.PlatformApplication.TypeMeta g,
       V1beta1.Spec := (V1beta1.Spec h)\<lparr>V1beta1.EnvFrom := [], V1beta1.PodAnnotations := []\<rparr>\<rparr> \<and>
   (hub_through_v1alpha1 s h h = h \<longleftrightarrow>
      V1beta1.EnvFrom (V1beta1.Spec h) = [] \<and> V1beta1.PodAnnotations (V1beta1.Spec h) = []) \<and>
   hub_through_v1alpha1 s' g' (hub_through_v1alpha1 s g h) = hub_through_v1alpha1 s g' h"
proof -
  have "hub_through_v1alpha1 s h h = h \<longleftrightarrow>
      V1beta1.EnvFrom (V1beta1.Spec h) = [] \<and> V1beta1.PodAnnotations (V1beta1.Spec h) = []"
  proof
    assume "hub_through_v1alpha1 s h h = h"
    then have "hub_expressible h"
      unfolding hub_through_v1alpha1_def by (metis v1alpha1.to_expressible)
    then show "V1beta1.EnvFrom (V1beta1.Spec h) = [] \<and> V1beta1.PodAnnotations (V1beta1.Spec h) = []"
      by (simp add: hub_expressible_def)
  next
    assume "V1beta1.EnvFrom (V1beta1.Spec h) = [] \<and> V1beta1.PodAnnotations (V1beta1.Spec h) = []"
    then show "hub_through_v1alpha1 s h h = h"
      using v1alpha1.to_from [of h h s] by (simp add: hub_through_v1alpha1_def hub_expressible_def)
  qed
  then show ?thesis
    by (simp add: hub_trip hub_through_v1alpha1_def)
qed

text \<open>C23. v1 and the hub hold the same information: both round trips are the identity up to the type
  metadata of the object that is written over, hence both conversions are injective on objects of one
  type metadata.\<close>

theorem v1_lossless:
  "v1_through_hub h d s = s\<lparr>V1.PlatformApplication.TypeMeta := V1.PlatformApplication.TypeMeta d\<rparr> \<and>
   hub_through_v1 s g h =
     h\<lparr>V1beta1.PlatformApplication.TypeMeta := V1beta1.PlatformApplication.TypeMeta g\<rparr>"
proof
  let ?s = "s\<lparr>V1.PlatformApplication.TypeMeta := V1.PlatformApplication.TypeMeta d\<rparr>"
  have "Conversion_V1.ConvertTo s h = Conversion_V1.ConvertTo ?s h"
    by (simp add: Conversion_V1.ConvertTo_def Let_def)
  then show "v1_through_hub h d s = ?s"
    using v1.from_to [of d ?s h] by (simp add: v1_through_hub_def)
  let ?h = "h\<lparr>V1beta1.PlatformApplication.TypeMeta := V1beta1.PlatformApplication.TypeMeta g\<rparr>"
  have "Conversion_V1.ConvertFrom h s = Conversion_V1.ConvertFrom ?h s"
    by (simp add: Conversion_V1.ConvertFrom_def Let_def)
  then show "hub_through_v1 s g h = ?h"
    using v1.hub_round_trip [of g ?h s] by (simp add: hub_through_v1_def)
qed

end
