(* ===== verification/Errors.thy ===== *)
theory Errors
  imports Go_Prelude
begin

text \<open>
  The error classification of \<open>internal/errors/errors.go\<close>. A Go error value is a tree of the
  dynamic types that occur: \<open>ErrorString\<close> (\<open>errors.New\<close>, \<open>fmt.Errorf\<close> without \<open>%w\<close>),
  \<open>WrapError\<close> (\<open>fmt.Errorf\<close> with \<open>%w\<close>: its text and the wrapped error), \<open>AsError\<close> (a
  \<open>*ReconcileError\<close> held as an error) and \<open>ForeignError\<close> (an error of another package's type,
  such as \<open>*StatusError\<close> of the API machinery: a tag for its type and content, and its text).
  A nil error is \<open>None\<close>. The predicates of package \<open>apierrors\<close> are a parameter, the record
  \<open>api_errors\<close>; the locale \<open>api_error_laws\<close> states what their documentation promises.
\<close>

section \<open>Errors and their classes\<close>

datatype ReconcileErrorClass =
  ClassTransient | ClassPermanent | ClassConflict | ClassUnknown | ClassEmpty

fun class_string :: "ReconcileErrorClass \<Rightarrow> string" where
  "class_string ClassTransient = ''transient''"
| "class_string ClassPermanent = ''permanent''"
| "class_string ClassConflict = ''conflict''"
| "class_string ClassUnknown = ''unknown''"
| "class_string ClassEmpty = ''''"

datatype go_error =
    ErrorString string
  | WrapError string go_error
  | ForeignError string string
  | AsError ReconcileError
and ReconcileError =
  ReconcileError (Class: ReconcileErrorClass) (Resource: string) (Kind: string)
    (Err: "go_error option")

text \<open>The text of an error; \<open>%v\<close> prints a nil error as \<open><nil>\<close>.\<close>

fun Error :: "go_error \<Rightarrow> string" and ReconcileError_Error :: "ReconcileError \<Rightarrow> string" where
  "Error (ErrorString m) = m"
| "Error (WrapError m e) = m"
| "Error (ForeignError t m) = m"
| "Error (AsError r) = ReconcileError_Error r"
| "ReconcileError_Error (ReconcileError c r k e) =
     class_string c @ '' error on '' @ k @ '' '' @ r @ '': '' @
     (case e of None \<Rightarrow> ''<nil>'' | Some e' \<Rightarrow> Error e')"

definition Unwrap :: "ReconcileError \<Rightarrow> go_error option" where
  "Unwrap e = Err e"

definition IsTransient :: "ReconcileError \<Rightarrow> bool" where
  "IsTransient e \<longleftrightarrow> Class e = ClassTransient"

definition IsPermanent :: "ReconcileError \<Rightarrow> bool" where
  "IsPermanent e \<longleftrightarrow> Class e = ClassPermanent"

definition RE_IsConflict :: "ReconcileError \<Rightarrow> bool" where
  "RE_IsConflict e \<longleftrightarrow> Class e = ClassConflict"

definition NewTransientError :: "string \<Rightarrow> string \<Rightarrow> go_error option \<Rightarrow> ReconcileError" where
  "NewTransientError resource kind err = ReconcileError ClassTransient resource kind err"

definition NewPermanentError :: "string \<Rightarrow> string \<Rightarrow> go_error option \<Rightarrow> ReconcileError" where
  "NewPermanentError resource kind err = ReconcileError ClassPermanent resource kind err"

definition NewConflictError :: "string \<Rightarrow> string \<Rightarrow> go_error option \<Rightarrow> ReconcileError" where
  "NewConflictError resource kind err = ReconcileError ClassConflict resource kind err"

lemmas new_error_defs = NewTransientError_def NewPermanentError_def NewConflictError_def

text \<open>\<open>errors.As(err, &recErr)\<close> for a target of type \<open>*ReconcileError\<close>: the first error of the
  chain with that dynamic type.\<close>

fun errors_As :: "go_error \<Rightarrow> ReconcileError option" where
  "errors_As (ErrorString m) = None"
| "errors_As (WrapError m e) = errors_As e"
| "errors_As (ForeignError t m) = None"
| "errors_As (AsError r) = Some r"

section \<open>Classification\<close>

record api_errors =
  IsConflict :: "go_error \<Rightarrow> bool"
  IsServerTimeout :: "go_error \<Rightarrow> bool"
  IsTimeout :: "go_error \<Rightarrow> bool"
  IsTooManyRequests :: "go_error \<Rightarrow> bool"
  IsServiceUnavailable :: "go_error \<Rightarrow> bool"
  IsInternalError :: "go_error \<Rightarrow> bool"
  IsNotFound :: "go_error \<Rightarrow> bool"
  IsForbidden :: "go_error \<Rightarrow> bool"
  IsInvalid :: "go_error \<Rightarrow> bool"
  IsBadRequest :: "go_error \<Rightarrow> bool"

definition Classify :: "api_errors \<Rightarrow> go_error option \<Rightarrow> ReconcileErrorClass" where
  "Classify A err =
     (case err of
        None \<Rightarrow> ClassEmpty
      | Some e \<Rightarrow>
          (case errors_As e of
             Some recErr \<Rightarrow> Class recErr
           | None \<Rightarrow>
               if IsConflict A e then ClassConflict
               else if IsServerTimeout A e \<or> IsTimeout A e then ClassTransient
               else if IsTooManyRequests A e then ClassTransient
               else if IsServiceUnavailable A e then ClassTransient
               else if IsInternalError A e then ClassTransient
               else if IsNotFound A e then ClassPermanent
               else if IsForbidden A e then ClassPermanent
               else if IsInvalid A e then ClassPermanent
               else if IsBadRequest A e then ClassPermanent
               else ClassUnknown))"

text \<open>The part of \<open>ClassifyOrWrap\<close> after its nil check.\<close>

definition classify_or_wrap :: "api_errors \<Rightarrow> go_error \<Rightarrow> string \<Rightarrow> string \<Rightarrow> ReconcileError" where
  "classify_or_wrap A e resource kind =
     (case errors_As e of
        Some recErr \<Rightarrow> recErr
      | None \<Rightarrow>
          (case Classify A (Some e) of
             ClassConflict \<Rightarrow> NewConflictError resource kind (Some e)
           | ClassPermanent \<Rightarrow> NewPermanentError resource kind (Some e)
           | ClassTransient \<Rightarrow> NewTransientError resource kind (Some e)
           | _ \<Rightarrow> NewTransientError resource kind (Some e)))"

definition ClassifyOrWrap ::
    "api_errors \<Rightarrow> go_error option \<Rightarrow> string \<Rightarrow> string \<Rightarrow> ReconcileError option" where
  "ClassifyOrWrap A err resource kind =
     (case err of None \<Rightarrow> None | Some e \<Rightarrow> Some (classify_or_wrap A e resource kind))"

section \<open>Facts about the chain\<close>

text \<open>\<open>wraps ms e\<close> is \<open>e\<close> wrapped by \<open>fmt.Errorf\<close> with the texts \<open>ms\<close>, the outermost first.\<close>

fun wraps :: "string list \<Rightarrow> go_error \<Rightarrow> go_error" where
  "wraps [] e = e"
| "wraps (m # ms) e = WrapError m (wraps ms e)"

lemma errors_As_wraps [simp]: "errors_As (wraps ms e) = errors_As e"
  by (induction ms) simp_all

lemma classify_or_wrap_eq:
  "classify_or_wrap A e resource kind =
     (case errors_As e of
        Some r \<Rightarrow> r
      | None \<Rightarrow> ReconcileError
          (case Classify A (Some e) of ClassConflict \<Rightarrow> ClassConflict
             | ClassPermanent \<Rightarrow> ClassPermanent | _ \<Rightarrow> ClassTransient) resource kind (Some e))"
  by (simp add: classify_or_wrap_def new_error_defs
      split: option.split ReconcileErrorClass.split)

lemma classify_or_wrap_As [simp]:
  "errors_As e = Some r \<Longrightarrow> classify_or_wrap A e resource kind = r"
  by (simp add: classify_or_wrap_eq)

lemma Classify_fresh_cases:
  "errors_As e = None \<Longrightarrow>
     Classify A (Some e) \<in> {ClassConflict, ClassTransient, ClassPermanent, ClassUnknown}"
  by (simp add: Classify_def)

text \<open>The classes on which the retry policy has a branch of its own.\<close>

definition retryable_class :: "ReconcileErrorClass \<Rightarrow> bool" where
  "retryable_class c \<longleftrightarrow> c \<in> {ClassTransient, ClassPermanent, ClassConflict}"

text \<open>An error is well classified when a \<open>ReconcileError\<close> in it was made by a constructor.\<close>

definition well_classified :: "go_error \<Rightarrow> bool" where
  "well_classified e \<longleftrightarrow> (\<forall>r. errors_As e = Some r \<longrightarrow> retryable_class (Class r))"

lemma classify_or_wrap_retryable:
  assumes "well_classified e"
  shows "retryable_class (Class (classify_or_wrap A e resource kind))"
  using assms
  by (auto simp: classify_or_wrap_eq well_classified_def retryable_class_def
      split: option.splits ReconcileErrorClass.splits)

section \<open>The contract of package apierrors\<close>

text \<open>
  The documentation of every predicate says that it supports wrapped errors, and that it holds
  only of errors that carry an API status, which a plain text error does not.
\<close>

definition api_predicates :: "api_errors \<Rightarrow> (go_error \<Rightarrow> bool) list" where
  "api_predicates A = [IsConflict A, IsServerTimeout A, IsTimeout A, IsTooManyRequests A,
     IsServiceUnavailable A, IsInternalError A, IsNotFound A, IsForbidden A, IsInvalid A,
     IsBadRequest A]"

locale api_error_laws =
  fixes A :: api_errors
  assumes supports_wrapped: "p \<in> set (api_predicates A) \<Longrightarrow> p (WrapError m e) = p e"
    and plain_text: "p \<in> set (api_predicates A) \<Longrightarrow> \<not> p (ErrorString m)"
begin

lemma supports_wraps: "p \<in> set (api_predicates A) \<Longrightarrow> p (wraps ms e) = p e"
  by (induction ms) (simp_all add: supports_wrapped)

lemma plain_text_wraps: "p \<in> set (api_predicates A) \<Longrightarrow> \<not> p (wraps ms (ErrorString m))"
  by (simp add: supports_wraps plain_text)

lemma wraps_simps [simp]:
  "IsConflict A (wraps ms e) = IsConflict A e"
  "IsServerTimeout A (wraps ms e) = IsServerTimeout A e"
  "IsTimeout A (wraps ms e) = IsTimeout A e"
  "IsTooManyRequests A (wraps ms e) = IsTooManyRequests A e"
  "IsServiceUnavailable A (wraps ms e) = IsServiceUnavailable A e"
  "IsInternalError A (wraps ms e) = IsInternalError A e"
  "IsNotFound A (wraps ms e) = IsNotFound A e"
  "IsForbidden A (wraps ms e) = IsForbidden A e"
  "IsInvalid A (wraps ms e) = IsInvalid A e"
  "IsBadRequest A (wraps ms e) = IsBadRequest A e"
  by (simp_all add: supports_wraps api_predicates_def)

lemma IsConflict_wrap: "IsConflict A (WrapError m e) = IsConflict A e"
  by (simp add: supports_wrapped api_predicates_def)

lemma Classify_wraps: "Classify A (Some (wraps ms e)) = Classify A (Some e)"
  by (simp add: Classify_def)

lemma classify_or_wrap_wraps_class:
  "Class (classify_or_wrap A (wraps ms e) resource kind)
   = Class (classify_or_wrap A e resource kind)"
  by (simp add: classify_or_wrap_eq Classify_wraps split: option.split)

lemma Classify_plain_text: "Classify A (Some (wraps ms (ErrorString m))) = ClassUnknown"
proof -
  have "\<forall>p \<in> set (api_predicates A). \<not> p (ErrorString m)"
    by (simp add: plain_text)
  then show ?thesis
    by (simp add: Classify_wraps) (simp add: Classify_def api_predicates_def)
qed

end

text \<open>
  An instance of the contract: API statuses encoded as foreign errors whose tag is the status
  reason. The reason of a chain is that of its innermost error.
\<close>

fun status_reason :: "go_error \<Rightarrow> string option" and
    ReconcileError_reason :: "ReconcileError \<Rightarrow> string option" where
  "status_reason (ErrorString m) = None"
| "status_reason (WrapError m e) = status_reason e"
| "status_reason (ForeignError t m) = Some t"
| "status_reason (AsError r) = ReconcileError_reason r"
| "ReconcileError_reason (ReconcileError c r k e) =
     (case e of None \<Rightarrow> None | Some e' \<Rightarrow> status_reason e')"

definition status_errors :: api_errors where
  "status_errors = \<lparr>
     IsConflict = (\<lambda>e. status_reason e = Some ''Conflict''),
     IsServerTimeout = (\<lambda>e. status_reason e = Some ''ServerTimeout''),
     IsTimeout = (\<lambda>e. status_reason e = Some ''Timeout''),
     IsTooManyRequests = (\<lambda>e. status_reason e = Some ''TooManyRequests''),
     IsServiceUnavailable = (\<lambda>e. status_reason e = Some ''ServiceUnavailable''),
     IsInternalError = (\<lambda>e. status_reason e = Some ''InternalError''),
     IsNotFound = (\<lambda>e. status_reason e = Some ''NotFound''),
     IsForbidden = (\<lambda>e. status_reason e = Some ''Forbidden''),
     IsInvalid = (\<lambda>e. status_reason e = Some ''Invalid''),
     IsBadRequest = (\<lambda>e. status_reason e = Some ''BadRequest'')\<rparr>"

interpretation status: api_error_laws status_errors
  by unfold_locales (auto simp: status_errors_def api_predicates_def)

section \<open>Properties of the classification\<close>

text \<open>Under the documented contract of package apierrors, wrapping an error any number of times with
  \<open>fmt.Errorf\<close> and \<open>%w\<close> changes neither its class nor the class and identity of what \<open>ClassifyOrWrap\<close>
  makes of it; and an error with no API status in it is unknown, and so treated as transient.\<close>

theorem classification_ignores_wrapping:
  assumes "api_error_laws A"
  shows "Classify A (Some (wraps ms e)) = Classify A (Some e) \<and>
         Class (classify_or_wrap A (wraps ms e) resource kind) = Class (classify_or_wrap A e resource kind) \<and>
         errors_As (wraps ms e) = errors_As e \<and>
         Classify A (Some (wraps ms (ErrorString m))) = ClassUnknown \<and>
         Class (classify_or_wrap A (wraps ms (ErrorString m)) resource kind) = ClassTransient"
  using api_error_laws.Classify_wraps [OF assms] api_error_laws.classify_or_wrap_wraps_class [OF assms]
    api_error_laws.Classify_plain_text [OF assms]
  by (simp add: classify_or_wrap_eq)

theorem classification_ignores_wrapping_witness:
  "Classify status_errors (Some (wraps [''creating Service prod/web: denied''] (ForeignError ''Forbidden'' ''denied'')))
     = ClassPermanent"
  using classification_ignores_wrapping
    [OF status.api_error_laws_axioms, of "[''creating Service prod/web: denied'']" "ForeignError ''Forbidden'' ''denied''"]
  by (simp add: Classify_def status_errors_def)

text \<open>The class of an error that no \<open>ReconcileError\<close> is wrapped in, as a table: the first row with a
  predicate that holds decides.\<close>

definition class_table :: "api_errors \<Rightarrow> (ReconcileErrorClass \<times> (go_error \<Rightarrow> bool) list) list" where
  "class_table A =
     [(ClassConflict, [IsConflict A]),
      (ClassTransient, [IsServerTimeout A, IsTimeout A, IsTooManyRequests A, IsServiceUnavailable A, IsInternalError A]),
      (ClassPermanent, [IsNotFound A, IsForbidden A, IsInvalid A, IsBadRequest A]),
      (ClassUnknown, [\<lambda>_. True])]"

text \<open>C29. \<open>ClassifyOrWrap\<close> returns nil exactly for nil. An error that already carries a \<open>ReconcileError\<close>
  yields that very error. Any other error is wrapped, with the given resource and kind and the error
  itself inside, under the class of the first row of the table that applies, unknown becoming transient:
  so a fresh error always gets one of the three classes that the retry policy handles, and classifying
  the result again changes nothing.\<close>

theorem ClassifyOrWrap_total:
  "case ClassifyOrWrap A err resource kind of
     None \<Rightarrow> err = None
   | Some r \<Rightarrow> (\<exists>e. err = Some e \<and>
       (case errors_As e of
          Some r' \<Rightarrow> r = r'
        | None \<Rightarrow> Resource r = resource \<and> Kind r = kind \<and> Err r = Some e \<and>
            Class r \<in> {ClassConflict, ClassTransient, ClassPermanent} \<and>
            find (\<lambda>(c, ps). list_ex (\<lambda>p. p e) ps) (class_table A)
              = Some (if Classify A err = ClassUnknown then ClassUnknown else Class r,
                      the (map_of (class_table A) (Classify A err)))) \<and>
       Classify A (Some (AsError r)) = Class r \<and>
       ClassifyOrWrap A (Some (AsError r)) resource' kind' = Some r)"
proof (cases err)
  case None
  then show ?thesis by (simp add: ClassifyOrWrap_def)
next
  case (Some e)
  then show ?thesis
    by (cases "errors_As e")
      (auto simp: ClassifyOrWrap_def classify_or_wrap_eq Classify_def class_table_def)
qed

end
