(* ===== verification/World.thy ===== *)
theory World
  imports V1alpha1 Errors "HOL-Library.State_Monad"
begin

text \<open>
  What surrounds the operator's code. Everything that is not in the repository (the API server
  and its client, the clock, \<open>select\<close> on a context, controllerutil, the equality and quantity
  packages) is a field of the record \<open>env\<close>, over an opaque type \<open>'w\<close> of outside states. The code
  runs in the state monad over \<open>world\<close>: the outside state and the log of what the operator did,
  in order: API calls, metric updates, span operations, events, waits. The log is ghost state of
  the calls the code issues; no code reads it.

  Two small logics describe computations: \<open>logs Q m\<close> (what \<open>m\<close> appends to the log, related to
  its result) and \<open>triple P m Q\<close> (a Hoare triple over the outside state).
\<close>

section \<open>Objects\<close>

datatype kobject =
    AppObj PlatformApplication
  | DeploymentObj Deployment
  | ServiceObj K8s.Service
  | HPAObj HorizontalPodAutoscaler
  | HTTPRouteObj HTTPRoute
  | NetworkPolicyObj K8s.NetworkPolicy
  | PDBObj PodDisruptionBudget
  | UnstructuredObj Unstructured

text \<open>The dynamic Go type of an object, by which a client chooses the resource.\<close>

datatype gotype =
  AppT | DeploymentT | ServiceT | HPAT | HTTPRouteT | NetworkPolicyT | PDBT | UnstructuredT

fun gotype_of :: "kobject \<Rightarrow> gotype" where
  "gotype_of (AppObj x) = AppT"
| "gotype_of (DeploymentObj x) = DeploymentT"
| "gotype_of (ServiceObj x) = ServiceT"
| "gotype_of (HPAObj x) = HPAT"
| "gotype_of (HTTPRouteObj x) = HTTPRouteT"
| "gotype_of (NetworkPolicyObj x) = NetworkPolicyT"
| "gotype_of (PDBObj x) = PDBT"
| "gotype_of (UnstructuredObj x) = UnstructuredT"

fun meta_of :: "kobject \<Rightarrow> ObjectMeta" where
  "meta_of (AppObj x) = PlatformApplication.ObjectMeta x"
| "meta_of (DeploymentObj x) = K8sObject.ObjectMeta x"
| "meta_of (ServiceObj x) = K8sObject.ObjectMeta x"
| "meta_of (HPAObj x) = K8sObject.ObjectMeta x"
| "meta_of (HTTPRouteObj x) = K8sObject.ObjectMeta x"
| "meta_of (NetworkPolicyObj x) = K8sObject.ObjectMeta x"
| "meta_of (PDBObj x) = K8sObject.ObjectMeta x"
| "meta_of (UnstructuredObj x) = K8sObject.ObjectMeta x"

fun type_of :: "kobject \<Rightarrow> TypeMeta" where
  "type_of (AppObj x) = PlatformApplication.TypeMeta x"
| "type_of (DeploymentObj x) = K8sObject.TypeMeta x"
| "type_of (ServiceObj x) = K8sObject.TypeMeta x"
| "type_of (HPAObj x) = K8sObject.TypeMeta x"
| "type_of (HTTPRouteObj x) = K8sObject.TypeMeta x"
| "type_of (NetworkPolicyObj x) = K8sObject.TypeMeta x"
| "type_of (PDBObj x) = K8sObject.TypeMeta x"
| "type_of (UnstructuredObj x) = K8sObject.TypeMeta x"

text \<open>The accessors of interface \<open>client.Object\<close> that the code calls.\<close>

definition GetName :: "kobject \<Rightarrow> string" where
  "GetName obj = ObjectMeta.Name (meta_of obj)"

definition GetNamespace :: "kobject \<Rightarrow> string" where
  "GetNamespace obj = ObjectMeta.Namespace (meta_of obj)"

definition GetKind :: "kobject \<Rightarrow> string" where
  "GetKind obj = TypeMeta.Kind (type_of obj)"

definition ObjectKeyFromObject :: "kobject \<Rightarrow> ObjectKey" where
  "ObjectKeyFromObject obj = \<lparr>KeyNamespace = GetNamespace obj, KeyName = GetName obj\<rparr>"

section \<open>The log\<close>

text \<open>A Prometheus collector: its kind, name and label names.\<close>

datatype collector_kind = CounterVec | HistogramVec "int list" | Gauge | GaugeVec

record collector =
  CollectorKind :: collector_kind
  CollectorName :: string
  LabelNames :: "string list"

text \<open>An \<open>attribute.KeyValue\<close> of OpenTelemetry.\<close>

datatype attribute = StringAttr string string | Int64Attr string int64

datatype effect =
    CallGet gotype ObjectKey
  | CallCreate kobject
  | CallPatch kobject string
  | CallUpdate kobject
  | CallDelete kobject
  | CallStatusUpdate kobject
  | CounterInc collector "string list"
  | HistogramObserve collector "string list" int
  | GaugeInc collector
  | GaugeDec collector
  | SpanStart string "attribute list"
  | SpanRecordError string string
  | SpanSetStatus string bool string
  | SpanAddEvent string string "attribute list"
  | SpanEnd string
  | RecordEvent string string string
  | WaitStart int

record 'w world =
  outside :: 'w
  log :: "effect list"

section \<open>The environment\<close>

record 'w env =
  apierr :: api_errors
  env_Get :: "ObjectKey \<Rightarrow> kobject \<Rightarrow> 'w \<Rightarrow> (go_error option \<times> kobject) \<times> 'w"
  env_Create :: "kobject \<Rightarrow> 'w \<Rightarrow> (go_error option \<times> kobject) \<times> 'w"
  env_Patch :: "kobject \<Rightarrow> string \<Rightarrow> 'w \<Rightarrow> (go_error option \<times> kobject) \<times> 'w"
  env_Update :: "kobject \<Rightarrow> 'w \<Rightarrow> (go_error option \<times> kobject) \<times> 'w"
  env_Delete :: "kobject \<Rightarrow> 'w \<Rightarrow> go_error option \<times> 'w"
  env_StatusUpdate :: "kobject \<Rightarrow> 'w \<Rightarrow> (go_error option \<times> kobject) \<times> 'w"
  env_Now :: "'w \<Rightarrow> Time \<times> 'w"
  env_Select :: "int \<Rightarrow> 'w \<Rightarrow> go_error option \<times> 'w"
  SetControllerReference :: "kobject \<Rightarrow> kobject \<Rightarrow> go_error + kobject"
  DeepEqual :: "kobject \<Rightarrow> kobject \<Rightarrow> bool"
  ParseQuantity :: "string \<Rightarrow> quantity option"
  ContainsFinalizer :: "ObjectMeta \<Rightarrow> string \<Rightarrow> bool"
  AddFinalizer :: "ObjectMeta \<Rightarrow> string \<Rightarrow> ObjectMeta"
  RemoveFinalizer :: "ObjectMeta \<Rightarrow> string \<Rightarrow> ObjectMeta"

definition emit :: "effect \<Rightarrow> ('w world, unit) state" where
  "emit e = State (\<lambda>s. ((), s\<lparr>log := log s @ [e]\<rparr>))"

definition lift :: "('w \<Rightarrow> 'a \<times> 'w) \<Rightarrow> ('w world, 'a) state" where
  "lift f = State (\<lambda>s. case f (outside s) of (a, w) \<Rightarrow> (a, s\<lparr>outside := w\<rparr>))"

abbreviation return :: "'a \<Rightarrow> ('s, 'a) state" where
  "return \<equiv> State_Monad.return"

definition client_Get ::
    "'w env \<Rightarrow> ObjectKey \<Rightarrow> kobject \<Rightarrow> ('w world, go_error option \<times> kobject) state" where
  "client_Get E key obj = do { emit (CallGet (gotype_of obj) key); lift (env_Get E key obj) }"

definition client_Create ::
    "'w env \<Rightarrow> kobject \<Rightarrow> ('w world, go_error option \<times> kobject) state" where
  "client_Create E obj = do { emit (CallCreate obj); lift (env_Create E obj) }"

definition client_Patch ::
    "'w env \<Rightarrow> kobject \<Rightarrow> string \<Rightarrow> ('w world, go_error option \<times> kobject) state" where
  "client_Patch E obj owner = do { emit (CallPatch obj owner); lift (env_Patch E obj owner) }"

definition client_Update ::
    "'w env \<Rightarrow> kobject \<Rightarrow> ('w world, go_error option \<times> kobject) state" where
  "client_Update E obj = do { emit (CallUpdate obj); lift (env_Update E obj) }"

definition client_Delete :: "'w env \<Rightarrow> kobject \<Rightarrow> ('w world, go_error option) state" where
  "client_Delete E obj = do { emit (CallDelete obj); lift (env_Delete E obj) }"

definition client_StatusUpdate ::
    "'w env \<Rightarrow> kobject \<Rightarrow> ('w world, go_error option \<times> kobject) state" where
  "client_StatusUpdate E obj =
     do { emit (CallStatusUpdate obj); lift (env_StatusUpdate E obj) }"

definition time_Now :: "'w env \<Rightarrow> ('w world, Time) state" where
  "time_Now E = lift (env_Now E)"

text \<open>\<open>time.Since(start)\<close>.\<close>

definition time_Since :: "'w env \<Rightarrow> Time \<Rightarrow> ('w world, int) state" where
  "time_Since E start = do { t \<leftarrow> time_Now E; return (t - start) }"

text \<open>\<open>select\<close> between \<open>ctx.Done()\<close> and \<open>time.After(delay)\<close>: the context's error, or none.\<close>

definition select_Done_After :: "'w env \<Rightarrow> int \<Rightarrow> ('w world, go_error option) state" where
  "select_Done_After E delay = do { emit (WaitStart delay); lift (env_Select E delay) }"

lemmas client_defs = client_Get_def client_Create_def client_Patch_def client_Update_def
  client_Delete_def client_StatusUpdate_def

lemma run_emit [simp]: "run_state (emit e) s = ((), s\<lparr>log := log s @ [e]\<rparr>)"
  by (simp add: emit_def)

lemma run_lift [simp]:
  "run_state (lift f) s = (case f (outside s) of (a, w) \<Rightarrow> (a, s\<lparr>outside := w\<rparr>))"
  by (simp add: lift_def)

section \<open>Views of the log\<close>

text \<open>The waits, the reads and the writes among the effects.\<close>

fun waits :: "effect list \<Rightarrow> int list" where
  "waits [] = []"
| "waits (WaitStart d # es) = d # waits es"
| "waits (_ # es) = waits es"

fun is_get :: "effect \<Rightarrow> bool" where
  "is_get (CallGet t key) = True"
| "is_get _ = False"

fun is_write :: "effect \<Rightarrow> bool" where
  "is_write (CallCreate obj) = True"
| "is_write (CallPatch obj owner) = True"
| "is_write (CallUpdate obj) = True"
| "is_write (CallDelete obj) = True"
| "is_write (CallStatusUpdate obj) = True"
| "is_write _ = False"

abbreviation n_gets :: "effect list \<Rightarrow> nat" where
  "n_gets es \<equiv> length (filter is_get es)"

abbreviation n_writes :: "effect list \<Rightarrow> nat" where
  "n_writes es \<equiv> length (filter is_write es)"

lemma waits_append [simp]: "waits (es @ fs) = waits es @ waits fs"
  by (induction es rule: waits.induct) simp_all

text \<open>The label values with which a counter was incremented, in order.\<close>

definition increments :: "collector \<Rightarrow> effect list \<Rightarrow> string list list" where
  "increments c es = concat (map (\<lambda>e. case e of CounterInc c' vs \<Rightarrow> if c' = c then [vs] else [] | _ \<Rightarrow> []) es)"

lemma increments_simps [simp]:
  "increments c [] = []"
  "increments c (es @ fs) = increments c es @ increments c fs"
  by (simp_all add: increments_def)

lemma increments_Cons:
  "increments c (e # es) = (case e of CounterInc c' vs \<Rightarrow> if c' = c then [vs] else [] | _ \<Rightarrow> []) @ increments c es"
  by (simp add: increments_def)

section \<open>What a computation logs\<close>

definition logs :: "('a \<Rightarrow> effect list \<Rightarrow> bool) \<Rightarrow> ('w world, 'a) state \<Rightarrow> bool" where
  "logs Q m \<longleftrightarrow>
     (\<forall>s. case run_state m s of (a, s') \<Rightarrow> \<exists>es. log s' = log s @ es \<and> Q a es)"

named_theorems logs_rules \<open>one rule per operation for what it logs\<close>

lemma logsD:
  assumes "logs Q m" and "run_state m s = (a, s')"
  obtains es where "log s' = log s @ es" and "Q a es"
proof -
  from assms(1) have "case run_state m s of (a, s') \<Rightarrow> \<exists>es. log s' = log s @ es \<and> Q a es"
    unfolding logs_def by (rule spec)
  with assms(2) show thesis by (auto intro: that)
qed

lemma logsI:
  assumes "\<And>s a s'. run_state m s = (a, s') \<Longrightarrow> \<exists>es. log s' = log s @ es \<and> Q a es"
  shows "logs Q m"
  using assms unfolding logs_def by (simp split: prod.split)

lemma logs_mono: "logs P m \<Longrightarrow> (\<And>a es. P a es \<Longrightarrow> Q a es) \<Longrightarrow> logs Q m"
  unfolding logs_def by (fastforce split: prod.splits)

lemma logs_return: "Q a [] \<Longrightarrow> logs Q (return a)"
  by (simp add: logs_def)

lemma logs_emit: "Q () [e] \<Longrightarrow> logs Q (emit e)"
  by (simp add: logs_def)

lemma logs_lift: "(\<And>a. Q a []) \<Longrightarrow> logs Q (lift f)"
  by (simp add: logs_def split: prod.split)

lemma logs_bind:
  assumes "logs P m" and "\<And>a es. P a es \<Longrightarrow> logs (\<lambda>b fs. Q b (es @ fs)) (f a)"
  shows "logs Q (m \<bind> f)"
proof (rule logsI)
  fix s b s''
  assume run: "run_state (m \<bind> f) s = (b, s'')"
  obtain a s' where m: "run_state m s = (a, s')" by (cases "run_state m s")
  with run have f: "run_state (f a) s' = (b, s'')" by simp
  from assms(1) m obtain es where es: "log s' = log s @ es" "P a es" by (rule logsD)
  from assms(2) [OF es(2)] f obtain fs where "log s'' = log s' @ fs" "Q b (es @ fs)"
    by (rule logsD)
  with es(1) show "\<exists>es. log s'' = log s @ es \<and> Q b es" by auto
qed

lemma logs_if: "(c \<Longrightarrow> logs Q m) \<Longrightarrow> (\<not> c \<Longrightarrow> logs Q n) \<Longrightarrow> logs Q (if c then m else n)"
  by simp

lemma logs_option:
  "(x = None \<Longrightarrow> logs Q m) \<Longrightarrow> (\<And>y. x = Some y \<Longrightarrow> logs Q (f y)) \<Longrightarrow>
   logs Q (case x of None \<Rightarrow> m | Some y \<Rightarrow> f y)"
  by (cases x) simp_all

lemma logs_sum:
  "(\<And>y. x = Inl y \<Longrightarrow> logs Q (f y)) \<Longrightarrow> (\<And>y. x = Inr y \<Longrightarrow> logs Q (g y)) \<Longrightarrow>
   logs Q (case x of Inl y \<Rightarrow> f y | Inr y \<Rightarrow> g y)"
  by (cases x) simp_all

lemma logs_prod: "(\<And>y z. x = (y, z) \<Longrightarrow> logs Q (f y z)) \<Longrightarrow> logs Q (case x of (y, z) \<Rightarrow> f y z)"
  by (cases x) simp

text \<open>Sequences of operations whose logs all satisfy a property of single effects.\<close>

definition only :: "(effect \<Rightarrow> bool) \<Rightarrow> ('w world, 'a) state \<Rightarrow> bool" where
  "only p m \<longleftrightarrow> logs (\<lambda>_ es. list_all p es) m"

lemma only_return [logs_rules]: "only p (return a)"
  by (simp add: only_def logs_return)

lemma only_emit [logs_rules]: "p e \<Longrightarrow> only p (emit e)"
  by (simp add: only_def logs_emit)

lemma only_lift [logs_rules]: "only p (lift f)"
  by (simp add: only_def logs_lift)

lemma only_bind [logs_rules]: "only p m \<Longrightarrow> (\<And>a. only p (f a)) \<Longrightarrow> only p (m \<bind> f)"
  unfolding only_def by (rule logs_bind) (auto elim: logs_mono)

lemma only_if [logs_rules]: "only p m \<Longrightarrow> only p n \<Longrightarrow> only p (if c then m else n)"
  by simp

lemma only_option [logs_rules]:
  "only p m \<Longrightarrow> (\<And>y. only p (f y)) \<Longrightarrow> only p (case x of None \<Rightarrow> m | Some y \<Rightarrow> f y)"
  by (cases x) simp_all

lemma only_sum [logs_rules]:
  "(\<And>y. only p (f y)) \<Longrightarrow> (\<And>y. only p (g y)) \<Longrightarrow>
   only p (case x of Inl y \<Rightarrow> f y | Inr y \<Rightarrow> g y)"
  by (cases x) simp_all

lemma only_prod [logs_rules]: "(\<And>y z. only p (f y z)) \<Longrightarrow> only p (case x of (y, z) \<Rightarrow> f y z)"
  by (cases x) simp

lemma only_client [logs_rules]:
  "p (CallGet (gotype_of obj) key) \<Longrightarrow> only p (client_Get E key obj)"
  "p (CallCreate obj) \<Longrightarrow> only p (client_Create E obj)"
  "p (CallPatch obj owner) \<Longrightarrow> only p (client_Patch E obj owner)"
  "p (CallUpdate obj) \<Longrightarrow> only p (client_Update E obj)"
  "p (CallDelete obj) \<Longrightarrow> only p (client_Delete E obj)"
  "p (CallStatusUpdate obj) \<Longrightarrow> only p (client_StatusUpdate E obj)"
  by (simp_all add: client_defs logs_rules)

lemma only_time [logs_rules]: "only p (time_Now E)" "only p (time_Since E start)"
  by (simp_all add: time_Now_def time_Since_def logs_rules)

lemma only_select [logs_rules]: "p (WaitStart d) \<Longrightarrow> only p (select_Done_After E d)"
  by (simp add: select_Done_After_def logs_rules)

section \<open>Hoare triples over the outside state\<close>

definition triple ::
    "('w \<Rightarrow> bool) \<Rightarrow> ('w world, 'a) state \<Rightarrow> ('a \<Rightarrow> 'w \<Rightarrow> bool) \<Rightarrow> bool" where
  "triple P m Q \<longleftrightarrow>
     (\<forall>s. P (outside s) \<longrightarrow> (case run_state m s of (a, s') \<Rightarrow> Q a (outside s')))"

lemma tripleD: "triple P m Q \<Longrightarrow> P (outside s) \<Longrightarrow> run_state m s = (a, s') \<Longrightarrow> Q a (outside s')"
  unfolding triple_def by (drule spec [of _ s]) simp

lemma tripleI:
  "(\<And>s a s'. P (outside s) \<Longrightarrow> run_state m s = (a, s') \<Longrightarrow> Q a (outside s')) \<Longrightarrow> triple P m Q"
  unfolding triple_def by (simp split: prod.split)

text \<open>The log tells about the result what a triple does not.\<close>

lemma triple_logs:
  assumes "triple P m R" and "logs (\<lambda>a _. Q a) m"
  shows "triple P m (\<lambda>a w. R a w \<and> Q a)"
proof (rule tripleI)
  fix s a s'
  assume pre: "P (outside s)" and run: "run_state m s = (a, s')"
  from logsD [OF assms(2) run] have "Q a" by blast
  with tripleD [OF assms(1) pre run] show "R a (outside s') \<and> Q a" ..
qed

lemma triple_return: "(\<And>w. P w \<Longrightarrow> Q a w) \<Longrightarrow> triple P (return a) Q"
  by (simp add: triple_def)

lemma triple_emit: "(\<And>w. P w \<Longrightarrow> Q () w) \<Longrightarrow> triple P (emit e) Q"
  by (simp add: triple_def)

lemma triple_lift:
  "(\<And>w a w'. P w \<Longrightarrow> f w = (a, w') \<Longrightarrow> Q a w') \<Longrightarrow> triple P (lift f) Q"
  by (simp add: triple_def split: prod.split)

lemma triple_bind:
  assumes "triple P m R" and "\<And>a. triple (R a) (f a) Q"
  shows "triple P (m \<bind> f) Q"
  unfolding triple_def
proof (intro allI impI)
  fix s :: "'a world"
  assume "P (outside s)"
  then show "case run_state (m \<bind> f) s of (a, s') \<Rightarrow> Q a (outside s')"
    using assms by (auto split: prod.split dest: tripleD)
qed

lemma triple_ex: "(\<And>x. triple (P x) m Q) \<Longrightarrow> triple (\<lambda>w. \<exists>x. P x w) m Q"
  by (rule tripleI) (elim exE, rule tripleD)

lemma triple_case_prod:
  "(\<And>x y. p = (x, y) \<Longrightarrow> triple (P x y) (f x y) Q) \<Longrightarrow>
   triple (case p of (x, y) \<Rightarrow> P x y) (case p of (x, y) \<Rightarrow> f x y) Q"
  by (cases p) simp

lemma triple_emit_seq: "triple P (f ()) Q \<Longrightarrow> triple P (emit e \<bind> f) Q"
  by (rule triple_bind [OF triple_emit [where Q = "\<lambda>_. P"]]) simp_all

lemma triple_mono:
  "triple P' m Q' \<Longrightarrow> (\<And>w. P w \<Longrightarrow> P' w) \<Longrightarrow> (\<And>a w. Q' a w \<Longrightarrow> Q a w) \<Longrightarrow> triple P m Q"
  unfolding triple_def by (fastforce split: prod.splits)

lemma triple_both:
  "triple P m Q \<Longrightarrow> triple P' m Q' \<Longrightarrow> triple (\<lambda>w. P w \<and> P' w) m (\<lambda>a w. Q a w \<and> Q' a w)"
  by (rule tripleI) (auto dest: tripleD)

lemma triple_conj: "(c \<Longrightarrow> triple P m Q) \<Longrightarrow> triple (\<lambda>w. P w \<and> c) m Q"
  by (auto simp: triple_def)

end
