(* ===== verification/Metrics.thy ===== *)
theory Metrics
  imports World
begin

text \<open>
  The metrics of \<open>internal/metrics/metrics.go\<close>: the collectors with their names, labels and
  buckets (in milliseconds), the list that \<open>init\<close> registers, and the \<open>Observe\<close> functions, which
  log one update per call of a collector's method. Prometheus panics where a collector is used
  with another number of label values than it was declared with (\<open>well_labelled\<close> says that an
  effect does not), where two collectors of one name are registered, and where the buckets of a
  histogram are not increasing.
\<close>

section \<open>Collectors\<close>

definition ReconcileTotal :: collector where
  "ReconcileTotal = \<lparr>CollectorKind = CounterVec,
     CollectorName = ''platform_operator_reconcile_total'', LabelNames = [''result'']\<rparr>"

definition ReconcileErrorsTotal :: collector where
  "ReconcileErrorsTotal = \<lparr>CollectorKind = CounterVec,
     CollectorName = ''platform_operator_reconcile_errors_total'', LabelNames = [''error_type'', ''error_class'']\<rparr>"

definition ReconcileDurationSeconds :: collector where
  "ReconcileDurationSeconds = \<lparr>CollectorKind = HistogramVec [1, 5, 10, 25, 50, 100, 250, 500, 1000, 2500, 5000, 10000],
     CollectorName = ''platform_operator_reconcile_duration_seconds'', LabelNames = [''result'']\<rparr>"

definition ManagedApplications :: collector where
  "ManagedApplications = \<lparr>CollectorKind = Gauge,
     CollectorName = ''platform_operator_managed_applications'', LabelNames = []\<rparr>"

definition SubReconcileTotal :: collector where
  "SubReconcileTotal = \<lparr>CollectorKind = CounterVec,
     CollectorName = ''platform_operator_sub_reconcile_total'', LabelNames = [''resource'', ''result'']\<rparr>"

definition SubReconcileDurationSeconds :: collector where
  "SubReconcileDurationSeconds = \<lparr>CollectorKind = HistogramVec [1, 5, 10, 25, 50, 100, 250, 500, 1000],
     CollectorName = ''platform_operator_sub_reconcile_duration_seconds'', LabelNames = [''resource'']\<rparr>"

definition ResourceApplyTotal :: collector where
  "ResourceApplyTotal = \<lparr>CollectorKind = CounterVec,
     CollectorName = ''platform_operator_resource_apply_total'', LabelNames = [''resource'', ''outcome'']\<rparr>"

definition ReconcileRequeueTotal :: collector where
  "ReconcileRequeueTotal = \<lparr>CollectorKind = CounterVec,
     CollectorName = ''platform_operator_reconcile_requeue_total'', LabelNames = [''reason'']\<rparr>"

definition StatusUpdateTotal :: collector where
  "StatusUpdateTotal = \<lparr>CollectorKind = CounterVec,
     CollectorName = ''platform_operator_status_update_total'', LabelNames = [''result'']\<rparr>"

definition APICallDurationSeconds :: collector where
  "APICallDurationSeconds = \<lparr>CollectorKind = HistogramVec [1, 5, 10, 25, 50, 100, 250, 500, 1000, 2500],
     CollectorName = ''platform_operator_api_call_duration_seconds'', LabelNames = [''operation'', ''resource'']\<rparr>"

definition NoOpApplyTotal :: collector where
  "NoOpApplyTotal = \<lparr>CollectorKind = CounterVec,
     CollectorName = ''platform_operator_noop_apply_total'', LabelNames = [''resource'']\<rparr>"

definition ActiveReconcilers :: collector where
  "ActiveReconcilers = \<lparr>CollectorKind = Gauge,
     CollectorName = ''platform_operator_active_reconcilers'', LabelNames = []\<rparr>"

definition WorkQueueDepth :: collector where
  "WorkQueueDepth = \<lparr>CollectorKind = GaugeVec,
     CollectorName = ''platform_operator_workqueue_depth'', LabelNames = [''name'']\<rparr>"

definition WorkQueueLatency :: collector where
  "WorkQueueLatency = \<lparr>CollectorKind = HistogramVec [1, 5, 10, 25, 50, 100, 250, 500, 1000, 2500, 5000],
     CollectorName = ''platform_operator_workqueue_latency_seconds'', LabelNames = [''name'']\<rparr>"

lemmas collector_defs =
  ReconcileTotal_def
  ReconcileErrorsTotal_def
  ReconcileDurationSeconds_def
  ManagedApplications_def
  SubReconcileTotal_def
  SubReconcileDurationSeconds_def
  ResourceApplyTotal_def
  ReconcileRequeueTotal_def
  StatusUpdateTotal_def
  APICallDurationSeconds_def
  NoOpApplyTotal_def
  ActiveReconcilers_def
  WorkQueueDepth_def
  WorkQueueLatency_def

definition registered_collectors :: "collector list" where
  "registered_collectors =
    [ReconcileTotal,
     ReconcileErrorsTotal,
     ReconcileDurationSeconds,
     ManagedApplications,
     SubReconcileTotal,
     SubReconcileDurationSeconds,
     ResourceApplyTotal,
     ReconcileRequeueTotal,
     StatusUpdateTotal,
     APICallDurationSeconds,
     NoOpApplyTotal,
     ActiveReconcilers,
     WorkQueueDepth,
     WorkQueueLatency]"

section \<open>Observations\<close>

definition ObserveReconcile :: "string \<Rightarrow> int \<Rightarrow> ('w world, unit) state" where
  "ObserveReconcile result duration = do {
     emit (CounterInc ReconcileTotal [result]);
     emit (HistogramObserve ReconcileDurationSeconds [result] duration) }"

definition ObserveSubReconcile :: "string \<Rightarrow> string \<Rightarrow> int \<Rightarrow> ('w world, unit) state" where
  "ObserveSubReconcile resource result duration = do {
     emit (CounterInc SubReconcileTotal [resource, result]);
     emit (HistogramObserve SubReconcileDurationSeconds [resource] duration) }"

definition ObserveResourceApply :: "string \<Rightarrow> string \<Rightarrow> ('w world, unit) state" where
  "ObserveResourceApply resource outcome = emit (CounterInc ResourceApplyTotal [resource, outcome])"

definition ObserveError :: "string \<Rightarrow> string \<Rightarrow> ('w world, unit) state" where
  "ObserveError errorType errorClass = emit (CounterInc ReconcileErrorsTotal [errorType, errorClass])"

definition ObserveAPICall :: "string \<Rightarrow> string \<Rightarrow> int \<Rightarrow> ('w world, unit) state" where
  "ObserveAPICall operation resource duration =
     emit (HistogramObserve APICallDurationSeconds [operation, resource] duration)"

definition ObserveNoOpApply :: "string \<Rightarrow> ('w world, unit) state" where
  "ObserveNoOpApply resource = emit (CounterInc NoOpApplyTotal [resource])"

lemmas observe_defs = ObserveReconcile_def ObserveSubReconcile_def ObserveResourceApply_def
  ObserveError_def ObserveAPICall_def ObserveNoOpApply_def

section \<open>Correct use of the collectors\<close>

text \<open>The method fits the kind of the collector, and the label values fit its labels.\<close>

fun well_labelled :: "effect \<Rightarrow> bool" where
  "well_labelled (CounterInc c vs) \<longleftrightarrow>
     CollectorKind c = CounterVec \<and> length vs = length (LabelNames c)"
| "well_labelled (HistogramObserve c vs d) \<longleftrightarrow>
     (\<exists>bs. CollectorKind c = HistogramVec bs) \<and> length vs = length (LabelNames c)"
| "well_labelled (GaugeInc c) \<longleftrightarrow> CollectorKind c = Gauge"
| "well_labelled (GaugeDec c) \<longleftrightarrow> CollectorKind c = Gauge"
| "well_labelled _ \<longleftrightarrow> True"

text \<open>An effect that is an update of a metric.\<close>

fun is_metric :: "effect \<Rightarrow> bool" where
  "is_metric (CounterInc c vs) = True"
| "is_metric (HistogramObserve c vs d) = True"
| "is_metric (GaugeInc c) = True"
| "is_metric (GaugeDec c) = True"
| "is_metric _ = False"

lemma only_observe [logs_rules]:
  "(\<And>e. is_metric e \<Longrightarrow> well_labelled e \<Longrightarrow> p e) \<Longrightarrow> only p (ObserveReconcile r d)"
  "(\<And>e. is_metric e \<Longrightarrow> well_labelled e \<Longrightarrow> p e) \<Longrightarrow> only p (ObserveSubReconcile k r d)"
  "(\<And>e. is_metric e \<Longrightarrow> well_labelled e \<Longrightarrow> p e) \<Longrightarrow> only p (ObserveResourceApply k r)"
  "(\<And>e. is_metric e \<Longrightarrow> well_labelled e \<Longrightarrow> p e) \<Longrightarrow> only p (ObserveError t c)"
  "(\<And>e. is_metric e \<Longrightarrow> well_labelled e \<Longrightarrow> p e) \<Longrightarrow> only p (ObserveAPICall k r d)"
  "(\<And>e. is_metric e \<Longrightarrow> well_labelled e \<Longrightarrow> p e) \<Longrightarrow> only p (ObserveNoOpApply k)"
  by (simp_all add: observe_defs collector_defs logs_rules)

fun histogram_buckets :: "collector_kind \<Rightarrow> int list" where
  "histogram_buckets (HistogramVec bs) = bs"
| "histogram_buckets _ = []"

section \<open>Properties of the registry\<close>

fun has_suffix :: "string \<Rightarrow> string \<Rightarrow> bool" where
  "has_suffix suf s = (drop (length s - length suf) s = suf)"

text \<open>Registration cannot panic: the fourteen collectors have distinct names, the label names of
  each are distinct, and the buckets of every histogram are positive and strictly increasing. The names
  follow the Prometheus conventions: all carry the operator's prefix, exactly the counters end in
  \<open>_total\<close>, and exactly the histograms end in \<open>_seconds\<close>.\<close>

theorem registry_well_formed:
  "length registered_collectors = 14 \<and>
   distinct (map CollectorName registered_collectors) \<and>
   list_all (\<lambda>c. distinct (LabelNames c) \<and> sorted_wrt (<) (0 # histogram_buckets (CollectorKind c)) \<and>
       take 18 (CollectorName c) = ''platform_operator_'' \<and>
       (has_suffix ''_total'' (CollectorName c) \<longleftrightarrow> CollectorKind c = CounterVec) \<and>
       (has_suffix ''_seconds'' (CollectorName c) \<longleftrightarrow> histogram_buckets (CollectorKind c) \<noteq> []))
     registered_collectors"
  by (simp add: registered_collectors_def collector_defs)

end
