(* ===== verification/Apply.thy ===== *)
theory Apply
  imports Metrics "HOL-Library.Sublist"
begin

text \<open>
  Server-Side Apply of \<open>internal/controller/subreconcilers/apply.go\<close>: one attempt
  (\<open>applyOnce\<close>), the retry loop on conflicts with exponential backoff (\<open>apply_attempts\<close>), the
  entry point \<open>Apply\<close>, deletion, and the labels of managed resources. An object that the client
  fills in through its pointer is threaded through the attempts.
\<close>

section \<open>Constants and labels\<close>

definition FieldManager :: string where
  "FieldManager = ''platform-operator''"

definition maxApplyRetries :: nat where
  "maxApplyRetries = 3"

text \<open>100 milliseconds, in nanoseconds.\<close>

definition retryBaseDelay :: int where
  "retryBaseDelay = 100000000"

datatype ApplyResult =
  ApplyResultCreated | ApplyResultUpdated | ApplyResultUnchanged | ApplyResultDeleted

fun ApplyResult_string :: "ApplyResult \<Rightarrow> string" where
  "ApplyResult_string ApplyResultCreated = ''created''"
| "ApplyResult_string ApplyResultUpdated = ''updated''"
| "ApplyResult_string ApplyResultUnchanged = ''unchanged''"
| "ApplyResult_string ApplyResultDeleted = ''deleted''"

definition resourceKind :: "string \<Rightarrow> string" where
  "resourceKind kind = (if kind = '''' then ''unknown'' else kind)"

definition CommonLabels :: "string \<Rightarrow> gomap" where
  "CommonLabels appName =
     [(''app.kubernetes.io/name'', appName),
      (''app.kubernetes.io/managed-by'', ''platform-operator''),
      (''app.kubernetes.io/part-of'', ''platform'')]"

text \<open>The inner loop copies one map's entries in the order of the iteration.\<close>

fun merge_into :: "gomap \<Rightarrow> gomap \<Rightarrow> gomap" where
  "merge_into result [] = result"
| "merge_into result ((k, v) # m) = merge_into (AList.update k v result) m"

fun merge_all :: "gomap \<Rightarrow> gomap list \<Rightarrow> gomap" where
  "merge_all result [] = result"
| "merge_all result (m # maps) = merge_all (merge_into result m) maps"

definition MergeLabels :: "gomap list \<Rightarrow> gomap" where
  "MergeLabels maps = merge_all [] maps"

section \<open>Apply\<close>

definition resource_text :: "string \<Rightarrow> string \<Rightarrow> string \<Rightarrow> string \<Rightarrow> go_error \<Rightarrow> string" where
  "resource_text verb kind namespace name err =
     verb @ '' '' @ kind @ '' '' @ namespace @ ''/'' @ name @ '': '' @ Error err"

text \<open>The two branches of \<open>applyOnce\<close> that write: the object does not exist, or it differs.\<close>

definition apply_create ::
    "'w env \<Rightarrow> kobject \<Rightarrow> string \<Rightarrow> string \<Rightarrow> string \<Rightarrow>
     ('w world, (go_error + ApplyResult) \<times> kobject) state" where
  "apply_create E desired kind name namespace = do {
     apiStart \<leftarrow> time_Now E;
     (cerr, desired') \<leftarrow> client_Create E desired;
     (case cerr of
        Some ce \<Rightarrow>
          return (Inl (WrapError (resource_text ''creating'' kind namespace name ce) ce), desired')
      | None \<Rightarrow> do {
          d \<leftarrow> time_Since E apiStart;
          ObserveAPICall ''create'' (resourceKind kind) d;
          return (Inr ApplyResultCreated, desired') }) }"

definition apply_patch ::
    "'w env \<Rightarrow> kobject \<Rightarrow> string \<Rightarrow> string \<Rightarrow> string \<Rightarrow>
     ('w world, (go_error + ApplyResult) \<times> kobject) state" where
  "apply_patch E desired kind name namespace = do {
     apiStart \<leftarrow> time_Now E;
     (perr, desired') \<leftarrow> client_Patch E desired FieldManager;
     d \<leftarrow> time_Since E apiStart;
     ObserveAPICall ''patch'' (resourceKind kind) d;
     (case perr of
        Some pe \<Rightarrow>
          return (Inl (WrapError (resource_text ''applying'' kind namespace name pe) pe), desired')
      | None \<Rightarrow> return (Inr ApplyResultUpdated, desired')) }"

definition applyOnce ::
    "'w env \<Rightarrow> kobject \<Rightarrow> string \<Rightarrow> string \<Rightarrow> string \<Rightarrow>
     ('w world, (go_error + ApplyResult) \<times> kobject) state" where
  "applyOnce E desired kind name namespace = do {
     (err, existing) \<leftarrow> client_Get E (ObjectKeyFromObject desired) desired;
     (case err of
        Some e \<Rightarrow>
          if IsNotFound (apierr E) e then apply_create E desired kind name namespace
          else return (Inl (WrapError (resource_text ''getting'' kind namespace name e) e), desired)
      | None \<Rightarrow>
          if DeepEqual E existing desired then do {
            ObserveNoOpApply (resourceKind kind);
            return (Inr ApplyResultUnchanged, desired)
          }
          else apply_patch E desired kind name namespace) }"

lemmas applyOnce_defs = applyOnce_def apply_create_def apply_patch_def

definition backoff_delay :: "nat \<Rightarrow> int" where
  "backoff_delay attempt = retryBaseDelay * 2 ^ (attempt - 1)"

text \<open>After the loop: no retries left, or an error that is not retried.\<close>

definition apply_failed ::
    "'w env \<Rightarrow> string \<Rightarrow> string \<Rightarrow> go_error \<Rightarrow> ('w world, go_error + ApplyResult) state" where
  "apply_failed E kind name lastErr = do {
     let classifiedErr = classify_or_wrap (apierr E) lastErr name kind;
     ObserveResourceApply (resourceKind kind) ''error'';
     return (Inl (AsError classifiedErr)) }"

text \<open>The loop from the given attempt on.\<close>

function apply_attempts ::
    "'w env \<Rightarrow> string \<Rightarrow> string \<Rightarrow> string \<Rightarrow> nat \<Rightarrow> kobject \<Rightarrow> ('w world, go_error + ApplyResult) state"
  where
  "apply_attempts E kind name namespace attempt desired = do {
     done \<leftarrow> (if attempt > 0 then select_Done_After E (backoff_delay attempt) else return None);
     (case done of
        Some ctxErr \<Rightarrow> return (Inl ctxErr)
      | None \<Rightarrow> do {
          (r, desired') \<leftarrow> applyOnce E desired kind name namespace;
          (case r of
             Inr result \<Rightarrow> do {
               ObserveResourceApply (resourceKind kind) (ApplyResult_string result);
               return (Inr result) }
           | Inl lastErr \<Rightarrow>
               if \<not> IsConflict (apierr E) lastErr then apply_failed E kind name lastErr
               else if Suc attempt \<le> maxApplyRetries
               then apply_attempts E kind name namespace (Suc attempt) desired'
               else apply_failed E kind name lastErr) }) }"
  by pat_completeness auto
termination
  by (relation "measure (\<lambda>(E, kind, name, namespace, attempt, desired). maxApplyRetries - attempt)") auto

declare apply_attempts.simps [simp del]

definition Apply ::
    "'w env \<Rightarrow> kobject \<Rightarrow> kobject \<Rightarrow> ('w world, go_error + ApplyResult) state" where
  "Apply E owner desired =
     (let kind = GetKind desired; name = GetName desired; namespace = GetNamespace desired in
      case SetControllerReference E owner desired of
        Inl err \<Rightarrow> return (Inl (WrapError (''setting controller reference: '' @ Error err) err))
      | Inr desired' \<Rightarrow> apply_attempts E kind name namespace 0 desired')"

definition DeleteIfExists :: "'w env \<Rightarrow> kobject \<Rightarrow> ('w world, go_error option) state" where
  "DeleteIfExists E obj = do {
     derr \<leftarrow> client_Delete E obj;
     (case derr of
        Some err \<Rightarrow>
          if IsNotFound (apierr E) err then return None
          else return (Some (WrapError
            (resource_text ''deleting'' (GetKind obj) (GetNamespace obj) (GetName obj) err) err))
      | None \<Rightarrow> do {
          ObserveResourceApply (resourceKind (GetKind obj)) ''deleted'';
          return None }) }"

section \<open>What Apply logs\<close>

lemma applyOnce_logs:
  "logs (\<lambda>(r, _) es. n_gets es = 1 \<and> n_writes es \<le> 1 \<and> waits es = [] \<and>
      increments ResourceApplyTotal es = [] \<and>
      (r = Inr ApplyResultUnchanged \<longrightarrow> n_writes es = 0))
     (applyOnce E desired kind name namespace)"
  unfolding applyOnce_defs client_defs time_Now_def time_Since_def observe_defs
  by (simp add: logs_def increments_Cons collector_defs split: prod.split option.split)

text \<open>The delays of the retries that are still to come before attempt \<open>attempt\<close> has run.\<close>

definition backoffs :: "nat \<Rightarrow> int list" where
  "backoffs attempt = map backoff_delay [max 1 attempt..<Suc maxApplyRetries]"

lemma backoffs_0: "backoffs 0 = backoffs 1"
  by (simp add: backoffs_def)

lemma backoffs_step: "0 < k \<Longrightarrow> k \<le> maxApplyRetries \<Longrightarrow> backoffs k = backoff_delay k # backoffs (Suc k)"
  by (cases "k = maxApplyRetries") (auto simp: backoffs_def upt_conv_Cons max_def)

lemma logs_select: "logs (\<lambda>r es. es = [WaitStart d]) (select_Done_After E d)"
  by (simp add: select_Done_After_def logs_def split: prod.split)

lemma apply_failed_logs:
  "logs (\<lambda>r es. es = [CounterInc ResourceApplyTotal [resourceKind kind, ''error'']] \<and>
     r = Inl (AsError (classify_or_wrap (apierr E) lastErr name kind)))
   (apply_failed E kind name lastErr)"
  by (simp add: apply_failed_def observe_defs logs_def Let_def)

lemma logs_outcome:
  "logs (\<lambda>r es. r = Inr result \<and>
       es = [CounterInc ResourceApplyTotal [resourceKind kind, ApplyResult_string result]])
     (do { ObserveResourceApply (resourceKind kind) (ApplyResult_string result);
           return (Inr result) })"
  by (simp add: observe_defs logs_def)

text \<open>What attempt \<open>k\<close> logs before its call of \<open>applyOnce\<close>.\<close>

definition retry_wait :: "nat \<Rightarrow> effect list" where
  "retry_wait k = (if k > 0 then [WaitStart (backoff_delay k)] else [])"

lemma wait_logs:
  assumes "\<And>e w w'. 0 < k \<Longrightarrow> env_Select E (backoff_delay k) w = (Some e, w') \<Longrightarrow> P e"
  shows "logs (\<lambda>r es. es = retry_wait k \<and> (\<forall>e. r = Some e \<longrightarrow> P e))
      (if k > 0 then select_Done_After E (backoff_delay k) else return None)"
  using assms by (auto simp: select_Done_After_def logs_def retry_wait_def split: prod.split)

text \<open>
  The rule of the retry loop: \<open>T\<close> describes one attempt, \<open>S k\<close> the loop from attempt \<open>k\<close> on.
\<close>

lemma apply_attempts_rule:
  assumes once: "\<And>d. logs (\<lambda>(r, _) es. T r es) (applyOnce E d kind name namespace)"
    and cancelled: "\<And>k e w w'. 0 < k \<Longrightarrow> k \<le> maxApplyRetries \<Longrightarrow>
      env_Select E (backoff_delay k) w = (Some e, w') \<Longrightarrow> S k (Inl e) (retry_wait k)"
    and success: "\<And>k res es. k \<le> maxApplyRetries \<Longrightarrow> T (Inr res) es \<Longrightarrow>
      S k (Inr res) (retry_wait k @ es @
        [CounterInc ResourceApplyTotal [resourceKind kind, ApplyResult_string res]])"
    and failed: "\<And>k e es. k \<le> maxApplyRetries \<Longrightarrow> T (Inl e) es \<Longrightarrow>
      \<not> IsConflict (apierr E) e \<or> k = maxApplyRetries \<Longrightarrow>
      S k (Inl (AsError (classify_or_wrap (apierr E) e name kind))) (retry_wait k @ es @
        [CounterInc ResourceApplyTotal [resourceKind kind, ''error'']])"
    and again: "\<And>k e es r fs. k < maxApplyRetries \<Longrightarrow> T (Inl e) es \<Longrightarrow>
      IsConflict (apierr E) e \<Longrightarrow> S (Suc k) r fs \<Longrightarrow> S k r (retry_wait k @ es @ fs)"
    and le: "k \<le> maxApplyRetries"
  shows "logs (S k) (apply_attempts E kind name namespace k desired)"
  using le
proof (induction "maxApplyRetries - k" arbitrary: k desired rule: less_induct)
  case (less k)
  have attempt: "logs (\<lambda>b fs. S k b (retry_wait k @ es @ fs))
      (case r of
         Inr result \<Rightarrow> do {
           ObserveResourceApply (resourceKind kind) (ApplyResult_string result);
           return (Inr result) }
       | Inl lastErr \<Rightarrow>
           if \<not> IsConflict (apierr E) lastErr then apply_failed E kind name lastErr
           else if Suc k \<le> maxApplyRetries
           then apply_attempts E kind name namespace (Suc k) d
           else apply_failed E kind name lastErr)"
    if "T r es" for r es d
  proof -
    have "logs (\<lambda>b fs. S k b (retry_wait k @ es @ fs)) (apply_attempts E kind name namespace (Suc k) d)"
      if "T (Inl e) es" "IsConflict (apierr E) e" "Suc k \<le> maxApplyRetries" for e
      by (rule logs_mono [OF less.hyps]) (use that in \<open>auto intro: again\<close>)
    with that less.prems show ?thesis
      by (auto intro!: logs_sum logs_if logs_mono [OF logs_outcome] logs_mono [OF apply_failed_logs]
          intro: success failed)
  qed
  show ?case
    by (subst apply_attempts.simps, rule logs_bind [OF wait_logs [where P = "\<lambda>e. S k (Inl e) (retry_wait k)"]])
      (use less.prems in \<open>auto intro!: logs_option logs_return cancelled logs_bind [OF once] logs_prod attempt\<close>)
qed

text \<open>What an apply that still has the attempts from \<open>k\<close> on logs, related to its result.\<close>

definition apply_spec :: "string \<Rightarrow> nat \<Rightarrow> go_error + ApplyResult \<Rightarrow> effect list \<Rightarrow> bool" where
  "apply_spec kind k r es \<longleftrightarrow>
     prefix (waits es) (backoffs k) \<and>
     n_gets es \<le> Suc maxApplyRetries - k \<and> n_writes es \<le> n_gets es \<and>
     (case r of
        Inr res \<Rightarrow> increments ResourceApplyTotal es = [[resourceKind kind, ApplyResult_string res]]
      | Inl e \<Rightarrow> increments ResourceApplyTotal es = [] \<or>
          increments ResourceApplyTotal es = [[resourceKind kind, ''error'']] \<and> (\<exists>re. e = AsError re))"

lemma apply_attempts_logs:
  "k \<le> maxApplyRetries \<Longrightarrow>
   logs (apply_spec kind k) (apply_attempts E kind name namespace k desired)"
  by (rule apply_attempts_rule [OF applyOnce_logs])
    (auto simp: apply_spec_def retry_wait_def backoffs_0 backoffs_step increments_Cons split: sum.splits)

lemma backoffs_from_start: "backoffs 0 = [100000000, 200000000, 400000000]"
  by (simp add: backoffs_def backoff_delay_def retryBaseDelay_def maxApplyRetries_def upt_conv_Cons)

lemma Apply_logs:
  "logs (apply_spec (GetKind desired) 0) (Apply E owner desired)"
proof (cases "SetControllerReference E owner desired")
  case (Inl e)
  then show ?thesis
    by (simp add: Apply_def Let_def apply_spec_def logs_return)
next
  case (Inr d)
  then show ?thesis
    by (simp add: Apply_def Let_def apply_attempts_logs)
qed

section \<open>Errors of Apply\<close>

text \<open>
  No error that comes from outside is a \<open>ReconcileError\<close>: that type belongs to the operator, and
  the libraries cannot import it.
\<close>

definition foreign_errors :: "'w env \<Rightarrow> bool" where
  "foreign_errors E \<longleftrightarrow>
     (\<forall>key obj w e o' w'. env_Get E key obj w = ((Some e, o'), w') \<longrightarrow> errors_As e = None) \<and>
     (\<forall>obj w e o' w'. env_Create E obj w = ((Some e, o'), w') \<longrightarrow> errors_As e = None) \<and>
     (\<forall>obj f w e o' w'. env_Patch E obj f w = ((Some e, o'), w') \<longrightarrow> errors_As e = None) \<and>
     (\<forall>obj w e w'. env_Delete E obj w = (Some e, w') \<longrightarrow> errors_As e = None) \<and>
     (\<forall>d w e w'. env_Select E d w = (Some e, w') \<longrightarrow> errors_As e = None) \<and>
     (\<forall>owner obj e. SetControllerReference E owner obj = Inl e \<longrightarrow> errors_As e = None)"

lemma foreign_errorsD:
  assumes "foreign_errors E"
  shows "env_Get E key obj w = ((Some e, o'), w') \<Longrightarrow> errors_As e = None"
    and "env_Create E obj w = ((Some e, o'), w') \<Longrightarrow> errors_As e = None"
    and "env_Patch E obj f w = ((Some e, o'), w') \<Longrightarrow> errors_As e = None"
    and "env_Delete E obj w = (Some e, w') \<Longrightarrow> errors_As e = None"
    and "env_Select E d w = (Some e, w') \<Longrightarrow> errors_As e = None"
    and "SetControllerReference E owner obj = Inl e \<Longrightarrow> errors_As e = None"
  using assms unfolding foreign_errors_def by - (elim conjE, metis)+

lemma applyOnce_foreign:
  assumes "foreign_errors E"
  shows "logs (\<lambda>(r, _) es. n_gets es = 1 \<and> (\<forall>e. r = Inl e \<longrightarrow> errors_As e = None))
     (applyOnce E desired kind name namespace)"
  unfolding applyOnce_defs client_defs time_Now_def time_Since_def observe_defs
  by (auto simp: logs_def split: prod.split option.split dest: foreign_errorsD [OF assms])

text \<open>
  The errors of an apply: cancellation is passed on as it is; everything else is classified and
  names the object, and a conflict is reported only when every attempt met one.
\<close>

definition apply_error_spec ::
    "'w env \<Rightarrow> string \<Rightarrow> string \<Rightarrow> nat \<Rightarrow> go_error + ApplyResult \<Rightarrow> effect list \<Rightarrow> bool" where
  "apply_error_spec E kind name k r es \<longleftrightarrow>
     (\<forall>e. r = Inl e \<longrightarrow> errors_As e = None \<or>
        (\<exists>re. e = AsError re \<and> retryable_class (Class re) \<and>
           Resource re = name \<and> ReconcileError.Kind re = kind \<and>
           (Class re = ClassConflict \<longrightarrow> n_gets es = Suc maxApplyRetries - k)))"

lemma apply_attempts_errors:
  assumes "foreign_errors E" and "k \<le> maxApplyRetries"
  shows "logs (apply_error_spec E kind name k) (apply_attempts E kind name namespace k desired)"
proof (rule apply_attempts_rule [OF applyOnce_foreign [OF assms(1)] _ _ _ _ assms(2)])
  fix k e es
  assume T: "n_gets es = 1 \<and> (\<forall>e'. Inl e = Inl e' \<longrightarrow> errors_As e' = None)"
    and stop: "\<not> IsConflict (apierr E) e \<or> k = maxApplyRetries" and "k \<le> maxApplyRetries"
  have "retryable_class (Class (classify_or_wrap (apierr E) e name kind))"
    using T by (intro classify_or_wrap_retryable) (simp add: well_classified_def)
  moreover have "Class (classify_or_wrap (apierr E) e name kind) \<noteq> ClassConflict \<or> k = maxApplyRetries"
    using stop T by (simp add: classify_or_wrap_eq Classify_def)
  ultimately show "apply_error_spec E kind name k
      (Inl (AsError (classify_or_wrap (apierr E) e name kind)))
      (retry_wait k @ es @ [CounterInc ResourceApplyTotal [resourceKind kind, ''error'']])"
    using T by (auto simp: apply_error_spec_def classify_or_wrap_eq retry_wait_def)
next
  fix k e w w'
  assume "env_Select E (backoff_delay k) w = (Some e, w')"
  then show "apply_error_spec E kind name k (Inl e) (retry_wait k)"
    using foreign_errorsD(5) [OF assms(1)] by (simp add: apply_error_spec_def)
qed (auto simp: apply_error_spec_def retry_wait_def Suc_diff_le)

lemma Apply_errors:
  assumes "foreign_errors E"
  shows "logs (apply_error_spec E (GetKind desired) (GetName desired) 0) (Apply E owner desired)"
proof (cases "SetControllerReference E owner desired")
  case (Inl e)
  with foreign_errorsD(6) [OF assms Inl] show ?thesis
    by (simp add: Apply_def Let_def apply_error_spec_def logs_return)
next
  case (Inr d)
  then show ?thesis
    by (simp add: Apply_def Let_def apply_attempts_errors [OF assms])
qed

section \<open>The attempts of an apply\<close>

text \<open>What one attempt does on the outside: it reads first, and only then and only once it may write; it
  neither waits nor counts an outcome.\<close>

definition one_attempt :: "effect list \<Rightarrow> bool" where
  "one_attempt es \<longleftrightarrow>
     (\<exists>kind key rest. es = CallGet kind key # rest \<and> n_gets rest = 0) \<and> n_writes es \<le> 1 \<and>
     waits es = [] \<and> increments ResourceApplyTotal es = []"

text \<open>The error of an attempt: the error of the call that failed, wrapped with a text that names the call
  and the object.\<close>

definition attempt_error :: "'w env \<Rightarrow> string \<Rightarrow> string \<Rightarrow> string \<Rightarrow> go_error \<Rightarrow> bool" where
  "attempt_error E kind name namespace err \<longleftrightarrow>
     (\<exists>verb e. err = WrapError (resource_text verb kind namespace name e) e \<and>
        (verb = ''getting'' \<and> \<not> IsNotFound (apierr E) e \<and> (\<exists>key obj w. fst (fst (env_Get E key obj w)) = Some e) \<or>
         verb = ''creating'' \<and> (\<exists>obj w. fst (fst (env_Create E obj w)) = Some e) \<or>
         verb = ''applying'' \<and> (\<exists>obj w. fst (fst (env_Patch E obj FieldManager w)) = Some e)))"

lemma applyOnce_attempt:
  "logs (\<lambda>(r, _) es. one_attempt es \<and> (\<forall>e. r = Inl e \<longrightarrow> attempt_error E kind name namespace e))
     (applyOnce E desired kind name namespace)"
  unfolding applyOnce_defs client_defs time_Now_def time_Since_def observe_defs
  by (auto simp: logs_def one_attempt_def attempt_error_def increments_Cons collector_defs split: prod.split option.split)
    (metis fst_conv)+

text \<open>Attempts from number \<open>k\<close> on, each after its wait.\<close>

primrec paced :: "nat \<Rightarrow> effect list list \<Rightarrow> effect list" where
  "paced k [] = []"
| "paced k (es # ats) = retry_wait k @ es @ paced (Suc k) ats"

text \<open>The loop from attempt \<open>k\<close> on: its result, what each attempt did, the errors of the attempts that failed, and
  what is logged at the end.\<close>

inductive apply_run ::
    "'w env \<Rightarrow> string \<Rightarrow> string \<Rightarrow> string \<Rightarrow> nat \<Rightarrow> go_error + ApplyResult \<Rightarrow>
     effect list list \<Rightarrow> go_error list \<Rightarrow> effect list \<Rightarrow> bool"
  for E kind name namespace where
  cancelled: "0 < k \<Longrightarrow> k \<le> maxApplyRetries \<Longrightarrow> env_Select E (backoff_delay k) w = (Some e, w') \<Longrightarrow>
    apply_run E kind name namespace k (Inl e) [] [] [WaitStart (backoff_delay k)]"
| applied: "k \<le> maxApplyRetries \<Longrightarrow> one_attempt es \<Longrightarrow>
    apply_run E kind name namespace k (Inr res) [es] []
      [CounterInc ResourceApplyTotal [resourceKind kind, ApplyResult_string res]]"
| failed: "k \<le> maxApplyRetries \<Longrightarrow> one_attempt es \<Longrightarrow> attempt_error E kind name namespace e \<Longrightarrow>
    \<not> IsConflict (apierr E) e \<or> k = maxApplyRetries \<Longrightarrow>
    apply_run E kind name namespace k (Inl (AsError (classify_or_wrap (apierr E) e name kind))) [es] [e]
      [CounterInc ResourceApplyTotal [resourceKind kind, ''error'']]"
| again: "k < maxApplyRetries \<Longrightarrow> one_attempt es \<Longrightarrow> attempt_error E kind name namespace e \<Longrightarrow>
    IsConflict (apierr E) e \<Longrightarrow> apply_run E kind name namespace (Suc k) r ats errs out \<Longrightarrow>
    apply_run E kind name namespace k r (es # ats) (e # errs) out"

text \<open>What a run of the loop logs.\<close>

definition run_logged ::
    "'w env \<Rightarrow> string \<Rightarrow> string \<Rightarrow> string \<Rightarrow> nat \<Rightarrow> go_error + ApplyResult \<Rightarrow> effect list \<Rightarrow> bool" where
  "run_logged E kind name namespace k r es \<longleftrightarrow>
     (\<exists>ats errs out. apply_run E kind name namespace k r ats errs out \<and> es = paced k ats @ out)"

lemma run_loggedI:
  "apply_run E kind name namespace k r ats errs out \<Longrightarrow> es = paced k ats @ out \<Longrightarrow>
   run_logged E kind name namespace k r es"
  by (auto simp: run_logged_def)

lemma apply_attempts_run:
  assumes "k \<le> maxApplyRetries"
  shows "logs (run_logged E kind name namespace k) (apply_attempts E kind name namespace k desired)"
proof (rule apply_attempts_rule [OF applyOnce_attempt _ _ _ _ assms])
  fix k e es r fs
  assume "k < maxApplyRetries" "IsConflict (apierr E) e" "run_logged E kind name namespace (Suc k) r fs"
    and "one_attempt es \<and> (\<forall>e'. Inl e = Inl e' \<longrightarrow> attempt_error E kind name namespace e')"
  then show "run_logged E kind name namespace k r (retry_wait k @ es @ fs)"
    unfolding run_logged_def [of E kind name namespace "Suc k"]
    by (auto intro!: run_loggedI apply_run.again)
qed (auto intro!: run_loggedI apply_run.intros(1-3) simp: retry_wait_def)

lemma Apply_run:
  "logs (\<lambda>r es.
      (\<exists>err. SetControllerReference E owner desired = Inl err \<and> es = [] \<and>
         r = Inl (WrapError (''setting controller reference: '' @ Error err) err)) \<or>
      run_logged E (GetKind desired) (GetName desired) (GetNamespace desired) 0 r es)
    (Apply E owner desired)"
proof (cases "SetControllerReference E owner desired")
  case (Inl e)
  then show ?thesis by (simp add: Apply_def Let_def logs_return)
next
  case (Inr d)
  then show ?thesis
    by (auto simp: Apply_def Let_def intro: logs_mono [OF apply_attempts_run])
qed

text \<open>What a run of the loop tells.\<close>

lemma apply_run_attempts:
  assumes "apply_run E kind name namespace k r ats errs out"
  shows "list_all one_attempt ats \<and> k + length ats \<le> Suc maxApplyRetries \<and> (k = 0 \<longrightarrow> ats \<noteq> [])"
  using assms by (induction rule: apply_run.induct) simp_all

lemma waits_paced: "one_attempt es \<Longrightarrow> waits (retry_wait k @ es @ fs) = waits (retry_wait k) @ waits fs"
  by (simp add: one_attempt_def)

lemma apply_run_waits:
  assumes "apply_run E kind name namespace k r ats errs out"
  shows "prefix (waits (paced k ats @ out)) (backoffs k)"
  using assms
proof (induction rule: apply_run.induct)
  case (again k es e r ats errs out)
  then have "prefix (waits (retry_wait k) @ waits (paced (Suc k) ats @ out)) (waits (retry_wait k) @ backoffs (Suc k))"
    by simp
  also have "waits (retry_wait k) @ backoffs (Suc k) = backoffs k"
    using again(1) backoffs_step [of k] by (cases "k = 0") (simp_all add: retry_wait_def backoffs_0)
  finally show ?case
    using again(2) by (simp only: paced.simps append_assoc waits_paced)
qed (simp_all add: one_attempt_def retry_wait_def backoffs_step)

lemma apply_run_ends:
  assumes "apply_run E kind name namespace k r ats errs out"
  shows "case r of
       Inr res \<Rightarrow> out = [CounterInc ResourceApplyTotal [resourceKind kind, ApplyResult_string res]]
     | Inl e \<Rightarrow>
         out = [CounterInc ResourceApplyTotal [resourceKind kind, ''error'']] \<and> (\<exists>re. e = AsError re) \<or>
         out = [WaitStart (backoff_delay (k + length ats))] \<and> k + length ats \<le> maxApplyRetries \<and>
         (\<exists>w w'. env_Select E (backoff_delay (k + length ats)) w = (Some e, w'))"
  using assms
proof (induction rule: apply_run.induct)
  case (cancelled k w e w')
  then show ?case by auto
next
  case (again k es e r ats errs out)
  then show ?case by (cases r) simp_all
qed simp_all

lemma apply_run_errors:
  assumes "apply_run E kind name namespace k (Inl e) ats errs out"
  shows "length errs = length ats \<and> (\<forall>err \<in> set errs. attempt_error E kind name namespace err) \<and>
    (\<forall>err \<in> set (butlast errs). IsConflict (apierr E) err) \<and>
    (out = [WaitStart (backoff_delay (k + length errs))] \<and> (\<forall>err \<in> set errs. IsConflict (apierr E) err) \<or>
     errs \<noteq> [] \<and> e = AsError (classify_or_wrap (apierr E) (last errs) name kind) \<and>
     (IsConflict (apierr E) (last errs) \<longrightarrow> k + length errs = Suc maxApplyRetries))"
  using assms
  by (induction k "Inl e :: go_error + ApplyResult" ats errs out rule: apply_run.induct) auto

lemma paced_gets: "list_all one_attempt ats \<Longrightarrow> n_gets (paced k ats) = length ats"
  by (induction ats arbitrary: k) (auto simp: one_attempt_def retry_wait_def)

lemma failed_result: "fst (fst x) = Some e \<Longrightarrow> \<exists>o' w'. x = ((Some e, o'), w')"
  by (cases x) auto

lemma attempt_error_foreign:
  assumes "foreign_errors E" and "attempt_error E kind name namespace err"
  shows "errors_As err = None"
  using assms(2) unfolding attempt_error_def
  by (auto dest!: failed_result dest: foreign_errorsD(1-3) [OF assms(1)])

section \<open>Bounds and deletion\<close>

text \<open>C15. An apply is bounded and accounted for whatever the server answers. A refused owner reference is
  returned as it is wrapped, with no effect on the outside. Otherwise the apply is a sequence of one to four
  attempts, each of which reads first, then writes at most once, and neither waits nor counts an outcome;
  before attempt \<open>k > 0\<close> it waits once, so that the waits are an initial part of 100, 200 and 400
  milliseconds. After the attempts a success is counted exactly once as its result, and an error exactly once
  as an error, under the kind of the object, and that error is a ReconcileError; the only other way to end is
  that the wait before a further attempt is cancelled, which returns the context's error and counts nothing.\<close>

theorem apply_bounded:
  "logs (\<lambda>r es.
      (\<exists>err. SetControllerReference E owner desired = Inl err \<and> es = [] \<and>
         r = Inl (WrapError (''setting controller reference: '' @ Error err) err)) \<or>
      (\<exists>ats out. es = paced 0 ats @ out \<and> 1 \<le> length ats \<and> length ats \<le> 4 \<and> list_all one_attempt ats \<and>
         prefix (waits es) [100000000, 200000000, 400000000] \<and>
         (case r of
            Inr res \<Rightarrow> out = [CounterInc ResourceApplyTotal [resourceKind (GetKind desired), ApplyResult_string res]]
          | Inl e \<Rightarrow>
              out = [CounterInc ResourceApplyTotal [resourceKind (GetKind desired), ''error'']] \<and> (\<exists>re. e = AsError re) \<or>
              out = [WaitStart (backoff_delay (length ats))] \<and> length ats \<le> 3 \<and>
              (\<exists>w w'. env_Select E (backoff_delay (length ats)) w = (Some e, w')))))
    (Apply E owner desired)"
proof (rule logs_mono [OF Apply_run], erule disj_forward)
  fix r es
  assume "run_logged E (GetKind desired) (GetName desired) (GetNamespace desired) 0 r es"
  then obtain ats errs out where run: "apply_run E (GetKind desired) (GetName desired) (GetNamespace desired) 0 r ats errs out"
    and es: "es = paced 0 ats @ out" by (auto simp: run_logged_def)
  show "\<exists>ats out. es = paced 0 ats @ out \<and> 1 \<le> length ats \<and> length ats \<le> 4 \<and> list_all one_attempt ats \<and>
         prefix (waits es) [100000000, 200000000, 400000000] \<and>
         (case r of
            Inr res \<Rightarrow> out = [CounterInc ResourceApplyTotal [resourceKind (GetKind desired), ApplyResult_string res]]
          | Inl e \<Rightarrow>
              out = [CounterInc ResourceApplyTotal [resourceKind (GetKind desired), ''error'']] \<and> (\<exists>re. e = AsError re) \<or>
              out = [WaitStart (backoff_delay (length ats))] \<and> length ats \<le> 3 \<and>
              (\<exists>w w'. env_Select E (backoff_delay (length ats)) w = (Some e, w')))"
    using apply_run_attempts [OF run] apply_run_waits [OF run] apply_run_ends [OF run] es
    by (intro exI [of _ ats] exI [of _ out], cases r) (simp_all add: backoffs_from_start maxApplyRetries_def Suc_le_eq)
qed

text \<open>Deletion on each of its branches: one delete call and nothing else on the outside; success is
  counted as deleted, a missing object is a success that is not counted, and any other error is
  returned wrapped around the server's, with the same classification as a ReconcileError.\<close>

theorem DeleteIfExists_branches:
  "case env_Delete E obj (outside s) of
     (derr, w) \<Rightarrow>
       run_state (DeleteIfExists E obj) s =
         (case derr of
            None \<Rightarrow> (None, s\<lparr>outside := w, log := log s @
              [CallDelete obj, CounterInc ResourceApplyTotal [resourceKind (GetKind obj), ''deleted'']]\<rparr>)
          | Some err \<Rightarrow>
              (if IsNotFound (apierr E) err then None
               else Some (WrapError (''deleting '' @ GetKind obj @ '' '' @ GetNamespace obj @ ''/'' @ GetName obj @ '': '' @ Error err) err),
               s\<lparr>outside := w, log := log s @ [CallDelete obj]\<rparr>))"
  by (simp add: DeleteIfExists_def client_Delete_def observe_defs resource_text_def split: prod.split option.split)

end
