(* ===== verification/Deployment.thy ===== *)
theory Deployment
  imports Apply
begin

text \<open>
  The Deployment sub-reconciler of \<open>internal/controller/subreconcilers/deployment.go\<close>. The pure
  function \<open>buildDesiredDeployment\<close> is cut into one definition per block of the Go function. It
  can panic: \<open>resource.MustParse\<close> does on a text that is no quantity, so its result is a value or
  a panic. Parsing quantities is the parameter \<open>ParseQuantity\<close> of the environment.
\<close>

section \<open>Panics\<close>

datatype 'a go = Ret 'a | Panic string

fun go_bind :: "'a go \<Rightarrow> ('a \<Rightarrow> 'b go) \<Rightarrow> 'b go" where
  "go_bind (Ret x) f = f x"
| "go_bind (Panic m) f = Panic m"

lemma go_bind_Ret_iff: "go_bind m f = Ret y \<longleftrightarrow> (\<exists>x. m = Ret x \<and> f x = Ret y)"
  by (cases m) simp_all

lemma go_bind_Panic_iff:
  "go_bind m f = Panic p \<longleftrightarrow> m = Panic p \<or> (\<exists>x. m = Ret x \<and> f x = Panic p)"
  by (cases m) auto

section \<open>Access to the application\<close>

abbreviation app_Name :: "PlatformApplication \<Rightarrow> string" where
  "app_Name app \<equiv> ObjectMeta.Name (PlatformApplication.ObjectMeta app)"

abbreviation app_Namespace :: "PlatformApplication \<Rightarrow> string" where
  "app_Namespace app \<equiv> ObjectMeta.Namespace (PlatformApplication.ObjectMeta app)"

section \<open>Building blocks\<close>

definition MustParse :: "(string \<Rightarrow> quantity option) \<Rightarrow> string \<Rightarrow> quantity go" where
  "MustParse parse s = (case parse s of Some q \<Rightarrow> Ret q | None \<Rightarrow> Panic s)"

text \<open>One of the two resource lists, from the texts for CPU and memory.\<close>

definition resource_list ::
    "(string \<Rightarrow> quantity option) \<Rightarrow> ResourceSpec \<Rightarrow> (string \<times> quantity) list go" where
  "resource_list parse r =
     (if CPU r \<noteq> '''' \<or> Memory r \<noteq> '''' then
        go_bind (if CPU r \<noteq> '''' then
                   go_bind (MustParse parse (CPU r)) (\<lambda>q. Ret (AList.update ''cpu'' q []))
                 else Ret [])
          (\<lambda>l. if Memory r \<noteq> '''' then
                 go_bind (MustParse parse (Memory r)) (\<lambda>q. Ret (AList.update ''memory'' q l))
               else Ret l)
      else Ret [])"

definition desired_resources ::
    "(string \<Rightarrow> quantity option) \<Rightarrow> PlatformApplication \<Rightarrow> ResourceRequirements go" where
  "desired_resources parse app =
     (let r = Resources (Spec app) in
      go_bind (resource_list parse (ResourcesSpec.Requests r)) (\<lambda>requests.
      go_bind (resource_list parse (ResourcesSpec.Limits r)) (\<lambda>limits.
        Ret \<lparr>ResourceRequirements.Requests = requests, ResourceRequirements.Limits = limits\<rparr>)))"

definition desired_labels :: "PlatformApplication \<Rightarrow> gomap" where
  "desired_labels app =
     MergeLabels [CommonLabels (app_Name app),
       [(''app.kubernetes.io/instance'', app_Name app),
        (''app.kubernetes.io/version'', Tag (Image (Spec app)))]]"

definition desired_replicas :: "PlatformApplication \<Rightarrow> int32" where
  "desired_replicas app =
     (let replicas = Min (Replicas (Spec app)) in if replicas <s 1 then 1 else replicas)"

definition probe_port :: "PlatformApplication \<Rightarrow> int32" where
  "probe_port app =
     (if HealthChecksSpec.Port (HealthChecks (Spec app)) \<noteq> 0
      then HealthChecksSpec.Port (HealthChecks (Spec app))
      else ServiceSpec.Port (Service (Spec app)))"

definition http_probe :: "string \<Rightarrow> int32 \<Rightarrow> int32 \<Rightarrow> int32 \<Rightarrow> int32 \<Rightarrow> Probe" where
  "http_probe path port delay period timeout =
     \<lparr>HTTPGet = \<lparr>HTTPGetAction.Path = path, HTTPGetAction.Port = FromInt32 port\<rparr>,
      InitialDelaySeconds = delay, PeriodSeconds = period, TimeoutSeconds = timeout,
      FailureThreshold = 3\<rparr>"

definition liveness_probe :: "PlatformApplication \<Rightarrow> Probe" where
  "liveness_probe app =
     (let p = LivenessPath (HealthChecks (Spec app));
          p = (if p = '''' then ''/healthz'' else p)
      in http_probe p (probe_port app) 15 20 5)"

definition readiness_probe :: "PlatformApplication \<Rightarrow> Probe" where
  "readiness_probe app =
     (let p = ReadinessPath (HealthChecks (Spec app));
          p = (if p = '''' then ''/readyz'' else p)
      in http_probe p (probe_port app) 5 10 3)"

text \<open>Indexing a map yields the empty string for a missing key.\<close>

definition map_index :: "gomap \<Rightarrow> string \<Rightarrow> string" where
  "map_index m k = (case map_of m k of Some v \<Rightarrow> v | None \<Rightarrow> '''')"

definition desired_env :: "PlatformApplication \<Rightarrow> EnvVar list" where
  "desired_env app =
     (let cfg = Configuration (Spec app) in
      if length cfg > 0 then
        map (\<lambda>k. \<lparr>EnvVar.Name = k, EnvVar.Value = map_index cfg k\<rparr>) (sort_Strings (map fst cfg))
      else [])"

definition mustAtoi :: "string \<Rightarrow> int" where
  "mustAtoi s = fst (Atoi s)"

text \<open>The conversion \<open>int32(n)\<close> keeps the low 32 bits.\<close>

definition rollout_bound :: "string \<Rightarrow> IntOrString" where
  "rollout_bound s =
     (if snd (Atoi s) = None then FromInt32 (word_of_int (mustAtoi s)) else FromString s)"

definition desired_strategy :: "PlatformApplication \<Rightarrow> DeploymentStrategy" where
  "desired_strategy app =
     (let r = Rollout (Spec app) in
      if RolloutSpec.Strategy r = ''Recreate'' then
        \<lparr>DeploymentStrategy.Type = ''Recreate'', RollingUpdate = None\<rparr>
      else if RolloutSpec.MaxUnavailable r \<noteq> '''' \<or> RolloutSpec.MaxSurge r \<noteq> '''' then
        \<lparr>DeploymentStrategy.Type = ''RollingUpdate'',
         RollingUpdate = Some
           \<lparr>RollingUpdateDeployment.MaxUnavailable =
              (if RolloutSpec.MaxUnavailable r \<noteq> ''''
               then Some (rollout_bound (RolloutSpec.MaxUnavailable r)) else None),
            RollingUpdateDeployment.MaxSurge =
              (if RolloutSpec.MaxSurge r \<noteq> ''''
               then Some (rollout_bound (RolloutSpec.MaxSurge r)) else None)\<rparr>\<rparr>
      else \<lparr>DeploymentStrategy.Type = ''RollingUpdate'', RollingUpdate = None\<rparr>)"

definition boolPtr :: "bool \<Rightarrow> bool option" where
  "boolPtr b = Some b"

definition desired_container :: "PlatformApplication \<Rightarrow> ResourceRequirements \<Rightarrow> Container" where
  "desired_container app resources =
     \<lparr>Container.Name = app_Name app,
      Container.Image = Repository (Image (Spec app)) @ '':'' @ Tag (Image (Spec app)),
      ImagePullPolicy = PullPolicy (Image (Spec app)),
      Container.Ports =
        [\<lparr>ContainerPort.Name = ''http'',
          ContainerPort.ContainerPort = ServiceSpec.Port (Service (Spec app)),
          ContainerPort.Protocol = ''TCP''\<rparr>],
      Env = desired_env app,
      Container.Resources = resources,
      VolumeMounts = [\<lparr>VolumeMount.Name = ''tmp'', MountPath = ''/tmp''\<rparr>],
      LivenessProbe = Some (liveness_probe app),
      ReadinessProbe = Some (readiness_probe app),
      Container.SecurityContext = Some
        \<lparr>SecurityContext.RunAsNonRoot = boolPtr True,
         ReadOnlyRootFilesystem = boolPtr True,
         AllowPrivilegeEscalation = boolPtr False,
         CapabilitiesDrop = [''ALL'']\<rparr>\<rparr>"

text \<open>The label selector that the Deployment and its companions share.\<close>

definition selector_labels :: "string \<Rightarrow> gomap" where
  "selector_labels name =
     [(''app.kubernetes.io/name'', name), (''app.kubernetes.io/instance'', name)]"

definition child_meta :: "PlatformApplication \<Rightarrow> string \<Rightarrow> gomap \<Rightarrow> ObjectMeta" where
  "child_meta app name labels =
     zero_ObjectMeta\<lparr>ObjectMeta.Name := name, ObjectMeta.Namespace := app_Namespace app,
       Labels := labels\<rparr>"

definition desired_template :: "PlatformApplication \<Rightarrow> ResourceRequirements \<Rightarrow> PodTemplateSpec" where
  "desired_template app resources =
     \<lparr>TemplateLabels = desired_labels app,
      PodTemplateSpec.Spec =
        \<lparr>PodSpec.SecurityContext = Some
           \<lparr>PodSecurityContext.RunAsNonRoot = boolPtr True,
            SeccompProfileType = ''RuntimeDefault''\<rparr>,
         Containers = [desired_container app resources],
         Volumes = [\<lparr>Volume.Name = ''tmp'', Volume.VolumeSource = EmptyDir\<rparr>]\<rparr>\<rparr>"

definition desired_deployment :: "PlatformApplication \<Rightarrow> ResourceRequirements \<Rightarrow> Deployment" where
  "desired_deployment app resources =
     \<lparr>K8sObject.TypeMeta =
        \<lparr>TypeMeta.APIVersion = ''apps/v1'', TypeMeta.Kind = ''Deployment''\<rparr>,
      K8sObject.ObjectMeta = child_meta app (app_Name app) (desired_labels app),
      K8sObject.Spec =
        \<lparr>DeploymentSpec.Replicas = Some (desired_replicas app),
         DeploymentSpec.Selector = selector_labels (app_Name app),
         DeploymentSpec.Strategy = desired_strategy app,
         Template = desired_template app resources\<rparr>,
      K8sObject.Status = \<lparr>DeploymentStatus.ReadyReplicas = 0\<rparr>\<rparr>"

definition buildDesiredDeployment ::
    "(string \<Rightarrow> quantity option) \<Rightarrow> PlatformApplication \<Rightarrow> Deployment go" where
  "buildDesiredDeployment parse app =
     go_bind (desired_resources parse app) (\<lambda>resources. Ret (desired_deployment app resources))"

lemmas deployment_defs = buildDesiredDeployment_def desired_deployment_def desired_template_def

definition ReconcileDeployment ::
    "'w env \<Rightarrow> PlatformApplication \<Rightarrow> ('w world, (go_error + ApplyResult) go) state" where
  "ReconcileDeployment E app =
     (case buildDesiredDeployment (ParseQuantity E) app of
        Panic m \<Rightarrow> return (Panic m)
      | Ret desired \<Rightarrow> do {
          r \<leftarrow> Apply E (AppObj app) (DeploymentObj desired);
          return (Ret r) })"

end
