(* ===== verification/Workload.thy ===== *)
theory Workload
  imports Deployment
begin

text \<open>
  The companions of the Deployment: the Service, the HorizontalPodAutoscaler and the
  PodDisruptionBudget of \<open>internal/controller/subreconcilers/{service,hpa,pdb}.go\<close>. Each has a pure
  builder of the desired object and a sub-reconciler that applies it or, where the feature is
  off, deletes an object that carries only its name and namespace.
\<close>

text \<open>What every \<open>delete...IfExists\<close> makes of the result of \<open>DeleteIfExists\<close>.\<close>

definition delete_then_unchanged ::
    "'w env \<Rightarrow> kobject \<Rightarrow> ('w world, go_error + ApplyResult) state" where
  "delete_then_unchanged E obj = do {
     r \<leftarrow> DeleteIfExists E obj;
     (case r of
        Some err \<Rightarrow> return (Inl err)
      | None \<Rightarrow> return (Inr ApplyResultUnchanged)) }"

section \<open>Service\<close>

definition service_type :: "PlatformApplication \<Rightarrow> string" where
  "service_type app =
     (if ServiceSpec.Type (Service (Spec app)) \<noteq> ''''
      then ServiceSpec.Type (Service (Spec app)) else ''ClusterIP'')"

definition buildDesiredService :: "PlatformApplication \<Rightarrow> K8s.Service" where
  "buildDesiredService app =
     \<lparr>K8sObject.TypeMeta = \<lparr>TypeMeta.APIVersion = ''v1'', TypeMeta.Kind = ''Service''\<rparr>,
      K8sObject.ObjectMeta = child_meta app (app_Name app) (CommonLabels (app_Name app)),
      K8sObject.Spec =
        \<lparr>CoreServiceSpec.Type = service_type app,
         CoreServiceSpec.Selector = selector_labels (app_Name app),
         CoreServiceSpec.Ports =
           [\<lparr>ServicePort.Name = ''http'', ServicePort.Port = ServiceSpec.Port (Service (Spec app)),
             TargetPort = FromString ''http'', ServicePort.Protocol = ''TCP''\<rparr>]\<rparr>,
      K8sObject.Status = ()\<rparr>"

definition ReconcileService ::
    "'w env \<Rightarrow> PlatformApplication \<Rightarrow> ('w world, go_error + ApplyResult) state" where
  "ReconcileService E app = Apply E (AppObj app) (ServiceObj (buildDesiredService app))"

section \<open>HorizontalPodAutoscaler\<close>

definition hpa_max_replicas :: "PlatformApplication \<Rightarrow> int32" where
  "hpa_max_replicas app =
     (let minReplicas = Min (Replicas (Spec app)); maxReplicas = Max (Replicas (Spec app))
      in if maxReplicas <s minReplicas then minReplicas else maxReplicas)"

definition hpa_target_cpu :: "PlatformApplication \<Rightarrow> int32" where
  "hpa_target_cpu app =
     (let targetCPU = TargetCPUUtilization (Autoscaling (Spec app))
      in if targetCPU = 0 then 80 else targetCPU)"

definition buildDesiredHPA :: "PlatformApplication \<Rightarrow> HorizontalPodAutoscaler" where
  "buildDesiredHPA app =
     \<lparr>K8sObject.TypeMeta =
        \<lparr>TypeMeta.APIVersion = ''autoscaling/v2'', TypeMeta.Kind = ''HorizontalPodAutoscaler''\<rparr>,
      K8sObject.ObjectMeta = child_meta app (app_Name app) (CommonLabels (app_Name app)),
      K8sObject.Spec =
        \<lparr>ScaleTargetRef =
           \<lparr>CrossVersionObjectReference.APIVersion = ''apps/v1'',
            CrossVersionObjectReference.Kind = ''Deployment'',
            CrossVersionObjectReference.Name = app_Name app\<rparr>,
         MinReplicas = Some (Min (Replicas (Spec app))),
         MaxReplicas = hpa_max_replicas app,
         HorizontalPodAutoscalerSpec.Metrics =
           [\<lparr>MetricSpec.Type = ''Resource'',
             MetricSpec.Resource = Some
               \<lparr>ResourceMetricSource.Name = ''cpu'',
                Target = \<lparr>MetricTarget.Type = ''Utilization'',
                  AverageUtilization = Some (hpa_target_cpu app)\<rparr>\<rparr>\<rparr>]\<rparr>,
      K8sObject.Status = ()\<rparr>"

text \<open>The literal with only \<open>ObjectMeta\<close> given: every other field has its zero value.\<close>

definition deleted_HPA :: "PlatformApplication \<Rightarrow> HorizontalPodAutoscaler" where
  "deleted_HPA app =
     \<lparr>K8sObject.TypeMeta = zero_TypeMeta,
      K8sObject.ObjectMeta = child_meta app (app_Name app) [],
      K8sObject.Spec =
        \<lparr>ScaleTargetRef =
           \<lparr>CrossVersionObjectReference.APIVersion = '''',
            CrossVersionObjectReference.Kind = '''',
            CrossVersionObjectReference.Name = ''''\<rparr>,
         MinReplicas = None, MaxReplicas = 0, HorizontalPodAutoscalerSpec.Metrics = []\<rparr>,
      K8sObject.Status = ()\<rparr>"

definition deleteHPAIfExists ::
    "'w env \<Rightarrow> PlatformApplication \<Rightarrow> ('w world, go_error + ApplyResult) state" where
  "deleteHPAIfExists E app = delete_then_unchanged E (HPAObj (deleted_HPA app))"

definition ReconcileHPA ::
    "'w env \<Rightarrow> PlatformApplication \<Rightarrow> ('w world, go_error + ApplyResult) state" where
  "ReconcileHPA E app =
     (if \<not> AutoscalingSpec.Enabled (Autoscaling (Spec app)) then deleteHPAIfExists E app
      else Apply E (AppObj app) (HPAObj (buildDesiredHPA app)))"

section \<open>PodDisruptionBudget\<close>

definition pdb_name :: "PlatformApplication \<Rightarrow> string" where
  "pdb_name app = app_Name app @ ''-pdb''"

definition pdb_max_unavailable :: "PlatformApplication \<Rightarrow> IntOrString" where
  "pdb_max_unavailable app =
     (if 4 <s Min (Replicas (Spec app)) then FromString ''25%'' else FromInt32 1)"

definition buildDesiredPDB :: "PlatformApplication \<Rightarrow> PodDisruptionBudget" where
  "buildDesiredPDB app =
     \<lparr>K8sObject.TypeMeta =
        \<lparr>TypeMeta.APIVersion = ''policy/v1'', TypeMeta.Kind = ''PodDisruptionBudget''\<rparr>,
      K8sObject.ObjectMeta = child_meta app (pdb_name app) (CommonLabels (app_Name app)),
      K8sObject.Spec =
        \<lparr>PodDisruptionBudgetSpec.MaxUnavailable = Some (pdb_max_unavailable app),
         PodDisruptionBudgetSpec.Selector = selector_labels (app_Name app)\<rparr>,
      K8sObject.Status = ()\<rparr>"

definition deleted_PDB :: "PlatformApplication \<Rightarrow> PodDisruptionBudget" where
  "deleted_PDB app =
     \<lparr>K8sObject.TypeMeta = zero_TypeMeta,
      K8sObject.ObjectMeta = child_meta app (pdb_name app) [],
      K8sObject.Spec =
        \<lparr>PodDisruptionBudgetSpec.MaxUnavailable = None, PodDisruptionBudgetSpec.Selector = []\<rparr>,
      K8sObject.Status = ()\<rparr>"

definition deletePDBIfExists ::
    "'w env \<Rightarrow> PlatformApplication \<Rightarrow> ('w world, go_error + ApplyResult) state" where
  "deletePDBIfExists E app = delete_then_unchanged E (PDBObj (deleted_PDB app))"

definition ReconcilePDB ::
    "'w env \<Rightarrow> PlatformApplication \<Rightarrow> ('w world, go_error + ApplyResult) state" where
  "ReconcilePDB E app =
     (if Min (Replicas (Spec app)) \<le>s 1 then deletePDBIfExists E app
      else Apply E (AppObj app) (PDBObj (buildDesiredPDB app)))"

end
