(* ===== verification/Networking.thy ===== *)
theory Networking
  imports Workload
begin

text \<open>
  The objects around the network and the monitoring: HTTPRoute and NetworkPolicy of
  \<open>internal/controller/subreconcilers/networking.go\<close> and the ServiceMonitor of
  \<open>internal/controller/subreconcilers/servicemonitor.go\<close>, which is built as unstructured content.
\<close>

section \<open>Helpers\<close>

definition strPtr :: "string \<Rightarrow> string option" where
  "strPtr s = Some s"

definition portPtr :: "int32 \<Rightarrow> int32 option" where
  "portPtr p = Some p"

definition protocolType :: "string option \<Rightarrow> string option" where
  "protocolType p = (case p of None \<Rightarrow> None | Some proto \<Rightarrow> Some proto)"

definition portIntStr :: "int32 \<Rightarrow> IntOrString option" where
  "portIntStr port = Some (FromInt32 port)"

section \<open>HTTPRoute\<close>

definition route_path_prefix :: "PlatformApplication \<Rightarrow> string" where
  "route_path_prefix app =
     (let pathPrefix = PathPrefix (Gateway (Spec app))
      in if pathPrefix = '''' then ''/'' else pathPrefix)"

definition route_hostnames :: "PlatformApplication \<Rightarrow> string list" where
  "route_hostnames app =
     (if Host (Gateway (Spec app)) \<noteq> '''' then [Host (Gateway (Spec app))] else [])"

text \<open>A reference \<open>namespace/name\<close>; one without a slash sets no parent.\<close>

definition route_parents :: "PlatformApplication \<Rightarrow> ParentReference list" where
  "route_parents app =
     (let ref = GatewayRef (Gateway (Spec app)) in
      if ref \<noteq> '''' then
        (case SplitN2 (CHR ''/'') ref of
           [ns, gwName] \<Rightarrow>
             [\<lparr>ParentReference.Group = Some ''gateway.networking.k8s.io'',
               ParentReference.Kind = Some ''Gateway'',
               ParentReference.Namespace = Some ns,
               ParentReference.Name = gwName\<rparr>]
         | _ \<Rightarrow> [])
      else [])"

definition buildDesiredHTTPRoute :: "PlatformApplication \<Rightarrow> HTTPRoute" where
  "buildDesiredHTTPRoute app =
     \<lparr>K8sObject.TypeMeta =
        \<lparr>TypeMeta.APIVersion = ''gateway.networking.k8s.io/v1'', TypeMeta.Kind = ''HTTPRoute''\<rparr>,
      K8sObject.ObjectMeta = child_meta app (app_Name app) (CommonLabels (app_Name app)),
      K8sObject.Spec =
        \<lparr>ParentRefs = route_parents app,
         Hostnames = route_hostnames app,
         Rules =
           [\<lparr>Matches =
               [\<lparr>HTTPRouteMatch.Path = Some
                   \<lparr>HTTPPathMatch.Type = Some ''PathPrefix'',
                    HTTPPathMatch.Value = Some (route_path_prefix app)\<rparr>\<rparr>],
             BackendRefs =
               [\<lparr>HTTPBackendRef.Group = strPtr '''',
                 HTTPBackendRef.Kind = strPtr ''Service'',
                 HTTPBackendRef.Name = app_Name app,
                 HTTPBackendRef.Port = portPtr (ServiceSpec.Port (Service (Spec app)))\<rparr>]\<rparr>]\<rparr>,
      K8sObject.Status = ()\<rparr>"

definition deleted_HTTPRoute :: "PlatformApplication \<Rightarrow> HTTPRoute" where
  "deleted_HTTPRoute app =
     \<lparr>K8sObject.TypeMeta = zero_TypeMeta,
      K8sObject.ObjectMeta = child_meta app (app_Name app) [],
      K8sObject.Spec = \<lparr>ParentRefs = [], Hostnames = [], Rules = []\<rparr>,
      K8sObject.Status = ()\<rparr>"

definition deleteHTTPRouteIfExists ::
    "'w env \<Rightarrow> PlatformApplication \<Rightarrow> ('w world, go_error + ApplyResult) state" where
  "deleteHTTPRouteIfExists E app = delete_then_unchanged E (HTTPRouteObj (deleted_HTTPRoute app))"

definition ReconcileHTTPRoute ::
    "'w env \<Rightarrow> PlatformApplication \<Rightarrow> ('w world, go_error + ApplyResult) state" where
  "ReconcileHTTPRoute E app =
     (if \<not> GatewaySpec.Enabled (Gateway (Spec app)) then deleteHTTPRouteIfExists E app
      else Apply E (AppObj app) (HTTPRouteObj (buildDesiredHTTPRoute app)))"

section \<open>NetworkPolicy\<close>

definition netpol_name :: "PlatformApplication \<Rightarrow> string" where
  "netpol_name app = app_Name app @ ''-netpol''"

definition buildDesiredNetworkPolicy :: "PlatformApplication \<Rightarrow> K8s.NetworkPolicy" where
  "buildDesiredNetworkPolicy app =
     \<lparr>K8sObject.TypeMeta =
        \<lparr>TypeMeta.APIVersion = ''networking.k8s.io/v1'', TypeMeta.Kind = ''NetworkPolicy''\<rparr>,
      K8sObject.ObjectMeta = child_meta app (netpol_name app) (CommonLabels (app_Name app)),
      K8sObject.Spec =
        \<lparr>PodSelector = selector_labels (app_Name app),
         PolicyTypes = [''Ingress'', ''Egress''],
         Ingress =
           [\<lparr>NetworkPolicyIngressRule.Ports =
               [\<lparr>NetworkPolicyPort.Protocol = protocolType (Some ''TCP''),
                 NetworkPolicyPort.Port = portIntStr (ServiceSpec.Port (Service (Spec app)))\<rparr>]\<rparr>],
         Egress = [\<lparr>NetworkPolicyEgressRule.Ports = []\<rparr>]\<rparr>,
      K8sObject.Status = ()\<rparr>"

definition deleted_NetworkPolicy :: "PlatformApplication \<Rightarrow> K8s.NetworkPolicy" where
  "deleted_NetworkPolicy app =
     \<lparr>K8sObject.TypeMeta = zero_TypeMeta,
      K8sObject.ObjectMeta = child_meta app (netpol_name app) [],
      K8sObject.Spec = \<lparr>PodSelector = [], PolicyTypes = [], Ingress = [], Egress = []\<rparr>,
      K8sObject.Status = ()\<rparr>"

definition deleteNetworkPolicyIfExists ::
    "'w env \<Rightarrow> PlatformApplication \<Rightarrow> ('w world, go_error + ApplyResult) state" where
  "deleteNetworkPolicyIfExists E app =
     delete_then_unchanged E (NetworkPolicyObj (deleted_NetworkPolicy app))"

definition ReconcileNetworkPolicy ::
    "'w env \<Rightarrow> PlatformApplication \<Rightarrow> ('w world, go_error + ApplyResult) state" where
  "ReconcileNetworkPolicy E app =
     (if \<not> SecuritySpec.NetworkPolicy (Security (Spec app)) then deleteNetworkPolicyIfExists E app
      else Apply E (AppObj app) (NetworkPolicyObj (buildDesiredNetworkPolicy app)))"

section \<open>ServiceMonitor\<close>

definition monitor_name :: "PlatformApplication \<Rightarrow> string" where
  "monitor_name app = app_Name app @ ''-monitor''"

text \<open>The type that \<open>SetGroupVersionKind\<close> writes.\<close>

definition monitor_type :: TypeMeta where
  "monitor_type =
     \<lparr>TypeMeta.APIVersion = ''monitoring.coreos.com/v1'', TypeMeta.Kind = ''ServiceMonitor''\<rparr>"

definition buildDesiredServiceMonitor :: "PlatformApplication \<Rightarrow> Unstructured" where
  "buildDesiredServiceMonitor app =
     \<lparr>K8sObject.TypeMeta = monitor_type,
      K8sObject.ObjectMeta = child_meta app (monitor_name app) (CommonLabels (app_Name app)),
      K8sObject.Spec = JMap
        [(''selector'', JMap
           [(''matchLabels'', JMap
              [(''app.kubernetes.io/name'', JString (app_Name app)),
               (''app.kubernetes.io/instance'', JString (app_Name app))])]),
         (''endpoints'', JList
           [JMap
              [(''port'', JString ''http''),
               (''path'', JString ''/metrics''),
               (''interval'', JString ''30s'')]])],
      K8sObject.Status = ()\<rparr>"

definition deleted_ServiceMonitor :: "PlatformApplication \<Rightarrow> Unstructured" where
  "deleted_ServiceMonitor app =
     \<lparr>K8sObject.TypeMeta = monitor_type,
      K8sObject.ObjectMeta = child_meta app (monitor_name app) [],
      K8sObject.Spec = JMap [],
      K8sObject.Status = ()\<rparr>"

definition deleteServiceMonitorIfExists ::
    "'w env \<Rightarrow> PlatformApplication \<Rightarrow> ('w world, go_error + ApplyResult) state" where
  "deleteServiceMonitorIfExists E app =
     delete_then_unchanged E (UnstructuredObj (deleted_ServiceMonitor app))"

definition ReconcileServiceMonitor ::
    "'w env \<Rightarrow> PlatformApplication \<Rightarrow> ('w world, go_error + ApplyResult) state" where
  "ReconcileServiceMonitor E app =
     (if \<not> ObservabilitySpec.Metrics (Observability (Spec app)) then deleteServiceMonitorIfExists E app
      else Apply E (AppObj app) (UnstructuredObj (buildDesiredServiceMonitor app)))"

end
