(* ===== verification/Status.thy ===== *)
theory Status
  imports V1alpha1
begin

text \<open>
  The condition management of \<open>internal/status/conditions.go\<close>. The instant that the Go code
  reads with \<open>time.Now()\<close> on entry is the argument \<open>now\<close>; the status that it mutates is
  returned. The loop over \<open>status.Conditions\<close> is a recursion over the list that stops at the first
  condition of the type, as the \<open>return\<close> in its body does.
\<close>

section \<open>Operations\<close>

fun set_in_conditions ::
    "Time \<Rightarrow> string \<Rightarrow> string \<Rightarrow> string \<Rightarrow> string \<Rightarrow> Condition list \<Rightarrow> Condition list" where
  "set_in_conditions now ty st reason msg [] =
     [\<lparr>Condition.Type = ty, Condition.Status = st, Reason = reason, Message = msg,
       LastTransitionTime = now\<rparr>]"
| "set_in_conditions now ty st reason msg (c # cs) =
     (if Condition.Type c = ty then
        (if Condition.Status c \<noteq> st \<or> Reason c \<noteq> reason \<or> Message c \<noteq> msg
         then c\<lparr>Condition.Status := st, Reason := reason, Message := msg,
                LastTransitionTime := now\<rparr>
         else c) # cs
      else c # set_in_conditions now ty st reason msg cs)"

definition SetCondition ::
    "Time \<Rightarrow> PlatformApplicationStatus \<Rightarrow> string \<Rightarrow> string \<Rightarrow> string \<Rightarrow> string \<Rightarrow> PlatformApplicationStatus"
  where
  "SetCondition now status conditionType condStatus reason message =
     status\<lparr>Conditions :=
       set_in_conditions now conditionType condStatus reason message (Conditions status)\<rparr>"

definition SetReady ::
    "Time \<Rightarrow> PlatformApplicationStatus \<Rightarrow> string \<Rightarrow> string \<Rightarrow> string \<Rightarrow> PlatformApplicationStatus" where
  "SetReady now status condStatus reason message =
     SetCondition now status ConditionReady condStatus reason message"

definition SetProgressing ::
    "Time \<Rightarrow> PlatformApplicationStatus \<Rightarrow> string \<Rightarrow> string \<Rightarrow> string \<Rightarrow> PlatformApplicationStatus" where
  "SetProgressing now status condStatus reason message =
     SetCondition now status ConditionProgressing condStatus reason message"

definition SetDegraded ::
    "Time \<Rightarrow> PlatformApplicationStatus \<Rightarrow> string \<Rightarrow> string \<Rightarrow> string \<Rightarrow> PlatformApplicationStatus" where
  "SetDegraded now status condStatus reason message =
     SetCondition now status ConditionDegraded condStatus reason message"

definition SetConfigurationValid ::
    "Time \<Rightarrow> PlatformApplicationStatus \<Rightarrow> string \<Rightarrow> string \<Rightarrow> string \<Rightarrow> PlatformApplicationStatus" where
  "SetConfigurationValid now status condStatus reason message =
     SetCondition now status ConditionConfigurationValid condStatus reason message"

lemmas set_defs = SetReady_def SetProgressing_def SetDegraded_def SetConfigurationValid_def

fun ready_in_conditions :: "Condition list \<Rightarrow> bool" where
  "ready_in_conditions [] = False"
| "ready_in_conditions (c # cs) =
     (if Condition.Type c = ConditionReady then Condition.Status c = ConditionTrue
      else ready_in_conditions cs)"

definition IsReady :: "PlatformApplicationStatus \<Rightarrow> bool" where
  "IsReady status = ready_in_conditions (Conditions status)"

section \<open>The conditions as a map\<close>

text \<open>
  The API declares \<open>conditions\<close> a list keyed by type (\<open>+listType=map\<close>). Abstractly it is a map
  from type to condition; the representation invariant is that no type occurs twice.
\<close>

definition find_condition :: "Condition list \<Rightarrow> string \<Rightarrow> Condition option" where
  "find_condition cs ty = find (\<lambda>c. Condition.Type c = ty) cs"

definition conditions_wf :: "PlatformApplicationStatus \<Rightarrow> bool" where
  "conditions_wf status \<longleftrightarrow> distinct (map Condition.Type (Conditions status))"

definition condition_of :: "PlatformApplicationStatus \<Rightarrow> string \<Rightarrow> Condition option" where
  "condition_of status = find_condition (Conditions status)"

text \<open>The condition that a call of \<open>SetCondition\<close> leaves under its type.\<close>

definition updated_condition ::
    "Time \<Rightarrow> string \<Rightarrow> string \<Rightarrow> string \<Rightarrow> string \<Rightarrow> Condition option \<Rightarrow> Condition" where
  "updated_condition now ty st reason msg old =
     \<lparr>Condition.Type = ty, Condition.Status = st, Reason = reason, Message = msg,
      LastTransitionTime =
        (case old of
           Some c \<Rightarrow> if Condition.Status c = st \<and> Reason c = reason \<and> Message c = msg
                    then LastTransitionTime c else now
         | None \<Rightarrow> now)\<rparr>"

lemma find_condition_Type:
  "find_condition cs ty = Some c \<Longrightarrow> Condition.Type c = ty"
  by (induction cs) (auto simp: find_condition_def split: if_splits)

lemma find_set_same:
  "find_condition (set_in_conditions now ty st reason msg cs) ty =
     Some (updated_condition now ty st reason msg (find_condition cs ty))"
  by (induction cs) (auto simp: find_condition_def updated_condition_def)

lemma find_set_other:
  "ty' \<noteq> ty \<Longrightarrow>
     find_condition (set_in_conditions now ty st reason msg cs) ty' = find_condition cs ty'"
  by (induction cs) (auto simp: find_condition_def)

lemma types_set:
  "map Condition.Type (set_in_conditions now ty st reason msg cs) =
     (if ty \<in> set (map Condition.Type cs) then map Condition.Type cs
      else map Condition.Type cs @ [ty])"
  by (induction cs) auto

lemma condition_of_SetCondition:
  "condition_of (SetCondition now status ty st reason msg) =
     (condition_of status)(ty \<mapsto> updated_condition now ty st reason msg (condition_of status ty))"
  by (rule ext) (simp add: condition_of_def SetCondition_def find_set_same find_set_other)

lemma conditions_wf_SetCondition:
  "conditions_wf status \<Longrightarrow> conditions_wf (SetCondition now status ty st reason msg)"
  by (simp add: conditions_wf_def SetCondition_def types_set)

lemma ready_in_conditions_find:
  "ready_in_conditions cs \<longleftrightarrow>
     (\<exists>c. find_condition cs ConditionReady = Some c \<and> Condition.Status c = ConditionTrue)"
  by (induction cs) (auto simp: find_condition_def)

lemma SetCondition_frame:
  "ObservedGeneration (SetCondition now status ty st reason msg) = ObservedGeneration status"
  "ReadyReplicas (SetCondition now status ty st reason msg) = ReadyReplicas status"
  "URL (SetCondition now status ty st reason msg) = URL status"
  "DeployedVersion (SetCondition now status ty st reason msg) = DeployedVersion status"
  by (simp_all add: SetCondition_def)

section \<open>The store contract\<close>

text \<open>
  What the controller relies on, as an interface: setting a condition is an update of the
  abstract map that keeps the transition time of an unchanged condition, within an invariant.
  The client lemmas are proved from the laws alone.
\<close>

text \<open>A run of updates through a given \<open>SetCondition\<close>.\<close>

fun set_all ::
    "(Time \<Rightarrow> 's \<Rightarrow> string \<Rightarrow> string \<Rightarrow> string \<Rightarrow> string \<Rightarrow> 's) \<Rightarrow>
     's \<Rightarrow> (Time \<times> string \<times> string \<times> string \<times> string) list \<Rightarrow> 's" where
  "set_all set_cond s [] = s"
| "set_all set_cond s ((now, ty, st, reason, msg) # us) =
     set_all set_cond (set_cond now s ty st reason msg) us"

locale condition_store =
  fixes set_cond :: "Time \<Rightarrow> 's \<Rightarrow> string \<Rightarrow> string \<Rightarrow> string \<Rightarrow> string \<Rightarrow> 's"
    and lookup :: "'s \<Rightarrow> string \<Rightarrow> Condition option"
    and inv :: "'s \<Rightarrow> bool"
  assumes lookup_set: "lookup (set_cond now s ty st reason msg) =
      (lookup s)(ty \<mapsto> updated_condition now ty st reason msg (lookup s ty))"
    and inv_set: "inv s \<Longrightarrow> inv (set_cond now s ty st reason msg)"
begin

lemma inv_set_all: "inv s \<Longrightarrow> inv (set_all set_cond s us)"
  by (induction us arbitrary: s) (auto simp: inv_set)

lemma lookup_set_all_other:
  "ty \<notin> (\<lambda>(_, t, _). t) ` set us \<Longrightarrow> lookup (set_all set_cond s us) ty = lookup s ty"
  by (induction us arbitrary: s) (auto simp: lookup_set)

text \<open>Setting a condition again to what it says already changes nothing, whatever the time.\<close>

lemma set_twice:
  "lookup (set_cond t2 (set_cond t1 s ty st reason msg) ty st reason msg) =
   lookup (set_cond t1 s ty st reason msg)"
  by (rule ext) (simp add: lookup_set updated_condition_def)

text \<open>A detour through another reason always moves the transition time.\<close>

lemma detour_moves_time:
  assumes "reason' \<noteq> reason"
  shows "lookup (set_cond t2 (set_cond t1 s ty st' reason' msg') ty st reason msg) ty =
    Some \<lparr>Condition.Type = ty, Condition.Status = st, Reason = reason, Message = msg,
      LastTransitionTime = t2\<rparr>"
  using assms by (simp add: lookup_set updated_condition_def)

end

interpretation conds: condition_store SetCondition condition_of conditions_wf
  by unfold_locales (simp_all add: condition_of_SetCondition conditions_wf_SetCondition)

section \<open>Properties of the conditions\<close>

text \<open>C24. \<open>SetCondition\<close> implements the update of a map from condition types to conditions: the type
  that is set gets the new status, reason and message, with the current time if one of the three has
  changed and the old transition time otherwise; no other type changes; and types stay unique.\<close>

theorem SetCondition_refines_map_update:
  "condition_of (SetCondition now s ty st reason msg) =
     (condition_of s)(ty \<mapsto> updated_condition now ty st reason msg (condition_of s ty)) \<and>
   (conditions_wf (SetCondition now s ty st reason msg) \<longleftrightarrow> conditions_wf s)"
  by (simp add: condition_of_SetCondition) (simp add: conditions_wf_def SetCondition_def types_set)

text \<open>Setting a condition to what it already says is the identity on the status, transition time
  included, whatever the clock shows; the status is ready exactly when its Ready condition is true; and
  setting another type never changes readiness.\<close>

theorem SetCondition_idempotent:
  "SetCondition t2 (SetCondition t1 s ty st reason msg) ty st reason msg = SetCondition t1 s ty st reason msg \<and>
   IsReady (SetReady now s st' reason' msg') = (st' = ConditionTrue) \<and>
   IsReady (SetProgressing now s st' reason' msg') = IsReady s \<and>
   IsReady (SetDegraded now s st' reason' msg') = IsReady s \<and>
   IsReady (SetConfigurationValid now s st' reason' msg') = IsReady s"
proof -
  have "set_in_conditions t2 ty st reason msg (set_in_conditions t1 ty st reason msg cs)
      = set_in_conditions t1 ty st reason msg cs" for cs
    by (induction cs) simp_all
  moreover have "IsReady x \<longleftrightarrow> (\<exists>c. condition_of x ConditionReady = Some c \<and> Condition.Status c = ConditionTrue)" for x
    by (simp add: IsReady_def ready_in_conditions_find condition_of_def)
  ultimately show ?thesis
    by (simp add: set_defs condition_types condition_of_SetCondition updated_condition_def)
      (simp add: SetCondition_def)
qed

end
