(* ===== verification/Tracing.thy ===== *)
theory Tracing
  imports World
begin

text \<open>
  The tracing of \<open>internal/tracing/tracing.go\<close>. Spans are logged by name; the OpenTelemetry SDK
  (resource, exporters, providers) is a parameter of \<open>Init\<close>, whose result is the error or the
  provider it returns together with the provider it installs globally, if any.
\<close>

section \<open>Configuration and initialisation\<close>

record Config =
  Enabled :: bool
  Exporter :: string
  Endpoint :: string
  ServiceName :: string
  Insecure :: bool

definition ExporterOTLP :: string where
  "ExporterOTLP = ''otlp''"

definition ExporterStdout :: string where
  "ExporterStdout = ''stdout''"

definition ExporterNone :: string where
  "ExporterNone = ''none''"

lemmas exporter_defs = ExporterOTLP_def ExporterStdout_def ExporterNone_def

definition DefaultConfig :: Config where
  "DefaultConfig = \<lparr>Enabled = False, Exporter = ExporterNone, Endpoint = '''',
     ServiceName = ''platform-operator'', Insecure = False\<rparr>"

datatype ('r, 'e) Provider = NoopProvider | SDKProvider 'e 'r

datatype Shutdown = ShutdownNoop | ShutdownSDK

record ('r, 'e) TracerProvider =
  provider :: "('r, 'e) Provider"
  shutdown :: "Shutdown option"

record ('r, 'e) otel =
  resource_New :: "string \<Rightarrow> string \<Rightarrow> go_error + 'r"
  otlptracegrpc_New :: "string \<Rightarrow> bool \<Rightarrow> go_error + 'e"
  stdouttrace_New :: "go_error + 'e"
  sdk_Shutdown :: "('r, 'e) Provider \<Rightarrow> go_error option"

text \<open>The exporter that the \<open>switch\<close> selects.\<close>

definition select_exporter :: "('r, 'e) otel \<Rightarrow> Config \<Rightarrow> go_error + 'e" where
  "select_exporter L cfg =
     (if Exporter cfg = ExporterOTLP then
        (case otlptracegrpc_New L (Endpoint cfg) (Insecure cfg) of
           Inl err \<Rightarrow> Inl (WrapError (''creating OTLP exporter: '' @ Error err) err)
         | Inr exp \<Rightarrow> Inr exp)
      else if Exporter cfg = ExporterStdout then
        (case stdouttrace_New L of
           Inl err \<Rightarrow> Inl (WrapError (''creating stdout exporter: '' @ Error err) err)
         | Inr exp \<Rightarrow> Inr exp)
      else Inl (ErrorString (''unknown trace exporter: '' @ Exporter cfg)))"

definition Init ::
    "('r, 'e) otel \<Rightarrow> Config \<Rightarrow>
     (go_error + ('r, 'e) TracerProvider) \<times> ('r, 'e) Provider option" where
  "Init L cfg =
     (if \<not> Enabled cfg \<or> Exporter cfg = ExporterNone then
        (let tp = \<lparr>provider = NoopProvider, shutdown = Some ShutdownNoop\<rparr>
         in (Inr tp, Some (provider tp)))
      else
        (case resource_New L (ServiceName cfg) ''0.1.0'' of
           Inl err \<Rightarrow> (Inl (WrapError (''creating OTel resource: '' @ Error err) err), None)
         | Inr res \<Rightarrow>
             (case select_exporter L cfg of
                Inl err \<Rightarrow> (Inl err, None)
              | Inr exporter \<Rightarrow>
                  (let tp = SDKProvider exporter res
                   in (Inr \<lparr>provider = tp, shutdown = Some ShutdownSDK\<rparr>, Some tp)))))"

definition Shutdown :: "('r, 'e) otel \<Rightarrow> ('r, 'e) TracerProvider \<Rightarrow> go_error option" where
  "Shutdown L tp =
     (case shutdown tp of
        None \<Rightarrow> None
      | Some ShutdownNoop \<Rightarrow> None
      | Some ShutdownSDK \<Rightarrow> sdk_Shutdown L (provider tp))"

section \<open>Spans\<close>

definition StartSpan :: "string \<Rightarrow> attribute list \<Rightarrow> ('w world, unit) state" where
  "StartSpan name attrs =
     emit (SpanStart name (StringAttr ''service.name'' ''platform-operator'' # attrs))"

definition ReconcileAttributes :: "string \<Rightarrow> string \<Rightarrow> int64 \<Rightarrow> attribute list" where
  "ReconcileAttributes name namespace generation =
     [StringAttr ''reconcile.resource'' name,
      StringAttr ''reconcile.namespace'' namespace,
      Int64Attr ''reconcile.generation'' generation]"

definition SubReconcileAttributes :: "string \<Rightarrow> string \<Rightarrow> string \<Rightarrow> attribute list" where
  "SubReconcileAttributes resource appName namespace =
     [StringAttr ''subreconcile.resource'' resource,
      StringAttr ''subreconcile.app'' appName,
      StringAttr ''subreconcile.namespace'' namespace]"

definition CorrelationID :: "string \<Rightarrow> string \<Rightarrow> int64 \<Rightarrow> string" where
  "CorrelationID namespace name generation =
     namespace @ ''/'' @ name @ ''@'' @ fmt_d (sint generation)"

definition ReconcileSpan :: "string \<Rightarrow> string \<Rightarrow> int64 \<Rightarrow> ('w world, unit) state" where
  "ReconcileSpan name namespace generation =
     (let corrID = CorrelationID namespace name generation in
      StartSpan ''reconcile.PlatformApplication''
        [StringAttr ''reconcile.name'' name,
         StringAttr ''reconcile.namespace'' namespace,
         Int64Attr ''reconcile.generation'' generation,
         StringAttr ''reconcile.correlation_id'' corrID])"

definition SubReconcileSpan :: "string \<Rightarrow> string \<Rightarrow> string \<Rightarrow> ('w world, unit) state" where
  "SubReconcileSpan resource appName namespace =
     StartSpan (''subreconcile.'' @ resource) (SubReconcileAttributes resource appName namespace)"

definition RecordResourceEvent ::
    "string \<Rightarrow> string \<Rightarrow> string \<Rightarrow> attribute list \<Rightarrow> ('w world, unit) state" where
  "RecordResourceEvent span resource operation attrs =
     emit (SpanAddEvent span (''resource.'' @ resource @ ''.'' @ operation) attrs)"

lemma only_StartSpan [logs_rules]:
  "(\<And>as. p (SpanStart name as)) \<Longrightarrow> only p (StartSpan name attrs)"
  by (simp add: StartSpan_def logs_rules)

section \<open>Properties\<close>

text \<open>C36. \<open>Init\<close> returns a provider exactly when it installs one globally, and then it is the same one.
  Disabled tracing, or the exporter none, always succeeds with a no-op provider whose shutdown does
  nothing; otherwise the provider is a real one that \<open>Shutdown\<close> shuts down. An error means that tracing
  was wanted and nothing was installed; an exporter other than the three known ones always is an error.\<close>

theorem Init_installs_what_it_returns:
  "(case Init L cfg of
      (Inr tp, installed) \<Rightarrow>
        installed = Some (provider tp) \<and>
        (if Enabled cfg \<and> Exporter cfg \<noteq> ExporterNone
         then provider tp \<noteq> NoopProvider \<and> Shutdown L tp = sdk_Shutdown L (provider tp) \<and>
              Exporter cfg \<in> {ExporterOTLP, ExporterStdout}
         else provider tp = NoopProvider \<and> Shutdown L tp = None)
    | (Inl e, installed) \<Rightarrow> installed = None \<and> Enabled cfg \<and> Exporter cfg \<noteq> ExporterNone)"
  by (auto simp: Init_def select_exporter_def Shutdown_def Let_def split: sum.split)

lemma nat_digits_no_at: "CHR ''@'' \<notin> set (nat_digits n)"
proof (induction n rule: nat_digits.induct)
  case (1 n)
  have "digit_char d \<noteq> CHR ''@''" if "d < 10" for d
    using less_10_cases [OF that] by (auto simp: digit_char_def)
  then have "digit_char (n mod 10) \<noteq> CHR ''@''" "n < 10 \<Longrightarrow> digit_char n \<noteq> CHR ''@''"
    by simp_all
  with 1 show ?case
    by (subst nat_digits.simps) auto
qed

lemma fmt_d_no_at: "CHR ''@'' \<notin> set (fmt_d i)"
  by (simp add: fmt_d_def nat_digits_no_at)

lemma split_last_unique:
  assumes "a @ c # b = a' @ c # b'" and "c \<notin> set b" and "c \<notin> set b'"
  shows "a = a' \<and> b = b'"
  using assms by (auto simp: append_eq_append_conv2 Cons_eq_append_conv append_eq_Cons_conv)

lemma split_first_unique:
  assumes "a @ c # b = a' @ c # b'" and "c \<notin> set a" and "c \<notin> set a'"
  shows "a = a' \<and> b = b'"
  using assms by (auto simp: append_eq_append_conv2 Cons_eq_append_conv append_eq_Cons_conv)

text \<open>Correlation ids are unique: for namespaces without a slash, which API object names never
  contain, two ids are equal only for the same namespace, name and generation.\<close>

theorem CorrelationID_unique:
  assumes "CHR ''/'' \<notin> set ns" and "CHR ''/'' \<notin> set ns'"
  shows "CorrelationID ns name gen = CorrelationID ns' name' gen' \<longleftrightarrow>
         ns = ns' \<and> name = name' \<and> gen = gen'"
proof
  assume "CorrelationID ns name gen = CorrelationID ns' name' gen'"
  then have *: "ns @ CHR ''/'' # (name @ CHR ''@'' # fmt_d (sint gen)) =
      ns' @ CHR ''/'' # (name' @ CHR ''@'' # fmt_d (sint gen'))"
    by (simp add: CorrelationID_def)
  from split_first_unique [OF * assms] have "ns = ns'"
    and "name @ CHR ''@'' # fmt_d (sint gen) = name' @ CHR ''@'' # fmt_d (sint gen')"
    by simp_all
  with split_last_unique [OF this(2) fmt_d_no_at fmt_d_no_at]
  have "ns = ns' \<and> name = name' \<and> fmt_d (sint gen) = fmt_d (sint gen')" by simp
  moreover from this have "sint gen = sint gen'"
    by (metis Atoi_fmt_d fst_conv sint64_bounds)
  ultimately show "ns = ns' \<and> name = name' \<and> gen = gen'"
    by (simp add: sint_inject_iff)
qed simp

theorem CorrelationID_unique_witness:
  "CorrelationID ''prod'' ''web'' 3 \<noteq> CorrelationID ''prod'' ''web'' 12"
  using CorrelationID_unique [of "''prod''" "''prod''" "''web''" 3 "''web''" 12] by simp

end
