(* ===== verification/Controller.thy ===== *)
theory Controller
  imports Networking Status Tracing
begin

text \<open>
  The reconciler of \<open>internal/controller/platformapplication_controller.go\<close>. \<open>Reconcile\<close> is split
  at its deferred calls: \<open>reconcile_body\<close> is the part between the two \<open>defer\<close> statements and the
  end, so that the deferred calls run on every path, a panic included. The application that the
  Go code mutates through its pointer is passed and returned; a client call that gets the pointer
  may overwrite it (\<open>as_app\<close> reads it back; a
  client cannot change the type behind a typed pointer, so its other equations are not reached). Log lines are not modelled.
\<close>

section \<open>Constants and results\<close>

definition finalizerName :: string where
  "finalizerName = ''platform.example.io/cleanup''"

text \<open>Durations are in nanoseconds.\<close>

definition requeueDelay :: int where
  "requeueDelay = 30 * 1000000000"

definition conflictRequeueDelay :: int where
  "conflictRequeueDelay = 1 * 1000000000"

definition progressCheckDelay :: int where
  "progressCheckDelay = 10 * 1000000000"

definition permanentRequeueDelay :: int where
  "permanentRequeueDelay = 5 * 60 * 1000000000"

lemmas delay_defs = requeueDelay_def conflictRequeueDelay_def progressCheckDelay_def
  permanentRequeueDelay_def

text \<open>\<open>ctrl.Result\<close>; the code never sets its other field.\<close>

record Result =
  RequeueAfter :: int

abbreviation no_requeue :: Result where
  "no_requeue \<equiv> \<lparr>RequeueAfter = 0\<rparr>"

abbreviation requeue_after :: "int \<Rightarrow> Result" where
  "requeue_after d \<equiv> \<lparr>RequeueAfter = d\<rparr>"

text \<open>The object behind a pointer that the code holds as a \<open>*PlatformApplication\<close>.\<close>

fun as_app :: "kobject \<Rightarrow> PlatformApplication" where
  "as_app (AppObj app) = app"
| "as_app _ = zero_PlatformApplication"

fun as_deployment_status :: "kobject \<Rightarrow> int32" where
  "as_deployment_status (DeploymentObj dep) = DeploymentStatus.ReadyReplicas (K8sObject.Status dep)"
| "as_deployment_status _ = 0"

section \<open>Child resources\<close>

type_synonym 'w step = "('w world, (go_error + ApplyResult) go) state"

definition no_panic :: "('w world, go_error + ApplyResult) state \<Rightarrow> 'w step" where
  "no_panic m = do { r \<leftarrow> m; return (Ret r) }"

definition sub_reconcilers :: "'w env \<Rightarrow> PlatformApplication \<Rightarrow> (string \<times> 'w step) list" where
  "sub_reconcilers E app =
     [(''Deployment'', ReconcileDeployment E app),
      (''Service'', no_panic (ReconcileService E app)),
      (''HPA'', no_panic (ReconcileHPA E app)),
      (''HTTPRoute'', no_panic (ReconcileHTTPRoute E app)),
      (''NetworkPolicy'', no_panic (ReconcileNetworkPolicy E app)),
      (''PodDisruptionBudget'', no_panic (ReconcilePDB E app)),
      (''ServiceMonitor'', no_panic (ReconcileServiceMonitor E app))]"

definition sub_span :: "string \<Rightarrow> string" where
  "sub_span name = ''subreconcile.'' @ name"

text \<open>The branch of the loop body for a sub-reconciler that returned an error.\<close>

definition sub_failed ::
    "'w env \<Rightarrow> PlatformApplication \<Rightarrow> string \<Rightarrow> Time \<Rightarrow> go_error \<Rightarrow> ('w world, go_error) state" where
  "sub_failed E app name srStart err = do {
     emit (SpanRecordError (sub_span name) (Error err));
     emit (SpanSetStatus (sub_span name) False (Error err));
     emit (SpanEnd (sub_span name));
     srDuration \<leftarrow> time_Since E srStart;
     let classifiedErr = classify_or_wrap (apierr E) err (app_Name app) name;
     ObserveSubReconcile name ''error'' srDuration;
     ObserveError name (class_string (Class classifiedErr));
     emit (RecordEvent ''Warning'' ''ReconcileFailed''
       (''Failed to reconcile '' @ name @ '': '' @ ReconcileError_Error classifiedErr));
     return (WrapError (''reconciling '' @ name @ '': '' @ ReconcileError_Error classifiedErr)
       (AsError classifiedErr)) }"

definition sub_succeeded :: "'w env \<Rightarrow> string \<Rightarrow> Time \<Rightarrow> ('w world, unit) state" where
  "sub_succeeded E name srStart = do {
     srDuration \<leftarrow> time_Since E srStart;
     emit (SpanSetStatus (sub_span name) True '''');
     emit (SpanEnd (sub_span name));
     ObserveSubReconcile name ''success'' srDuration }"

text \<open>The loop over the sub-reconcilers; a panic leaves it at once.\<close>

fun run_subs ::
    "'w env \<Rightarrow> PlatformApplication \<Rightarrow> (string \<times> 'w step) list \<Rightarrow> ('w world, go_error option go) state"
  where
  "run_subs E app [] = return (Ret None)"
| "run_subs E app ((name, fn) # rest) = do {
     srStart \<leftarrow> time_Now E;
     StartSpan (sub_span name) (SubReconcileAttributes name (app_Name app) (app_Namespace app));
     r \<leftarrow> fn;
     (case r of
        Panic m \<Rightarrow> return (Panic m)
      | Ret (Inl err) \<Rightarrow> do {
          e \<leftarrow> sub_failed E app name srStart err;
          return (Ret (Some e)) }
      | Ret (Inr _) \<Rightarrow> do {
          sub_succeeded E name srStart;
          run_subs E app rest }) }"

definition reconcileResources ::
    "'w env \<Rightarrow> PlatformApplication \<Rightarrow> ('w world, go_error option go) state" where
  "reconcileResources E app = run_subs E app (sub_reconcilers E app)"

section \<open>Status\<close>

text \<open>A call of one of the setters of package status, which reads the clock.\<close>

definition set_status ::
    "'w env \<Rightarrow> (Time \<Rightarrow> PlatformApplicationStatus \<Rightarrow> string \<Rightarrow> string \<Rightarrow> string \<Rightarrow> PlatformApplicationStatus) \<Rightarrow>
     string \<Rightarrow> string \<Rightarrow> string \<Rightarrow> PlatformApplication \<Rightarrow> ('w world, PlatformApplication) state" where
  "set_status E set_cond condStatus reason message app = do {
     now \<leftarrow> time_Now E;
     return (app\<lparr>PlatformApplication.Status :=
       set_cond now (PlatformApplication.Status app) condStatus reason message\<rparr>) }"

text \<open>\<open>%d/%d\<close> with the ready and the wanted replicas.\<close>

definition replica_text :: "PlatformApplication \<Rightarrow> string" where
  "replica_text app =
     fmt_d (sint (PlatformApplicationStatus.ReadyReplicas (PlatformApplication.Status app))) @ ''/'' @
     fmt_d (sint (Min (Replicas (PlatformApplication.Spec app))))"

definition all_ready :: "PlatformApplication \<Rightarrow> bool" where
  "all_ready app \<longleftrightarrow>
     Min (Replicas (PlatformApplication.Spec app)) \<le>s
     PlatformApplicationStatus.ReadyReplicas (PlatformApplication.Status app)"

definition setConditions ::
    "'w env \<Rightarrow> PlatformApplication \<Rightarrow> go_error option \<Rightarrow>
     ('w world, Result \<times> PlatformApplication) state" where
  "setConditions E app reconcileErr =
     (case reconcileErr of
        Some err \<Rightarrow> do {
          app \<leftarrow> set_status E SetProgressing ConditionFalse ''ReconcileError'' (Error err) app;
          app \<leftarrow> set_status E SetDegraded ConditionTrue ''ReconcileError'' (Error err) app;
          app \<leftarrow> set_status E SetReady ConditionFalse ''ReconcileError'' ''Reconciliation failed'' app;
          return (no_requeue, app) }
      | None \<Rightarrow>
          if all_ready app then do {
            app \<leftarrow> set_status E SetProgressing ConditionFalse ''Deployed''
              ''All resources reconciled successfully'' app;
            app \<leftarrow> set_status E SetDegraded ConditionFalse ''Healthy'' ''Application is healthy'' app;
            app \<leftarrow> set_status E SetReady ConditionTrue ''Available'' ''Application is available'' app;
            return (no_requeue, app) }
          else do {
            app \<leftarrow> set_status E SetProgressing ConditionTrue ''Deploying''
              (''Waiting for '' @ replica_text app @ '' replicas'') app;
            app \<leftarrow> set_status E SetDegraded ConditionFalse ''Deploying'' ''Deployment is rolling out'' app;
            app \<leftarrow> set_status E SetReady ConditionFalse ''InsufficientReplicas''
              (''Only '' @ replica_text app @ '' replicas ready'') app;
            return (requeue_after progressCheckDelay, app) })"

definition zero_Deployment :: Deployment where
  "zero_Deployment =
     \<lparr>K8sObject.TypeMeta = zero_TypeMeta, K8sObject.ObjectMeta = zero_ObjectMeta,
      K8sObject.Spec =
        \<lparr>DeploymentSpec.Replicas = None, DeploymentSpec.Selector = [],
         DeploymentSpec.Strategy = \<lparr>DeploymentStrategy.Type = '''', RollingUpdate = None\<rparr>,
         Template =
           \<lparr>TemplateLabels = [],
            PodTemplateSpec.Spec =
              \<lparr>PodSpec.SecurityContext = None, Containers = [], Volumes = []\<rparr>\<rparr>\<rparr>,
      K8sObject.Status = \<lparr>DeploymentStatus.ReadyReplicas = 0\<rparr>\<rparr>"

definition updateDeploymentStatus ::
    "'w env \<Rightarrow> PlatformApplication \<Rightarrow> ('w world, PlatformApplication) state" where
  "updateDeploymentStatus E app = do {
     (err, dep) \<leftarrow> client_Get E \<lparr>KeyNamespace = app_Namespace app, KeyName = app_Name app\<rparr>
       (DeploymentObj zero_Deployment);
     (case err of
        Some e \<Rightarrow> return app
      | None \<Rightarrow> return (app\<lparr>PlatformApplication.Status := (PlatformApplication.Status app)
          \<lparr>PlatformApplicationStatus.ReadyReplicas := as_deployment_status dep\<rparr>\<rparr>)) }"

section \<open>Errors and deletion\<close>

definition unknown_error ::
    "go_error \<Rightarrow> int \<Rightarrow> ('w world, Result \<times> go_error option) state" where
  "unknown_error reconcileErr duration = do {
     ObserveReconcile ''error'' duration;
     ObserveError ''unknown'' (class_string ClassUnknown);
     emit (CounterInc ReconcileRequeueTotal [''unknown'']);
     return (requeue_after requeueDelay, Some reconcileErr) }"

definition handleErrorResult ::
    "PlatformApplication \<Rightarrow> go_error \<Rightarrow> int \<Rightarrow> ('w world, Result \<times> go_error option) state" where
  "handleErrorResult app reconcileErr duration =
     (case errors_As reconcileErr of
        Some recErr \<Rightarrow> do {
          ObserveReconcile ''error'' duration;
          ObserveError (ReconcileError.Kind recErr) (class_string (Class recErr));
          (case Class recErr of
             ClassConflict \<Rightarrow> do {
               emit (CounterInc ReconcileRequeueTotal [''conflict'']);
               return (requeue_after conflictRequeueDelay, None) }
           | ClassPermanent \<Rightarrow> do {
               emit (RecordEvent ''Warning'' ''PermanentError''
                 (''Permanent error (manual intervention required): '' @ ReconcileError_Error recErr));
               return (requeue_after permanentRequeueDelay, None) }
           | ClassTransient \<Rightarrow> do {
               emit (CounterInc ReconcileRequeueTotal [''transient'']);
               return (requeue_after requeueDelay, Some reconcileErr) }
           | _ \<Rightarrow> unknown_error reconcileErr duration) }
      | None \<Rightarrow> unknown_error reconcileErr duration)"

definition app_meta_update ::
    "(ObjectMeta \<Rightarrow> string \<Rightarrow> ObjectMeta) \<Rightarrow> PlatformApplication \<Rightarrow> PlatformApplication" where
  "app_meta_update f app =
     app\<lparr>PlatformApplication.ObjectMeta := f (PlatformApplication.ObjectMeta app) finalizerName\<rparr>"

definition handleDeletion ::
    "'w env \<Rightarrow> PlatformApplication \<Rightarrow> ('w world, Result \<times> go_error option) state" where
  "handleDeletion E app =
     (if \<not> ContainsFinalizer E (PlatformApplication.ObjectMeta app) finalizerName
      then return (no_requeue, None)
      else do {
        (uerr, _) \<leftarrow> client_Update E (AppObj (app_meta_update (RemoveFinalizer E) app));
        (case uerr of
           Some err \<Rightarrow>
             if IsConflict (apierr E) err then return (requeue_after conflictRequeueDelay, None)
             else return (no_requeue, Some (WrapError (''removing finalizer: '' @ Error err) err))
         | None \<Rightarrow> do {
             emit (RecordEvent ''Normal'' ''Deleting'' ''Finalizer removed, deletion will proceed'');
             return (no_requeue, None) }) })"

section \<open>Reconcile\<close>

text \<open>The end of \<open>Reconcile\<close>, after the status has been written.\<close>

definition finish ::
    "'w env \<Rightarrow> Time \<Rightarrow> PlatformApplication \<Rightarrow> Result \<Rightarrow> go_error option \<Rightarrow>
     ('w world, Result \<times> go_error option) state" where
  "finish E startTime app result reconcileErr = do {
     emit (CounterInc StatusUpdateTotal [''success'']);
     duration \<leftarrow> time_Since E startTime;
     (case reconcileErr of
        Some err \<Rightarrow> handleErrorResult app err duration
      | None \<Rightarrow> do {
          ObserveReconcile ''success'' duration;
          if \<not> all_ready app then do {
            emit (CounterInc ReconcileRequeueTotal [''replicas_not_ready'']);
            return (requeue_after progressCheckDelay, None) }
          else return (result, None) }) }"

definition status_update_failed ::
    "'w env \<Rightarrow> go_error \<Rightarrow> ('w world, Result \<times> go_error option) state" where
  "status_update_failed E err = do {
     emit (CounterInc StatusUpdateTotal [''error'']);
     if IsConflict (apierr E) err then do {
       emit (CounterInc StatusUpdateTotal [''conflict'']);
       emit (CounterInc ReconcileRequeueTotal [''status_conflict'']);
       return (requeue_after conflictRequeueDelay, None) }
     else return (no_requeue, Some err) }"

text \<open>The fields of the status that are set from the spec and the metadata.\<close>

definition observe_spec :: "PlatformApplication \<Rightarrow> PlatformApplication" where
  "observe_spec app =
     app\<lparr>PlatformApplication.Status := (PlatformApplication.Status app)
       \<lparr>ObservedGeneration := Generation (PlatformApplication.ObjectMeta app),
        DeployedVersion := Tag (Image (PlatformApplication.Spec app))\<rparr>\<rparr>"

definition set_url :: "PlatformApplication \<Rightarrow> PlatformApplication" where
  "set_url app =
     (let g = Gateway (PlatformApplication.Spec app) in
      if GatewaySpec.Enabled g \<and> Host g \<noteq> ''''
      then app\<lparr>PlatformApplication.Status :=
             (PlatformApplication.Status app)\<lparr>URL := ''https://'' @ Host g\<rparr>\<rparr>
      else app)"

text \<open>Step 4: the status is built and written whatever the sub-reconcilers returned.\<close>

definition report_status ::
    "'w env \<Rightarrow> Time \<Rightarrow> PlatformApplication \<Rightarrow> go_error option \<Rightarrow>
     ('w world, Result \<times> go_error option) state" where
  "report_status E startTime app reconcileErr = do {
     app \<leftarrow> updateDeploymentStatus E (observe_spec app);
     (result, app) \<leftarrow> setConditions E app reconcileErr;
     (serr, obj) \<leftarrow> client_StatusUpdate E (AppObj (set_url app));
     (case serr of
        Some err \<Rightarrow> status_update_failed E err
      | None \<Rightarrow> finish E startTime (as_app obj) result reconcileErr) }"

text \<open>From the start of the reconciliation proper: the finalizer is present.\<close>

definition reconcile_live ::
    "'w env \<Rightarrow> Time \<Rightarrow> PlatformApplication \<Rightarrow> ('w world, (Result \<times> go_error option) go) state" where
  "reconcile_live E startTime app = do {
     app \<leftarrow> set_status E SetProgressing ConditionTrue ''Reconciling'' ''Reconciliation in progress'' app;
     app \<leftarrow> set_status E SetConfigurationValid ConditionTrue ''Valid'' ''Configuration is valid'' app;
     r \<leftarrow> reconcileResources E app;
     (case r of
        Panic m \<Rightarrow> return (Panic m)
      | Ret reconcileErr \<Rightarrow> do {
          res \<leftarrow> report_status E startTime app reconcileErr;
          return (Ret res) }) }"

definition add_finalizer ::
    "'w env \<Rightarrow> PlatformApplication \<Rightarrow> ('w world, Result \<times> go_error option) state" where
  "add_finalizer E app = do {
     (uerr, _) \<leftarrow> client_Update E (AppObj (app_meta_update (AddFinalizer E) app));
     (case uerr of
        Some err \<Rightarrow> return (no_requeue, Some (WrapError (''adding finalizer: '' @ Error err) err))
      | None \<Rightarrow> return (no_requeue, None)) }"

definition fetch_failed ::
    "'w env \<Rightarrow> go_error \<Rightarrow> ('w world, Result \<times> go_error option) state" where
  "fetch_failed E err =
     (if IsNotFound (apierr E) err then return (no_requeue, None)
      else do {
        ObserveError ''fetch_error'' (class_string (Classify (apierr E) (Some err)));
        return (no_requeue, Some err) })"

definition reconcile_body ::
    "'w env \<Rightarrow> ObjectKey \<Rightarrow> Time \<Rightarrow> ('w world, (Result \<times> go_error option) go) state" where
  "reconcile_body E req startTime = do {
     (gerr, obj) \<leftarrow> client_Get E req (AppObj zero_PlatformApplication);
     (case gerr of
        Some err \<Rightarrow> do { r \<leftarrow> fetch_failed E err; return (Ret r) }
      | None \<Rightarrow>
          let app = as_app obj in
          if \<not> Time_IsZero (DeletionTimestamp (PlatformApplication.ObjectMeta app))
          then do { r \<leftarrow> handleDeletion E app; return (Ret r) }
          else if \<not> ContainsFinalizer E (PlatformApplication.ObjectMeta app) finalizerName
          then do { r \<leftarrow> add_finalizer E app; return (Ret r) }
          else reconcile_live E startTime app) }"

definition reconcile_span :: string where
  "reconcile_span = ''reconcile.PlatformApplication''"

definition Reconcile ::
    "'w env \<Rightarrow> ObjectKey \<Rightarrow> ('w world, (Result \<times> go_error option) go) state" where
  "Reconcile E req = do {
     startTime \<leftarrow> time_Now E;
     emit (GaugeInc ActiveReconcilers);
     StartSpan reconcile_span
       [StringAttr ''reconcile.name'' (KeyName req),
        StringAttr ''reconcile.namespace'' (KeyNamespace req)];
     r \<leftarrow> reconcile_body E req startTime;
     emit (SpanEnd reconcile_span);
     emit (GaugeDec ActiveReconcilers);
     return r }"

section \<open>Setup\<close>

text \<open>
  The fields of the reconciler that \<open>SetupWithManager\<close> reads, and what it hands to the
  controller builder: the watched types and the options. Recorders are opaque.
\<close>

record 'r PlatformApplicationReconciler =
  Recorder :: "'r option"
  Concurrency :: int

record controller_setup =
  For :: gotype
  Owns :: "gotype list"
  Named :: string
  MaxConcurrentReconciles :: int

definition effective_concurrency :: "int \<Rightarrow> int" where
  "effective_concurrency concurrency = (if concurrency < 1 then 1 else concurrency)"

definition controller_options :: "'r PlatformApplicationReconciler \<Rightarrow> controller_setup" where
  "controller_options r =
     \<lparr>For = AppT, Owns = [DeploymentT], Named = ''platformapplication'',
      MaxConcurrentReconciles = effective_concurrency (Concurrency r)\<rparr>"

text \<open>The manager's recorder factory and the builder's \<open>Complete\<close> are parameters.\<close>

definition SetupWithManager ::
    "(string \<Rightarrow> 'r) \<Rightarrow> (controller_setup \<Rightarrow> go_error option) \<Rightarrow> 'r PlatformApplicationReconciler \<Rightarrow>
     'r PlatformApplicationReconciler \<times> go_error option" where
  "SetupWithManager GetEventRecorderFor Complete r =
     (let r = (if Recorder r = None
               then r\<lparr>Recorder := Some (GetEventRecorderFor ''platform-operator'')\<rparr> else r)
      in (r, Complete (controller_options r)))"

end
