(* ===== verification/Children.thy ===== *)
theory Children
  imports Networking Webhook_V1alpha1
begin

text \<open>
  Properties of the desired child objects taken together: label selection between them, ports,
  names, replica counts, configuration, quantities and routes. \<open>selects\<close> is the matching rule of
  label selectors.
\<close>

section \<open>Labels and selectors\<close>

definition selects :: "gomap \<Rightarrow> gomap \<Rightarrow> bool" where
  "selects sel labels \<longleftrightarrow> list_all (\<lambda>(k, v). map_of labels k = Some v) sel"

lemma wf_CommonLabels [simp]: "wf_map (CommonLabels n)"
  by (simp add: wf_map_def CommonLabels_def)

lemma merge_into_map_of:
  "wf_map m \<Longrightarrow> map_of (merge_into r m) = map_of r ++ map_of m"
proof (induction r m rule: merge_into.induct)
  case (2 r k v m)
  then have "map_of m k = None"
    by (auto simp: wf_map_def map_of_eq_None_iff)
  with 2 show ?case
    by (auto simp: wf_map_def update_conv' map_add_def fun_eq_iff split: option.split)
qed simp

lemma wf_merge_into: "wf_map r \<Longrightarrow> wf_map (merge_into r m)"
  by (induction r m rule: merge_into.induct) simp_all

lemma merge_all_map_of:
  "\<forall>m \<in> set ms. wf_map m \<Longrightarrow> map_of (merge_all r ms) = foldl (++) (map_of r) (map map_of ms)"
  by (induction r ms rule: merge_all.induct) (simp_all add: merge_into_map_of)

lemma map_of_MergeLabels:
  "\<forall>m \<in> set ms. wf_map m \<Longrightarrow> map_of (MergeLabels ms) = foldl (++) Map.empty (map map_of ms)"
  by (simp add: MergeLabels_def merge_all_map_of)

lemma wf_merge_all: "wf_map r \<Longrightarrow> wf_map (merge_all r ms)"
  by (induction r ms rule: merge_all.induct) (simp_all add: wf_merge_into)

lemma wf_MergeLabels: "wf_map (MergeLabels ms)"
  by (simp add: MergeLabels_def wf_merge_all)

text \<open>\<open>MergeLabels\<close> merges maps so that later ones override earlier ones: its result looks up
  like the maps added from left to right, whatever order each map's entries are visited in.\<close>

theorem MergeLabels_overrides:
  assumes "list_all2 (\<lambda>m m'. mset m = mset m') ms ms'" and "\<forall>m \<in> set ms. wf_map m"
  shows "map_of (MergeLabels ms') = foldl (++) Map.empty (map map_of ms)"
proof -
  have "map map_of ms = map map_of ms' \<and> (\<forall>m \<in> set ms'. wf_map m)"
    using assms
  proof (induction rule: list_all2_induct)
    case (Cons m ms m' ms')
    then have "map_of m = map_of m'"
      by (intro map_of_mset_eq) simp_all
    moreover have "wf_map m'"
      using Cons by (simp add: wf_map_def) (metis mset_eq_imp_distinct_iff mset_map)
    ultimately show ?case using Cons by simp
  qed simp
  then show ?thesis
    by (simp add: map_of_MergeLabels)
qed

theorem MergeLabels_overrides_witness:
  "map_of (MergeLabels [[(''b'', ''2''), (''a'', ''1'')], [(''a'', ''3'')]]) ''a'' = Some ''3''"
  using MergeLabels_overrides [of "[[(''a'', ''1''), (''b'', ''2'')], [(''a'', ''3'')]]"
      "[[(''b'', ''2''), (''a'', ''1'')], [(''a'', ''3'')]]"]
  by (simp add: wf_map_def add_mset_commute)

lemma desired_labels_map:
  "map_of (desired_labels app) =
     map_of (CommonLabels (app_Name app)) ++
     [''app.kubernetes.io/instance'' \<mapsto> app_Name app,
      ''app.kubernetes.io/version'' \<mapsto> Tag (Image (Spec app))]"
  by (subst desired_labels_def, subst map_of_MergeLabels) (auto simp: wf_map_def CommonLabels_def)

lemma selects_desired_labels:
  "selects (selector_labels n) (desired_labels app) \<longleftrightarrow> n = app_Name app"
  by (auto simp: selects_def selector_labels_def desired_labels_map CommonLabels_def map_add_def)

text \<open>The pod labels and the selectors that look for them.\<close>

definition pod_labels :: "Deployment \<Rightarrow> gomap" where
  "pod_labels dep = TemplateLabels (Template (K8sObject.Spec dep))"

definition pod_selectors :: "Deployment \<Rightarrow> PlatformApplication \<Rightarrow> gomap list" where
  "pod_selectors dep app =
     [DeploymentSpec.Selector (K8sObject.Spec dep),
      CoreServiceSpec.Selector (K8sObject.Spec (buildDesiredService app)),
      PodDisruptionBudgetSpec.Selector (K8sObject.Spec (buildDesiredPDB app)),
      PodSelector (K8sObject.Spec (buildDesiredNetworkPolicy app))]"

lemma pod_selectors_eq:
  "buildDesiredDeployment parse app = Ret dep \<Longrightarrow>
   pod_selectors dep app = replicate 4 (selector_labels (app_Name app)) \<and>
   pod_labels dep = desired_labels app"
  by (auto simp: deployment_defs go_bind_Ret_iff pod_selectors_def pod_labels_def
      buildDesiredService_def buildDesiredPDB_def buildDesiredNetworkPolicy_def eval_nat_numeral)

text \<open>C18. In every application whose Deployment can be built, the selectors of the Deployment, the
  Service, the disruption budget and the network policy all select the pods of the application's own
  pod template, and none of them selects the pods of an application with another name.\<close>

theorem selectors_select_own_pods:
  assumes "buildDesiredDeployment parse app = Ret dep"
    and "buildDesiredDeployment parse other = Ret dep'"
  shows "list_all (\<lambda>sel. selects sel (pod_labels dep)) (pod_selectors dep app) \<and>
         ((\<exists>sel \<in> set (pod_selectors dep app). selects sel (pod_labels dep')) \<longleftrightarrow>
          app_Name other = app_Name app)"
  using pod_selectors_eq [OF assms(1)] pod_selectors_eq [OF assms(2)]
  by (auto simp: selects_desired_labels list_all_iff)

text \<open>The selector of the ServiceMonitor, read out of its unstructured content.\<close>

fun json_field :: "string \<Rightarrow> json \<Rightarrow> json option" where
  "json_field k (JMap m) = map_of m k"
| "json_field k _ = None"

fun json_labels :: "json \<Rightarrow> gomap" where
  "json_labels (JMap m) = List.map_filter (\<lambda>(k, v). case v of JString s \<Rightarrow> Some (k, s) | _ \<Rightarrow> None) m"
| "json_labels _ = []"

definition monitor_selector :: "Unstructured \<Rightarrow> gomap" where
  "monitor_selector sm =
     (case json_field ''selector'' (K8sObject.Spec sm) of
        Some sel \<Rightarrow> (case json_field ''matchLabels'' sel of Some l \<Rightarrow> json_labels l | None \<Rightarrow> [])
      | None \<Rightarrow> [])"

lemma monitor_selector_eq:
  "monitor_selector (buildDesiredServiceMonitor app) = selector_labels (app_Name app)"
  by (simp add: monitor_selector_def buildDesiredServiceMonitor_def selector_labels_def
      map_filter_simps)

text \<open>C27. The ServiceMonitor of an application selects Services by the same two labels, but the
  Service that the operator builds does not carry \<open>app.kubernetes.io/instance\<close>: the monitor selects
  the Service of no application, its own included, so no endpoint is ever scraped through it.\<close>

theorem monitor_selects_no_service:
  "\<not> selects (monitor_selector (buildDesiredServiceMonitor app))
       (Labels (K8sObject.ObjectMeta (buildDesiredService other)))"
  by (simp add: monitor_selector_eq selects_def selector_labels_def buildDesiredService_def
      child_meta_def CommonLabels_def)

section \<open>Ports\<close>

definition container_ports :: "Deployment \<Rightarrow> ContainerPort list" where
  "container_ports dep =
     concat (map Container.Ports (Containers (PodTemplateSpec.Spec (Template (K8sObject.Spec dep)))))"

text \<open>The container port that a target port of a Service denotes, by name or by number.\<close>

definition resolve_port :: "ContainerPort list \<Rightarrow> IntOrString \<Rightarrow> int32 option" where
  "resolve_port ps t =
     (case t of
        FromInt32 n \<Rightarrow> Some n
      | FromString s \<Rightarrow>
          map_option ContainerPort.ContainerPort (find (\<lambda>p. ContainerPort.Name p = s) ps))"

text \<open>C26. The path of a request is closed: the one backend of the one rule of the HTTPRoute is the
  Service's name and port; the Service's target resolves to the port that the container opens, by its
  name; and the network policy admits TCP on exactly that port. All of them are \<open>spec.service.port\<close>.\<close>

theorem request_path:
  assumes "buildDesiredDeployment parse app = Ret dep"
  shows "map (\<lambda>p. (ServicePort.Port p, resolve_port (container_ports dep) (TargetPort p)))
           (CoreServiceSpec.Ports (K8sObject.Spec (buildDesiredService app)))
         = [(ServiceSpec.Port (Service (Spec app)), Some (ServiceSpec.Port (Service (Spec app))))]
       \<and> concat (map BackendRefs (Rules (K8sObject.Spec (buildDesiredHTTPRoute app))))
         = [\<lparr>HTTPBackendRef.Group = Some '''', HTTPBackendRef.Kind = Some ''Service'',
             HTTPBackendRef.Name = ObjectMeta.Name (K8sObject.ObjectMeta (buildDesiredService app)),
             HTTPBackendRef.Port = Some (ServiceSpec.Port (Service (Spec app)))\<rparr>]
       \<and> map NetworkPolicyIngressRule.Ports (Ingress (K8sObject.Spec (buildDesiredNetworkPolicy app)))
         = [[\<lparr>NetworkPolicyPort.Protocol = Some ''TCP'',
              NetworkPolicyPort.Port = Some (FromInt32 (ServiceSpec.Port (Service (Spec app))))\<rparr>]]"
  using assms
  by (auto simp: deployment_defs go_bind_Ret_iff container_ports_def resolve_port_def
      desired_container_def buildDesiredService_def buildDesiredHTTPRoute_def
      buildDesiredNetworkPolicy_def child_meta_def strPtr_def portPtr_def protocolType_def
      portIntStr_def)

section \<open>Configuration\<close>

lemma wf_map_map_of: "wf_map m \<Longrightarrow> (k, v) \<in> set m \<Longrightarrow> map_of m k = Some v"
  by (simp add: wf_map_def)

lemma map_map_index: "wf_map m \<Longrightarrow> map (\<lambda>k. (k, map_index m k)) (map fst m) = m"
  unfolding map_map by (rule map_idI) (auto simp: map_index_def wf_map_map_of)

lemma desired_env_eq:
  "desired_env app = map (\<lambda>k. \<lparr>EnvVar.Name = k, EnvVar.Value = map_index (Configuration (Spec app)) k\<rparr>)
     (sort_Strings (map fst (Configuration (Spec app))))"
  by (simp add: desired_env_def sort_Strings_def Let_def)

text \<open>C33. The environment of the container is the configuration map, with the variables in strictly
  ascending order of their names, and it does not depend on the order in which the map is iterated:
  two enumerations of one map give the same list.\<close>

theorem env_deterministic:
  assumes "wf_map (Configuration (Spec app))"
    and "mset (Configuration (Spec app')) = mset (Configuration (Spec app))"
  shows "desired_env app' = desired_env app \<and>
         sorted_wrt (<) (map EnvVar.Name (desired_env app)) \<and>
         mset (map (\<lambda>e. (EnvVar.Name e, EnvVar.Value e)) (desired_env app)) = mset (Configuration (Spec app))"
proof (intro conjI)
  let ?m = "Configuration (Spec app)"
  have "map_of (Configuration (Spec app')) = map_of ?m"
    by (rule map_of_mset_eq [OF assms(1) assms(2) [symmetric], symmetric])
  moreover have "sort_Strings (map fst (Configuration (Spec app'))) = sort_Strings (map fst ?m)"
    by (rule sort_Strings_mset_eq) (metis assms(2) mset_map)
  ultimately show "desired_env app' = desired_env app"
    by (simp add: desired_env_eq map_index_def)
  have "distinct (sort_Strings (map fst ?m))"
    using assms(1) by (simp add: wf_map_def sort_Strings_def)
  then show "sorted_wrt (<) (map EnvVar.Name (desired_env app))"
    by (simp add: desired_env_eq sort_Strings_def o_def strict_sorted_iff)
  have "map (\<lambda>k. (k, map_index ?m k)) (map fst ?m) = ?m"
    by (rule map_map_index [OF assms(1)])
  moreover have "mset (map (\<lambda>k. (k, map_index ?m k)) (sort_Strings (map fst ?m)))
      = mset (map (\<lambda>k. (k, map_index ?m k)) (map fst ?m))"
    by (simp only: mset_map sort_Strings_def mset_sort)
  ultimately show "mset (map (\<lambda>e. (EnvVar.Name e, EnvVar.Value e)) (desired_env app)) = mset ?m"
    by (simp add: desired_env_eq o_def)
qed

section \<open>Quantities\<close>

text \<open>The quantity texts of the spec, in the order in which they are parsed.\<close>

definition quantity_texts :: "PlatformApplication \<Rightarrow> string list" where
  "quantity_texts app =
     (let r = Resources (Spec app) in
      filter (\<lambda>s. s \<noteq> '''')
        [CPU (ResourcesSpec.Requests r), Memory (ResourcesSpec.Requests r),
         CPU (ResourcesSpec.Limits r), Memory (ResourcesSpec.Limits r)])"

lemma MustParse_panic: "MustParse parse s = Panic m \<longleftrightarrow> parse s = None \<and> m = s"
  by (auto simp: MustParse_def split: option.split)

lemma MustParse_Ret: "MustParse parse s = Ret q \<longleftrightarrow> parse s = Some q"
  by (auto simp: MustParse_def split: option.split)

lemma find_append: "find P (xs @ ys) = (case find P xs of None \<Rightarrow> find P ys | Some x \<Rightarrow> Some x)"
  by (induction xs) auto

lemma resource_list_panic:
  "resource_list parse r = Panic m \<longleftrightarrow>
     find (\<lambda>s. parse s = None) (filter (\<lambda>s. s \<noteq> []) [CPU r, Memory r]) = Some m"
  by (cases "parse (CPU r)"; cases "parse (Memory r)"; cases "CPU r = []"; cases "Memory r = []")
    (auto simp: resource_list_def MustParse_def)

lemma desired_resources_panic:
  "desired_resources parse app = Panic m \<longleftrightarrow> find (\<lambda>s. parse s = None) (quantity_texts app) = Some m"
proof -
  let ?r = "Resources (Spec app)"
  let ?find = "\<lambda>rs. find (\<lambda>s. parse s = None) (filter (\<lambda>s. s \<noteq> []) [CPU rs, Memory rs])"
  have texts: "find (\<lambda>s. parse s = None) (quantity_texts app) =
      (case ?find (ResourcesSpec.Requests ?r) of None \<Rightarrow> ?find (ResourcesSpec.Limits ?r) | Some x \<Rightarrow> Some x)"
    by (subst find_append [symmetric]) (simp add: quantity_texts_def Let_def)
  show ?thesis
  proof (cases "resource_list parse (ResourcesSpec.Requests ?r)")
    case (Ret x)
    then have "?find (ResourcesSpec.Requests ?r) = None"
      using resource_list_panic [of parse "ResourcesSpec.Requests ?r"] by (cases "?find (ResourcesSpec.Requests ?r)") simp_all
    with Ret texts show ?thesis
      by (simp add: desired_resources_def Let_def go_bind_Panic_iff resource_list_panic)
  next
    case (Panic x)
    then have "?find (ResourcesSpec.Requests ?r) = Some x"
      using resource_list_panic by blast
    with Panic texts show ?thesis
      by (simp add: desired_resources_def Let_def)
  qed
qed

text \<open>C31. Building the Deployment panics exactly when one of the quantity texts given in the spec does
  not parse, and the panic is that of the first such text in the order requests before limits, CPU
  before memory.\<close>

theorem build_panics_iff:
  "buildDesiredDeployment parse app = Panic m \<longleftrightarrow>
     find (\<lambda>s. parse s = None) (quantity_texts app) = Some m"
  by (simp add: deployment_defs go_bind_Panic_iff desired_resources_panic)

section \<open>Replicas and rollout\<close>

text \<open>The numbers of replicas that the children of one application ask for, as integers.\<close>

definition replica_counts :: "PlatformApplication \<Rightarrow> int \<times> int \<times> int" where
  "replica_counts app =
     (sint (desired_replicas app),
      sint (the (MinReplicas (K8sObject.Spec (buildDesiredHPA app)))),
      sint (MaxReplicas (K8sObject.Spec (buildDesiredHPA app))))"

lemma desired_replicas_sint:
  "sint (desired_replicas app) = max 1 (sint (Min (Replicas (Spec app))))"
  by (simp add: desired_replicas_def Let_def int32_simps)

lemma hpa_max_sint:
  "sint (hpa_max_replicas app) =
     max (sint (Min (Replicas (Spec app)))) (sint (Max (Replicas (Spec app))))"
  by (simp add: hpa_max_replicas_def Let_def int32_simps)

text \<open>The same application with other settings of the autoscaler.\<close>

definition with_autoscaling :: "AutoscalingSpec \<Rightarrow> PlatformApplication \<Rightarrow> PlatformApplication" where
  "with_autoscaling a app =
     app\<lparr>PlatformApplication.Spec := (PlatformApplication.Spec app)\<lparr>Autoscaling := a\<rparr>\<rparr>"

lemma deployment_ignores_autoscaling:
  "buildDesiredDeployment parse (with_autoscaling a app) = buildDesiredDeployment parse app"
proof -
  have "child_meta (with_autoscaling a app) n l = child_meta app n l" for n l
    by (simp add: child_meta_def with_autoscaling_def)
  note meta = this [unfolded with_autoscaling_def]
  show ?thesis
    by (simp add: deployment_defs meta with_autoscaling_def desired_labels_def desired_replicas_def probe_port_def
        liveness_probe_def readiness_probe_def desired_env_def desired_strategy_def desired_container_def
        desired_resources_def)
qed

text \<open>How many of \<open>d\<close> pods a disruption budget lets be down: the number itself, or the percentage, which the
  disruption controller of Kubernetes rounds up.\<close>

definition pods_let_down :: "int \<Rightarrow> IntOrString \<Rightarrow> int" where
  "pods_let_down d budget =
     (case budget of
        FromInt32 k \<Rightarrow> sint k
      | FromString s \<Rightarrow> (d * mustAtoi (butlast s) + 99) div 100)"

lemma percent_25: "mustAtoi (butlast ''25%'') = 25"
proof -
  have "nat_digits 2 = ''2''"
    by (subst nat_digits.simps) (simp add: digit_char_def)
  then have "nat_digits 25 = ''25''"
    by (subst nat_digits.simps) (simp add: digit_char_def)
  then have "butlast ''25%'' = fmt_d 25" by (simp add: fmt_d_def)
  moreover have "Atoi (fmt_d 25) = (25, None)" by (rule Atoi_fmt_d) simp_all
  ultimately show ?thesis
    by (simp only: mustAtoi_def fst_conv)
qed

lemma pods_let_down_percent: "pods_let_down d (FromString ''25%'') = (d * 25 + 99) div 100"
  by (simp only: pods_let_down_def IntOrString.case percent_25)

text \<open>A budget for \<open>d\<close> replicas: one pod up to four replicas and 25 percent above, which lets at least one be
  down, so that a drain can proceed, and keeps at least one up.\<close>

definition sensible_budget :: "int \<Rightarrow> IntOrString \<Rightarrow> bool" where
  "sensible_budget d budget \<longleftrightarrow>
     (if d \<le> 4 then budget = FromInt32 1 else budget = FromString ''25%'') \<and>
     0 < pods_let_down d budget \<and> pods_let_down d budget < d"

lemma pdb_sensible:
  assumes "1 < sint (desired_replicas app)"
  shows "sensible_budget (sint (desired_replicas app)) (pdb_max_unavailable app)"
proof (cases "sint (desired_replicas app) \<le> 4")
  case True
  then have "pdb_max_unavailable app = FromInt32 1"
    by (simp add: pdb_max_unavailable_def desired_replicas_sint int32_simps)
  with True assms show ?thesis
    by (simp add: sensible_budget_def pods_let_down_def)
next
  case False
  then have "pdb_max_unavailable app = FromString ''25%''"
    by (simp add: pdb_max_unavailable_def desired_replicas_sint int32_simps)
  moreover have "0 < (d * 25 + 99) div 100 \<and> (d * 25 + 99) div 100 < d" if "1 < d" for d :: int
    using that div_mult_mod_eq [of "d * 25 + 99" 100] pos_mod_bound [of 100 "d * 25 + 99"] pos_mod_sign [of 100 "d * 25 + 99"]
    by linarith
  ultimately show ?thesis
    using False assms by (simp only: sensible_budget_def pods_let_down_percent) simp
qed

lemma ReconcilePDB_by_replicas:
  "ReconcilePDB E app =
     (if sint (desired_replicas app) \<le> 1 then deletePDBIfExists E app
      else Apply E (AppObj app) (PDBObj (buildDesiredPDB app)))"
  by (simp add: ReconcilePDB_def desired_replicas_sint int32_simps)

text \<open>C32. The Deployment always asks for at least one replica, and the autoscaler's bounds are in
  order. For an application that the webhook admits, the Deployment asks for the autoscaler's minimum,
  which is \<open>spec.replicas.min\<close>. A disruption budget is reconciled exactly when the Deployment asks for more
  than one replica, and deleted otherwise; it lets one pod be down up to four replicas and 25 percent above,
  and of the replicas that the Deployment asks for it lets at least one be down, so that a drain can
  proceed, and keeps at least one up. The Deployment is the
  same whatever the settings of the autoscaler: it pins this number of replicas also when autoscaling is
  enabled.\<close>

theorem replica_counts_coherent:
  "(case replica_counts app of (d, mn, mx) \<Rightarrow>
      1 \<le> d \<and> mn \<le> mx \<and>
      (if valid_app app
       then d = mn \<and> mn = sint (Min (Replicas (Spec app))) \<and> mx = max mn (sint (Max (Replicas (Spec app))))
       else True) \<and>
      (if d \<le> 1 then ReconcilePDB E app = deletePDBIfExists E app
       else ReconcilePDB E app = Apply E (AppObj app) (PDBObj (buildDesiredPDB app)) \<and>
         (case PodDisruptionBudgetSpec.MaxUnavailable (K8sObject.Spec (buildDesiredPDB app)) of
            None \<Rightarrow> False
          | Some budget \<Rightarrow> sensible_budget d budget))) \<and>
   buildDesiredDeployment parse (with_autoscaling a app) = buildDesiredDeployment parse app \<and>
   DeploymentSpec.Replicas (K8sObject.Spec (desired_deployment app resources)) = Some (desired_replicas app)"
proof -
  have admitted: "sint (desired_replicas app) = sint (Min (Replicas (Spec app)))" if "valid_app app"
    using that by (simp add: desired_replicas_sint valid_app_def Let_def int32_simps)
  have "1 \<le> sint (desired_replicas app)"
    by (simp add: desired_replicas_sint)
  then show ?thesis
    using pdb_sensible [of app] admitted
    by (auto simp: replica_counts_def buildDesiredHPA_def hpa_max_sint ReconcilePDB_by_replicas buildDesiredPDB_def
        deployment_ignores_autoscaling desired_deployment_def)
qed

text \<open>A bound of the rolling update that is written as a decimal integer \<open>i\<close> within the range of
  Go's \<open>int\<close> becomes a number, the residue of \<open>i\<close> in 32 bits: it is \<open>i\<close> itself exactly for the
  int32 range, and wraps around outside it.\<close>

theorem rollout_bound_number:
  assumes "- (2 ^ 63) \<le> i" and "i < 2 ^ 63"
  shows "\<exists>w. rollout_bound (fmt_d i) = FromInt32 w \<and> sint w mod 2 ^ 32 = i mod 2 ^ 32 \<and>
             (sint w = i \<longleftrightarrow> - (2 ^ 31) \<le> i \<and> i < 2 ^ 31)"
proof (intro exI conjI)
  let ?w = "word_of_int i :: int32"
  show "rollout_bound (fmt_d i) = FromInt32 ?w"
    by (simp add: rollout_bound_def mustAtoi_def Atoi_fmt_d [OF assms])
  show "sint ?w mod 2 ^ 32 = i mod 2 ^ 32"
    using take_bit_signed_take_bit [of 32 31 i] by (simp add: sint_sbintrunc' take_bit_eq_mod)
  show "sint ?w = i \<longleftrightarrow> - (2 ^ 31) \<le> i \<and> i < 2 ^ 31"
    using sint32_bounds [of ?w] sint32_of_int [of i] by auto
qed

theorem rollout_bound_number_witness:
  "\<exists>w. rollout_bound (fmt_d 4294967297) = FromInt32 w \<and> sint w \<noteq> 4294967297 \<and> sint w mod 2 ^ 32 = 1"
  using rollout_bound_number [of 4294967297] by fastforce

section \<open>Routes\<close>

lemma SplitN2_eq:
  "SplitN2 sep s =
     (if sep \<in> set s then [takeWhile (\<lambda>c. c \<noteq> sep) s, tl (dropWhile (\<lambda>c. c \<noteq> sep) s)] else [s])"
proof (cases "dropWhile (\<lambda>c. c \<noteq> sep) s")
  case Nil
  then have "sep \<notin> set s" by (auto simp: dropWhile_eq_Nil_conv)
  then show ?thesis by (simp add: SplitN2_no_sep)
next
  case (Cons c cs)
  then have "sep \<in> set s"
    by (metis (mono_tags, lifting) dropWhile_eq_Nil_conv list.distinct(1))
  with Cons show ?thesis by (simp add: SplitN2_def)
qed

lemma first_split: "sep \<in> set s \<Longrightarrow> takeWhile (\<lambda>c. c \<noteq> sep) s @ sep # tl (dropWhile (\<lambda>c. c \<noteq> sep) s) = s"
  by (induction s) auto

text \<open>The gateway reference \<open>namespace/name\<close> is split at its first slash: printing a parent back
  gives the reference. A reference without a slash, the empty one included, sets no parent.\<close>

theorem gateway_reference:
  "route_parents app =
     (let ref = GatewayRef (Gateway (Spec app)) in
      if CHR ''/'' \<in> set ref then
        [\<lparr>ParentReference.Group = Some ''gateway.networking.k8s.io'',
          ParentReference.Kind = Some ''Gateway'',
          ParentReference.Namespace = Some (takeWhile (\<lambda>c. c \<noteq> CHR ''/'') ref),
          ParentReference.Name = tl (dropWhile (\<lambda>c. c \<noteq> CHR ''/'') ref)\<rparr>]
      else []) \<and>
   list_all (\<lambda>p. GatewayRef (Gateway (Spec app)) =
               the (ParentReference.Namespace p) @ ''/'' @ ParentReference.Name p)
     (route_parents app)"
  by (cases "CHR ''/'' \<in> set (GatewayRef (Gateway (Spec app)))")
    (auto simp: route_parents_def SplitN2_eq first_split Let_def)

section \<open>The set of children\<close>

text \<open>
  Where an object lives: its type and key. A child is a slot with the object that should be there,
  or with none when the feature is off.
\<close>

type_synonym slot = "gotype \<times> ObjectKey"

definition slot_of :: "kobject \<Rightarrow> slot" where
  "slot_of obj = (gotype_of obj, ObjectKeyFromObject obj)"

definition child :: "bool \<Rightarrow> kobject \<Rightarrow> slot \<times> kobject option" where
  "child on obj = (slot_of obj, if on then Some obj else None)"

definition desired_children :: "PlatformApplication \<Rightarrow> Deployment \<Rightarrow> (slot \<times> kobject option) list" where
  "desired_children app dep =
     [child True (DeploymentObj dep),
      child True (ServiceObj (buildDesiredService app)),
      child (AutoscalingSpec.Enabled (Autoscaling (Spec app))) (HPAObj (buildDesiredHPA app)),
      child (GatewaySpec.Enabled (Gateway (Spec app))) (HTTPRouteObj (buildDesiredHTTPRoute app)),
      child (SecuritySpec.NetworkPolicy (Security (Spec app))) (NetworkPolicyObj (buildDesiredNetworkPolicy app)),
      child (1 <s Min (Replicas (Spec app))) (PDBObj (buildDesiredPDB app)),
      child (ObservabilitySpec.Metrics (Observability (Spec app)))
        (UnstructuredObj (buildDesiredServiceMonitor app))]"

lemma Deployment_meta:
  "buildDesiredDeployment parse app = Ret dep \<Longrightarrow>
     K8sObject.ObjectMeta dep = child_meta app (app_Name app) (desired_labels app)"
  by (auto simp: deployment_defs go_bind_Ret_iff)

lemma child_meta_simps [simp]:
  "ObjectMeta.Name (child_meta app n l) = n"
  "ObjectMeta.Namespace (child_meta app n l) = app_Namespace app"
  "Labels (child_meta app n l) = l"
  by (simp_all add: child_meta_def)

definition key_in :: "PlatformApplication \<Rightarrow> string \<Rightarrow> ObjectKey" where
  "key_in app name = \<lparr>KeyNamespace = app_Namespace app, KeyName = name\<rparr>"

lemmas slot_defs = slot_of_def ObjectKeyFromObject_def GetName_def GetNamespace_def

lemma slots:
  "buildDesiredDeployment parse app = Ret dep \<Longrightarrow>
     slot_of (DeploymentObj dep) = (DeploymentT, key_in app (app_Name app))"
  "slot_of (ServiceObj (buildDesiredService app)) = (ServiceT, key_in app (app_Name app))"
  "slot_of (HPAObj (buildDesiredHPA app)) = (HPAT, key_in app (app_Name app))"
  "slot_of (HTTPRouteObj (buildDesiredHTTPRoute app)) = (HTTPRouteT, key_in app (app_Name app))"
  "slot_of (NetworkPolicyObj (buildDesiredNetworkPolicy app)) = (NetworkPolicyT, key_in app (netpol_name app))"
  "slot_of (PDBObj (buildDesiredPDB app)) = (PDBT, key_in app (pdb_name app))"
  "slot_of (UnstructuredObj (buildDesiredServiceMonitor app)) = (UnstructuredT, key_in app (monitor_name app))"
  by (simp_all add: slot_defs key_in_def Deployment_meta buildDesiredService_def buildDesiredHPA_def
      buildDesiredHTTPRoute_def buildDesiredNetworkPolicy_def buildDesiredPDB_def
      buildDesiredServiceMonitor_def)

lemma deleted_slots:
  "slot_of (HPAObj (deleted_HPA app)) = slot_of (HPAObj (buildDesiredHPA app))"
  "slot_of (HTTPRouteObj (deleted_HTTPRoute app)) = slot_of (HTTPRouteObj (buildDesiredHTTPRoute app))"
  "slot_of (NetworkPolicyObj (deleted_NetworkPolicy app)) = slot_of (NetworkPolicyObj (buildDesiredNetworkPolicy app))"
  "slot_of (PDBObj (deleted_PDB app)) = slot_of (PDBObj (buildDesiredPDB app))"
  "slot_of (UnstructuredObj (deleted_ServiceMonitor app)) = slot_of (UnstructuredObj (buildDesiredServiceMonitor app))"
  by (simp_all add: slots) (simp_all add: slot_defs key_in_def deleted_HPA_def deleted_HTTPRoute_def
      deleted_NetworkPolicy_def deleted_PDB_def deleted_ServiceMonitor_def)

lemma desired_slots:
  "buildDesiredDeployment parse app = Ret dep \<Longrightarrow>
   map fst (desired_children app dep) =
     [(DeploymentT, key_in app (app_Name app)), (ServiceT, key_in app (app_Name app)),
      (HPAT, key_in app (app_Name app)), (HTTPRouteT, key_in app (app_Name app)),
      (NetworkPolicyT, key_in app (netpol_name app)), (PDBT, key_in app (pdb_name app)),
      (UnstructuredT, key_in app (monitor_name app))]"
  by (simp add: desired_children_def child_def slots)

fun name_suffix :: "gotype \<Rightarrow> string" where
  "name_suffix NetworkPolicyT = ''-netpol''"
| "name_suffix PDBT = ''-pdb''"
| "name_suffix UnstructuredT = ''-monitor''"
| "name_suffix _ = []"

lemma mem_slots:
  assumes "buildDesiredDeployment parse app = Ret dep"
  shows "(t, key) \<in> fst ` set (desired_children app dep) \<longleftrightarrow>
    t \<noteq> AppT \<and> key = key_in app (app_Name app @ name_suffix t)"
proof -
  have "(t, key) \<in> fst ` set (desired_children app dep) \<longleftrightarrow> (t, key) \<in> set (map fst (desired_children app dep))"
    by simp
  then show ?thesis
    by (simp only: desired_slots [OF assms])
      (cases t; auto simp: netpol_name_def pdb_name_def monitor_name_def)
qed

text \<open>C30. The seven children of an application live in seven different slots of its own namespace,
  and two applications share a slot exactly when they have the same namespace and name: no two
  applications ever fight over a child.\<close>

theorem child_slots_separate:
  assumes "buildDesiredDeployment parse app = Ret dep"
    and "buildDesiredDeployment parse other = Ret dep'"
  shows "distinct (map fst (desired_children app dep)) \<and>
         list_all (\<lambda>((_, key), _). KeyNamespace key = app_Namespace app) (desired_children app dep) \<and>
         (fst ` set (desired_children app dep) \<inter> fst ` set (desired_children other dep') \<noteq> {} \<longleftrightarrow>
          app_Namespace app = app_Namespace other \<and> app_Name app = app_Name other)"
proof (intro conjI)
  show "distinct (map fst (desired_children app dep))"
    by (simp add: desired_slots [OF assms(1)])
  have "list_all (\<lambda>(_, key). KeyNamespace key = app_Namespace app) (map fst (desired_children app dep))"
    by (simp add: desired_slots [OF assms(1)] key_in_def)
  then show "list_all (\<lambda>((_, key), _). KeyNamespace key = app_Namespace app) (desired_children app dep)"
    by (simp add: list_all_iff split_beta)
  show "fst ` set (desired_children app dep) \<inter> fst ` set (desired_children other dep') \<noteq> {} \<longleftrightarrow>
      app_Namespace app = app_Namespace other \<and> app_Name app = app_Name other"
  proof
    assume "fst ` set (desired_children app dep) \<inter> fst ` set (desired_children other dep') \<noteq> {}"
    then obtain t key where "(t, key) \<in> fst ` set (desired_children app dep)"
      "(t, key) \<in> fst ` set (desired_children other dep')" by auto
    then show "app_Namespace app = app_Namespace other \<and> app_Name app = app_Name other"
      using assms by (simp add: mem_slots key_in_def)
  next
    assume "app_Namespace app = app_Namespace other \<and> app_Name app = app_Name other"
    then have "(ServiceT, key_in app (app_Name app)) \<in> fst ` set (desired_children app dep)"
      "(ServiceT, key_in app (app_Name app)) \<in> fst ` set (desired_children other dep')"
      using assms by (simp_all add: mem_slots key_in_def)
    then show "fst ` set (desired_children app dep) \<inter> fst ` set (desired_children other dep') \<noteq> {}"
      by blast
  qed
qed

section \<open>A sample application\<close>

text \<open>An application with every feature on, at which the properties below are evaluated.\<close>

definition sample_app :: PlatformApplication where
  "sample_app = zero_PlatformApplication
     \<lparr>PlatformApplication.ObjectMeta := zero_ObjectMeta
        \<lparr>ObjectMeta.Name := ''web'', ObjectMeta.Namespace := ''prod'', Generation := 4,
         Finalizers := [''platform.example.io/cleanup'']\<rparr>,
      PlatformApplication.Spec := zero_Spec
        \<lparr>PlatformApplicationSpec.Image := \<lparr>Repository = ''nginx'', Tag = ''1.27'', PullPolicy = ''''\<rparr>,
         PlatformApplicationSpec.Replicas := \<lparr>Min = 2, Max = 5\<rparr>,
         PlatformApplicationSpec.Service := \<lparr>ServiceSpec.Port = 8080, ServiceSpec.Type = ''''\<rparr>,
         Configuration := [(''MODE'', ''fast''), (''LEVEL'', ''3'')],
         Autoscaling := \<lparr>AutoscalingSpec.Enabled = True, TargetCPUUtilization = 0\<rparr>,
         Gateway := \<lparr>GatewaySpec.Enabled = True, Host = ''web.example.com'',
           GatewayRef = ''infra/main'', PathPrefix = ''''\<rparr>,
         Observability := \<lparr>ObservabilitySpec.Metrics = True\<rparr>,
         Security := \<lparr>SecuritySpec.NetworkPolicy = True\<rparr>\<rparr>\<rparr>"

definition other_app :: PlatformApplication where
  "other_app = sample_app\<lparr>PlatformApplication.ObjectMeta :=
     (PlatformApplication.ObjectMeta sample_app)\<lparr>ObjectMeta.Name := ''web2''\<rparr>\<rparr>"

text \<open>A parser of quantities that knows none.\<close>

definition parse_none :: "string \<Rightarrow> quantity option" where
  "parse_none s = None"

lemma builds_without_quantities:
  assumes "quantity_texts app = []"
  shows "\<exists>dep. buildDesiredDeployment parse app = Ret dep"
proof -
  from assms have "\<And>m. desired_resources parse app \<noteq> Panic m"
    by (simp add: desired_resources_panic)
  then obtain r where "desired_resources parse app = Ret r"
    by (cases "desired_resources parse app") auto
  then show ?thesis
    by (simp add: deployment_defs)
qed

lemma sample_builds:
  "\<exists>dep. buildDesiredDeployment parse sample_app = Ret dep"
  "\<exists>dep. buildDesiredDeployment parse other_app = Ret dep"
  by (rule builds_without_quantities, simp add: quantity_texts_def other_app_def sample_app_def zero_Spec_def)+

theorem selectors_select_own_pods_witness:
  "\<exists>dep dep'. buildDesiredDeployment parse_none sample_app = Ret dep \<and>
     buildDesiredDeployment parse_none other_app = Ret dep' \<and>
     list_all (\<lambda>sel. selects sel (pod_labels dep)) (pod_selectors dep sample_app) \<and>
     \<not> (\<exists>sel \<in> set (pod_selectors dep sample_app). selects sel (pod_labels dep'))"
proof -
  obtain dep dep' where d: "buildDesiredDeployment parse_none sample_app = Ret dep"
    "buildDesiredDeployment parse_none other_app = Ret dep'"
    using sample_builds by blast
  have "app_Name other_app \<noteq> app_Name sample_app"
    by (simp add: other_app_def sample_app_def)
  with selectors_select_own_pods [OF d] d show ?thesis by blast
qed

theorem request_path_witness:
  "\<exists>dep. buildDesiredDeployment parse_none sample_app = Ret dep \<and>
     map (\<lambda>p. (ServicePort.Port p, resolve_port (container_ports dep) (TargetPort p)))
       (CoreServiceSpec.Ports (K8sObject.Spec (buildDesiredService sample_app))) = [(8080, Some 8080)]"
proof -
  obtain dep where d: "buildDesiredDeployment parse_none sample_app = Ret dep"
    using sample_builds by blast
  have "ServiceSpec.Port (Service (Spec sample_app)) = 8080"
    by (simp add: sample_app_def)
  with request_path [OF d] d show ?thesis by auto
qed

theorem env_deterministic_witness:
  "map EnvVar.Name (desired_env sample_app) = [''LEVEL'', ''MODE''] \<and>
   desired_env (sample_app\<lparr>Spec := (Spec sample_app)\<lparr>Configuration := [(''LEVEL'', ''3''), (''MODE'', ''fast'')]\<rparr>\<rparr>)
   = desired_env sample_app"
proof -
  let ?other = "sample_app\<lparr>Spec := (Spec sample_app)\<lparr>Configuration := [(''LEVEL'', ''3''), (''MODE'', ''fast'')]\<rparr>\<rparr>"
  have c: "Configuration (Spec sample_app) = [(''MODE'', ''fast''), (''LEVEL'', ''3'')]"
    by (simp add: sample_app_def)
  have "desired_env ?other = desired_env sample_app"
    using env_deterministic [of sample_app ?other] by (simp add: c wf_map_def add_mset_commute)
  moreover have "map EnvVar.Name (desired_env ?other) = [''LEVEL'', ''MODE'']"
    by (simp add: desired_env_def sort_Strings_def) code_simp
  ultimately show ?thesis by simp
qed

theorem child_slots_separate_witness:
  "\<exists>dep dep'. buildDesiredDeployment parse_none sample_app = Ret dep \<and>
     buildDesiredDeployment parse_none other_app = Ret dep' \<and>
     fst ` set (desired_children sample_app dep) \<inter> fst ` set (desired_children other_app dep') = {}"
proof -
  obtain dep dep' where d: "buildDesiredDeployment parse_none sample_app = Ret dep"
    "buildDesiredDeployment parse_none other_app = Ret dep'"
    using sample_builds by blast
  have "app_Name other_app \<noteq> app_Name sample_app"
    by (simp add: other_app_def sample_app_def)
  with child_slots_separate [OF d]
  have "fst ` set (desired_children sample_app dep) \<inter> fst ` set (desired_children other_app dep') = {}"
    by auto
  with d show ?thesis by blast
qed

section \<open>Builders and the webhook\<close>

text \<open>What the builders read of the fields that they have fallbacks for.\<close>

definition fallback_fields :: "PlatformApplication \<Rightarrow> string \<times> int32 \<times> string \<times> string \<times> string \<times> int32" where
  "fallback_fields app =
     (service_type app, desired_replicas app,
      HTTPGetAction.Path (HTTPGet (liveness_probe app)), HTTPGetAction.Path (HTTPGet (readiness_probe app)),
      (if GatewaySpec.Enabled (Gateway (Spec app)) then route_path_prefix app else ''''),
      (if AutoscalingSpec.Enabled (Autoscaling (Spec app)) then hpa_target_cpu app else 0))"

definition spec_fields :: "PlatformApplication \<Rightarrow> string \<times> int32 \<times> string \<times> string \<times> string \<times> int32" where
  "spec_fields app =
     (ServiceSpec.Type (Service (Spec app)), Min (Replicas (Spec app)),
      LivenessPath (HealthChecks (Spec app)), ReadinessPath (HealthChecks (Spec app)),
      (if GatewaySpec.Enabled (Gateway (Spec app)) then PathPrefix (Gateway (Spec app)) else ''''),
      (if AutoscalingSpec.Enabled (Autoscaling (Spec app)) then TargetCPUUtilization (Autoscaling (Spec app)) else 0))"

text \<open>C34. The builders' own fallbacks agree with the defaulting webhook: on an application that the
  webhook admitted they are never taken, and building from an object that was never defaulted gives
  the values that the webhook would have filled in.\<close>

theorem fallbacks_agree_with_webhook:
  assumes "admit Default validatePlatformApplication app = Inr (app', ws)"
  shows "fallback_fields app' = spec_fields app' \<and> fallback_fields app = spec_fields app'"
proof -
  have app': "app' = Default app" "defaulted app'" "valid_app app'"
    using alpha.admitted_good [OF assms] by simp_all
  have "spec_fields app' = fallback_fields app'"
    using app'(2,3)
    by (auto simp: fallback_fields_def spec_fields_def service_type_def desired_replicas_def
        liveness_probe_def readiness_probe_def http_probe_def route_path_prefix_def hpa_target_cpu_def
        defaulted_def valid_app_def Let_def int32_simps)
  moreover have "fallback_fields app' = fallback_fields app"
    unfolding app'(1)
    by (auto simp: Default_def alpha_default_defs fallback_fields_def service_type_def
        desired_replicas_def liveness_probe_def readiness_probe_def http_probe_def
        route_path_prefix_def hpa_target_cpu_def Let_def)
  ultimately show ?thesis by simp
qed

lemma sample_admitted: "admit Default validatePlatformApplication sample_app = Inr (Default sample_app, [])"
  by (simp add: admit_def Let_def validatePlatformApplication_def Default_def alpha_default_defs
      sample_app_def zero_Spec_def zero_PlatformApplication_def int32_simps)

theorem fallbacks_agree_with_webhook_witness:
  "fallback_fields sample_app = (''ClusterIP'', 2, ''/healthz'', ''/readyz'', ''/'', 80) \<and>
   fallback_fields (Default sample_app) = spec_fields (Default sample_app)"
  using fallbacks_agree_with_webhook [OF sample_admitted]
  by (simp add: spec_fields_def Default_def alpha_default_defs sample_app_def zero_Spec_def
      zero_PlatformApplication_def)

end
