(* ===== verification/Cluster.thy ===== *)
theory Cluster
  imports Controller Children
begin

text \<open>
  The contract between the operator and the API server, as a locale over an abstract store
  (\<open>lookup\<close>: what object lives in a slot), and what the operator guarantees under it: a successful
  apply leaves the slot with what was asked for, a successful deletion leaves it empty, nothing else
  moves, and a successful run of the sub-reconcilers leaves all seven children as desired. The laws
  are the documented behaviour of the client for a single writer; calls may fail at any time, and
  then may or may not have taken effect. Theory Reference_Server interprets the locale.
\<close>

section \<open>The loop over the sub-reconcilers\<close>

text \<open>What follows a step of the loop: a failure ends it, a success goes on.\<close>

lemma triple_after_step:
  assumes since: "\<And>t. triple P (time_Since E t) (\<lambda>_. P)" "\<And>t. triple P' (time_Since E t) (\<lambda>_. P')"
    and rest: "triple P' (run_subs E app sts) Q"
    and ends: "\<And>m w. P w \<Longrightarrow> Q (Panic m) w" "\<And>e w. P w \<Longrightarrow> Q (Ret (Some e)) w"
  shows "triple (\<lambda>w. case r of Ret (Inr _) \<Rightarrow> P' w | _ \<Rightarrow> P w)
      (case r of
        Panic m \<Rightarrow> return (Panic m)
      | Ret (Inl err) \<Rightarrow> do { e \<leftarrow> sub_failed E app name t err; return (Ret (Some e)) }
      | Ret (Inr _) \<Rightarrow> do { sub_succeeded E name t; run_subs E app sts }) Q"
proof -
  have "triple P (do { e \<leftarrow> sub_failed E app name t err; return (Ret (Some e)) }) Q" for err
    unfolding sub_failed_def observe_defs bind_assoc Let_def
    by (auto intro!: triple_emit_seq triple_bind [OF since(1)] triple_return ends(2))
  moreover have "triple P' (do { sub_succeeded E name t; run_subs E app sts }) Q"
    unfolding sub_succeeded_def observe_defs bind_assoc
    by (intro triple_bind [OF since(2)] triple_emit_seq rest)
  ultimately show ?thesis
    by (auto intro: triple_return ends(1) split: go.split sum.split)
qed

section \<open>The contract\<close>

text \<open>Everything outside one slot is as it was; and a slot holds what covers an object.\<close>

definition framed :: "('w \<Rightarrow> slot \<Rightarrow> kobject option) \<Rightarrow> (slot \<Rightarrow> kobject option) \<Rightarrow> slot \<Rightarrow> 'w \<Rightarrow> bool" where
  "framed lookup L k w \<longleftrightarrow> (\<forall>s. s \<noteq> k \<longrightarrow> lookup w s = L s)"

definition holds ::
    "('w \<Rightarrow> slot \<Rightarrow> kobject option) \<Rightarrow> (kobject \<Rightarrow> kobject \<Rightarrow> bool) \<Rightarrow> slot \<Rightarrow> kobject \<Rightarrow> 'w \<Rightarrow> bool" where
  "holds lookup covers k d w \<longleftrightarrow> (\<exists>y. lookup w k = Some y \<and> covers y d)"

text \<open>A child is as wanted: its slot is empty, or holds an object that covers the desired one and
  has the application as its controller.\<close>

definition as_wanted ::
    "('w \<Rightarrow> slot \<Rightarrow> kobject option) \<Rightarrow> (kobject \<Rightarrow> kobject \<Rightarrow> bool) \<Rightarrow> (kobject \<Rightarrow> kobject \<Rightarrow> bool) \<Rightarrow>
     kobject \<Rightarrow> slot \<times> kobject option \<Rightarrow> 'w \<Rightarrow> bool" where
  "as_wanted lookup covers owned_by owner c w \<longleftrightarrow>
     (case snd c of
        None \<Rightarrow> lookup w (fst c) = None
      | Some d \<Rightarrow> \<exists>y. lookup w (fst c) = Some y \<and> covers y d \<and> owned_by owner y)"

lemma framed_same: "framed lookup L k w \<Longrightarrow> lookup w' = lookup w \<Longrightarrow> framed lookup L k w'"
  by (simp add: framed_def)

locale api_server =
  fixes E :: "'w env"
    and lookup :: "'w \<Rightarrow> slot \<Rightarrow> kobject option"
    and covers :: "kobject \<Rightarrow> kobject \<Rightarrow> bool"
    and owned_by :: "kobject \<Rightarrow> kobject \<Rightarrow> bool"
  assumes get_frame: "env_Get E key obj w = (r, w') \<Longrightarrow> lookup w' = lookup w"
    and get_found: "env_Get E key obj w = ((None, x), w') \<Longrightarrow> lookup w (gotype_of obj, key) = Some x"
    and get_missing: "env_Get E key obj w = ((Some e, x), w') \<Longrightarrow> IsNotFound (apierr E) e \<Longrightarrow>
      lookup w (gotype_of obj, key) = None"
    and create_ok: "env_Create E obj w = ((None, x), w') \<Longrightarrow>
      \<exists>y. lookup w' = (lookup w)(slot_of obj \<mapsto> y) \<and> covers y obj"
    and create_failed: "env_Create E obj w = ((Some e, x), w') \<Longrightarrow>
      x = obj \<and> (\<forall>s. s \<noteq> slot_of obj \<longrightarrow> lookup w' s = lookup w s)"
    and patch_ok: "env_Patch E obj manager w = ((None, x), w') \<Longrightarrow>
      \<exists>y. lookup w' = (lookup w)(slot_of obj \<mapsto> y) \<and> covers y obj"
    and patch_failed: "env_Patch E obj manager w = ((Some e, x), w') \<Longrightarrow>
      x = obj \<and> (\<forall>s. s \<noteq> slot_of obj \<longrightarrow> lookup w' s = lookup w s)"
    and delete_ok: "env_Delete E obj w = (None, w') \<Longrightarrow> lookup w' = (lookup w)(slot_of obj := None)"
    and delete_missing: "env_Delete E obj w = (Some e, w') \<Longrightarrow> IsNotFound (apierr E) e \<Longrightarrow>
      lookup w (slot_of obj) = None \<and> lookup w' = lookup w"
    and delete_failed: "env_Delete E obj w = (Some e, w') \<Longrightarrow>
      (\<forall>s. s \<noteq> slot_of obj \<longrightarrow> lookup w' s = lookup w s)"
    and now_frame: "env_Now E w = (t, w') \<Longrightarrow> lookup w' = lookup w"
    and select_frame: "env_Select E delay w = (c, w') \<Longrightarrow> lookup w' = lookup w"
    and controller_reference: "SetControllerReference E owner obj = Inr d \<Longrightarrow>
      slot_of d = slot_of obj \<and> (\<forall>y. covers y d \<longrightarrow> covers y obj \<and> owned_by owner y)"
    and deep_equal: "DeepEqual E y d \<Longrightarrow> covers y d"
begin

text \<open>Reading the clock and waiting keep whatever depends on the store only.\<close>

definition stable :: "('w \<Rightarrow> bool) \<Rightarrow> bool" where
  "stable P \<longleftrightarrow> (\<forall>w w'. P w \<longrightarrow> lookup w' = lookup w \<longrightarrow> P w')"

lemma stable_framed: "stable (framed lookup L k)"
  by (simp add: stable_def framed_def)

lemma stable_holds: "stable (holds lookup covers k d)"
  by (simp add: stable_def holds_def)

lemma stable_conj: "stable P \<Longrightarrow> stable Q \<Longrightarrow> stable (\<lambda>w. P w \<and> Q w)"
  unfolding stable_def by blast

lemma triple_now: "stable P \<Longrightarrow> triple P (time_Now E) (\<lambda>_. P)"
  unfolding time_Now_def
  by (rule triple_lift) (auto simp: stable_def dest: now_frame)

lemma triple_since: "stable P \<Longrightarrow> triple P (time_Since E t) (\<lambda>_. P)"
  unfolding time_Since_def by (rule triple_bind [OF triple_now triple_return]) simp_all

lemma triple_select: "stable P \<Longrightarrow> triple P (select_Done_After E delay) (\<lambda>_. P)"
  unfolding select_Done_After_def
  by (rule triple_bind [OF triple_emit triple_lift], assumption) (auto simp: stable_def dest: select_frame)

text \<open>The client calls, against everything outside one slot.\<close>

lemma triple_Get:
  "triple (framed lookup L k) (client_Get E key obj)
     (\<lambda>(err, x) w. framed lookup L k w \<and> (err = None \<longrightarrow> lookup w (gotype_of obj, key) = Some x))"
  unfolding client_Get_def
  by (rule triple_bind [OF triple_emit triple_lift], assumption)
    (auto dest: get_frame get_found intro: framed_same simp: get_frame)

lemma triple_Create:
  "triple (framed lookup L (slot_of obj)) (client_Create E obj)
     (\<lambda>(err, x) w. framed lookup L (slot_of obj) w \<and>
        (case err of None \<Rightarrow> holds lookup covers (slot_of obj) obj w | Some _ \<Rightarrow> x = obj))"
  unfolding client_Create_def
  by (rule triple_bind [OF triple_emit triple_lift], assumption)
    (auto dest!: create_failed create_ok simp: framed_def holds_def split: option.split)

lemma triple_Patch:
  "triple (framed lookup L (slot_of obj)) (client_Patch E obj manager)
     (\<lambda>(err, x) w. framed lookup L (slot_of obj) w \<and>
        (case err of None \<Rightarrow> holds lookup covers (slot_of obj) obj w | Some _ \<Rightarrow> x = obj))"
  unfolding client_Patch_def
  by (rule triple_bind [OF triple_emit triple_lift], assumption)
    (auto dest!: patch_failed patch_ok simp: framed_def holds_def split: option.split)

lemma triple_Delete:
  "triple (framed lookup L (slot_of obj)) (client_Delete E obj)
     (\<lambda>err w. framed lookup L (slot_of obj) w \<and>
        (case err of None \<Rightarrow> lookup w (slot_of obj) = None
         | Some e \<Rightarrow> IsNotFound (apierr E) e \<longrightarrow> lookup w (slot_of obj) = None))"
  unfolding client_Delete_def
  by (rule triple_bind [OF triple_emit triple_lift], assumption)
    (auto dest: delete_ok delete_missing delete_failed simp: framed_def split: option.split)

text \<open>One attempt of an apply.\<close>

definition apply_post :: "(slot \<Rightarrow> kobject option) \<Rightarrow> kobject \<Rightarrow> (go_error + ApplyResult) \<Rightarrow> 'w \<Rightarrow> bool" where
  "apply_post L desired r w \<longleftrightarrow> framed lookup L (slot_of desired) w \<and>
     (case r of Inl _ \<Rightarrow> True | Inr _ \<Rightarrow> holds lookup covers (slot_of desired) desired w)"

lemma triple_now_seq: "stable P \<Longrightarrow> (\<And>t. triple P (f t) Q) \<Longrightarrow> triple P (time_Now E \<bind> f) Q"
  by (rule triple_bind [OF triple_now])

lemma triple_since_seq: "stable P \<Longrightarrow> (\<And>d. triple P (f d) Q) \<Longrightarrow> triple P (time_Since E t \<bind> f) Q"
  by (rule triple_bind [OF triple_since])

definition attempt_post ::
    "(slot \<Rightarrow> kobject option) \<Rightarrow> kobject \<Rightarrow> (go_error + ApplyResult) \<times> kobject \<Rightarrow> 'w \<Rightarrow> bool" where
  "attempt_post L desired rd w \<longleftrightarrow>
     (case rd of (r, desired') \<Rightarrow> apply_post L desired r w \<and> (isl r \<longrightarrow> desired' = desired))"

abbreviation found where
  "found L desired w \<equiv> framed lookup L (slot_of desired) w \<and> holds lookup covers (slot_of desired) desired w"

lemma stable_found: "stable (found L desired)"
  by (simp add: stable_framed stable_conj stable_holds)

lemma attempt_failed: "triple (framed lookup L (slot_of desired)) (return (Inl e, desired)) (attempt_post L desired)"
  by (rule triple_return) (simp add: apply_post_def attempt_post_def)

lemma attempt_finished: "triple (found L desired) (return (Inr res, d)) (attempt_post L desired)"
  by (rule triple_return) (simp add: apply_post_def attempt_post_def)

lemma triple_apply_create:
  "triple (framed lookup L (slot_of desired)) (apply_create E desired kind name namespace) (attempt_post L desired)"
  unfolding apply_create_def
proof (rule triple_now_seq [OF stable_framed], rule triple_bind [OF triple_Create], rule triple_case_prod)
  fix t cerr x
  show "triple (\<lambda>w. framed lookup L (slot_of desired) w \<and>
        (case cerr of None \<Rightarrow> holds lookup covers (slot_of desired) desired w | Some _ \<Rightarrow> x = desired))
      (case cerr of
         Some ce \<Rightarrow> return (Inl (WrapError (resource_text ''creating'' kind namespace name ce) ce), x)
       | None \<Rightarrow> do {
           d \<leftarrow> time_Since E t;
           ObserveAPICall ''create'' (resourceKind kind) d;
           return (Inr ApplyResultCreated, x) }) (attempt_post L desired)"
    unfolding observe_defs
    by (cases cerr) (auto intro!: triple_since_seq triple_emit_seq stable_found attempt_finished triple_return
        simp: apply_post_def attempt_post_def)
qed

lemma triple_apply_patch:
  "triple (framed lookup L (slot_of desired)) (apply_patch E desired kind name namespace) (attempt_post L desired)"
  unfolding apply_patch_def
proof (rule triple_now_seq [OF stable_framed], rule triple_bind [OF triple_Patch], rule triple_case_prod)
  fix t perr x
  show "triple (\<lambda>w. framed lookup L (slot_of desired) w \<and>
        (case perr of None \<Rightarrow> holds lookup covers (slot_of desired) desired w | Some _ \<Rightarrow> x = desired))
      (do { d \<leftarrow> time_Since E t;
            ObserveAPICall ''patch'' (resourceKind kind) d;
            (case perr of
               Some pe \<Rightarrow> return (Inl (WrapError (resource_text ''applying'' kind namespace name pe) pe), x)
             | None \<Rightarrow> return (Inr ApplyResultUpdated, x)) }) (attempt_post L desired)"
    unfolding observe_defs
    by (cases perr) (auto intro!: triple_since_seq triple_emit_seq stable_found attempt_finished triple_return
        simp: apply_post_def attempt_post_def stable_def intro: framed_same)
qed

lemma triple_applyOnce:
  "triple (framed lookup L (slot_of desired)) (applyOnce E desired kind name namespace) (attempt_post L desired)"
  unfolding applyOnce_def
proof (rule triple_bind [OF triple_Get], rule triple_case_prod)
  fix err :: "go_error option" and existing
  let ?P = "\<lambda>w. framed lookup L (slot_of desired) w \<and>
      (err = None \<longrightarrow> lookup w (gotype_of desired, ObjectKeyFromObject desired) = Some existing)"
  show "triple ?P
      (case err of
         Some e \<Rightarrow>
           if IsNotFound (apierr E) e then apply_create E desired kind name namespace
           else return (Inl (WrapError (resource_text ''getting'' kind namespace name e) e), desired)
       | None \<Rightarrow>
           if DeepEqual E existing desired then do {
             ObserveNoOpApply (resourceKind kind);
             return (Inr ApplyResultUnchanged, desired) }
           else apply_patch E desired kind name namespace) (attempt_post L desired)"
  proof (cases err)
    case (Some e)
    then show ?thesis by (simp add: triple_apply_create attempt_failed)
  next
    case None
    have "triple (found L desired) (do { ObserveNoOpApply (resourceKind kind);
        return (Inr ApplyResultUnchanged, desired) }) (attempt_post L desired)"
      unfolding observe_defs by (intro triple_emit_seq attempt_finished)
    then have "triple ?P (do { ObserveNoOpApply (resourceKind kind);
        return (Inr ApplyResultUnchanged, desired) }) (attempt_post L desired)"
      if "DeepEqual E existing desired"
      by (rule triple_mono) (use that None deep_equal in \<open>auto simp: holds_def slot_of_def\<close>)
    moreover have "triple ?P (apply_patch E desired kind name namespace) (attempt_post L desired)"
      by (rule triple_mono [OF triple_apply_patch]) simp_all
    ultimately show ?thesis
      using None by simp
  qed
qed

text \<open>The retry loop: an attempt is made again with the object unchanged.\<close>

lemma triple_apply_failed: "triple (framed lookup L k) (apply_failed E kind name e) (\<lambda>r w. framed lookup L k w \<and> isl r)"
  unfolding apply_failed_def observe_defs Let_def by (intro triple_emit_seq triple_return) simp

lemma triple_after_attempt:
  assumes again: "Suc attempt \<le> maxApplyRetries \<Longrightarrow> triple (framed lookup L (slot_of desired))
      (apply_attempts E kind name namespace (Suc attempt) desired) (apply_post L desired)"
  shows "triple (attempt_post L desired (r, d))
      (case r of
         Inr result \<Rightarrow> do {
           ObserveResourceApply (resourceKind kind) (ApplyResult_string result);
           return (Inr result) }
       | Inl lastErr \<Rightarrow>
           if \<not> IsConflict (apierr E) lastErr then apply_failed E kind name lastErr
           else if Suc attempt \<le> maxApplyRetries
           then apply_attempts E kind name namespace (Suc attempt) d
           else apply_failed E kind name lastErr) (apply_post L desired)"
proof (cases r)
  case (Inr res)
  then show ?thesis
    unfolding observe_defs by (auto simp: attempt_post_def intro!: triple_emit_seq triple_return)
next
  case (Inl e)
  have failed: "triple (attempt_post L desired (r, d)) (apply_failed E kind name e) (apply_post L desired)"
    by (rule triple_mono [OF triple_apply_failed [of L "slot_of desired"]])
      (auto simp: attempt_post_def apply_post_def split: sum.splits)
  have "triple (attempt_post L desired (r, d))
      (apply_attempts E kind name namespace (Suc attempt) d) (apply_post L desired)"
    if "Suc attempt \<le> maxApplyRetries"
  proof (cases "d = desired")
    case True
    from again [OF that] show ?thesis
      unfolding True by (rule triple_mono) (auto simp: attempt_post_def apply_post_def)
  next
    case False
    with Inl show ?thesis by (simp add: attempt_post_def triple_def)
  qed
  with Inl failed show ?thesis by simp
qed

lemma triple_apply_attempts:
  "triple (framed lookup L (slot_of desired)) (apply_attempts E kind name namespace attempt desired)
     (apply_post L desired)"
proof (induction "maxApplyRetries - attempt" arbitrary: attempt rule: less_induct)
  case less
  have again: "triple (framed lookup L (slot_of desired))
      (apply_attempts E kind name namespace (Suc attempt) desired) (apply_post L desired)"
    if "Suc attempt \<le> maxApplyRetries"
    using that less [of "Suc attempt"] by simp
  have wait: "triple (framed lookup L (slot_of desired))
      (if attempt > 0 then select_Done_After E (backoff_delay attempt) else return None)
      (\<lambda>_. framed lookup L (slot_of desired))"
    by (auto intro: triple_select stable_framed triple_return)
  show ?case
  proof (subst apply_attempts.simps, rule triple_bind [OF wait])
    fix c :: "go_error option"
    show "triple (framed lookup L (slot_of desired))
      (case c of
        Some ctxErr \<Rightarrow> return (Inl ctxErr)
      | None \<Rightarrow> do {
          (r, desired') \<leftarrow> applyOnce E desired kind name namespace;
          (case r of
             Inr result \<Rightarrow> do {
               ObserveResourceApply (resourceKind kind) (ApplyResult_string result);
               return (Inr result) }
           | Inl lastErr \<Rightarrow>
               if \<not> IsConflict (apierr E) lastErr then apply_failed E kind name lastErr
               else if Suc attempt \<le> maxApplyRetries
               then apply_attempts E kind name namespace (Suc attempt) desired'
               else apply_failed E kind name lastErr) }) (apply_post L desired)"
    proof (cases c)
      case None
      then show ?thesis
        by (simp only: option.case) (rule triple_bind [OF triple_applyOnce],
          simp only: split_paired_all prod.case, rule triple_after_attempt [OF again])
    qed (auto intro!: triple_return simp: apply_post_def)
  qed
qed

text \<open>What a sub-reconciler guarantees for its slot: on success the slot is as wanted.\<close>

abbreviation wanted :: "kobject \<Rightarrow> slot \<times> kobject option \<Rightarrow> 'w \<Rightarrow> bool" where
  "wanted \<equiv> as_wanted lookup covers owned_by"

definition step_post :: "(slot \<Rightarrow> kobject option) \<Rightarrow> kobject \<Rightarrow> slot \<times> kobject option \<Rightarrow> (go_error + ApplyResult) \<Rightarrow> 'w \<Rightarrow> bool" where
  "step_post L owner c r w \<longleftrightarrow> framed lookup L (fst c) w \<and> (isl r \<or> wanted owner c w)"

lemma triple_Apply:
  "triple (framed lookup L (slot_of desired)) (Apply E owner desired) (step_post L owner (child True desired))"
proof (cases "SetControllerReference E owner desired")
  case (Inl e)
  then show ?thesis
    by (auto simp: Apply_def Let_def step_post_def child_def intro!: triple_return)
next
  case (Inr d)
  with controller_reference have d: "slot_of d = slot_of desired" "\<And>y. covers y d \<Longrightarrow> covers y desired \<and> owned_by owner y"
    by blast+
  have "triple (framed lookup L (slot_of desired))
      (apply_attempts E (GetKind desired) (GetName desired) (GetNamespace desired) 0 d) (apply_post L d)"
    using triple_apply_attempts [of L d] by (simp add: d(1))
  then have "triple (framed lookup L (slot_of desired))
      (apply_attempts E (GetKind desired) (GetName desired) (GetNamespace desired) 0 d) (step_post L owner (child True desired))"
    by (rule triple_mono) (auto simp: apply_post_def step_post_def child_def as_wanted_def holds_def d split: sum.splits)
  with Inr show ?thesis by (simp add: Apply_def Let_def)
qed

lemma triple_delete:
  assumes "slot_of obj = slot_of desired"
  shows "triple (framed lookup L (slot_of obj)) (delete_then_unchanged E obj) (step_post L owner (child False desired))"
  unfolding delete_then_unchanged_def DeleteIfExists_def observe_defs bind_assoc
proof (rule triple_bind [OF triple_Delete])
  fix derr :: "go_error option"
  show "triple (\<lambda>w. framed lookup L (slot_of obj) w \<and> (case derr of None \<Rightarrow> lookup w (slot_of obj) = None
         | Some e \<Rightarrow> IsNotFound (apierr E) e \<longrightarrow> lookup w (slot_of obj) = None))
      (bind (case derr of
        Some err \<Rightarrow>
          if IsNotFound (apierr E) err then return None
          else return (Some (WrapError
            (resource_text ''deleting'' (GetKind obj) (GetNamespace obj) (GetName obj) err) err))
      | None \<Rightarrow> do {
          emit (CounterInc ResourceApplyTotal [resourceKind (GetKind obj), ''deleted'']);
          return None })
       (\<lambda>r. case r of Some err \<Rightarrow> return (Inl err) | None \<Rightarrow> return (Inr ApplyResultUnchanged)))
      (step_post L owner (child False desired))"
    by (cases derr) (auto intro!: triple_emit_seq triple_return
        simp: step_post_def child_def as_wanted_def assms)
qed

text \<open>The frame rule: what does not depend on a slot survives an operation on it.\<close>

lemma triple_frame:
  assumes "\<And>L. triple (framed lookup L k) m (\<lambda>r w. framed lookup L k w \<and> Q r w)"
    and "\<And>w w'. P w \<Longrightarrow> framed lookup (lookup w) k w' \<Longrightarrow> P w'"
  shows "triple P m (\<lambda>r w. P w \<and> Q r w)"
  unfolding triple_def
proof (intro allI impI)
  fix s :: "'w world"
  assume P: "P (outside s)"
  have "framed lookup (lookup (outside s)) k (outside s)"
    by (simp add: framed_def)
  with assms(1) [of "lookup (outside s)"] show "case run_state m s of (r, s') \<Rightarrow> P (outside s') \<and> Q r (outside s')"
    using assms(2) [OF P] by (auto split: prod.split dest: tripleD)
qed

text \<open>A step of the loop that takes care of one child.\<close>

definition cares_for :: "kobject \<Rightarrow> string \<times> 'w step \<Rightarrow> slot \<times> kobject option \<Rightarrow> bool" where
  "cares_for owner st c \<longleftrightarrow> (\<forall>L. triple (framed lookup L (fst c)) (snd st)
     (\<lambda>r w. framed lookup L (fst c) w \<and> (case r of Ret (Inr _) \<Rightarrow> wanted owner c w | _ \<Rightarrow> True)))"

lemma cares_for_no_panic:
  assumes "\<And>L. triple (framed lookup L (fst c)) m (step_post L owner c)"
  shows "cares_for owner (name, no_panic m) c"
  unfolding cares_for_def no_panic_def
  by (auto intro!: triple_bind [OF assms] triple_return simp: step_post_def split: sum.splits)

lemma cares_for_Apply: "cares_for owner (name, no_panic (Apply E owner obj)) (child True obj)"
  by (rule cares_for_no_panic) (use triple_Apply [of _ obj] in \<open>simp add: child_def\<close>)

lemma cares_for_delete:
  "slot_of obj' = slot_of obj \<Longrightarrow> cares_for owner (name, no_panic (delete_then_unchanged E obj')) (child False obj)"
  by (rule cares_for_no_panic) (use triple_delete [of obj' obj] in \<open>simp add: child_def\<close>)

lemma sub_reconcilers_care:
  assumes "buildDesiredDeployment (ParseQuantity E) app = Ret dep"
  shows "list_all2 (cares_for (AppObj app)) (sub_reconcilers E app) (desired_children app dep)"
proof -
  have "ReconcileDeployment E app = no_panic (Apply E (AppObj app) (DeploymentObj dep))"
    by (simp add: ReconcileDeployment_def no_panic_def assms)
  moreover have "1 <s Min (Replicas (Spec app)) \<longleftrightarrow> \<not> Min (Replicas (Spec app)) \<le>s 1"
    by (auto simp: int32_simps)
  ultimately show ?thesis
    by (simp add: sub_reconcilers_def desired_children_def ReconcileService_def ReconcileHPA_def
        ReconcileHTTPRoute_def ReconcileNetworkPolicy_def ReconcilePDB_def ReconcileServiceMonitor_def
        deleteHPAIfExists_def deleteHTTPRouteIfExists_def deleteNetworkPolicyIfExists_def
        deletePDBIfExists_def deleteServiceMonitorIfExists_def
        cares_for_Apply cares_for_delete deleted_slots)
qed

text \<open>The loop: what is already as wanted stays so, and nothing else moves.\<close>

definition progress :: "kobject \<Rightarrow> (slot \<Rightarrow> kobject option) \<Rightarrow> slot set \<Rightarrow> (slot \<times> kobject option) list \<Rightarrow> 'w \<Rightarrow> bool" where
  "progress owner L S cs w \<longleftrightarrow> (\<forall>s. s \<notin> S \<longrightarrow> lookup w s = L s) \<and> (\<forall>c \<in> set cs. wanted owner c w)"

lemma wanted_cong: "lookup w' (fst c) = lookup w (fst c) \<Longrightarrow> wanted owner c w' = wanted owner c w"
  by (simp add: as_wanted_def holds_def split: option.split)

lemma stable_progress: "stable (progress owner L S cs)"
  by (simp add: stable_def progress_def) (metis wanted_cong)

lemma progress_framed:
  assumes "progress owner L S cs w" and "framed lookup (lookup w) k w'" and "k \<in> S" and "k \<notin> fst ` set cs"
  shows "progress owner L S cs w'"
proof -
  have same: "lookup w' s = lookup w s" if "s \<noteq> k" for s
    using assms(2) that by (simp add: framed_def del: split_paired_All)
  moreover have "wanted owner c w' = wanted owner c w" if "c \<in> set cs" for c
    using assms(4) that by (intro wanted_cong same) auto
  ultimately show ?thesis
    using assms(1,3) unfolding progress_def by metis
qed

lemma triple_run_subs:
  assumes "list_all2 (cares_for owner) sts cs" and "distinct (map fst (old @ cs))"
    and "set (map fst cs) \<subseteq> S"
  shows "triple (progress owner L S old) (run_subs E app sts)
     (\<lambda>r w. progress owner L S old w \<and> (r = Ret None \<longrightarrow> progress owner L S (old @ cs) w))"
  using assms
proof (induction sts cs arbitrary: old rule: list_all2_induct)
  case Nil
  then show ?case by (auto intro!: triple_return)
next
  case (Cons st sts c cs)
  obtain name fn where st: "st = (name, fn)" by (cases st)
  have keep: "progress owner L S old w'" if "progress owner L S old w" "framed lookup (lookup w) (fst c) w'" for w w'
    by (rule progress_framed [OF that]) (use Cons.prems in auto)
  have fn: "triple (progress owner L S old) fn
      (\<lambda>r w. progress owner L S old w \<and> (case r of Ret (Inr _) \<Rightarrow> wanted owner c w | _ \<Rightarrow> True))"
    using Cons.hyps(1) unfolding cares_for_def st snd_conv by (intro triple_frame [OF _ keep]) blast
  then have step: "triple (progress owner L S old) fn
      (\<lambda>r w. case r of Ret (Inr _) \<Rightarrow> progress owner L S (old @ [c]) w | _ \<Rightarrow> progress owner L S old w)"
    by (rule triple_mono) (auto simp: progress_def split: go.splits sum.splits simp del: split_paired_All)
  let ?Q = "\<lambda>r w. progress owner L S old w \<and> (r = Ret None \<longrightarrow> progress owner L S (old @ c # cs) w)"
  have rest: "triple (progress owner L S (old @ [c])) (run_subs E app sts) ?Q"
    by (rule triple_mono [OF Cons.IH [of "old @ [c]"]]) (use Cons.prems in \<open>auto simp: progress_def simp del: split_paired_All\<close>)
  show ?case
    unfolding st run_subs.simps StartSpan_def
    by (intro triple_now_seq triple_emit_seq stable_progress triple_bind [OF step],
        rule triple_after_step [OF triple_since triple_since])
      (use rest stable_progress in simp_all)
qed

lemma reconcileResources_converges:
  assumes "buildDesiredDeployment (ParseQuantity E) app = Ret dep"
  shows "triple (\<lambda>w. \<forall>s. s \<notin> fst ` set (desired_children app dep) \<longrightarrow> lookup w s = L s) (reconcileResources E app)
     (\<lambda>r w. (\<forall>s. s \<notin> fst ` set (desired_children app dep) \<longrightarrow> lookup w s = L s) \<and>
        (r = Ret None \<longrightarrow> (\<forall>c \<in> set (desired_children app dep). wanted (AppObj app) c w)))"
proof -
  have "distinct (map fst ([] @ desired_children app dep))"
    by (simp add: desired_slots [OF assms])
  from triple_run_subs [OF sub_reconcilers_care [OF assms] this, of "fst ` set (desired_children app dep)" L app]
  show ?thesis
    unfolding reconcileResources_def progress_def by (auto elim!: triple_mono simp del: split_paired_All)
qed

end

end
