(* ===== verification/Reliable.thy ===== *)
theory Reliable
  imports Cluster
begin

text \<open>
  A cluster that is up: calls that are legal succeed. The locale extends the contract of theory
  Cluster by an invariant \<open>up\<close> of the outside state under which reads find what exists, creations of
  missing objects, patches of existing ones and deletions succeed. Under it every sub-reconciler
  succeeds, so the loop ends without an error.
\<close>

locale reliable_server = api_server E lookup covers owned_by
  for E :: "'w env"
    and lookup :: "'w \<Rightarrow> slot \<Rightarrow> kobject option"
    and covers :: "kobject \<Rightarrow> kobject \<Rightarrow> bool"
    and owned_by :: "kobject \<Rightarrow> kobject \<Rightarrow> bool" +
  fixes up :: "'w \<Rightarrow> bool"
  assumes up_get: "up w \<Longrightarrow> env_Get E key obj w = ((err, x), w') \<Longrightarrow> up w' \<and>
      (case err of
         None \<Rightarrow> lookup w (gotype_of obj, key) = Some x
       | Some e \<Rightarrow> IsNotFound (apierr E) e \<and> lookup w (gotype_of obj, key) = None)"
    and up_create: "up w \<Longrightarrow> lookup w (slot_of obj) = None \<Longrightarrow> env_Create E obj w = ((err, x), w') \<Longrightarrow>
      up w' \<and> err = None"
    and up_patch: "up w \<Longrightarrow> lookup w (slot_of obj) \<noteq> None \<Longrightarrow> env_Patch E obj manager w = ((err, x), w') \<Longrightarrow>
      up w' \<and> err = None"
    and up_delete: "up w \<Longrightarrow> env_Delete E obj w = (err, w') \<Longrightarrow>
      up w' \<and> (case err of None \<Rightarrow> True | Some e \<Rightarrow> IsNotFound (apierr E) e)"
    and up_now: "up w \<Longrightarrow> env_Now E w = (t, w') \<Longrightarrow> up w'"
    and up_reference: "GetNamespace owner = GetNamespace obj \<Longrightarrow> OwnerReferences (meta_of obj) = [] \<Longrightarrow>
      \<exists>d. SetControllerReference E owner obj = Inr d"
begin

text \<open>The cluster is up, and a slot is occupied or not.\<close>

definition up_with :: "slot \<Rightarrow> bool \<Rightarrow> 'w \<Rightarrow> bool" where
  "up_with k b w \<longleftrightarrow> up w \<and> (lookup w k \<noteq> None) = b"

lemma triple_now_up: "triple (up_with k b) (time_Now E) (\<lambda>_. up_with k b)"
  unfolding time_Now_def by (rule triple_lift) (auto simp: up_with_def dest: up_now now_frame)

lemma triple_now_up_seq: "(\<And>t. triple (up_with k b) (f t) Q) \<Longrightarrow> triple (up_with k b) (time_Now E \<bind> f) Q"
  by (rule triple_bind [OF triple_now_up])

lemma triple_now_only: "triple up (time_Now E) (\<lambda>_. up)"
  unfolding time_Now_def by (rule triple_lift) (rule up_now)

lemma triple_now_only_seq: "(\<And>t. triple up (f t) Q) \<Longrightarrow> triple up (time_Now E \<bind> f) Q"
  by (rule triple_bind [OF triple_now_only])

lemma triple_since_only_seq: "(\<And>d. triple up (f d) Q) \<Longrightarrow> triple up (time_Since E t \<bind> f) Q"
  unfolding time_Since_def by (rule triple_bind [OF triple_bind [OF triple_now_only triple_return]])

abbreviation succeeds :: "(go_error + 'a) \<times> 'b \<Rightarrow> 'w \<Rightarrow> bool" where
  "succeeds rd w \<equiv> up w \<and> \<not> isl (fst rd)"

lemma up_apply_create:
  "triple (up_with (slot_of d) False) (apply_create E d kind name namespace) succeeds"
proof -
  have create: "triple (up_with (slot_of d) False) (client_Create E d) (\<lambda>(err, x) w. up w \<and> err = None)"
    unfolding client_Create_def
    by (rule triple_bind [OF triple_emit triple_lift], assumption) (auto simp: up_with_def dest: up_create)
  show ?thesis
    unfolding apply_create_def observe_defs
  proof (rule triple_now_up_seq, rule triple_bind [OF create], rule triple_case_prod)
    fix t cerr x
    show "triple (\<lambda>w. up w \<and> cerr = None)
        (case cerr of
           Some ce \<Rightarrow> return (Inl (WrapError (resource_text ''creating'' kind name namespace ce) ce), x)
         | None \<Rightarrow> do {
             d \<leftarrow> time_Since E t;
             emit (HistogramObserve APICallDurationSeconds [''create'', resourceKind kind] d);
             return (Inr ApplyResultCreated, x) }) succeeds" for name namespace
    proof (cases cerr)
      case None
      then show ?thesis by (auto intro!: triple_since_only_seq triple_emit_seq triple_return)
    qed (simp add: triple_def)
  qed
qed

lemma up_apply_patch:
  "triple (up_with (slot_of d) True) (apply_patch E d kind name namespace) succeeds"
proof -
  have patch: "triple (up_with (slot_of d) True) (client_Patch E d FieldManager) (\<lambda>(err, x) w. up w \<and> err = None)"
    unfolding client_Patch_def
    by (rule triple_bind [OF triple_emit triple_lift], assumption) (auto simp: up_with_def dest: up_patch)
  show ?thesis
    unfolding apply_patch_def observe_defs
  proof (rule triple_now_up_seq, rule triple_bind [OF patch], rule triple_case_prod)
    fix t perr x
    show "triple (\<lambda>w. up w \<and> perr = None)
        (do { d \<leftarrow> time_Since E t;
             emit (HistogramObserve APICallDurationSeconds [''patch'', resourceKind kind] d);
             (case perr of
                Some pe \<Rightarrow> return (Inl (WrapError (resource_text ''applying'' kind name namespace pe) pe), x)
              | None \<Rightarrow> return (Inr ApplyResultUpdated, x)) }) succeeds" for name namespace
    proof (cases perr)
      case None
      then show ?thesis by (auto intro!: triple_since_only_seq triple_emit_seq triple_return)
    qed (simp add: triple_def)
  qed
qed

lemma up_applyOnce: "triple up (applyOnce E d kind name namespace) succeeds"
proof -
  have get: "triple up (client_Get E (ObjectKeyFromObject d) d)
      (\<lambda>(err, x) w. up_with (slot_of d) (err = None) w \<and> (\<forall>e. err = Some e \<longrightarrow> IsNotFound (apierr E) e))"
    unfolding client_Get_def
  proof (rule triple_bind [OF triple_emit triple_lift], assumption)
    fix w and a :: "go_error option \<times> kobject" and w'
    assume w: "up w" and run: "env_Get E (ObjectKeyFromObject d) d w = (a, w')"
    obtain err x where a: "a = (err, x)" by (cases a)
    from up_get [OF w run [unfolded a]] have "up w' \<and> (case err of
         None \<Rightarrow> lookup w (slot_of d) = Some x
       | Some e \<Rightarrow> IsNotFound (apierr E) e \<and> lookup w (slot_of d) = None)"
      unfolding slot_of_def .
    with a get_frame [OF run] show "(case a of (err, x) \<Rightarrow>
        \<lambda>w. up_with (slot_of d) (err = None) w \<and> (\<forall>e. err = Some e \<longrightarrow> IsNotFound (apierr E) e)) w'"
      by (cases err) (simp_all add: up_with_def)
  qed
  show ?thesis
    unfolding applyOnce_def
  proof (rule triple_bind [OF get], rule triple_case_prod)
    fix err :: "go_error option" and existing
    show "triple (\<lambda>w. up_with (slot_of d) (err = None) w \<and> (\<forall>e. err = Some e \<longrightarrow> IsNotFound (apierr E) e))
      (case err of
         Some e \<Rightarrow>
           if IsNotFound (apierr E) e then apply_create E d kind name namespace
           else return (Inl (WrapError (resource_text ''getting'' kind namespace name e) e), d)
       | None \<Rightarrow>
           if DeepEqual E existing d then do {
             ObserveNoOpApply (resourceKind kind);
             return (Inr ApplyResultUnchanged, d) }
           else apply_patch E d kind name namespace) succeeds"
    proof (cases err)
      case None
      have "triple (up_with (slot_of d) True) (do { ObserveNoOpApply (resourceKind kind);
          return (Inr ApplyResultUnchanged, d) }) succeeds"
        unfolding observe_defs by (intro triple_emit_seq triple_return) (simp add: up_with_def)
      with None up_apply_patch show ?thesis by simp
    next
      case (Some e)
      with up_apply_create [of d] show ?thesis
        by (cases "IsNotFound (apierr E) e") (simp_all add: triple_def)
    qed
  qed
qed

lemma up_Apply:
  assumes "GetNamespace owner = GetNamespace d" and "OwnerReferences (meta_of d) = []"
  shows "triple up (Apply E owner d) (\<lambda>r w. up w \<and> \<not> isl r)"
proof -
  obtain d' where d': "SetControllerReference E owner d = Inr d'"
    using up_reference [OF assms] by blast
  have loop: "triple (succeeds p)
      (case p of (r, d'') \<Rightarrow>
        (case r of
           Inr result \<Rightarrow> do {
             ObserveResourceApply (resourceKind kind) (ApplyResult_string result);
             return (Inr result) }
         | Inl lastErr \<Rightarrow>
             if \<not> IsConflict (apierr E) lastErr then apply_failed E kind name lastErr
             else if Suc 0 \<le> maxApplyRetries
             then apply_attempts E kind name namespace (Suc 0) d''
             else apply_failed E kind name lastErr)) (\<lambda>r w. up w \<and> \<not> isl r)"
    for p :: "(go_error + ApplyResult) \<times> kobject" and kind name namespace
    unfolding observe_defs
    by (cases p; cases "fst p") (auto intro!: triple_emit_seq triple_return simp: triple_def)
  have "triple up (apply_attempts E kind name namespace 0 d') (\<lambda>r w. up w \<and> \<not> isl r)" for kind name namespace
    by (subst apply_attempts.simps, simp, rule triple_bind [OF up_applyOnce], rule loop)
  with d' show ?thesis by (simp add: Apply_def Let_def)
qed

lemma up_delete_then_unchanged: "triple up (delete_then_unchanged E obj) (\<lambda>r w. up w \<and> \<not> isl r)"
proof -
  have delete: "triple up (client_Delete E obj) (\<lambda>err w. up w \<and> (\<forall>e. err = Some e \<longrightarrow> IsNotFound (apierr E) e))"
    unfolding client_Delete_def
    by (rule triple_bind [OF triple_emit triple_lift], assumption) (auto dest: up_delete split: option.splits)
  show ?thesis
    unfolding delete_then_unchanged_def DeleteIfExists_def observe_defs bind_assoc
  proof (rule triple_bind [OF delete])
    fix derr :: "go_error option"
    show "triple (\<lambda>w. up w \<and> (\<forall>e. derr = Some e \<longrightarrow> IsNotFound (apierr E) e))
      (bind (case derr of
        Some err \<Rightarrow>
          if IsNotFound (apierr E) err then return None
          else return (Some (WrapError
            (resource_text ''deleting'' (GetKind obj) (GetNamespace obj) (GetName obj) err) err))
      | None \<Rightarrow> do {
          emit (CounterInc ResourceApplyTotal [resourceKind (GetKind obj), ''deleted'']);
          return None })
       (\<lambda>r. case r of Some err \<Rightarrow> return (Inl err) | None \<Rightarrow> return (Inr ApplyResultUnchanged)))
      (\<lambda>r w. up w \<and> \<not> isl r)"
      by (cases derr) (auto intro!: triple_emit_seq triple_return simp: triple_def)
  qed
qed

text \<open>Every step of the loop succeeds, so the loop does.\<close>

definition up_step :: "string \<times> 'w step \<Rightarrow> bool" where
  "up_step st \<longleftrightarrow> triple up (snd st) (\<lambda>r w. up w \<and> (\<exists>res. r = Ret (Inr res)))"

lemma up_no_panic:
  assumes "triple up m (\<lambda>r w. up w \<and> \<not> isl r)"
  shows "up_step (name, no_panic m)"
  unfolding up_step_def no_panic_def snd_conv
  by (rule triple_bind [OF assms], rule triple_return) (auto simp: isl_def, metis sum.exhaust)

lemma up_run_subs:
  assumes "\<forall>st \<in> set sts. up_step st"
  shows "triple up (run_subs E app sts) (\<lambda>r w. up w \<and> r = Ret None)"
  using assms
proof (induction sts)
  case Nil
  then show ?case by (auto intro!: triple_return)
next
  case (Cons st sts)
  obtain name fn where st: "st = (name, fn)" by (cases st)
  with Cons.prems have fn: "triple up fn (\<lambda>r w. up w \<and> (\<exists>res. r = Ret (Inr res)))"
    by (simp add: up_step_def)
  have rest: "triple up (run_subs E app sts) (\<lambda>r w. up w \<and> r = Ret None)"
    using Cons by simp
  have step: "triple up fn (\<lambda>r w. case r of Ret (Inr _) \<Rightarrow> up w | _ \<Rightarrow> False)"
    by (rule triple_mono [OF fn]) auto
  have since: "triple up (time_Since E t) (\<lambda>_. up)" "triple (\<lambda>_. False) (time_Since E t) (\<lambda>_ _. False)" for t
    unfolding time_Since_def by (rule triple_bind [OF triple_now_only triple_return]) (simp_all add: triple_def)
  show ?case
    unfolding st run_subs.simps StartSpan_def
    by (intro triple_now_only_seq triple_emit_seq triple_bind [OF step],
        rule triple_after_step [OF since(2) since(1) rest]) simp_all
qed

lemma child_meta_owners [simp]: "OwnerReferences (child_meta app n l) = []"
  by (simp add: child_meta_def zero_ObjectMeta_def)

lemma up_reconcileResources:
  assumes "buildDesiredDeployment (ParseQuantity E) app = Ret dep"
  shows "triple up (reconcileResources E app) (\<lambda>r w. up w \<and> r = Ret None)"
proof -
  have "ReconcileDeployment E app = no_panic (Apply E (AppObj app) (DeploymentObj dep))"
    by (simp add: ReconcileDeployment_def no_panic_def assms)
  then have "\<forall>st \<in> set (sub_reconcilers E app). up_step st"
    by (simp add: sub_reconcilers_def ReconcileService_def ReconcileHPA_def
        ReconcileHTTPRoute_def ReconcileNetworkPolicy_def ReconcilePDB_def ReconcileServiceMonitor_def
        deleteHPAIfExists_def deleteHTTPRouteIfExists_def deleteNetworkPolicyIfExists_def
        deletePDBIfExists_def deleteServiceMonitorIfExists_def up_no_panic up_delete_then_unchanged)
      (simp add: up_no_panic up_Apply GetNamespace_def Deployment_meta [OF assms] buildDesiredService_def
        buildDesiredHPA_def buildDesiredHTTPRoute_def buildDesiredNetworkPolicy_def buildDesiredPDB_def
        buildDesiredServiceMonitor_def)
  then show ?thesis
    unfolding reconcileResources_def by (rule up_run_subs)
qed

end

end
