(* ===== verification/Traces.thy ===== *)
theory Traces
  imports Controller
begin

text \<open>
  What a reconciliation logs. The runs of the loop over the sub-reconcilers are described by an
  inductive relation between the names of the steps, the result and the log (\<open>subs_trace\<close>): the
  grammar of the traces. \<open>run_subs\<close> is proved to produce only such traces, and every fact about
  spans, labels, order and errors is then proved by induction on the relation.
\<close>

section \<open>The effects of an apply or a deletion\<close>

fun child_effect :: "effect \<Rightarrow> bool" where
  "child_effect (CallGet t key) \<longleftrightarrow> True"
| "child_effect (CallCreate obj) \<longleftrightarrow> True"
| "child_effect (CallPatch obj owner) \<longleftrightarrow> owner = FieldManager"
| "child_effect (CallDelete obj) \<longleftrightarrow> True"
| "child_effect (CounterInc c vs) \<longleftrightarrow> c \<in> {ResourceApplyTotal, NoOpApplyTotal} \<and> well_labelled (CounterInc c vs)"
| "child_effect (HistogramObserve c vs d) \<longleftrightarrow> c = APICallDurationSeconds \<and> well_labelled (HistogramObserve c vs d)"
| "child_effect (WaitStart d) \<longleftrightarrow> True"
| "child_effect _ \<longleftrightarrow> False"

lemma only_applyOnce: "only child_effect (applyOnce E d kind name namespace)"
  unfolding applyOnce_defs observe_defs
  by (intro logs_rules; simp add: collector_defs)

lemma only_Apply: "only child_effect (Apply E owner desired)"
proof (cases "SetControllerReference E owner desired")
  case (Inl e)
  then show ?thesis by (simp add: Apply_def Let_def logs_rules)
next
  case (Inr d)
  have "logs (\<lambda>_ es. list_all child_effect es) (apply_attempts E kind name namespace 0 d)" for kind name namespace
  proof (rule apply_attempts_rule [where T = "\<lambda>_ es. list_all child_effect es"])
    show "logs (\<lambda>(r, _) es. list_all child_effect es) (applyOnce E d kind name namespace)" for d
      by (rule logs_mono [OF only_applyOnce [unfolded only_def]]) auto
  qed (auto simp: retry_wait_def collector_defs)
  with Inr show ?thesis by (simp add: Apply_def Let_def only_def)
qed

lemma only_DeleteIfExists: "only child_effect (DeleteIfExists E obj)"
  unfolding DeleteIfExists_def observe_defs
  by (intro logs_rules; simp add: collector_defs)

lemma only_delete_then_unchanged: "only child_effect (delete_then_unchanged E obj)"
  unfolding delete_then_unchanged_def by (intro logs_rules only_DeleteIfExists)

section \<open>The steps\<close>

text \<open>What is known of an error that a sub-reconciler returns.\<close>

definition sub_errors :: "(go_error \<Rightarrow> bool) \<Rightarrow> 'w env \<Rightarrow> bool" where
  "sub_errors ok E \<longleftrightarrow>
     (\<forall>owner obj. logs (\<lambda>r es. \<forall>e. r = Inl e \<longrightarrow> ok e) (Apply E owner obj)) \<and>
     (\<forall>obj. logs (\<lambda>r es. \<forall>e. r = Inl e \<longrightarrow> ok e) (delete_then_unchanged E obj))"

lemma sub_errors_True: "sub_errors (\<lambda>_. True) E"
  by (simp add: sub_errors_def logs_def split: prod.split)
     (metis (no_types, lifting) logsD only_Apply only_def only_delete_then_unchanged)

text \<open>The contract of one step of the loop: its name, what it logs, its errors and its panics.\<close>

definition step_ok :: "(go_error \<Rightarrow> bool) \<Rightarrow> string \<times> 'w step \<Rightarrow> bool" where
  "step_ok ok st \<longleftrightarrow> logs (\<lambda>r es. list_all child_effect es \<and>
      (case r of Panic m \<Rightarrow> fst st = ''Deployment'' \<and> es = []
       | Ret (Inl e) \<Rightarrow> ok e
       | Ret (Inr _) \<Rightarrow> True)) (snd st)"

lemma logs_conj: "logs P m \<Longrightarrow> logs Q m \<Longrightarrow> logs (\<lambda>r es. P r es \<and> Q r es) m"
  unfolding logs_def by (fastforce split: prod.splits)

lemma no_panic_ok:
  assumes "only child_effect m" and "logs (\<lambda>r es. \<forall>e. r = Inl e \<longrightarrow> ok e) m"
  shows "step_ok ok (name, no_panic m)"
  unfolding step_ok_def no_panic_def
  using logs_conj [OF assms(1) [unfolded only_def] assms(2)]
  by (auto intro!: logs_bind logs_return split: sum.split)

lemma steps_ok:
  assumes "sub_errors ok E"
  shows "\<forall>st \<in> set (sub_reconcilers E app). step_ok ok st"
proof -
  have applied: "step_ok ok (name, no_panic (Apply E owner obj))" for name owner obj
    using assms by (intro no_panic_ok only_Apply) (simp add: sub_errors_def)
  have deleted: "step_ok ok (name, no_panic (delete_then_unchanged E obj))" for name obj
    using assms by (intro no_panic_ok only_delete_then_unchanged) (simp add: sub_errors_def)
  have "step_ok ok (''Deployment'', ReconcileDeployment E app)"
  proof (cases "buildDesiredDeployment (ParseQuantity E) app")
    case (Ret dep)
    then show ?thesis
      using applied [of "''Deployment''" "AppObj app" "DeploymentObj dep"]
      by (simp add: ReconcileDeployment_def no_panic_def)
  next
    case (Panic m)
    then show ?thesis
      by (simp add: ReconcileDeployment_def step_ok_def logs_return)
  qed
  then show ?thesis
    by (simp add: sub_reconcilers_def ReconcileService_def ReconcileHPA_def ReconcileHTTPRoute_def
        ReconcileNetworkPolicy_def ReconcilePDB_def ReconcileServiceMonitor_def
        deleteHPAIfExists_def deleteHTTPRouteIfExists_def deleteNetworkPolicyIfExists_def
        deletePDBIfExists_def deleteServiceMonitorIfExists_def applied deleted)
qed

section \<open>The traces of the loop\<close>

definition sub_start :: "PlatformApplication \<Rightarrow> string \<Rightarrow> effect" where
  "sub_start app n = SpanStart (sub_span n)
     (StringAttr ''service.name'' ''platform-operator'' #
      SubReconcileAttributes n (app_Name app) (app_Namespace app))"

definition failed_effects :: "string \<Rightarrow> go_error \<Rightarrow> ReconcileError \<Rightarrow> int \<Rightarrow> effect list" where
  "failed_effects n err re d =
     [SpanRecordError (sub_span n) (Error err), SpanSetStatus (sub_span n) False (Error err),
      SpanEnd (sub_span n),
      CounterInc SubReconcileTotal [n, ''error''], HistogramObserve SubReconcileDurationSeconds [n] d,
      CounterInc ReconcileErrorsTotal [n, class_string (Class re)],
      RecordEvent ''Warning'' ''ReconcileFailed''
        (''Failed to reconcile '' @ n @ '': '' @ ReconcileError_Error re)]"

definition succeeded_effects :: "string \<Rightarrow> int \<Rightarrow> effect list" where
  "succeeded_effects n d =
     [SpanSetStatus (sub_span n) True [], SpanEnd (sub_span n),
      CounterInc SubReconcileTotal [n, ''success''], HistogramObserve SubReconcileDurationSeconds [n] d]"

definition sub_error :: "string \<Rightarrow> ReconcileError \<Rightarrow> go_error" where
  "sub_error n re = WrapError (''reconciling '' @ n @ '': '' @ ReconcileError_Error re) (AsError re)"

inductive subs_trace ::
    "api_errors \<Rightarrow> PlatformApplication \<Rightarrow> (go_error \<Rightarrow> bool) \<Rightarrow>
     string list \<Rightarrow> go_error option go \<Rightarrow> effect list \<Rightarrow> bool"
  for A :: api_errors and app :: PlatformApplication and ok :: "go_error \<Rightarrow> bool" where
  all_done: "subs_trace A app ok [] (Ret None) []"
| panicked: "subs_trace A app ok (''Deployment'' # ns) (Panic m) [sub_start app ''Deployment'']"
| failed: "list_all child_effect cs \<Longrightarrow> ok err \<Longrightarrow> re = classify_or_wrap A err (app_Name app) n \<Longrightarrow>
    subs_trace A app ok (n # ns) (Ret (Some (sub_error n re)))
      (sub_start app n # cs @ failed_effects n err re d)"
| step: "list_all child_effect cs \<Longrightarrow> subs_trace A app ok ns r fs \<Longrightarrow>
    subs_trace A app ok (n # ns) r (sub_start app n # cs @ succeeded_effects n d @ fs)"

inductive_cases subs_trace_Nil: "subs_trace A app ok [] r es"

lemma logs_sub_failed:
  "logs (\<lambda>e es. \<exists>d. es = failed_effects name err (classify_or_wrap (apierr E) err (app_Name app) name) d \<and>
       e = sub_error name (classify_or_wrap (apierr E) err (app_Name app) name))
     (sub_failed E app name t err)"
  by (simp add: sub_failed_def failed_effects_def sub_error_def observe_defs time_Since_def time_Now_def
      logs_def Let_def split: prod.split)

lemma logs_sub_succeeded:
  "logs (\<lambda>_ es. \<exists>d. es = succeeded_effects name d) (sub_succeeded E name t)"
  by (simp add: sub_succeeded_def succeeded_effects_def observe_defs time_Since_def time_Now_def
      logs_def split: prod.split)

lemma logs_now_start:
  "logs (\<lambda>_ es. es = [sub_start app n])
     (do { t \<leftarrow> time_Now E;
           StartSpan (sub_span n) (SubReconcileAttributes n (app_Name app) (app_Namespace app));
           return t })"
  by (simp add: time_Now_def StartSpan_def sub_start_def logs_def split: prod.split)

lemma logs_time_Now: "logs (\<lambda>_ es. es = []) (time_Now E)"
  by (simp add: time_Now_def logs_lift)

lemma logs_StartSpan:
  "logs (\<lambda>_ es. es = [sub_start app n])
     (StartSpan (sub_span n) (SubReconcileAttributes n (app_Name app) (app_Namespace app)))"
  by (simp add: StartSpan_def sub_start_def logs_emit)

lemma run_subs_trace:
  assumes "\<forall>st \<in> set sts. step_ok ok st"
  shows "logs (subs_trace (apierr E) app ok (map fst sts)) (run_subs E app sts)"
  using assms
proof (induction sts)
  case Nil
  then show ?case by (simp add: logs_return subs_trace.all_done)
next
  case (Cons st sts)
  obtain n fn where st: "st = (n, fn)" by (cases st)
  from Cons.prems have "step_ok ok (n, fn)"
    by (simp add: st)
  then have fn: "logs (\<lambda>r es. list_all child_effect es \<and>
      (case r of Panic m \<Rightarrow> n = ''Deployment'' \<and> es = []
       | Ret (Inl e) \<Rightarrow> ok e | Ret (Inr _) \<Rightarrow> True)) fn"
    unfolding step_ok_def fst_conv snd_conv .
  have IH: "logs (subs_trace (apierr E) app ok (map fst sts)) (run_subs E app sts)"
    using Cons by simp
  have cont: "logs (\<lambda>b fs. subs_trace (apierr E) app ok (n # map fst sts) b (sub_start app n # cs @ fs))
      (case r of
         Panic m \<Rightarrow> return (Panic m)
       | Ret (Inl err) \<Rightarrow> do { e \<leftarrow> sub_failed E app n t err; return (Ret (Some e)) }
       | Ret (Inr _) \<Rightarrow> do { sub_succeeded E n t; run_subs E app sts })"
    if r: "list_all child_effect cs \<and> (case r of Panic m \<Rightarrow> n = ''Deployment'' \<and> cs = []
       | Ret (Inl e) \<Rightarrow> ok e | Ret (Inr _) \<Rightarrow> True)" for r cs t
  proof (cases r)
    case (Panic m)
    with r show ?thesis by (auto intro!: logs_return subs_trace.panicked)
  next
    case (Ret x)
    show ?thesis
    proof (cases x)
      case (Inl err)
      with r Ret show ?thesis
        by (auto intro!: logs_bind [OF logs_sub_failed] logs_return subs_trace.failed)
    next
      case (Inr res)
      with r Ret show ?thesis
        by (auto intro!: logs_bind [OF logs_sub_succeeded] logs_mono [OF IH] subs_trace.step)
    qed
  qed
  show ?case
    unfolding st run_subs.simps list.map fst_conv
    by (rule logs_bind [OF logs_time_Now], simp, rule logs_bind [OF logs_StartSpan], simp,
        rule logs_bind [OF fn], rule cont)
qed

definition sub_names :: "string list" where
  "sub_names = [''Deployment'', ''Service'', ''HPA'', ''HTTPRoute'', ''NetworkPolicy'',
     ''PodDisruptionBudget'', ''ServiceMonitor'']"

lemma reconcileResources_trace:
  "sub_errors ok E \<Longrightarrow> logs (subs_trace (apierr E) app ok sub_names) (reconcileResources E app)"
  using run_subs_trace [OF steps_ok [of ok E app], of E app]
  by (simp add: reconcileResources_def sub_names_def sub_reconcilers_def)

section \<open>Spans\<close>

text \<open>Runs the span operations of a log against a stack of open spans: the operations on a span are
  legal only on the innermost open one.\<close>

fun span_stack :: "effect list \<Rightarrow> string list \<Rightarrow> string list option" where
  "span_stack [] st = Some st"
| "span_stack (SpanStart n as # es) st = span_stack es (n # st)"
| "span_stack (SpanEnd n # es) st =
     (case st of m # st' \<Rightarrow> if m = n then span_stack es st' else None | [] \<Rightarrow> None)"
| "span_stack (SpanRecordError n m # es) st = (if st \<noteq> [] \<and> hd st = n then span_stack es st else None)"
| "span_stack (SpanSetStatus n b m # es) st = (if st \<noteq> [] \<and> hd st = n then span_stack es st else None)"
| "span_stack (SpanAddEvent n m as # es) st = (if st \<noteq> [] \<and> hd st = n then span_stack es st else None)"
| "span_stack (_ # es) st = span_stack es st"

lemma span_stack_append:
  "span_stack (es @ fs) st = (case span_stack es st of None \<Rightarrow> None | Some st' \<Rightarrow> span_stack fs st')"
  by (induction es st rule: span_stack.induct) (auto split: list.split)

lemma span_stack_child:
  assumes "list_all child_effect cs"
  shows "span_stack (cs @ fs) st = span_stack fs st"
  using assms
proof (induction cs)
  case (Cons e cs)
  then show ?case by (cases e) simp_all
qed simp

lemma span_stack_subs:
  "subs_trace A app ok ns r es \<Longrightarrow>
   span_stack es st = Some (case r of Panic m \<Rightarrow> sub_span ''Deployment'' # st | Ret x \<Rightarrow> st)"
  by (induction rule: subs_trace.induct)
    (simp_all add: sub_start_def span_stack_child failed_effects_def succeeded_effects_def)

section \<open>Labels\<close>

lemma child_well_labelled: "child_effect e \<Longrightarrow> well_labelled e"
  by (cases e) simp_all

lemma well_labelled_subs:
  "subs_trace A app ok ns r es \<Longrightarrow> list_all well_labelled es"
  by (induction rule: subs_trace.induct)
    (auto simp: sub_start_def failed_effects_def succeeded_effects_def collector_defs
      elim: list.pred_mono_strong dest: child_well_labelled)

section \<open>Order of the steps\<close>

lemma increments_child [simp]:
  assumes "list_all child_effect cs" and "c \<notin> {ResourceApplyTotal, NoOpApplyTotal}"
  shows "increments c cs = []"
  using assms(1)
proof (induction cs)
  case (Cons e cs)
  with assms(2) show ?case by (cases e) (auto simp: increments_Cons)
qed simp

lemma collector_neq [simp]:
  "SubReconcileTotal \<noteq> ResourceApplyTotal" "SubReconcileTotal \<noteq> NoOpApplyTotal"
  "ReconcileErrorsTotal \<noteq> ResourceApplyTotal" "ReconcileErrorsTotal \<noteq> NoOpApplyTotal"
  "StatusUpdateTotal \<noteq> ResourceApplyTotal" "StatusUpdateTotal \<noteq> NoOpApplyTotal"
  "ReconcileRequeueTotal \<noteq> ResourceApplyTotal" "ReconcileRequeueTotal \<noteq> NoOpApplyTotal"
  "ReconcileTotal \<noteq> ResourceApplyTotal" "ReconcileTotal \<noteq> NoOpApplyTotal"
  "SubReconcileTotal \<noteq> ReconcileErrorsTotal" "ReconcileErrorsTotal \<noteq> SubReconcileTotal"
  "SubReconcileTotal \<noteq> StatusUpdateTotal" "ReconcileErrorsTotal \<noteq> StatusUpdateTotal"
  "StatusUpdateTotal \<noteq> ReconcileErrorsTotal" "ReconcileRequeueTotal \<noteq> ReconcileErrorsTotal"
  "ReconcileRequeueTotal \<noteq> StatusUpdateTotal" "ReconcileTotal \<noteq> StatusUpdateTotal"
  "ReconcileTotal \<noteq> ReconcileErrorsTotal" "StatusUpdateTotal \<noteq> ReconcileRequeueTotal"
  "ReconcileErrorsTotal \<noteq> ReconcileRequeueTotal" "ReconcileTotal \<noteq> ReconcileRequeueTotal"
  "SubReconcileTotal \<noteq> ReconcileRequeueTotal" "SubReconcileTotal \<noteq> ReconcileTotal"
  "ReconcileErrorsTotal \<noteq> ReconcileTotal" "StatusUpdateTotal \<noteq> ReconcileTotal"
  "ReconcileRequeueTotal \<noteq> ReconcileTotal"
  by (simp_all add: collector_defs)

text \<open>The names and results of the steps, as the metrics report them.\<close>

lemma sub_order:
  assumes "subs_trace A app ok ns r es"
  shows "case r of
      Ret None \<Rightarrow> increments SubReconcileTotal es = map (\<lambda>n. [n, ''success'']) ns
    | Ret (Some e) \<Rightarrow> (\<exists>k < length ns. \<exists>re.
        increments SubReconcileTotal es = map (\<lambda>n. [n, ''success'']) (take k ns) @ [[ns ! k, ''error'']] \<and>
        e = sub_error (ns ! k) re)
    | Panic m \<Rightarrow> (\<exists>k < length ns.
        increments SubReconcileTotal es = map (\<lambda>n. [n, ''success'']) (take k ns) \<and> ns ! k = ''Deployment'')"
  using assms
proof induction
  case (panicked ns m)
  show ?case
    by (auto simp: sub_start_def increments_Cons intro: exI [of _ 0])
next
  case (failed cs err re n ns d)
  then show ?case
    by (auto simp: sub_start_def failed_effects_def increments_Cons intro!: exI [of _ 0])
next
  case (step cs ns r fs n d)
  have incs: "increments SubReconcileTotal (sub_start app n # cs @ succeeded_effects n d @ fs)
      = [n, ''success''] # increments SubReconcileTotal fs"
    using step.hyps(1) by (simp add: sub_start_def succeeded_effects_def increments_Cons)
  show ?case
  proof (cases r)
    case (Panic m)
    with step.IH obtain k where "k < length ns" "ns ! k = ''Deployment''"
      "increments SubReconcileTotal fs = map (\<lambda>n. [n, ''success'']) (take k ns)" by auto
    with Panic incs show ?thesis by (auto intro!: exI [of _ "Suc k"])
  next
    case (Ret x)
    show ?thesis
    proof (cases x)
      case None
      with Ret incs step.IH show ?thesis by simp
    next
      case (Some e)
      with Ret step.IH obtain k re where "k < length ns" "e = sub_error (ns ! k) re"
        "increments SubReconcileTotal fs = map (\<lambda>n. [n, ''success'']) (take k ns) @ [[ns ! k, ''error'']]"
        by auto
      with Ret Some incs show ?thesis by (auto intro!: exI [of _ "Suc k"] exI [of _ re])
    qed
  qed
qed simp

section \<open>The errors of the loop\<close>

text \<open>What the counter of errors says after the loop.\<close>

lemma sub_error_counts:
  assumes "subs_trace A app ok ns r es"
  shows "case r of
      Ret (Some e) \<Rightarrow> (\<exists>err n. ok err \<and> e = sub_error n (classify_or_wrap A err (app_Name app) n) \<and>
        increments ReconcileErrorsTotal es =
          [[n, class_string (Class (classify_or_wrap A err (app_Name app) n))]])
    | _ \<Rightarrow> increments ReconcileErrorsTotal es = []"
  using assms
proof induction
  case (failed cs err re n ns d)
  then show ?case
    by (auto simp: sub_start_def failed_effects_def increments_Cons intro!: exI [of _ err] exI [of _ n])
next
  case (step cs ns r fs n d)
  then show ?case
    by (cases r; cases "case r of Ret x \<Rightarrow> x | Panic _ \<Rightarrow> None")
      (simp_all add: sub_start_def succeeded_effects_def increments_Cons)
qed (simp_all add: sub_start_def increments_Cons)

lemma other_counts:
  "subs_trace A app ok ns r es \<Longrightarrow>
   increments StatusUpdateTotal es = [] \<and> increments ReconcileRequeueTotal es = [] \<and>
   increments ReconcileTotal es = []"
  by (induction rule: subs_trace.induct)
    (simp_all add: sub_start_def failed_effects_def succeeded_effects_def increments_Cons)

end
