(* ===== verification/Outcome.thy ===== *)
theory Outcome
  imports Traces
begin

text \<open>
  The status that a reconciliation writes and the result it returns. \<open>planned_status\<close> says, without
  state, which conditions an outcome calls for; \<open>retry_policy\<close> what is returned for an error. The
  operations of theory Controller are shown to follow both, and \<open>reconcile_trace\<close> describes the
  log of a whole reconciliation on each of its paths.
\<close>

section \<open>The status\<close>

text \<open>Status, reason and message of the conditions Progressing, Degraded and Ready.\<close>

type_synonym condition_plan = "(string \<times> string \<times> string) \<times> (string \<times> string \<times> string) \<times> (string \<times> string \<times> string)"

definition planned_conditions :: "PlatformApplication \<Rightarrow> go_error option \<Rightarrow> condition_plan" where
  "planned_conditions app reconcileErr =
     (case reconcileErr of
        Some err \<Rightarrow>
          ((ConditionFalse, ''ReconcileError'', Error err),
           (ConditionTrue, ''ReconcileError'', Error err),
           (ConditionFalse, ''ReconcileError'', ''Reconciliation failed''))
      | None \<Rightarrow>
          if all_ready app then
            ((ConditionFalse, ''Deployed'', ''All resources reconciled successfully''),
             (ConditionFalse, ''Healthy'', ''Application is healthy''),
             (ConditionTrue, ''Available'', ''Application is available''))
          else
            ((ConditionTrue, ''Deploying'', ''Waiting for '' @ replica_text app @ '' replicas''),
             (ConditionFalse, ''Deploying'', ''Deployment is rolling out''),
             (ConditionFalse, ''InsufficientReplicas'', ''Only '' @ replica_text app @ '' replicas ready'')))"

definition planned_result :: "PlatformApplication \<Rightarrow> go_error option \<Rightarrow> Result" where
  "planned_result app reconcileErr =
     (if reconcileErr = None \<and> \<not> all_ready app then requeue_after progressCheckDelay else no_requeue)"

definition with_status :: "PlatformApplication \<Rightarrow> PlatformApplicationStatus \<Rightarrow> PlatformApplication" where
  "with_status app s = app\<lparr>PlatformApplication.Status := s\<rparr>"

definition put_conditions ::
    "Time \<times> Time \<times> Time \<Rightarrow> condition_plan \<Rightarrow> PlatformApplicationStatus \<Rightarrow> PlatformApplicationStatus" where
  "put_conditions ts plan s =
     (case ts of (t1, t2, t3) \<Rightarrow>
      case plan of ((a1, b1, c1), (a2, b2, c2), (a3, b3, c3)) \<Rightarrow>
        SetReady t3 (SetDegraded t2 (SetProgressing t1 s a1 b1 c1) a2 b2 c2) a3 b3 c3)"

lemma logs_set_status:
  "logs (\<lambda>app' es. es = [] \<and> (\<exists>t. app' = with_status app (f t (PlatformApplication.Status app) a b c)))
     (set_status E f a b c app)"
  by (auto simp: set_status_def time_Now_def with_status_def intro!: logs_bind [OF logs_lift [where Q = "\<lambda>_ es. es = []"]] logs_return)

lemma with_status_simps [simp]:
  "PlatformApplication.Status (with_status app s) = s"
  "with_status (with_status app s) s' = with_status app s'"
  "PlatformApplication.Spec (with_status app s) = PlatformApplication.Spec app"
  "PlatformApplication.ObjectMeta (with_status app s) = PlatformApplication.ObjectMeta app"
  by (simp_all add: with_status_def)

lemma set_frame [simp]:
  "PlatformApplicationStatus.ReadyReplicas (SetProgressing t s a b c) = PlatformApplicationStatus.ReadyReplicas s"
  "PlatformApplicationStatus.ReadyReplicas (SetDegraded t s a b c) = PlatformApplicationStatus.ReadyReplicas s"
  "PlatformApplicationStatus.ReadyReplicas (SetReady t s a b c) = PlatformApplicationStatus.ReadyReplicas s"
  by (simp_all add: set_defs SetCondition_frame)

lemma logs_three:
  assumes "\<And>s. PlatformApplicationStatus.ReadyReplicas s = PlatformApplicationStatus.ReadyReplicas (PlatformApplication.Status app) \<Longrightarrow>
    msg (with_status app s) = c3"
  shows "logs (\<lambda>(res', app') es. es = [] \<and> res' = res \<and>
       (\<exists>ts. app' = with_status app (put_conditions ts ((a1, b1, c1), (a2, b2, c2), (a3, b3, c3)) (PlatformApplication.Status app))))
     (do { app \<leftarrow> set_status E SetProgressing a1 b1 c1 app;
           app \<leftarrow> set_status E SetDegraded a2 b2 c2 app;
           app \<leftarrow> set_status E SetReady a3 b3 (msg app) app;
           return (res, app) })"
  by (rule logs_bind [OF logs_set_status], elim conjE exE, hypsubst,
      rule logs_bind [OF logs_set_status], elim conjE exE, hypsubst,
      rule logs_bind [OF logs_set_status], elim conjE exE, hypsubst, rule logs_return)
    (auto simp: put_conditions_def assms)

lemma replica_text_with_status:
  "PlatformApplicationStatus.ReadyReplicas s = PlatformApplicationStatus.ReadyReplicas (PlatformApplication.Status app) \<Longrightarrow>
   replica_text (with_status app s) = replica_text app"
  by (simp add: replica_text_def)

lemma logs_setConditions:
  "logs (\<lambda>(res, app') es. es = [] \<and> res = planned_result app reconcileErr \<and>
       (\<exists>ts. app' = with_status app
          (put_conditions ts (planned_conditions app reconcileErr) (PlatformApplication.Status app))))
     (setConditions E app reconcileErr)"
proof (cases reconcileErr)
  case None
  show ?thesis
  proof (cases "all_ready app")
    case True
    with None show ?thesis
      unfolding setConditions_def planned_result_def planned_conditions_def
      by (simp del: split_paired_Ex) (rule logs_three [where msg = "\<lambda>_. ''Application is available''"], simp)
  next
    case False
    with None show ?thesis
      unfolding setConditions_def planned_result_def planned_conditions_def
      by (simp only: option.case if_False if_True simp_thms)
        (rule logs_three, simp add: replica_text_with_status)
  qed
next
  case (Some err)
  then show ?thesis
    unfolding setConditions_def planned_result_def planned_conditions_def
    by (simp del: split_paired_Ex) (rule logs_three [where msg = "\<lambda>_. ''Reconciliation failed''"], simp)
qed

text \<open>Where the number of ready replicas comes from: the Deployment, when it can be read, or the old status.\<close>

definition deployment_key :: "PlatformApplication \<Rightarrow> ObjectKey" where
  "deployment_key app = \<lparr>KeyNamespace = app_Namespace app, KeyName = app_Name app\<rparr>"

definition ready_source :: "'w env \<Rightarrow> PlatformApplication \<Rightarrow> int32 \<Rightarrow> bool" where
  "ready_source E app ready \<longleftrightarrow>
     (\<exists>w err x w'. env_Get E (deployment_key app) (DeploymentObj zero_Deployment) w = ((err, x), w') \<and>
        ready = (if err = None then as_deployment_status x
                 else PlatformApplicationStatus.ReadyReplicas (PlatformApplication.Status app)))"

lemma logs_updateDeploymentStatus:
  "logs (\<lambda>app' es. es = [CallGet DeploymentT (\<lparr>KeyNamespace = app_Namespace app, KeyName = app_Name app\<rparr>)] \<and>
       (\<exists>ready. ready_source E app ready \<and> app' = with_status app ((PlatformApplication.Status app)\<lparr>PlatformApplicationStatus.ReadyReplicas := ready\<rparr>)))
     (updateDeploymentStatus E app)"
proof (rule logsI, goal_cases)
  case (1 s app' s')
  obtain err x w' where get: "env_Get E (deployment_key app) (DeploymentObj zero_Deployment) (outside s) = ((err, x), w')"
    by (metis prod.exhaust)
  let ?ready = "if err = None then as_deployment_status x
    else PlatformApplicationStatus.ReadyReplicas (PlatformApplication.Status app)"
  have "ready_source E app ?ready"
    unfolding ready_source_def using get by blast
  moreover have "app' = with_status app ((PlatformApplication.Status app)\<lparr>PlatformApplicationStatus.ReadyReplicas := ?ready\<rparr>)"
    "log s' = log s @ [CallGet DeploymentT (\<lparr>KeyNamespace = app_Namespace app, KeyName = app_Name app\<rparr>)]"
    using 1 get
    by (auto simp: updateDeploymentStatus_def client_Get_def with_status_def deployment_key_def split: option.splits)
  ultimately show ?case by blast
qed

section \<open>The result\<close>

text \<open>What is returned for an error of the sub-reconcilers once the status has been written.\<close>

definition retry_policy :: "go_error \<Rightarrow> Result \<times> go_error option" where
  "retry_policy err =
     (case errors_As err of
        Some re \<Rightarrow>
          (case Class re of
             ClassConflict \<Rightarrow> (requeue_after conflictRequeueDelay, None)
           | ClassPermanent \<Rightarrow> (requeue_after permanentRequeueDelay, None)
           | _ \<Rightarrow> (requeue_after requeueDelay, Some err))
      | None \<Rightarrow> (requeue_after requeueDelay, Some err))"

text \<open>What the handling of an error logs, by the class of the error.\<close>

definition observed :: "string \<Rightarrow> int \<Rightarrow> effect list" where
  "observed result d = [CounterInc ReconcileTotal [result], HistogramObserve ReconcileDurationSeconds [result] d]"

definition unknown_effects :: "int \<Rightarrow> effect list" where
  "unknown_effects d = observed ''error'' d @
     [CounterInc ReconcileErrorsTotal [''unknown'', ''unknown''], CounterInc ReconcileRequeueTotal [''unknown'']]"

definition retry_effects :: "go_error \<Rightarrow> int \<Rightarrow> effect list" where
  "retry_effects err d =
     (case errors_As err of
        None \<Rightarrow> unknown_effects d
      | Some re \<Rightarrow> observed ''error'' d @
          [CounterInc ReconcileErrorsTotal [ReconcileError.Kind re, class_string (Class re)]] @
          (case Class re of
             ClassConflict \<Rightarrow> [CounterInc ReconcileRequeueTotal [''conflict'']]
           | ClassPermanent \<Rightarrow> [RecordEvent ''Warning'' ''PermanentError''
               (''Permanent error (manual intervention required): '' @ ReconcileError_Error re)]
           | ClassTransient \<Rightarrow> [CounterInc ReconcileRequeueTotal [''transient'']]
           | _ \<Rightarrow> unknown_effects d))"

lemma logs_handleErrorResult:
  "logs (\<lambda>r es. r = retry_policy err \<and> es = retry_effects err d) (handleErrorResult app err d)"
  unfolding handleErrorResult_def retry_policy_def retry_effects_def unknown_error_def unknown_effects_def
    observed_def observe_defs
  by (cases "errors_As err") (auto simp: logs_def split: ReconcileErrorClass.split)

definition success_effects :: "PlatformApplication \<Rightarrow> int \<Rightarrow> effect list" where
  "success_effects app d = observed ''success'' d @
     (if all_ready app then [] else [CounterInc ReconcileRequeueTotal [''replicas_not_ready'']])"

text \<open>
  The end of a reconciliation from the status update on. \<open>planned\<close> is the result that was computed
  with the conditions; \<open>app\<close> is the application as the server returned it.
\<close>

inductive finish_trace ::
    "api_errors \<Rightarrow> Result \<Rightarrow> go_error option \<Rightarrow> Result \<times> go_error option \<Rightarrow> effect list \<Rightarrow> bool"
  for A :: api_errors and planned :: Result where
  reconcile_error: "finish_trace A planned (Some err) (retry_policy err)
     (CounterInc StatusUpdateTotal [''success''] # retry_effects err d)"
| reconcile_ok: "finish_trace A planned None
     (if all_ready app then planned else requeue_after progressCheckDelay, None)
     (CounterInc StatusUpdateTotal [''success''] # success_effects app d)"
| status_conflict: "IsConflict A err \<Longrightarrow> finish_trace A planned e
     (requeue_after conflictRequeueDelay, None)
     [CounterInc StatusUpdateTotal [''error''], CounterInc StatusUpdateTotal [''conflict''],
      CounterInc ReconcileRequeueTotal [''status_conflict'']]"
| status_error: "\<not> IsConflict A err \<Longrightarrow> finish_trace A planned e
     (no_requeue, Some err) [CounterInc StatusUpdateTotal [''error'']]"

inductive_cases finish_trace_error: "finish_trace A planned (Some err) r es"
inductive_cases finish_trace_ok: "finish_trace A planned None r es"

lemma logs_time_Since: "logs (\<lambda>_ es. es = []) (time_Since E t)"
  by (simp add: time_Since_def time_Now_def logs_def split: prod.split)

lemma logs_finish: "logs (finish_trace (apierr E) planned e) (finish E t app planned e)"
proof (cases e)
  case None
  have "logs (\<lambda>r es. \<exists>d. r = (if all_ready app then planned else requeue_after progressCheckDelay, None) \<and>
      es = CounterInc StatusUpdateTotal [''success''] # success_effects app d) (finish E t app planned None)"
    unfolding finish_def success_effects_def observed_def observe_defs time_Since_def time_Now_def
    by (auto simp: logs_def split: prod.split)
  with None show ?thesis
    by (auto elim!: logs_mono intro: finish_trace.reconcile_ok)
next
  case (Some err)
  have "logs (\<lambda>r es. \<exists>d. r = retry_policy err \<and>
      es = CounterInc StatusUpdateTotal [''success''] # retry_effects err d) (finish E t app planned (Some err))"
    unfolding finish_def option.case
    by (rule logs_bind [OF logs_emit [where Q = "\<lambda>_ es. es = [CounterInc StatusUpdateTotal [''success'']]"]], simp,
        rule logs_bind [OF logs_time_Since], rule logs_mono [OF logs_handleErrorResult], auto)
  with Some show ?thesis
    by (auto elim!: logs_mono intro: finish_trace.reconcile_error)
qed

lemma logs_status_update_failed:
  "logs (finish_trace (apierr E) planned e) (status_update_failed E err)"
  unfolding status_update_failed_def
  by (auto simp: logs_def intro: finish_trace.intros)

section \<open>Whole reconciliations\<close>

definition with_ready :: "int32 \<Rightarrow> PlatformApplication \<Rightarrow> PlatformApplication" where
  "with_ready ready app = with_status app
     ((PlatformApplication.Status app)\<lparr>PlatformApplicationStatus.ReadyReplicas := ready\<rparr>)"

text \<open>The application at the start of the sub-reconcilers, and as it is sent in the status update.\<close>

definition started_app :: "Time \<times> Time \<Rightarrow> PlatformApplication \<Rightarrow> PlatformApplication" where
  "started_app ts app = with_status app
     (SetConfigurationValid (snd ts)
       (SetProgressing (fst ts) (PlatformApplication.Status app) ConditionTrue ''Reconciling'' ''Reconciliation in progress'')
       ConditionTrue ''Valid'' ''Configuration is valid'')"

definition reported_app ::
    "int32 \<Rightarrow> Time \<times> Time \<times> Time \<Rightarrow> go_error option \<Rightarrow> PlatformApplication \<Rightarrow> PlatformApplication" where
  "reported_app ready ts reconcileErr app =
     (let app' = with_ready ready (observe_spec app) in
      set_url (with_status app'
        (put_conditions ts (planned_conditions app' reconcileErr) (PlatformApplication.Status app'))))"

lemma observe_spec_meta [simp]:
  "PlatformApplication.ObjectMeta (observe_spec app) = PlatformApplication.ObjectMeta app"
  "PlatformApplication.Spec (observe_spec app) = PlatformApplication.Spec app"
  by (simp_all add: observe_spec_def)

lemma ready_source_observe [simp]: "ready_source E (observe_spec app) ready = ready_source E app ready"
  by (simp add: ready_source_def deployment_key_def observe_spec_def)

inductive report_trace ::
    "'w env \<Rightarrow> PlatformApplication \<Rightarrow> go_error option \<Rightarrow> Result \<times> go_error option \<Rightarrow> effect list \<Rightarrow> bool"
  for E :: "'w env" and app :: PlatformApplication and e :: "go_error option" where
  report: "ready_source E app ready \<Longrightarrow>
    finish_trace (apierr E) (planned_result (with_ready ready (observe_spec app)) e) e r fs \<Longrightarrow>
    report_trace E app e r
      (CallGet DeploymentT (deployment_key app) # CallStatusUpdate (AppObj (reported_app ready ts e app)) # fs)"

inductive_cases report_trace_elim: "report_trace E app e r es"

lemma logs_report_status:
  "logs (report_trace E app e) (report_status E t app e)"
  unfolding report_status_def
proof (rule logs_bind [OF logs_updateDeploymentStatus], elim conjE exE, hypsubst)
  fix app' es ready
  assume src: "ready_source E (observe_spec app) ready"
  let ?app = "with_ready ready (observe_spec app)"
  have tail: "logs (finish_trace (apierr E) (planned_result ?app e) e)
      (case serr of Some err \<Rightarrow> status_update_failed E err | None \<Rightarrow> finish E t (as_app obj) (planned_result ?app e) e)"
    for serr obj
    by (cases serr) (simp_all add: logs_status_update_failed logs_finish)
  have send: "logs (\<lambda>r fs. report_trace E app e r (CallGet DeploymentT (deployment_key app) # fs))
      (do { (serr, obj) \<leftarrow> client_StatusUpdate E (AppObj (reported_app ready ts e app));
            (case serr of Some err \<Rightarrow> status_update_failed E err
             | None \<Rightarrow> finish E t (as_app obj) (planned_result ?app e) e) })" for ts
    unfolding client_StatusUpdate_def bind_assoc
    by (rule logs_bind [OF logs_emit [where Q = "\<lambda>_ es. es = [CallStatusUpdate (AppObj (reported_app ready ts e app))]"]], simp,
        rule logs_bind [OF logs_lift [where Q = "\<lambda>_ es. es = []"]], simp, rule logs_prod,
        rule logs_mono [OF tail]) (use src in \<open>auto intro: report_trace.report\<close>)
  show "logs (\<lambda>b fs. report_trace E app e b
        ([CallGet DeploymentT \<lparr>KeyNamespace = app_Namespace (observe_spec app), KeyName = app_Name (observe_spec app)\<rparr>] @ fs))
      (do { (result, app) \<leftarrow> setConditions E
              (with_status (observe_spec app) ((PlatformApplication.Status (observe_spec app))
                 \<lparr>PlatformApplicationStatus.ReadyReplicas := ready\<rparr>)) e;
            (serr, obj) \<leftarrow> client_StatusUpdate E (AppObj (set_url app));
            (case serr of Some err \<Rightarrow> status_update_failed E err
             | None \<Rightarrow> finish E t (as_app obj) result e) })"
    unfolding with_ready_def [symmetric]
    by (rule logs_bind [OF logs_setConditions], clarsimp simp del: split_paired_Ex)
      (use send in \<open>auto simp: reported_app_def Let_def deployment_key_def\<close>)
qed

text \<open>
  The log of \<open>Reconcile\<close> after the application has been fetched, or could not be: its five paths.
  \<open>ok\<close> is what is known of the errors of the sub-reconcilers.
\<close>

inductive body_trace ::
    "'w env \<Rightarrow> (go_error \<Rightarrow> bool) \<Rightarrow> (Result \<times> go_error option) go \<Rightarrow> effect list \<Rightarrow> bool"
  for E :: "'w env" and ok :: "go_error \<Rightarrow> bool" where
  gone: "IsNotFound (apierr E) err \<Longrightarrow> body_trace E ok (Ret (no_requeue, None)) []"
| fetch_error: "\<not> IsNotFound (apierr E) err \<Longrightarrow> body_trace E ok (Ret (no_requeue, Some err))
     [CounterInc ReconcileErrorsTotal [''fetch_error'', class_string (Classify (apierr E) (Some err))]]"
| deleted: "\<not> Time_IsZero (DeletionTimestamp (PlatformApplication.ObjectMeta (app :: PlatformApplication))) \<Longrightarrow>
     \<not> ContainsFinalizer E (PlatformApplication.ObjectMeta app) finalizerName \<Longrightarrow>
     body_trace E ok (Ret (no_requeue, None)) []"
| finalized: "\<not> Time_IsZero (DeletionTimestamp (PlatformApplication.ObjectMeta app)) \<Longrightarrow>
     ContainsFinalizer E (PlatformApplication.ObjectMeta app) finalizerName \<Longrightarrow>
     r \<in> {(no_requeue, None), (requeue_after conflictRequeueDelay, None),
          (no_requeue, Some (WrapError (''removing finalizer: '' @ Error err) err))} \<Longrightarrow>
     events = (if r = (no_requeue, None)
       then [RecordEvent ''Normal'' ''Deleting'' ''Finalizer removed, deletion will proceed''] else []) \<Longrightarrow>
     body_trace E ok (Ret r) (CallUpdate (AppObj (app_meta_update (RemoveFinalizer E) app)) # events)"
| adding_finalizer: "Time_IsZero (DeletionTimestamp (PlatformApplication.ObjectMeta app)) \<Longrightarrow>
     \<not> ContainsFinalizer E (PlatformApplication.ObjectMeta app) finalizerName \<Longrightarrow>
     r \<in> {(no_requeue, None), (no_requeue, Some (WrapError (''adding finalizer: '' @ Error err) err))} \<Longrightarrow>
     body_trace E ok (Ret r) [CallUpdate (AppObj (app_meta_update (AddFinalizer E) app))]"
| live_panic: "subs_trace (apierr E) (started_app ts app) ok sub_names (Panic m) es \<Longrightarrow>
     body_trace E ok (Panic m) es"
| live: "Time_IsZero (DeletionTimestamp (PlatformApplication.ObjectMeta app)) \<Longrightarrow>
     ContainsFinalizer E (PlatformApplication.ObjectMeta app) finalizerName \<Longrightarrow>
     subs_trace (apierr E) (started_app ts app) ok sub_names (Ret e) es \<Longrightarrow>
     report_trace E (started_app ts app) e r fs \<Longrightarrow>
     body_trace E ok (Ret r) (es @ fs)"

lemma logs_started:
  assumes "\<And>ts. logs Q (k (started_app ts app))"
  shows "logs Q (do {
     app \<leftarrow> set_status E SetProgressing ConditionTrue ''Reconciling'' ''Reconciliation in progress'' app;
     app \<leftarrow> set_status E SetConfigurationValid ConditionTrue ''Valid'' ''Configuration is valid'' app;
     k app })"
proof -
  have k: "logs (\<lambda>b fs. Q b ([] @ [] @ fs)) (k (started_app (t1, t2) app))" for t1 t2
    using assms by simp
  show ?thesis
    by (rule logs_bind [OF logs_set_status], elim conjE exE, hypsubst,
        rule logs_bind [OF logs_set_status], elim conjE exE, hypsubst)
      (use k in \<open>simp add: started_app_def\<close>)
qed

text \<open>A reconciliation of a live application: the loop, and the status report unless it panics.\<close>

definition live_trace ::
    "'w env \<Rightarrow> (go_error \<Rightarrow> bool) \<Rightarrow> PlatformApplication \<Rightarrow> (Result \<times> go_error option) go \<Rightarrow> effect list \<Rightarrow> bool" where
  "live_trace E ok app r es \<longleftrightarrow>
     (\<exists>ts. case r of
        Panic m \<Rightarrow> subs_trace (apierr E) (started_app ts app) ok sub_names (Panic m) es
      | Ret x \<Rightarrow> (\<exists>e gs fs. es = gs @ fs \<and> subs_trace (apierr E) (started_app ts app) ok sub_names (Ret e) gs \<and>
          report_trace E (started_app ts app) e x fs))"

lemma logs_live:
  assumes "sub_errors ok E"
  shows "logs (live_trace E ok app) (reconcile_live E t app)"
  unfolding reconcile_live_def
proof (rule logs_started, rule logs_bind [OF reconcileResources_trace [OF assms]])
  fix ts r es
  assume subs: "subs_trace (apierr E) (started_app ts app) ok sub_names r es"
  show "logs (\<lambda>b fs. live_trace E ok app b (es @ fs))
      (case r of Panic m \<Rightarrow> return (Panic m)
       | Ret e \<Rightarrow> do { res \<leftarrow> report_status E t (started_app ts app) e; return (Ret res) })"
  proof (cases r)
    case (Panic m)
    with subs show ?thesis
      by (auto intro!: logs_return simp: live_trace_def simp del: split_paired_Ex)
  next
    case (Ret e)
    with subs have "live_trace E ok app (Ret x) (es @ fs)" if "report_trace E (started_app ts app) e x fs" for x fs
      using that unfolding live_trace_def by (simp del: split_paired_Ex) blast
    with Ret show ?thesis
      by (auto intro!: logs_bind [OF logs_report_status] logs_return)
  qed
qed

lemma body_of_live:
  assumes "live_trace E ok app r es"
    and "Time_IsZero (DeletionTimestamp (PlatformApplication.ObjectMeta app))"
    and "ContainsFinalizer E (PlatformApplication.ObjectMeta app) finalizerName"
  shows "body_trace E ok r es"
  using assms
  by (cases r) (auto simp: live_trace_def simp del: split_paired_Ex intro: body_trace.live_panic body_trace.live)

lemma logs_reconcile_live:
  assumes "sub_errors ok E"
    and "Time_IsZero (DeletionTimestamp (PlatformApplication.ObjectMeta app))"
    and "ContainsFinalizer E (PlatformApplication.ObjectMeta app) finalizerName"
  shows "logs (body_trace E ok) (reconcile_live E t app)"
  by (rule logs_mono [OF logs_live [OF assms(1)]]) (rule body_of_live [OF _ assms(2,3)])

lemma logs_CallUpdate:
  "logs (\<lambda>_ es. es = [CallUpdate obj]) (client_Update E obj)"
  by (simp add: client_Update_def logs_def split: prod.split)

lemma logs_handleDeletion:
  assumes "\<not> Time_IsZero (DeletionTimestamp (PlatformApplication.ObjectMeta app))"
  shows "logs (\<lambda>r es. body_trace E ok (Ret r) es) (handleDeletion E app)"
proof (cases "ContainsFinalizer E (PlatformApplication.ObjectMeta app) finalizerName")
  case False
  with assms show ?thesis
    by (auto simp: handleDeletion_def intro!: logs_return body_trace.deleted)
next
  case True
  then show ?thesis
    unfolding handleDeletion_def
    by (auto simp: client_Update_def logs_def delay_defs intro!: body_trace.finalized [OF assms True]
        split: prod.split option.split)
qed

lemma logs_add_finalizer:
  assumes "Time_IsZero (DeletionTimestamp (PlatformApplication.ObjectMeta app))"
    and "\<not> ContainsFinalizer E (PlatformApplication.ObjectMeta app) finalizerName"
  shows "logs (\<lambda>r es. body_trace E ok (Ret r) es) (add_finalizer E app)"
  unfolding add_finalizer_def
  by (auto intro!: logs_bind [OF logs_CallUpdate] logs_return body_trace.adding_finalizer [OF assms]
      split: option.split)

lemma logs_fetch_failed:
  "logs (\<lambda>r es. body_trace E ok (Ret r) es) (fetch_failed E err)"
  unfolding fetch_failed_def observe_defs
  by (auto simp: logs_def intro: body_trace.gone body_trace.fetch_error)

lemma logs_Ret: "logs (\<lambda>r es. Q (Ret r) es) m \<Longrightarrow> logs Q (do { r \<leftarrow> m; return (Ret r) })"
  by (rule logs_bind [where P = "\<lambda>r es. Q (Ret r) es"]) (simp_all add: logs_return)

lemma logs_reconcile_body:
  assumes "sub_errors ok E"
  shows "logs (\<lambda>r es. \<exists>fs. es = CallGet AppT req # fs \<and> body_trace E ok r fs) (reconcile_body E req t)"
proof -
  have get: "logs (\<lambda>_ es. es = [CallGet AppT req]) (client_Get E req (AppObj zero_PlatformApplication))"
    by (simp add: client_Get_def logs_def split: prod.split)
  have "logs (body_trace E ok)
      (case gerr of
         Some err \<Rightarrow> do { r \<leftarrow> fetch_failed E err; return (Ret r) }
       | None \<Rightarrow>
           let app = as_app obj in
           if \<not> Time_IsZero (DeletionTimestamp (PlatformApplication.ObjectMeta app))
           then do { r \<leftarrow> handleDeletion E app; return (Ret r) }
           else if \<not> ContainsFinalizer E (PlatformApplication.ObjectMeta app) finalizerName
           then do { r \<leftarrow> add_finalizer E app; return (Ret r) }
           else reconcile_live E t app)" for gerr obj
    using assms unfolding Let_def
    by (auto intro!: logs_Ret logs_fetch_failed logs_handleDeletion logs_add_finalizer logs_reconcile_live
        split: option.split)
  then show ?thesis
    unfolding reconcile_body_def
    by (intro logs_bind [OF get] logs_prod) (simp add: logs_def)
qed

lemma logs_emit_one: "logs (\<lambda>_ es. es = [e]) (emit e)"
  by (simp add: logs_emit)

text \<open>The whole log: the body between the operations that \<open>Reconcile\<close> defers.\<close>

definition reconcile_log :: "ObjectKey \<Rightarrow> effect list \<Rightarrow> effect list" where
  "reconcile_log req fs =
     [GaugeInc ActiveReconcilers,
      SpanStart reconcile_span
        [StringAttr ''service.name'' ''platform-operator'',
         StringAttr ''reconcile.name'' (KeyName req), StringAttr ''reconcile.namespace'' (KeyNamespace req)],
      CallGet AppT req] @ fs @ [SpanEnd reconcile_span, GaugeDec ActiveReconcilers]"

lemma logs_Reconcile:
  assumes "sub_errors ok E"
  shows "logs (\<lambda>r es. \<exists>fs. es = reconcile_log req fs \<and> body_trace E ok r fs) (Reconcile E req)"
  unfolding Reconcile_def StartSpan_def
  by (rule logs_bind [OF logs_time_Now], hypsubst, rule logs_bind [OF logs_emit_one], hypsubst,
      rule logs_bind [OF logs_emit_one], hypsubst,
      rule logs_bind [OF logs_reconcile_body [OF assms]], elim exE conjE, hypsubst,
      rule logs_bind [OF logs_emit_one], hypsubst, rule logs_bind [OF logs_emit_one], hypsubst,
      rule logs_return, simp add: reconcile_log_def)

section \<open>Rules for the parts of a reconciliation\<close>

text \<open>Before the sub-reconcilers two conditions are set, in memory only.\<close>

lemma triple_set_status:
  assumes "\<And>f a b c app. triple P (set_status E f a b c app) (\<lambda>_. P)"
  shows "triple P (set_status E f a b c app)
    (\<lambda>app' w. P w \<and> (\<exists>t. app' = with_status app (f t (PlatformApplication.Status app) a b c)))"
  by (rule triple_logs [OF assms], rule logs_mono [OF logs_set_status]) auto

lemma triple_start_rule:
  assumes "\<And>f a b c app. triple P (set_status E f a b c app) (\<lambda>_. P)"
    and "\<And>ts. triple P (k (started_app ts app)) Q"
  shows "triple P (do {
     app \<leftarrow> set_status E SetProgressing ConditionTrue ''Reconciling'' ''Reconciliation in progress'' app;
     app \<leftarrow> set_status E SetConfigurationValid ConditionTrue ''Valid'' ''Configuration is valid'' app;
     k app }) Q"
proof -
  note set = triple_set_status [OF assms(1)]
  have k: "triple P (k (started_app (t1, t2) app)) Q" for t1 t2
    by (rule assms(2))
  show ?thesis
    by (rule triple_bind [OF set], rule triple_conj, elim exE, hypsubst,
        rule triple_bind [OF set], rule triple_conj, elim exE, hypsubst)
      (use k in \<open>simp add: started_app_def\<close>)
qed

text \<open>After them the ready replicas are read, the conditions are set in memory, and what is sent is the
  reported application: a report is verified by verifying its status update and what comes after it.\<close>

lemma triple_report_rule:
  assumes count: "triple P (updateDeploymentStatus E (observe_spec app))
      (\<lambda>app' w. P w \<and> (\<exists>ready. C ready \<and> app' = with_ready ready (observe_spec app)))"
    and keeps: "\<And>app'. triple P (setConditions E app' e) (\<lambda>_. P)"
    and send: "\<And>ready ts. C ready \<Longrightarrow> triple P (do {
        (serr, obj) \<leftarrow> client_StatusUpdate E (AppObj (reported_app ready ts e app));
        (case serr of
           Some err \<Rightarrow> status_update_failed E err
         | None \<Rightarrow> finish E t (as_app obj) (planned_result (with_ready ready (observe_spec app)) e) e) }) Q"
  shows "triple P (report_status E t app e) Q"
proof -
  let ?app = "\<lambda>ready. with_ready ready (observe_spec app)"
  have conds: "triple P (setConditions E (?app ready) e) (\<lambda>p w. P w \<and>
      (\<exists>ts. fst p = planned_result (?app ready) e \<and> set_url (snd p) = reported_app ready ts e app))" for ready
    by (rule triple_logs [OF keeps], rule logs_mono [OF logs_setConditions])
      (auto simp: reported_app_def Let_def simp del: split_paired_Ex)
  have "triple P (do {
      (result, app) \<leftarrow> setConditions E (?app ready) e;
      (serr, obj) \<leftarrow> client_StatusUpdate E (AppObj (set_url app));
      (case serr of Some err \<Rightarrow> status_update_failed E err | None \<Rightarrow> finish E t (as_app obj) result e) }) Q"
    if "C ready" for ready
  proof (rule triple_bind [OF conds], rule triple_conj, elim exE conjE)
    fix p ts
    assume "fst p = planned_result (?app ready) e" and "set_url (snd p) = reported_app ready ts e app"
    then show "triple P (case p of (result, app) \<Rightarrow> do {
        (serr, obj) \<leftarrow> client_StatusUpdate E (AppObj (set_url app));
        (case serr of Some err \<Rightarrow> status_update_failed E err | None \<Rightarrow> finish E t (as_app obj) result e) }) Q"
      using send [OF that, of ts] by (cases p) (simp only: fst_conv snd_conv prod.case)
  qed
  then show ?thesis
    unfolding report_status_def
    by (intro triple_bind [OF count] triple_conj) blast
qed

text \<open>The body reads the application and goes by what it finds; an unsuccessful read ends it.\<close>

lemma triple_body_rule:
  assumes get: "triple P (client_Get E key (AppObj zero_PlatformApplication))
      (\<lambda>(err, obj) w. case err of Some e \<Rightarrow> M e w | None \<Rightarrow> \<exists>a. obj = AppObj a \<and> F a w)"
    and missing: "\<And>e. triple (M e) (do { r \<leftarrow> fetch_failed E e; return (Ret r) }) Q"
    and found: "\<And>a. triple (F a)
      (if \<not> Time_IsZero (DeletionTimestamp (PlatformApplication.ObjectMeta a)) then do { r \<leftarrow> handleDeletion E a; return (Ret r) }
       else if \<not> ContainsFinalizer E (PlatformApplication.ObjectMeta a) finalizerName
       then do { r \<leftarrow> add_finalizer E a; return (Ret r) }
       else reconcile_live E t a) Q"
  shows "triple P (reconcile_body E key t) Q"
  unfolding reconcile_body_def
proof (rule triple_bind [OF get], rule triple_case_prod)
  fix err :: "go_error option" and obj
  show "triple (\<lambda>w. case err of Some e \<Rightarrow> M e w | None \<Rightarrow> \<exists>a. obj = AppObj a \<and> F a w)
      (case err of
        Some err \<Rightarrow> do { r \<leftarrow> fetch_failed E err; return (Ret r) }
      | None \<Rightarrow>
          let app = as_app obj in
          if \<not> Time_IsZero (DeletionTimestamp (PlatformApplication.ObjectMeta app))
          then do { r \<leftarrow> handleDeletion E app; return (Ret r) }
          else if \<not> ContainsFinalizer E (PlatformApplication.ObjectMeta app) finalizerName
          then do { r \<leftarrow> add_finalizer E app; return (Ret r) }
          else reconcile_live E t app) Q"
  proof (cases err)
    case None
    have "triple (\<lambda>w. obj = AppObj a \<and> F a w)
        (let app = as_app obj in
          if \<not> Time_IsZero (DeletionTimestamp (PlatformApplication.ObjectMeta app))
          then do { r \<leftarrow> handleDeletion E app; return (Ret r) }
          else if \<not> ContainsFinalizer E (PlatformApplication.ObjectMeta app) finalizerName
          then do { r \<leftarrow> add_finalizer E app; return (Ret r) }
          else reconcile_live E t app) Q" for a
      using found [of a] by (cases "obj = AppObj a") (simp_all only: Let_def as_app.simps simp_thms, simp add: triple_def)
    with None show ?thesis by (simp only: option.case) (rule triple_ex)
  qed (simp add: missing)
qed

text \<open>Around the body there is only what is observed of it.\<close>

lemma triple_Reconcile_rule:
  assumes "triple P (time_Now E) (\<lambda>_. P)" and "\<And>t. triple P (reconcile_body E key t) Q"
  shows "triple P (Reconcile E key) Q"
proof -
  have tail: "triple (Q r) (do { emit e; emit e'; return r }) Q" for r e e'
    by (intro triple_emit_seq triple_return) assumption
  show ?thesis
    unfolding Reconcile_def StartSpan_def
    by (intro triple_bind [OF assms(1)] triple_emit_seq triple_bind [OF assms(2) tail])
qed

end
