(* ===== verification/Reconcile_Facts.thy ===== *)
theory Reconcile_Facts
  imports Outcome
begin

text \<open>
  Facts about the log of a whole reconciliation, read off its traces: spans and the gauge of active
  workers, labels, writes of the application, the status that is sent, and the result.
\<close>

section \<open>Effects outside spans and gauges\<close>

fun is_span :: "effect \<Rightarrow> bool" where
  "is_span (SpanStart n as) = True"
| "is_span (SpanRecordError n m) = True"
| "is_span (SpanSetStatus n b m) = True"
| "is_span (SpanAddEvent n m as) = True"
| "is_span (SpanEnd n) = True"
| "is_span _ = False"

fun is_gauge :: "effect \<Rightarrow> bool" where
  "is_gauge (GaugeInc c) = True"
| "is_gauge (GaugeDec c) = True"
| "is_gauge _ = False"

fun is_app_write :: "effect \<Rightarrow> bool" where
  "is_app_write (CallUpdate obj) = True"
| "is_app_write (CallStatusUpdate obj) = True"
| "is_app_write _ = False"

text \<open>Metric updates of counters and histograms with correct labels, events and calls.\<close>

definition plain :: "effect \<Rightarrow> bool" where
  "plain e \<longleftrightarrow> \<not> is_span e \<and> \<not> is_gauge e \<and> well_labelled e"

lemma plain_simps [simp]:
  "plain (CounterInc c vs) = well_labelled (CounterInc c vs)"
  "plain (HistogramObserve c vs d) = well_labelled (HistogramObserve c vs d)"
  "plain (RecordEvent t rs m)" "plain (CallGet ty key)" "plain (CallUpdate obj)" "plain (CallStatusUpdate obj)"
  by (simp_all add: plain_def)

lemma span_stack_plain:
  assumes "list_all plain es"
  shows "span_stack (es @ fs) st = span_stack fs st"
  using assms
proof (induction es)
  case (Cons e es)
  then show ?case by (cases e) (simp_all add: plain_def)
qed simp

lemmas span_stack_plain_only = span_stack_plain [of _ "[]", simplified]

lemma plain_no_gauge: "list_all plain es \<Longrightarrow> filter is_gauge es = []"
  by (induction es) (simp_all add: plain_def)

lemma plain_no_span: "list_all plain es \<Longrightarrow> SpanEnd n \<notin> set es"
  by (induction es) (auto simp: plain_def)

lemma plain_well_labelled: "list_all plain es \<Longrightarrow> list_all well_labelled es"
  by (auto simp: plain_def elim: list.pred_mono_strong)

lemma plain_retry: "list_all plain (retry_effects err d)"
  by (auto simp: retry_effects_def unknown_effects_def observed_def collector_defs
      split: option.split ReconcileErrorClass.split)

lemma plain_finish: "finish_trace A planned e r es \<Longrightarrow> list_all plain es"
  by (induction rule: finish_trace.induct)
    (auto simp: plain_retry success_effects_def observed_def collector_defs)

lemma plain_report: "report_trace E app e r es \<Longrightarrow> list_all plain es"
  by (induction rule: report_trace.induct) (auto dest: plain_finish)

lemma gauge_subs: "subs_trace A app ok ns r es \<Longrightarrow> filter is_gauge es = []"
proof (induction rule: subs_trace.induct)
  have child: "list_all child_effect cs \<Longrightarrow> filter is_gauge cs = []" for cs
  proof (induction cs)
    case (Cons e cs)
    then show ?case by (cases e) simp_all
  qed simp
  {
    case failed
    then show ?case by (simp add: sub_start_def failed_effects_def child)
  next
    case step
    then show ?case by (simp add: sub_start_def succeeded_effects_def child)
  }
qed (simp_all add: sub_start_def)

text \<open>Each path of a reconciliation: either all plain, or the loop followed by plain effects.\<close>

lemma body_trace_shape:
  assumes "body_trace E ok r fs"
  shows "(list_all plain fs \<and> (\<exists>x. r = Ret x)) \<or>
    (\<exists>app e es gs. subs_trace (apierr E) app ok sub_names (Ret e) es \<and> fs = es @ gs \<and> list_all plain gs \<and> (\<exists>x. r = Ret x)) \<or>
    (\<exists>app m. subs_trace (apierr E) app ok sub_names (Panic m) fs \<and> r = Panic m)"
  using assms
proof (cases rule: body_trace.cases)
  case (live app ts e es r' gs)
  then show ?thesis using plain_report by blast
next
  case (live_panic ts app m)
  then show ?thesis by blast
qed (auto simp: collector_defs)

lemma well_labelled_body: "body_trace E ok r fs \<Longrightarrow> list_all well_labelled fs"
  by (drule body_trace_shape) (auto dest: plain_well_labelled well_labelled_subs)

lemma gauge_body: "body_trace E ok r fs \<Longrightarrow> filter is_gauge fs = []"
  by (drule body_trace_shape) (auto dest: plain_no_gauge gauge_subs)

lemma span_stack_body:
  assumes "body_trace E ok r fs"
  shows "span_stack (fs @ gs) st =
    (case r of Panic m \<Rightarrow> span_stack gs (sub_span ''Deployment'' # st) | Ret x \<Rightarrow> span_stack gs st)"
  using body_trace_shape [OF assms]
  by (auto simp: span_stack_append span_stack_plain_only span_stack_subs)

section \<open>Writes\<close>

lemma writes_plain:
  "finish_trace A planned e r es \<Longrightarrow> filter is_write es = []"
  by (induction rule: finish_trace.induct)
    (auto simp: retry_effects_def unknown_effects_def success_effects_def observed_def
      split: option.split ReconcileErrorClass.split)

lemma writes_report:
  assumes "report_trace E app e r es"
  shows "\<exists>ready ts. filter is_write es = [CallStatusUpdate (AppObj (reported_app ready ts e app))]"
  using assms by (elim report_trace_elim) (auto simp: writes_plain simp del: split_paired_Ex)

lemma app_writes_subs: "subs_trace A app ok ns r es \<Longrightarrow> filter is_app_write es = []"
proof (induction rule: subs_trace.induct)
  have child: "list_all child_effect cs \<Longrightarrow> filter is_app_write cs = []" for cs
  proof (induction cs)
    case (Cons e cs)
    then show ?case by (cases e) simp_all
  qed simp
  {
    case failed
    then show ?case by (simp add: sub_start_def failed_effects_def child)
  next
    case step
    then show ?case by (simp add: sub_start_def succeeded_effects_def child)
  }
qed (simp_all add: sub_start_def)

text \<open>Only the first step can panic, before it has done anything.\<close>

lemma panic_first:
  assumes "subs_trace A app ok ns r es" and "r = Panic m" and "''Deployment'' \<notin> set (tl ns)"
  shows "es = [sub_start app ''Deployment'']"
  using assms
proof (induction rule: subs_trace.induct)
  case (step cs ns r fs n d)
  have "\<And>ns r es. subs_trace A app ok ns r es \<Longrightarrow> r = Panic m \<Longrightarrow> ''Deployment'' \<in> set ns"
  proof -
    fix ns r es
    show "subs_trace A app ok ns r es \<Longrightarrow> r = Panic m \<Longrightarrow> ''Deployment'' \<in> set ns"
      by (induction rule: subs_trace.induct) auto
  qed
  with step show ?case by auto
qed simp_all

definition writes_spec :: "(Result \<times> go_error option) go \<Rightarrow> effect list \<Rightarrow> bool" where
  "writes_spec r es \<longleftrightarrow>
     (let ws = filter is_write es in
      case r of
        Panic m \<Rightarrow> ws = []
      | Ret _ \<Rightarrow>
          (case ws of
             [] \<Rightarrow> increments SubReconcileTotal es = []
           | [CallUpdate (AppObj app)] \<Rightarrow> increments SubReconcileTotal es = []
           | _ \<Rightarrow> (\<exists>app. last ws = CallStatusUpdate (AppObj app)) \<and> list_all (\<lambda>e. \<not> is_app_write e) (butlast ws)))"

lemma app_write_filter: "filter is_app_write es = [] \<Longrightarrow> list_all (\<lambda>e. \<not> is_app_write e) (filter is_write es)"
  by (auto simp: list_all_iff filter_empty_conv)

lemma writes_spec_snoc:
  assumes "list_all (\<lambda>e. \<not> is_app_write e) ws"
  shows "(case ws @ [CallStatusUpdate (AppObj app')] of [] \<Rightarrow> P | [CallUpdate (AppObj app)] \<Rightarrow> P
     | _ \<Rightarrow> (\<exists>app. last (ws @ [CallStatusUpdate (AppObj app')]) = CallStatusUpdate (AppObj app)) \<and>
         list_all (\<lambda>e. \<not> is_app_write e) (butlast (ws @ [CallStatusUpdate (AppObj app')])))"
  using assms by (cases ws) (auto split: effect.split kobject.split list.split)

lemma writes_body:
  assumes "body_trace E ok r fs"
  shows "writes_spec r fs"
  using assms
proof (cases rule: body_trace.cases)
  case (live_panic ts app m)
  then show ?thesis
    using panic_first [OF live_panic(2) refl] by (simp add: writes_spec_def sub_names_def sub_start_def)
next
  case (live app ts e es r' gs)
  obtain ready ts' where "filter is_write gs = [CallStatusUpdate (AppObj (reported_app ready ts' e (started_app ts app)))]"
    using writes_report [OF live(6)] by auto
  then show ?thesis
    using live writes_spec_snoc [OF app_write_filter [OF app_writes_subs [OF live(5)]]]
    by (simp add: writes_spec_def Let_def)
qed (auto simp: writes_spec_def increments_Cons)

section \<open>The status that is sent\<close>

definition condition_status :: "PlatformApplicationStatus \<Rightarrow> string \<Rightarrow> string option" where
  "condition_status s ty = map_option Condition.Status (condition_of s ty)"

definition bool_status :: "bool \<Rightarrow> string" where
  "bool_status b = (if b then ConditionTrue else ConditionFalse)"

text \<open>What the status of \<open>app\<close> must say when its Deployment has \<open>ready\<close> replicas and the
  sub-reconcilers failed or not.\<close>

definition status_contract ::
    "PlatformApplication \<Rightarrow> int32 \<Rightarrow> bool \<Rightarrow> PlatformApplicationStatus \<Rightarrow> bool" where
  "status_contract app ready failed s \<longleftrightarrow>
     (let enough = Min (Replicas (PlatformApplication.Spec app)) \<le>s ready;
          old = PlatformApplication.Status app;
          g = Gateway (PlatformApplication.Spec app) in
      ObservedGeneration s = Generation (PlatformApplication.ObjectMeta app) \<and>
      DeployedVersion s = Tag (Image (PlatformApplication.Spec app)) \<and>
      PlatformApplicationStatus.ReadyReplicas s = ready \<and>
      URL s = (if GatewaySpec.Enabled g \<and> Host g \<noteq> [] then ''https://'' @ Host g else URL old) \<and>
      condition_status s ConditionReady = Some (bool_status (\<not> failed \<and> enough)) \<and>
      condition_status s ConditionDegraded = Some (bool_status failed) \<and>
      condition_status s ConditionProgressing = Some (bool_status (\<not> failed \<and> \<not> enough)) \<and>
      condition_status s ConditionConfigurationValid = Some ConditionTrue \<and>
      IsReady s = (\<not> failed \<and> enough) \<and>
      conditions_wf s = conditions_wf old \<and>
      (\<forall>ty. ty \<in> {ConditionReady, ConditionDegraded, ConditionProgressing, ConditionConfigurationValid} \<or>
         condition_of s ty = condition_of old ty))"

lemma IsReady_status: "IsReady s \<longleftrightarrow> condition_status s ConditionReady = Some ConditionTrue"
  by (auto simp: IsReady_def ready_in_conditions_find condition_status_def condition_of_def)

lemma conditions_wf_set: "conditions_wf (SetCondition now s ty st reason msg) = conditions_wf s"
  by (simp add: conditions_wf_def SetCondition_def types_set)

lemma frame_condition_of:
  "condition_of (s\<lparr>PlatformApplicationStatus.ReadyReplicas := n\<rparr>) = condition_of s"
  "condition_of (s\<lparr>ObservedGeneration := g\<rparr>) = condition_of s"
  "condition_of (s\<lparr>DeployedVersion := v\<rparr>) = condition_of s"
  "condition_of (s\<lparr>URL := u\<rparr>) = condition_of s"
  "conditions_wf (s\<lparr>PlatformApplicationStatus.ReadyReplicas := n\<rparr>) = conditions_wf s"
  "conditions_wf (s\<lparr>ObservedGeneration := g\<rparr>) = conditions_wf s"
  "conditions_wf (s\<lparr>DeployedVersion := v\<rparr>) = conditions_wf s"
  "conditions_wf (s\<lparr>URL := u\<rparr>) = conditions_wf s"
  by (simp_all add: condition_of_def conditions_wf_def)

lemma reported_frame:
  "PlatformApplication.ObjectMeta (reported_app ready ts e app) = PlatformApplication.ObjectMeta app"
  "PlatformApplication.Spec (reported_app ready ts e app) = PlatformApplication.Spec app"
  "PlatformApplication.TypeMeta (reported_app ready ts e app) = PlatformApplication.TypeMeta app"
  by (simp_all add: reported_app_def Let_def set_url_def with_ready_def with_status_def observe_spec_def)

lemma started_frame:
  "PlatformApplication.ObjectMeta (started_app ts app) = PlatformApplication.ObjectMeta app"
  "PlatformApplication.Spec (started_app ts app) = PlatformApplication.Spec app"
  "PlatformApplication.TypeMeta (started_app ts app) = PlatformApplication.TypeMeta app"
  by (simp_all add: started_app_def with_status_def)

lemma started_conditions:
  "condition_of (PlatformApplication.Status (started_app ts app)) =
     (condition_of (PlatformApplication.Status app))
       (ConditionProgressing \<mapsto> updated_condition (fst ts) ConditionProgressing ConditionTrue ''Reconciling''
          ''Reconciliation in progress'' (condition_of (PlatformApplication.Status app) ConditionProgressing),
        ConditionConfigurationValid \<mapsto> updated_condition (snd ts) ConditionConfigurationValid ConditionTrue ''Valid''
          ''Configuration is valid'' (condition_of (PlatformApplication.Status app) ConditionConfigurationValid))"
  "conditions_wf (PlatformApplication.Status (started_app ts app)) = conditions_wf (PlatformApplication.Status app)"
  "URL (PlatformApplication.Status (started_app ts app)) = URL (PlatformApplication.Status app)"
  by (simp_all add: started_app_def set_defs condition_of_SetCondition conditions_wf_set SetCondition_frame
      condition_types)

lemma all_ready_with_ready:
  "all_ready (with_ready ready app) \<longleftrightarrow> Min (Replicas (PlatformApplication.Spec app)) \<le>s ready"
  by (simp add: all_ready_def with_ready_def)

lemma put_conditions_facts:
  assumes "plan = ((a1, b1, c1), (a2, b2, c2), (a3, b3, c3))"
  shows "condition_status (put_conditions ts plan s) =
      (condition_status s)(ConditionProgressing \<mapsto> a1, ConditionDegraded \<mapsto> a2, ConditionReady \<mapsto> a3)"
    and "ty \<notin> {ConditionProgressing, ConditionDegraded, ConditionReady} \<Longrightarrow>
      condition_of (put_conditions ts plan s) ty = condition_of s ty"
    and "conditions_wf (put_conditions ts plan s) = conditions_wf s"
    and "PlatformApplicationStatus.ReadyReplicas (put_conditions ts plan s) = PlatformApplicationStatus.ReadyReplicas s"
    and "ObservedGeneration (put_conditions ts plan s) = ObservedGeneration s"
    and "DeployedVersion (put_conditions ts plan s) = DeployedVersion s"
    and "URL (put_conditions ts plan s) = URL s"
  by (cases ts; auto simp: assms put_conditions_def set_defs condition_of_SetCondition conditions_wf_set
      SetCondition_frame condition_status_def fun_eq_iff updated_condition_def)+

lemma with_ready_frame:
  "PlatformApplication.Spec (with_ready ready app) = PlatformApplication.Spec app"
  "PlatformApplication.ObjectMeta (with_ready ready app) = PlatformApplication.ObjectMeta app"
  by (simp_all add: with_ready_def)

lemma planned_statuses:
  obtains b1 c1 b2 c2 b3 c3 where
    "planned_conditions (with_ready ready app) e =
       ((bool_status (e = None \<and> \<not> Min (Replicas (PlatformApplication.Spec app)) \<le>s ready), b1, c1),
        (bool_status (e \<noteq> None), b2, c2),
        (bool_status (e = None \<and> Min (Replicas (PlatformApplication.Spec app)) \<le>s ready), b3, c3))"
  by (cases e; cases "all_ready (with_ready ready app)")
    (auto simp: planned_conditions_def bool_status_def all_ready_with_ready)

lemma set_url_facts:
  "condition_of (PlatformApplication.Status (set_url app)) = condition_of (PlatformApplication.Status app)"
  "conditions_wf (PlatformApplication.Status (set_url app)) = conditions_wf (PlatformApplication.Status app)"
  "PlatformApplicationStatus.ReadyReplicas (PlatformApplication.Status (set_url app)) =
     PlatformApplicationStatus.ReadyReplicas (PlatformApplication.Status app)"
  "ObservedGeneration (PlatformApplication.Status (set_url app)) = ObservedGeneration (PlatformApplication.Status app)"
  "DeployedVersion (PlatformApplication.Status (set_url app)) = DeployedVersion (PlatformApplication.Status app)"
  "URL (PlatformApplication.Status (set_url app)) =
     (let g = Gateway (PlatformApplication.Spec app) in
      if GatewaySpec.Enabled g \<and> Host g \<noteq> [] then ''https://'' @ Host g
      else URL (PlatformApplication.Status app))"
  by (simp_all add: set_url_def Let_def frame_condition_of)

text \<open>The status as the conditions of the outcome are put into it.\<close>

definition observed_status :: "int32 \<Rightarrow> PlatformApplication \<Rightarrow> PlatformApplicationStatus" where
  "observed_status ready app = PlatformApplication.Status (with_ready ready (observe_spec app))"

lemma observed_status_facts:
  "condition_of (observed_status ready app) = condition_of (PlatformApplication.Status app)"
  "conditions_wf (observed_status ready app) = conditions_wf (PlatformApplication.Status app)"
  "PlatformApplicationStatus.ReadyReplicas (observed_status ready app) = ready"
  "ObservedGeneration (observed_status ready app) = Generation (PlatformApplication.ObjectMeta app)"
  "DeployedVersion (observed_status ready app) = Tag (Image (PlatformApplication.Spec app))"
  "URL (observed_status ready app) = URL (PlatformApplication.Status app)"
  by (simp_all add: observed_status_def with_ready_def observe_spec_def frame_condition_of)

lemma reported_status:
  "status_contract app ready (e \<noteq> None) (PlatformApplication.Status (reported_app ready ts e (started_app ts0 app)))"
proof -
  let ?start = "started_app ts0 app"
  obtain b1 c1 b2 c2 b3 c3 where plan:
    "planned_conditions (with_ready ready (observe_spec ?start)) e =
       ((bool_status (e = None \<and> \<not> Min (Replicas (PlatformApplication.Spec app)) \<le>s ready), b1, c1),
        (bool_status (e \<noteq> None), b2, c2),
        (bool_status (e = None \<and> Min (Replicas (PlatformApplication.Spec app)) \<le>s ready), b3, c3))"
    by (rule planned_statuses [of ready "observe_spec ?start" e]) (simp add: started_frame)
  have reported: "reported_app ready ts e ?start = set_url (with_status (with_ready ready (observe_spec ?start))
      (put_conditions ts (planned_conditions (with_ready ready (observe_spec ?start)) e) (observed_status ready ?start)))"
    by (simp add: reported_app_def Let_def observed_status_def)
  have neq: "ConditionReady \<noteq> ConditionDegraded" "ConditionReady \<noteq> ConditionProgressing"
    "ConditionDegraded \<noteq> ConditionProgressing" "ConditionConfigurationValid \<noteq> ConditionReady"
    "ConditionConfigurationValid \<noteq> ConditionDegraded" "ConditionConfigurationValid \<noteq> ConditionProgressing"
    by (simp_all add: condition_types)
  let ?s = "PlatformApplication.Status (reported_app ready ts e ?start)"
  let ?enough = "Min (Replicas (PlatformApplication.Spec app)) \<le>s ready"
  let ?plan = "planned_conditions (with_ready ready (observe_spec ?start)) e"
  have same: "condition_status s = condition_status s'" if "condition_of s = condition_of s'" for s s'
    using that by (simp add: condition_status_def fun_eq_iff)
  have "condition_status ?s = condition_status (put_conditions ts ?plan (observed_status ready ?start))"
    by (rule same) (simp add: reported set_url_facts)
  also have "\<dots> = (condition_status (observed_status ready ?start))
      (ConditionProgressing \<mapsto> bool_status (e = None \<and> \<not> ?enough), ConditionDegraded \<mapsto> bool_status (e \<noteq> None),
       ConditionReady \<mapsto> bool_status (e = None \<and> ?enough))"
    by (rule put_conditions_facts(1) [OF plan])
  finally have statuses: "condition_status ?s = \<dots>" .
  have "condition_status (observed_status ready ?start) ConditionConfigurationValid = Some ConditionTrue"
    by (simp add: condition_status_def observed_status_facts started_conditions updated_condition_def)
  with statuses neq have "condition_status ?s ConditionReady = Some (bool_status (\<not> e \<noteq> None \<and> ?enough))"
    "condition_status ?s ConditionDegraded = Some (bool_status (e \<noteq> None))"
    "condition_status ?s ConditionProgressing = Some (bool_status (\<not> e \<noteq> None \<and> \<not> ?enough))"
    "condition_status ?s ConditionConfigurationValid = Some ConditionTrue"
    by simp_all
  moreover have "IsReady ?s = (\<not> e \<noteq> None \<and> ?enough)"
    by (simp add: IsReady_status statuses bool_status_def)
  moreover have "condition_of ?s ty = condition_of (PlatformApplication.Status app) ty"
    if "ty \<notin> {ConditionReady, ConditionDegraded, ConditionProgressing, ConditionConfigurationValid}" for ty
    using that by (simp add: reported set_url_facts put_conditions_facts(2) [OF plan] observed_status_facts started_conditions)
  moreover have "ObservedGeneration ?s = Generation (PlatformApplication.ObjectMeta app)"
    "DeployedVersion ?s = Tag (Image (PlatformApplication.Spec app))"
    "PlatformApplicationStatus.ReadyReplicas ?s = ready"
    "conditions_wf ?s = conditions_wf (PlatformApplication.Status app)"
    by (simp_all add: reported set_url_facts put_conditions_facts(3-6) [OF plan] observed_status_facts
        started_conditions started_frame)
  moreover have "URL ?s = (let g = Gateway (PlatformApplication.Spec app) in
      if GatewaySpec.Enabled g \<and> Host g \<noteq> [] then ''https://'' @ Host g else URL (PlatformApplication.Status app))"
    by (simp add: reported set_url_facts put_conditions_facts(7) [OF plan] observed_status_facts
        started_conditions started_frame with_ready_frame Let_def)
  ultimately show ?thesis
    unfolding status_contract_def Let_def by blast
qed

section \<open>The result of a live reconciliation\<close>

text \<open>Each class with the counter of requeues, the delay and whether the error is returned.\<close>

fun class_policy :: "ReconcileErrorClass \<Rightarrow> (string list list \<times> int \<times> bool) option" where
  "class_policy ClassConflict = Some ([[''conflict'']], conflictRequeueDelay, False)"
| "class_policy ClassPermanent = Some ([], permanentRequeueDelay, False)"
| "class_policy ClassTransient = Some ([[''transient'']], requeueDelay, True)"
| "class_policy _ = None"

text \<open>What the metrics of one reconciliation say, related to its result: the status update first, then
  the error of the sub-reconcilers, if any.\<close>

definition result_spec :: "Result \<times> go_error option \<Rightarrow> effect list \<Rightarrow> bool" where
  "result_spec r es \<longleftrightarrow>
     (case r of (res, err) \<Rightarrow>
      case increments StatusUpdateTotal es of
        [[u]] \<Rightarrow>
          if u = ''error'' then res = no_requeue \<and> err \<noteq> None \<and> increments ReconcileRequeueTotal es = []
          else u = ''success'' \<and>
            (case increments ReconcileErrorsTotal es of
               [] \<Rightarrow> err = None \<and> (res, increments ReconcileRequeueTotal es) \<in>
                 {(no_requeue, []), (requeue_after progressCheckDelay, [[''replicas_not_ready'']]),
                  (requeue_after progressCheckDelay, [])}
             | [[n, c], [k, c']] \<Rightarrow> c' = c \<and> (\<exists>class. c = class_string class \<and>
                 class_policy class = Some (increments ReconcileRequeueTotal es, RequeueAfter res, err \<noteq> None))
             | _ \<Rightarrow> False)
      | us \<Rightarrow> us = [[''error''], [''conflict'']] \<and> res = requeue_after conflictRequeueDelay \<and> err = None \<and>
          increments ReconcileRequeueTotal es = [[''status_conflict'']])"

lemma sub_error_As [simp]: "errors_As (sub_error n re) = Some re"
  by (simp add: sub_error_def)

lemma finish_error_counts:
  assumes "finish_trace A planned (Some (sub_error n re)) r es" and "retryable_class (Class re)"
    and "increments StatusUpdateTotal fs = []" "increments ReconcileRequeueTotal fs = []"
    and "increments ReconcileErrorsTotal fs = [[n, class_string (Class re)]]"
  shows "result_spec r (fs @ es)"
  using assms(1)
proof (cases rule: finish_trace.cases)
  case (reconcile_error d)
  with assms(2-) show ?thesis
    by (cases "Class re") (auto simp: result_spec_def retry_policy_def retry_effects_def observed_def
        increments_Cons retryable_class_def intro: exI [of _ "Class re"])
qed (simp_all add: result_spec_def increments_Cons assms(3-))

lemma finish_ok_counts:
  assumes "finish_trace A (planned_result app None) None r es"
    and "increments StatusUpdateTotal fs = []" "increments ReconcileRequeueTotal fs = []"
    and "increments ReconcileErrorsTotal fs = []"
  shows "result_spec r (fs @ es)"
  using assms(1)
proof (cases rule: finish_trace.cases)
  case (reconcile_ok app' d)
  with assms(2-) show ?thesis
    by (cases "all_ready app'"; cases "all_ready app")
      (simp_all add: result_spec_def planned_result_def success_effects_def observed_def increments_Cons)
qed (simp_all add: result_spec_def increments_Cons assms(2-))

lemma result_live:
  assumes "subs_trace (apierr E) app ok ns (Ret e) es" and "report_trace E app e r fs"
    and "\<And>err. ok err \<Longrightarrow> well_classified err"
  shows "result_spec r (es @ fs)"
  using assms(2)
proof (cases rule: report_trace.cases)
  case (report ready gs ts)
  let ?pre = "es @ [CallGet DeploymentT (deployment_key app), CallStatusUpdate (AppObj (reported_app ready ts e app))]"
  have none: "increments StatusUpdateTotal ?pre = []" "increments ReconcileRequeueTotal ?pre = []"
    using other_counts [OF assms(1)] by (simp_all add: increments_Cons)
  have "result_spec r (?pre @ gs)"
  proof (cases e)
    case None
    with sub_error_counts [OF assms(1)] have "increments ReconcileErrorsTotal ?pre = []"
      by (simp add: increments_Cons)
    with report None none show ?thesis by (intro finish_ok_counts) simp_all
  next
    case (Some e')
    with sub_error_counts [OF assms(1)] obtain err n where
      err: "ok err" "e' = sub_error n (classify_or_wrap (apierr E) err (app_Name app) n)"
      "increments ReconcileErrorsTotal es = [[n, class_string (Class (classify_or_wrap (apierr E) err (app_Name app) n))]]"
      by auto
    have "retryable_class (Class (classify_or_wrap (apierr E) err (app_Name app) n))"
      by (intro classify_or_wrap_retryable assms(3) err(1))
    with report Some none err show ?thesis
      by (intro finish_error_counts) (auto simp: increments_Cons)
  qed
  with report show ?thesis by simp
qed

lemma foreign_sub_errors:
  assumes "foreign_errors E"
  shows "sub_errors well_classified E"
  unfolding sub_errors_def
proof (intro conjI allI)
  fix owner obj
  show "logs (\<lambda>r es. \<forall>e. r = Inl e \<longrightarrow> well_classified e) (Apply E owner obj)"
    by (rule logs_mono [OF Apply_errors [OF assms]]) (auto simp: apply_error_spec_def well_classified_def)
next
  fix obj
  show "logs (\<lambda>r es. \<forall>e. r = Inl e \<longrightarrow> well_classified e) (delete_then_unchanged E obj)"
    unfolding delete_then_unchanged_def DeleteIfExists_def client_Delete_def observe_defs
    by (auto simp: logs_def well_classified_def dest: foreign_errorsD(4) [OF assms] split: prod.split option.split)
qed

section \<open>The live reconciliation\<close>

text \<open>Whether a sub-reconciler failed, as the metrics say.\<close>

definition sub_failure :: "effect list \<Rightarrow> bool" where
  "sub_failure es \<longleftrightarrow> (\<exists>n. [n, ''error''] \<in> set (increments SubReconcileTotal es))"

lemma sub_failure_subs:
  assumes "subs_trace A app ok ns (Ret e) es"
  shows "sub_failure es \<longleftrightarrow> e \<noteq> None"
  using sub_order [OF assms] by (cases e) (auto simp: sub_failure_def)

lemma finish_no_sub:
  "finish_trace A planned e r es \<Longrightarrow> increments SubReconcileTotal es = []"
  by (induction rule: finish_trace.induct)
    (auto simp: retry_effects_def unknown_effects_def success_effects_def observed_def increments_Cons collector_defs
      split: option.split ReconcileErrorClass.split)

lemma report_no_sub: "report_trace E app e r es \<Longrightarrow> increments SubReconcileTotal es = []"
  by (induction rule: report_trace.induct) (auto simp: increments_Cons dest: finish_no_sub)

lemma sub_failure_append: "increments SubReconcileTotal fs = [] \<Longrightarrow> sub_failure (gs @ fs) = sub_failure gs"
  by (simp add: sub_failure_def)

text \<open>What a live reconciliation writes to the application, and nothing else.\<close>

definition status_spec ::
    "'w env \<Rightarrow> PlatformApplication \<Rightarrow> (Result \<times> go_error option) go \<Rightarrow> effect list \<Rightarrow> bool" where
  "status_spec E app r es \<longleftrightarrow>
     (case r of
        Panic m \<Rightarrow> filter is_app_write es = []
      | Ret _ \<Rightarrow> (\<exists>s ready. filter is_app_write es = [CallStatusUpdate (AppObj (with_status app s))] \<and>
          ready_source E app ready \<and> status_contract app ready (sub_failure es) s))"

lemma with_status_reported:
  "reported_app ready ts e (started_app ts0 app) =
     with_status app (PlatformApplication.Status (reported_app ready ts e (started_app ts0 app)))"
  by (rule PlatformApplication.equality)
    (simp_all add: reported_frame started_frame with_status_def)

lemma ready_source_started: "ready_source E (started_app ts app) ready = ready_source E app ready"
  by (simp add: ready_source_def deployment_key_def started_app_def with_status_def set_defs SetCondition_frame)

lemma app_writes_finish: "finish_trace A planned e r es \<Longrightarrow> filter is_app_write es = []"
  by (induction rule: finish_trace.induct)
    (auto simp: retry_effects_def unknown_effects_def success_effects_def observed_def
      split: option.split ReconcileErrorClass.split)

lemma status_live:
  assumes "live_trace E ok app r es"
  shows "status_spec E app r es"
proof (cases r)
  case (Panic m)
  with assms show ?thesis
    by (auto simp: live_trace_def status_spec_def simp del: split_paired_Ex dest: app_writes_subs)
next
  case (Ret x)
  with assms obtain ts e gs fs where es: "es = gs @ fs"
    and subs: "subs_trace (apierr E) (started_app ts app) ok sub_names (Ret e) gs"
    and rep: "report_trace E (started_app ts app) e x fs"
    unfolding live_trace_def by auto
  from rep show ?thesis
  proof (cases rule: report_trace.cases)
    case (report ready hs ts')
    let ?s = "PlatformApplication.Status (reported_app ready ts' e (started_app ts app))"
    have "filter is_app_write es = [CallStatusUpdate (AppObj (with_status app ?s))]"
      using report es app_writes_subs [OF subs] app_writes_finish with_status_reported [of ready ts' e ts app]
      by auto
    moreover have "status_contract app ready (sub_failure es) ?s"
      using reported_status [of app ready e ts' ts] sub_failure_subs [OF subs] report_no_sub [OF rep]
      by (simp add: es sub_failure_append)
    moreover have "ready_source E app ready"
      using report(2) by (simp add: ready_source_started)
    ultimately show ?thesis
      unfolding status_spec_def Ret by auto
  qed
qed

lemma result_of_live:
  assumes "live_trace E ok app r es" and "\<And>err. ok err \<Longrightarrow> well_classified err"
  shows "case r of Panic m \<Rightarrow> True | Ret x \<Rightarrow> result_spec x es"
  using assms by (cases r) (auto simp: live_trace_def simp del: split_paired_Ex intro: result_live)

end
