(* ===== verification/Platform.thy ===== *)
theory Platform
  imports Reliable Reconcile_Facts
begin

text \<open>
  A whole platform: the cluster of theory Reliable that also stores the application itself. The locale
  adds the documented behaviour of updates of the application and of its status (both check the resource
  version; one keeps the stored status, the other everything else; an object that is being deleted goes
  with its last finalizer) and of controllerutil's finalizer functions. Under it whole reconciliations
  are run from the stored state to the stored state.
\<close>

abbreviation meta :: "PlatformApplication \<Rightarrow> ObjectMeta" where
  "meta app \<equiv> PlatformApplication.ObjectMeta app"

text \<open>The application with another resource version.\<close>

definition at_version :: "string \<Rightarrow> PlatformApplication \<Rightarrow> PlatformApplication" where
  "at_version v app = app\<lparr>PlatformApplication.ObjectMeta := (meta app)\<lparr>ResourceVersion := v\<rparr>\<rparr>"

definition app_slot :: "PlatformApplication \<Rightarrow> slot" where
  "app_slot app = slot_of (AppObj app)"

lemma app_slot_cong:
  "app_Name x = app_Name y \<Longrightarrow> app_Namespace x = app_Namespace y \<Longrightarrow> app_slot x = app_slot y"
  by (simp add: app_slot_def slot_defs)

lemma slot_at_version [simp]: "app_slot (at_version v app) = app_slot app"
  by (rule app_slot_cong) (simp_all add: at_version_def)

lemma slot_with_status [simp]: "app_slot (with_status app st) = app_slot app"
  by (rule app_slot_cong) (simp_all add: with_status_def)

definition with_finalizers :: "string list \<Rightarrow> PlatformApplication \<Rightarrow> PlatformApplication" where
  "with_finalizers fs app = app\<lparr>PlatformApplication.ObjectMeta := (meta app)\<lparr>Finalizers := fs\<rparr>\<rparr>"

lemma slot_with_finalizers [simp]: "app_slot (with_finalizers fs app) = app_slot app"
  by (rule app_slot_cong) (simp_all add: with_finalizers_def)

lemma with_finalizers_meta [simp]:
  "meta (with_finalizers fs app) = (meta app)\<lparr>Finalizers := fs\<rparr>"
  "with_status (with_finalizers fs app) (PlatformApplication.Status app) = with_finalizers fs app"
  by (simp_all add: with_finalizers_def with_status_def)

lemma app_slot_key: "app_slot app = (AppT, deployment_key app)"
  by (simp add: app_slot_def slot_defs deployment_key_def)

text \<open>The children depend on the spec, the name and the namespace alone.\<close>

definition same_spec :: "PlatformApplication \<Rightarrow> PlatformApplication \<Rightarrow> bool" where
  "same_spec x y \<longleftrightarrow> PlatformApplication.Spec x = PlatformApplication.Spec y \<and> app_Name x = app_Name y \<and>
     app_Namespace x = app_Namespace y"

lemma same_spec_with_status [simp]: "same_spec (with_status app st) app"
  by (simp add: same_spec_def)

lemma same_spec_started: "same_spec (started_app ts app) app"
  by (simp add: started_app_def)

lemma children_cong:
  assumes "same_spec x y"
  shows "buildDesiredDeployment parse x = buildDesiredDeployment parse y"
    and "desired_children x dep = desired_children y dep"
proof -
  note same = assms [unfolded same_spec_def]
  have common: "child_meta x n l = child_meta y n l" for n l
    using same by (simp add: child_meta_def)
  show "buildDesiredDeployment parse x = buildDesiredDeployment parse y"
    using same by (simp add: deployment_defs common desired_labels_def desired_replicas_def probe_port_def
        liveness_probe_def readiness_probe_def desired_env_def desired_strategy_def desired_container_def
        desired_resources_def)
  show "desired_children x dep = desired_children y dep"
    using same by (simp add: desired_children_def common buildDesiredService_def service_type_def buildDesiredHPA_def
        hpa_max_replicas_def hpa_target_cpu_def buildDesiredPDB_def pdb_name_def pdb_max_unavailable_def
        route_path_prefix_def route_hostnames_def route_parents_def buildDesiredHTTPRoute_def netpol_name_def
        buildDesiredNetworkPolicy_def monitor_name_def buildDesiredServiceMonitor_def)
qed

text \<open>The status that is reported for an application with \<open>ready\<close> replicas after success, and the result.\<close>

definition stored_report :: "PlatformApplication \<Rightarrow> int32 \<Rightarrow> PlatformApplication \<Rightarrow> PlatformApplication \<Rightarrow> bool" where
  "stored_report app ready old y \<longleftrightarrow>
     (\<exists>ts v. y = at_version v (with_status old (PlatformApplication.Status (reported_app ready ts None app))))"

definition report_result :: "PlatformApplication \<Rightarrow> int32 \<Rightarrow> Result" where
  "report_result app ready =
     (if Min (Replicas (PlatformApplication.Spec app)) \<le>s ready then no_requeue else requeue_after progressCheckDelay)"

text \<open>A successful reconciliation of \<open>app\<close>: its children are as wanted, the stored application differs from it
  in the version and the status only, the status is the one that the stored Deployment calls for, and
  the result says whether to come back.\<close>

definition reconciled ::
    "('w \<Rightarrow> slot \<Rightarrow> kobject option) \<Rightarrow> (kobject \<Rightarrow> kobject \<Rightarrow> bool) \<Rightarrow> (kobject \<Rightarrow> kobject \<Rightarrow> bool) \<Rightarrow>
     PlatformApplication \<Rightarrow> Deployment \<Rightarrow> Result \<Rightarrow> 'w \<Rightarrow> bool" where
  "reconciled lookup covers owned_by app dep res w \<longleftrightarrow>
     (\<exists>d st v owner_st.
        lookup w (DeploymentT, deployment_key app) = Some d \<and>
        lookup w (app_slot app) = Some (AppObj (at_version v (with_status app st))) \<and>
        status_contract app (as_deployment_status d) False st \<and>
        res = report_result app (as_deployment_status d) \<and>
        (\<forall>c \<in> set (desired_children app dep).
           as_wanted lookup covers owned_by (AppObj (with_status app owner_st)) c w))"

context api_server
begin

text \<open>The application is none of its children, so that writing it leaves them as they are.\<close>

lemma app_slot_not_child:
  "buildDesiredDeployment (ParseQuantity E) x = Ret dep \<Longrightarrow> app_slot app \<notin> fst ` set (desired_children x dep)"
  by (simp add: app_slot_def slot_of_def mem_slots)

lemma wanted_after_report:
  assumes "buildDesiredDeployment (ParseQuantity E) app = Ret dep"
    and "\<forall>c \<in> set (desired_children app dep). as_wanted lookup covers owned_by owner c w"
    and "lookup w' = (lookup w)(app_slot app \<mapsto> x)"
  shows "\<forall>c \<in> set (desired_children app dep). as_wanted lookup covers owned_by owner c w'"
proof
  fix c assume c: "c \<in> set (desired_children app dep)"
  then have "fst c \<in> fst ` set (desired_children app dep)"
    by (rule imageI)
  with app_slot_not_child [OF assms(1), of app] have "fst c \<noteq> app_slot app"
    by metis
  then have "lookup w' (fst c) = lookup w (fst c)"
    by (simp add: assms(3))
  with assms(2) c show "as_wanted lookup covers owned_by owner c w'"
    using wanted_cong by blast
qed

end

locale platform = reliable_server E lookup covers owned_by up
  for E :: "'w env"
    and lookup :: "'w \<Rightarrow> slot \<Rightarrow> kobject option"
    and covers :: "kobject \<Rightarrow> kobject \<Rightarrow> bool"
    and owned_by :: "kobject \<Rightarrow> kobject \<Rightarrow> bool"
    and up :: "'w \<Rightarrow> bool" +
  assumes up_update: "up w \<Longrightarrow> lookup w (app_slot app) = Some (AppObj old) \<Longrightarrow>
      ResourceVersion (meta app) = ResourceVersion (meta old) \<Longrightarrow>
      DeletionTimestamp (meta app) = DeletionTimestamp (meta old) \<Longrightarrow>
      env_Update E (AppObj app) w = ((err, x), w') \<Longrightarrow>
      up w' \<and> err = None \<and>
      (if DeletionTimestamp (meta app) \<noteq> None \<and> Finalizers (meta app) = []
       then lookup w' = (lookup w)(app_slot app := None)
       else \<exists>v. lookup w' = (lookup w)(app_slot app \<mapsto>
         AppObj (at_version v (with_status app (PlatformApplication.Status old)))))"
    and up_status: "up w \<Longrightarrow> lookup w (app_slot app) = Some (AppObj old) \<Longrightarrow>
      ResourceVersion (meta app) = ResourceVersion (meta old) \<Longrightarrow> DeletionTimestamp (meta old) = None \<Longrightarrow>
      env_StatusUpdate E (AppObj app) w = ((err, x), w') \<Longrightarrow>
      up w' \<and> err = None \<and>
      (\<exists>v. x = AppObj (at_version v (with_status old (PlatformApplication.Status app))) \<and>
         lookup w' = (lookup w)(app_slot app \<mapsto> x))"
    and up_count: "up w \<Longrightarrow> lookup w (slot_of obj) = Some y \<Longrightarrow> env_Patch E obj manager w = (r, w') \<Longrightarrow>
      map_option as_deployment_status (lookup w' (slot_of obj)) = Some (as_deployment_status y)"
    and contains: "ContainsFinalizer E m f \<longleftrightarrow> f \<in> set (Finalizers m)"
    and add: "AddFinalizer E m f = m\<lparr>Finalizers := if f \<in> set (Finalizers m) then Finalizers m else Finalizers m @ [f]\<rparr>"
    and remove: "RemoveFinalizer E m f = m\<lparr>Finalizers := filter (\<lambda>g. g \<noteq> f) (Finalizers m)\<rparr>"
begin

text \<open>The platform is up and stores exactly \<open>L\<close>.\<close>

definition calm :: "(slot \<Rightarrow> kobject option) \<Rightarrow> 'w \<Rightarrow> bool" where
  "calm L w \<longleftrightarrow> up w \<and> lookup w = L"

definition quiet :: "('w world, 'a) state \<Rightarrow> bool" where
  "quiet m \<longleftrightarrow> (\<forall>L. triple (calm L) m (\<lambda>_. calm L))"

lemma quiet_now: "quiet (time_Now E)"
  unfolding quiet_def time_Now_def by (auto intro!: triple_lift simp: calm_def dest: up_now now_frame)

lemma quiet_return: "quiet (return a)"
  by (simp add: quiet_def triple_return)

lemma quiet_emit: "quiet (emit e)"
  by (simp add: quiet_def triple_emit)

lemma quiet_bind: "quiet m \<Longrightarrow> (\<And>a. quiet (f a)) \<Longrightarrow> quiet (m \<bind> f)"
  unfolding quiet_def by (blast intro: triple_bind)

lemma quiet_since: "quiet (time_Since E t)"
  unfolding time_Since_def by (intro quiet_bind quiet_now quiet_return)

lemma quiet_set_status: "quiet (set_status E f a b c app)"
  unfolding set_status_def by (intro quiet_bind quiet_now quiet_return)

lemma quiet_setConditions: "quiet (setConditions E app e)"
  unfolding setConditions_def
  by (cases e) (auto intro!: quiet_bind quiet_set_status quiet_return)

text \<open>A quiet computation keeps the store, and its result is as its log says.\<close>

lemma quiet_logs:
  assumes "quiet m" and "logs (\<lambda>a _. Q a) m"
  shows "triple (calm L) m (\<lambda>a w. calm L w \<and> Q a)"
  by (rule triple_logs [OF _ assms(2)]) (use assms(1) in \<open>simp add: quiet_def\<close>)

lemma triple_quiet_seq: "quiet m \<Longrightarrow> (\<And>a. triple (calm L) (f a) Q) \<Longrightarrow> triple (calm L) (m \<bind> f) Q"
  unfolding quiet_def by (blast intro: triple_bind)

lemma triple_calm_Get:
  "L (gotype_of obj, key) = Some x \<Longrightarrow>
   triple (calm L) (client_Get E key obj) (\<lambda>r w. calm L w \<and> r = (None, x))"
  unfolding client_Get_def
  by (rule triple_bind [OF triple_emit triple_lift], assumption)
    (auto simp: calm_def dest: up_get get_frame split: option.splits)

section \<open>Reporting\<close>

lemma triple_updateDeploymentStatus:
  assumes "L (DeploymentT, deployment_key app) = Some d"
  shows "triple (calm L) (updateDeploymentStatus E app) (\<lambda>app' w. calm L w \<and> app' = with_ready (as_deployment_status d) app)"
proof -
  have get: "triple (calm L) (client_Get E (deployment_key app) (DeploymentObj zero_Deployment))
      (\<lambda>r w. calm L w \<and> r = (None, d))"
    by (rule triple_calm_Get) (simp add: assms)
  show ?thesis
    unfolding updateDeploymentStatus_def deployment_key_def [symmetric]
    by (rule triple_bind [OF get], rule triple_conj)
      (auto intro!: triple_return simp: with_ready_def with_status_def)
qed

lemma triple_StatusUpdate:
  assumes "L (app_slot app) = Some (AppObj old)" and "ResourceVersion (meta app) = ResourceVersion (meta old)"
    and "DeletionTimestamp (meta old) = None"
  shows "triple (calm L) (client_StatusUpdate E (AppObj app))
    (\<lambda>r w. \<exists>v. r = (None, AppObj (at_version v (with_status old (PlatformApplication.Status app)))) \<and>
       calm (L(app_slot app \<mapsto> AppObj (at_version v (with_status old (PlatformApplication.Status app))))) w)"
  unfolding client_StatusUpdate_def
proof (rule triple_bind [OF triple_emit triple_lift], assumption)
  fix w r w'
  assume w: "calm L w" and run: "env_StatusUpdate E (AppObj app) w = (r, w')"
  obtain err x where r: "r = (err, x)" by (cases r)
  from up_status [of w app old err x w'] w run assms
  show "\<exists>v. r = (None, AppObj (at_version v (with_status old (PlatformApplication.Status app)))) \<and>
       calm (L(app_slot app \<mapsto> AppObj (at_version v (with_status old (PlatformApplication.Status app))))) w'"
    by (auto simp: calm_def r)
qed

lemma triple_finish:
  "triple (calm L) (finish E t app planned None)
     (\<lambda>r w. calm L w \<and> r = (if all_ready app then planned else requeue_after progressCheckDelay, None))"
proof (rule quiet_logs)
  show "quiet (finish E t app planned None)"
    unfolding finish_def observe_defs option.case by (intro quiet_bind quiet_emit quiet_since) (simp add: quiet_bind quiet_emit quiet_return)
  show "logs (\<lambda>r _. r = (if all_ready app then planned else requeue_after progressCheckDelay, None))
      (finish E t app planned None)"
    unfolding finish_def observe_defs time_Since_def time_Now_def
    by (auto simp: logs_def split: prod.split)
qed

lemma ReadyReplicas_reported:
  "PlatformApplicationStatus.ReadyReplicas (PlatformApplication.Status (reported_app ready ts e app)) = ready"
  by (cases ts; cases "planned_conditions (with_ready ready (observe_spec app)) e")
    (auto simp: reported_app_def Let_def set_url_facts put_conditions_def with_ready_def)

lemma triple_report_status:
  assumes "L (DeploymentT, deployment_key app) = Some d"
    and "L (app_slot app) = Some (AppObj old)" and "ResourceVersion (meta app) = ResourceVersion (meta old)"
    and "DeletionTimestamp (meta old) = None" and "PlatformApplication.Spec app = PlatformApplication.Spec old"
  defines "ready \<equiv> as_deployment_status d"
  shows "triple (calm L) (report_status E t app None)
    (\<lambda>r w. r = (report_result app ready, None) \<and>
       (\<exists>y. calm (L(app_slot app \<mapsto> AppObj y)) w \<and> stored_report app ready old y))"
proof -
  let ?app = "with_ready ready (observe_spec app)"
  let ?Q = "\<lambda>r w. r = (report_result app ready, None) \<and>
       (\<exists>y. calm (L(app_slot app \<mapsto> AppObj y)) w \<and> stored_report app ready old y)"
  have count: "triple (calm L) (updateDeploymentStatus E (observe_spec app))
      (\<lambda>app' w. calm L w \<and> (\<exists>r. r = ready \<and> app' = with_ready r (observe_spec app)))"
    unfolding ready_def
    by (rule triple_mono [OF triple_updateDeploymentStatus]) (use assms(1) in \<open>simp_all add: deployment_key_def\<close>)
  have send: "triple (calm L) (client_StatusUpdate E (AppObj (reported_app ready ts None app)))
      (\<lambda>r w. \<exists>y. r = (None, AppObj y) \<and> calm (L(app_slot app \<mapsto> AppObj y)) w \<and> stored_report app ready old y)" for ts
  proof -
    have slot: "app_slot (reported_app ready ts None app) = app_slot app"
      by (rule app_slot_cong) (simp_all add: reported_frame)
    from triple_StatusUpdate [of L "reported_app ready ts None app" old] assms(2-4) show ?thesis
      unfolding slot by (auto simp: reported_frame stored_report_def elim!: triple_mono simp del: split_paired_Ex)
  qed
  have finish: "triple (\<lambda>w. calm (L(app_slot app \<mapsto> AppObj y)) w \<and> stored_report app ready old y)
      (finish E t y (planned_result ?app None) None) ?Q" for y
  proof (rule triple_conj)
    assume y: "stored_report app ready old y"
    then have "all_ready y \<longleftrightarrow> Min (Replicas (PlatformApplication.Spec app)) \<le>s ready"
      using assms(5) by (auto simp: stored_report_def all_ready_def at_version_def with_status_def ReadyReplicas_reported)
    with y show "triple (calm (L(app_slot app \<mapsto> AppObj y)))
        (finish E t y (planned_result ?app None) None) ?Q"
      by (auto intro!: triple_mono [OF triple_finish] simp: planned_result_def report_result_def all_ready_with_ready)
  qed
  have tail: "triple (\<lambda>w. \<exists>y. r = (None, AppObj y) \<and> calm (L(app_slot app \<mapsto> AppObj y)) w \<and> stored_report app ready old y)
      (case r of (serr, obj) \<Rightarrow> (case serr of Some err \<Rightarrow> status_update_failed E err
         | None \<Rightarrow> finish E t (as_app obj) (planned_result ?app None) None)) ?Q" for r
  proof (cases "\<exists>y. r = (None, AppObj y)")
    case True
    then obtain y where "r = (None, AppObj y)" by blast
    with finish [of y] show ?thesis by simp
  qed (auto simp: triple_def)
  have keeps: "triple (calm L) (setConditions E app' None) (\<lambda>_. calm L)" for app'
    using quiet_setConditions by (simp add: quiet_def)
  show ?thesis
    by (rule triple_report_rule [OF count keeps]) (simp only: triple_bind [OF send tail])
qed

section \<open>Reconciling a live application\<close>

lemma triple_ex_calm:
  assumes "\<And>L'. C L' \<Longrightarrow> triple (calm L') m Q"
  shows "triple (\<lambda>w. up w \<and> C (lookup w)) m Q"
proof (rule tripleI)
  fix s a s'
  assume "up (outside s) \<and> C (lookup (outside s))" and "run_state m s = (a, s')"
  with tripleD [OF assms [of "lookup (outside s)"], of s a s'] show "Q a (outside s')"
    by (simp add: calm_def)
qed

text \<open>The count of ready replicas of a stored Deployment outlives the sub-reconcilers: the first one patches
  its spec at most, and the others do not touch it.\<close>

definition counts :: "slot \<Rightarrow> kobject \<Rightarrow> 'w \<Rightarrow> bool" where
  "counts k old w \<longleftrightarrow> map_option as_deployment_status (lookup w k) = Some (as_deployment_status old)"

lemma stable_counts: "stable (counts k old)"
  by (simp add: stable_def counts_def)

lemma counts_applyOnce:
  assumes "L (slot_of d) = Some old"
  shows "triple (calm L) (applyOnce E d kind name namespace) (\<lambda>r w. counts (slot_of d) old w \<and> (\<exists>x. fst r = Inr x))"
proof -
  let ?Q = "\<lambda>r w. counts (slot_of d) old w \<and> (\<exists>x. fst r = Inr x)"
  have get: "triple (calm L) (client_Get E (ObjectKeyFromObject d) d) (\<lambda>r w. calm L w \<and> r = (None, old))"
    by (rule triple_calm_Get) (use assms in \<open>simp add: slot_of_def\<close>)
  have patch: "triple (calm L) (client_Patch E d FieldManager) (\<lambda>r w. counts (slot_of d) old w \<and> fst r = None)"
    unfolding client_Patch_def
  proof (rule triple_bind [OF triple_emit triple_lift], assumption)
    fix w r w'
    assume w: "calm L w" and run: "env_Patch E d FieldManager w = (r, w')"
    obtain err x where r: "r = (err, x)" by (cases r)
    from up_count [OF _ _ run] up_patch [OF _ _ run [unfolded r]] w assms
    show "counts (slot_of d) old w' \<and> fst r = None"
      by (simp add: calm_def counts_def r)
  qed
  have "triple (calm L) (apply_patch E d kind name namespace) ?Q"
    unfolding apply_patch_def observe_defs
  proof (rule triple_quiet_seq [OF quiet_now], rule triple_bind [OF patch], rule triple_conj)
    fix t and r :: "go_error option \<times> kobject"
    assume "fst r = None"
    then show "triple (counts (slot_of d) old)
        (case r of (perr, desired') \<Rightarrow> do {
           dur \<leftarrow> time_Since E t;
           emit (HistogramObserve APICallDurationSeconds [''patch'', resourceKind kind] dur);
           (case perr of
              Some pe \<Rightarrow> return (Inl (WrapError (resource_text ''applying'' kind namespace name pe) pe), desired')
            | None \<Rightarrow> return (Inr ApplyResultUpdated, desired')) }) ?Q"
      by (cases r) (auto intro!: triple_since_seq triple_emit_seq triple_return stable_counts)
  qed
  moreover have "triple (calm L) (do { ObserveNoOpApply (resourceKind kind);
      return (Inr ApplyResultUnchanged :: go_error + ApplyResult, d) }) ?Q"
    unfolding observe_defs by (intro triple_emit_seq triple_return) (use assms in \<open>simp add: calm_def counts_def\<close>)
  ultimately show ?thesis
    unfolding applyOnce_def by (intro triple_bind [OF get] triple_conj) simp
qed

lemma counts_Apply:
  assumes "L (slot_of d) = Some old"
  shows "triple (calm L) (Apply E owner d) (\<lambda>_. counts (slot_of d) old)"
proof (cases "SetControllerReference E owner d")
  case (Inl e)
  with assms show ?thesis
    by (auto simp: Apply_def Let_def calm_def counts_def intro!: triple_return)
next
  case (Inr d')
  with controller_reference have slot: "slot_of d' = slot_of d" by blast
  have "triple (calm L) (apply_attempts E kind name namespace 0 d') (\<lambda>_. counts (slot_of d) old)" for kind name namespace
  proof -
    have after: "triple (\<lambda>w. counts (slot_of d) old w \<and> (\<exists>x. fst r = Inr x))
      (case r of (res, desired') \<Rightarrow> (case res of
         Inr result \<Rightarrow> do {
           ObserveResourceApply (resourceKind kind) (ApplyResult_string result);
           return (Inr result) }
       | Inl lastErr \<Rightarrow>
           if \<not> IsConflict (apierr E) lastErr then apply_failed E kind name lastErr
           else if Suc 0 \<le> maxApplyRetries then apply_attempts E kind name namespace (Suc 0) desired'
           else apply_failed E kind name lastErr)) (\<lambda>_. counts (slot_of d) old)" for r
      unfolding observe_defs
      by (rule triple_conj, elim exE) (cases r, auto intro!: triple_emit_seq triple_return)
    show ?thesis
      by (subst apply_attempts.simps)
        (simp, rule triple_bind [OF counts_applyOnce [of L d', unfolded slot, OF assms] after])
  qed
  with Inr show ?thesis by (simp add: Apply_def Let_def)
qed

lemma triple_children:
  assumes "buildDesiredDeployment (ParseQuantity E) app = Ret dep"
  shows "triple (calm L) (reconcileResources E app)
    (\<lambda>r w. (up w \<and> (\<forall>s. s \<notin> fst ` set (desired_children app dep) \<longrightarrow> lookup w s = L s) \<and>
       (\<forall>c \<in> set (desired_children app dep). as_wanted lookup covers owned_by (AppObj app) c w)) \<and> r = Ret None)"
  using triple_both [OF up_reconcileResources [OF assms] reconcileResources_converges [OF assms, of L]]
  by (rule triple_mono) (auto simp: calm_def)

lemma counts_rest:
  assumes "list_all2 (cares_for owner) sts cs" and "distinct (map fst cs)" and "k \<notin> set (map fst cs)"
  shows "triple (counts k old) (run_subs E app sts) (\<lambda>_. counts k old)"
proof (rule tripleI)
  fix s :: "'w world" and r s'
  let ?L = "lookup (outside s)"
  assume pre: "counts k old (outside s)" and run: "run_state (run_subs E app sts) s = (r, s')"
  have "triple (progress owner ?L (set (map fst cs)) []) (run_subs E app sts)
      (\<lambda>r w. progress owner ?L (set (map fst cs)) [] w \<and> (r = Ret None \<longrightarrow> progress owner ?L (set (map fst cs)) ([] @ cs) w))"
    by (rule triple_run_subs [OF assms(1)]) (use assms(2) in simp_all)
  from tripleD [OF this _ run] have "lookup (outside s') k = ?L k"
    using assms(3) by (simp add: progress_def del: split_paired_All)
  with pre show "counts k old (outside s')" by (simp add: counts_def)
qed

lemma counts_children:
  assumes "buildDesiredDeployment (ParseQuantity E) app = Ret dep" and "L (DeploymentT, deployment_key app) = Some old"
  shows "triple (calm L) (reconcileResources E app) (\<lambda>_. counts (DeploymentT, deployment_key app) old)"
proof -
  let ?k = "(DeploymentT, deployment_key app)"
  have slot: "slot_of (DeploymentObj dep) = ?k"
    by (simp add: slots(1) [OF assms(1)] key_in_def deployment_key_def)
  obtain sts where subs: "sub_reconcilers E app = (''Deployment'', ReconcileDeployment E app) # sts"
    by (simp add: sub_reconcilers_def)
  obtain cs where wanted: "desired_children app dep = child True (DeploymentObj dep) # cs"
    by (simp add: desired_children_def)
  have distinct: "distinct (map fst (desired_children app dep))"
    by (simp add: desired_slots [OF assms(1)])
  have "fst (child True (DeploymentObj dep)) = ?k" by (simp add: child_def slot)
  with distinct wanted have apart: "distinct (map fst cs)" "?k \<notin> set (map fst cs)" by auto
  have care: "list_all2 (cares_for (AppObj app)) sts cs"
    using sub_reconcilers_care [OF assms(1)] by (simp add: subs wanted)
  note rest = counts_rest [OF care apart]
  have first: "triple (calm L) (ReconcileDeployment E app) (\<lambda>_. counts ?k old)"
    unfolding ReconcileDeployment_def assms(1) go.case
    by (rule triple_bind [OF counts_Apply [of L "DeploymentObj dep", unfolded slot, OF assms(2)]]) (rule triple_return)
  then have step: "triple (calm L) (ReconcileDeployment E app)
      (\<lambda>r w. case r of Ret (Inr _) \<Rightarrow> counts ?k old w | _ \<Rightarrow> counts ?k old w)"
    by (rule triple_mono) (auto split: go.split sum.split)
  show ?thesis
    unfolding reconcileResources_def subs run_subs.simps StartSpan_def
    by (intro triple_quiet_seq [OF quiet_now] triple_emit_seq triple_bind [OF step],
        rule triple_after_step [OF triple_since triple_since rest]) (simp_all add: stable_counts)
qed

definition same_count :: "(slot \<Rightarrow> kobject option) \<Rightarrow> PlatformApplication \<Rightarrow> 'w \<Rightarrow> bool" where
  "same_count L app w \<longleftrightarrow> (\<forall>old. L (DeploymentT, deployment_key app) = Some old \<longrightarrow> counts (DeploymentT, deployment_key app) old w)"

lemma same_count_children:
  assumes "buildDesiredDeployment (ParseQuantity E) app = Ret dep"
  shows "triple (calm L) (reconcileResources E app) (\<lambda>_. same_count L app)"
  unfolding same_count_def
  by (cases "L (DeploymentT, deployment_key app)") (use counts_children [OF assms, of L] in \<open>auto simp: triple_def\<close>)

text \<open>What the sub-reconcilers leave in the store \<open>M\<close>, as the report reads it.\<close>

lemma children_facts:
  assumes "buildDesiredDeployment (ParseQuantity E) app = Ret dep"
    and "\<forall>c \<in> set (desired_children app dep). as_wanted lookup covers owned_by owner c w"
  obtains d where "lookup w (DeploymentT, deployment_key app) = Some d"
proof -
  have "as_wanted lookup covers owned_by owner (child True (DeploymentObj dep)) w"
    using assms(2) by (simp add: desired_children_def)
  with that show thesis
    by (auto simp: as_wanted_def child_def slots(1) [OF assms(1)] key_in_def deployment_key_def)
qed

definition live_post :: "(slot \<Rightarrow> kobject option) \<Rightarrow> PlatformApplication \<Rightarrow> Deployment \<Rightarrow>
    (Result \<times> go_error option) go \<Rightarrow> 'w \<Rightarrow> bool" where
  "live_post L app dep r w \<longleftrightarrow>
     (\<exists>res. r = Ret (res, None) \<and> up w \<and> reconciled lookup covers owned_by app dep res w \<and> same_count L app w \<and>
        (\<forall>s. s \<notin> insert (app_slot app) (fst ` set (desired_children app dep)) \<longrightarrow> lookup w s = L s))"

text \<open>The store after the sub-reconcilers: nothing but the children has changed, and these are as wanted.\<close>

definition children_done :: "(slot \<Rightarrow> kobject option) \<Rightarrow> PlatformApplication \<Rightarrow> Deployment \<Rightarrow> kobject \<Rightarrow> 'w \<Rightarrow> bool" where
  "children_done L app dep owner w \<longleftrightarrow>
     (\<forall>s. s \<notin> fst ` set (desired_children app dep) \<longrightarrow> lookup w s = L s) \<and>
     (\<forall>c \<in> set (desired_children app dep). as_wanted lookup covers owned_by owner c w) \<and> same_count L app w"

lemma live_post_report:
  assumes "buildDesiredDeployment (ParseQuantity E) app = Ret dep"
    and finished: "children_done L app dep (AppObj (started_app ts app)) w"
    and d: "lookup w (DeploymentT, deployment_key app) = Some d"
    and y: "stored_report (started_app ts app) (as_deployment_status d) app y"
    and w': "calm ((lookup w)(app_slot app \<mapsto> AppObj y)) w'"
  shows "live_post L app dep (Ret (report_result (started_app ts app) (as_deployment_status d), None)) w'"
proof -
  let ?app = "started_app ts app" and ?ready = "as_deployment_status d"
  from y obtain ts' v where y: "y = at_version v (with_status app (PlatformApplication.Status (reported_app ?ready ts' None ?app)))"
    unfolding stored_report_def by blast
  have upd: "lookup w' = (lookup w)(app_slot app \<mapsto> AppObj y)" and up: "up w'"
    using w' by (simp_all add: calm_def)
  have wanted: "\<forall>c \<in> set (desired_children app dep). as_wanted lookup covers owned_by (AppObj ?app) c w'"
    by (rule wanted_after_report [OF assms(1) _ upd]) (use finished in \<open>simp add: children_done_def\<close>)
  have result: "report_result ?app ?ready = report_result app ?ready"
    by (simp add: report_result_def started_frame)
  have status: "status_contract app ?ready False (PlatformApplication.Status (reported_app ?ready ts' None ?app))"
    using reported_status [of app ?ready None ts' ts] by simp
  have "lookup w' (DeploymentT, deployment_key app) = Some d"
    using d by (simp add: upd app_slot_key)
  then have "reconciled lookup covers owned_by app dep (report_result ?app ?ready) w'"
    unfolding reconciled_def
    by (intro exI [of _ d] exI [of _ "PlatformApplication.Status (reported_app ?ready ts' None ?app)"]
        exI [of _ v] exI [of _ "PlatformApplication.Status ?app"] conjI)
      (use upd y status result wanted in \<open>simp_all add: started_app_def\<close>)
  moreover have "same_count L app w'"
    using finished by (simp add: upd children_done_def same_count_def counts_def app_slot_key)
  moreover have "\<forall>s. s \<notin> insert (app_slot app) (fst ` set (desired_children app dep)) \<longrightarrow> lookup w' s = L s"
    using finished by (simp add: upd children_done_def del: split_paired_All)
  ultimately show ?thesis
    using up unfolding live_post_def by blast
qed

lemma triple_live_report:
  assumes "buildDesiredDeployment (ParseQuantity E) app = Ret dep"
    and "L (app_slot app) = Some (AppObj app)" and "DeletionTimestamp (meta app) = None"
    and finished: "children_done L app dep (AppObj (started_app ts app)) w"
  shows "triple (calm (lookup w)) (report_status E t (started_app ts app) None) (\<lambda>r. live_post L app dep (Ret r))"
proof -
  let ?app = "started_app ts app"
  have slot: "app_slot ?app = app_slot app" by (simp add: started_app_def)
  have key: "deployment_key ?app = deployment_key app" by (simp add: deployment_key_def started_frame)
  obtain d where d: "lookup w (DeploymentT, deployment_key app) = Some d"
    using children_facts [OF assms(1)] finished unfolding children_done_def by blast
  have stored: "lookup w (app_slot app) = Some (AppObj app)"
    using finished app_slot_not_child [OF assms(1), of app] assms(2) by (simp add: children_done_def del: split_paired_All)
  have pre: "lookup w (DeploymentT, deployment_key ?app) = Some d" "lookup w (app_slot ?app) = Some (AppObj app)"
    using d stored by (simp_all add: key slot)
  show ?thesis
    by (rule triple_mono [OF triple_report_status [OF pre]])
      (use live_post_report [OF assms(1) finished d] in \<open>auto simp: assms(3) started_frame slot\<close>)
qed

lemma triple_live:
  assumes "buildDesiredDeployment (ParseQuantity E) app = Ret dep"
    and "L (app_slot app) = Some (AppObj app)" and "DeletionTimestamp (meta app) = None"
  shows "triple (calm L) (reconcile_live E t app) (live_post L app dep)"
  unfolding reconcile_live_def
proof (rule triple_start_rule)
  show "triple (calm L) (set_status E f a b c app) (\<lambda>_. calm L)" for f a b c app
    using quiet_set_status by (simp add: quiet_def)
next
  fix ts
  let ?app = "started_app ts app"
  note cong = children_cong [OF same_spec_started [of ts app]]
  have built: "buildDesiredDeployment (ParseQuantity E) ?app = Ret dep"
    using assms(1) by (simp add: cong)
  let ?C = "\<lambda>M. \<exists>w. lookup w = M \<and> children_done L app dep (AppObj ?app) w"
  have children: "triple (calm L) (reconcileResources E ?app) (\<lambda>r w. (up w \<and> ?C (lookup w)) \<and> r = Ret None)"
    by (rule triple_mono [OF triple_both [OF triple_children [OF built] same_count_children [OF built]]])
      (auto simp: cong children_done_def same_count_def deployment_key_def started_frame simp del: split_paired_All)
  have report: "triple (\<lambda>w. up w \<and> ?C (lookup w)) (report_status E t ?app None) (\<lambda>r. live_post L app dep (Ret r))"
    by (rule triple_ex_calm) (use triple_live_report [where L = L, OF assms] in blast)
  have after: "triple (\<lambda>w. (up w \<and> ?C (lookup w)) \<and> r = Ret None)
      (case r of Panic m \<Rightarrow> return (Panic m)
       | Ret e \<Rightarrow> do { res \<leftarrow> report_status E t ?app e; return (Ret res) }) (live_post L app dep)" for r
    by (rule triple_conj) (use report in \<open>auto intro!: triple_bind triple_return\<close>)
  show "triple (calm L) (do {
      r \<leftarrow> reconcileResources E ?app;
      (case r of Panic m \<Rightarrow> return (Panic m)
       | Ret e \<Rightarrow> do { res \<leftarrow> report_status E t ?app e; return (Ret res) }) }) (live_post L app dep)"
    by (rule triple_bind [OF children after])
qed

section \<open>Whole reconciliations\<close>

lemma triple_Reconcile:
  assumes "L (app_slot app) = Some (AppObj app)"
    and "\<And>t. triple (calm L)
      (if \<not> Time_IsZero (DeletionTimestamp (meta app)) then do { r \<leftarrow> handleDeletion E app; return (Ret r) }
       else if \<not> ContainsFinalizer E (meta app) finalizerName then do { r \<leftarrow> add_finalizer E app; return (Ret r) }
       else reconcile_live E t app) Q"
  shows "triple (calm L) (Reconcile E (deployment_key app)) Q"
proof -
  have get: "triple (calm L) (client_Get E (deployment_key app) (AppObj zero_PlatformApplication))
      (\<lambda>(err, obj) w. case err of Some e \<Rightarrow> False | None \<Rightarrow> \<exists>a. obj = AppObj a \<and> a = app \<and> calm L w)"
    by (rule triple_mono [OF triple_calm_Get [of L "AppObj zero_PlatformApplication" "deployment_key app" "AppObj app"]])
      (use assms(1) in \<open>auto simp: app_slot_key\<close>)
  have found: "triple (\<lambda>w. a = app \<and> calm L w)
      (if \<not> Time_IsZero (DeletionTimestamp (meta a)) then do { r \<leftarrow> handleDeletion E a; return (Ret r) }
       else if \<not> ContainsFinalizer E (meta a) finalizerName then do { r \<leftarrow> add_finalizer E a; return (Ret r) }
       else reconcile_live E t a) Q" for a t
    using assms(2) [of t] by (cases "a = app") (simp_all only: simp_thms, simp add: triple_def)
  show ?thesis
    by (rule triple_Reconcile_rule [OF quiet_now [unfolded quiet_def, THEN spec] triple_body_rule [OF get _ found]])
      (simp add: triple_def)
qed

lemma triple_Reconcile_live:
  assumes "buildDesiredDeployment (ParseQuantity E) app = Ret dep"
    and "L (app_slot app) = Some (AppObj app)" and "DeletionTimestamp (meta app) = None"
    and "finalizerName \<in> set (Finalizers (meta app))"
  shows "triple (calm L) (Reconcile E (deployment_key app)) (live_post L app dep)"
  by (rule triple_Reconcile [where L = L and app = app, OF assms(2)])
    (use triple_live [where L = L and app = app, OF assms(1-3)] assms(3,4) in \<open>simp add: Time_IsZero_def contains\<close>)

lemma triple_Update:
  assumes "L (app_slot app) = Some (AppObj app)"
  shows "triple (calm L) (client_Update E (AppObj (with_finalizers fs app)))
    (\<lambda>r w. fst r = None \<and>
       (if DeletionTimestamp (meta app) \<noteq> None \<and> fs = [] then calm (L(app_slot app := None)) w
        else \<exists>v. calm (L(app_slot app \<mapsto> AppObj (at_version v (with_finalizers fs app)))) w))"
  unfolding client_Update_def
proof (rule triple_bind [OF triple_emit triple_lift], assumption)
  fix w r w'
  assume w: "calm L w" and run: "env_Update E (AppObj (with_finalizers fs app)) w = (r, w')"
  obtain err x where r: "r = (err, x)" by (cases r)
  from up_update [of w "with_finalizers fs app" app err x w'] w run assms
  show "fst r = None \<and>
       (if DeletionTimestamp (meta app) \<noteq> None \<and> fs = [] then calm (L(app_slot app := None)) w'
        else \<exists>v. calm (L(app_slot app \<mapsto> AppObj (at_version v (with_finalizers fs app)))) w')"
    by (auto simp: calm_def r split: if_splits)
qed

lemma triple_Reconcile_new:
  assumes "L (app_slot app) = Some (AppObj app)" and "DeletionTimestamp (meta app) = None"
    and "finalizerName \<notin> set (Finalizers (meta app))"
  shows "triple (calm L) (Reconcile E (deployment_key app))
    (\<lambda>r w. r = Ret (no_requeue, None) \<and>
       (\<exists>v. calm (L(app_slot app \<mapsto> AppObj (at_version v
          (with_finalizers (Finalizers (meta app) @ [finalizerName]) app)))) w))"
proof -
  have sent: "app_meta_update (AddFinalizer E) app = with_finalizers (Finalizers (meta app) @ [finalizerName]) app"
    using assms(3) by (simp add: app_meta_update_def add with_finalizers_def)
  have "triple (calm L) (do { r \<leftarrow> add_finalizer E app; return (Ret r) })
    (\<lambda>r w. r = Ret (no_requeue, None) \<and>
       (\<exists>v. calm (L(app_slot app \<mapsto> AppObj (at_version v
          (with_finalizers (Finalizers (meta app) @ [finalizerName]) app)))) w))"
    unfolding add_finalizer_def sent bind_assoc
    by (rule triple_bind [OF triple_Update [where L = L and app = app, OF assms(1)]])
      (use assms(2) in \<open>auto simp: triple_def split: option.split prod.split\<close>)
  then show ?thesis
    using assms(2,3) by (intro triple_Reconcile [where L = L and app = app, OF assms(1)]) (simp add: Time_IsZero_def contains)
qed

lemma triple_Reconcile_deleted:
  assumes "L (app_slot app) = Some (AppObj app)" and "\<not> Time_IsZero (DeletionTimestamp (meta app))"
    and "finalizerName \<in> set (Finalizers (meta app))"
  defines "fs \<equiv> filter (\<lambda>g. g \<noteq> finalizerName) (Finalizers (meta app))"
  shows "triple (calm L) (Reconcile E (deployment_key app))
    (\<lambda>r w. r = Ret (no_requeue, None) \<and>
       (if fs = [] then calm (L(app_slot app := None)) w
        else \<exists>v. calm (L(app_slot app \<mapsto> AppObj (at_version v (with_finalizers fs app)))) w))"
proof -
  have sent: "app_meta_update (RemoveFinalizer E) app = with_finalizers fs app"
    by (simp add: app_meta_update_def remove with_finalizers_def fs_def)
  have some: "DeletionTimestamp (meta app) \<noteq> None"
    using assms(2) by (auto simp: Time_IsZero_def)
  have "triple (calm L) (do { r \<leftarrow> handleDeletion E app; return (Ret r) })
    (\<lambda>r w. r = Ret (no_requeue, None) \<and>
       (if fs = [] then calm (L(app_slot app := None)) w
        else \<exists>v. calm (L(app_slot app \<mapsto> AppObj (at_version v (with_finalizers fs app)))) w))"
    using assms(3) unfolding handleDeletion_def sent contains
    by (simp only: not_not if_False bind_assoc simp_thms)
      (rule triple_bind [OF triple_Update [where L = L and app = app, OF assms(1)]],
        use some in \<open>auto simp: triple_def split: option.split prod.split\<close>)
  then show ?thesis
    using assms(2) by (intro triple_Reconcile [where L = L and app = app, OF assms(1)]) simp
qed

end

end
