(* ===== verification/Reference_Server.thy ===== *)
theory Reference_Server
  imports Platform
begin

text \<open>
  An executable server and client library that meets the contracts: a store of objects by slot with
  a revision counter, a clock, and a script of faults that API calls consume one by one. It is the
  instance at which the contracts are interpreted and the properties are evaluated; the operator's
  code does not depend on it.
\<close>

section \<open>State\<close>

record server =
  objects :: "kobject list"
  revision :: nat
  clock :: Time
  faults :: "(string \<times> string) option list"

definition empty_server :: server where
  "empty_server = \<lparr>objects = [], revision = 0, clock = 0, faults = []\<rparr>"

definition server_lookup :: "server \<Rightarrow> slot \<Rightarrow> kobject option" where
  "server_lookup w k = find (\<lambda>x. slot_of x = k) (objects w)"

text \<open>The next fault of the script, as an API status with its reason and message. A fault does not
  claim that an object is missing.\<close>

definition fault_error :: "string \<times> string \<Rightarrow> go_error" where
  "fault_error f = ForeignError (if fst f = ''NotFound'' then ''InternalError'' else fst f) (snd f)"

definition next_fault :: "server \<Rightarrow> go_error option \<times> server" where
  "next_fault w =
     (case faults w of
        [] \<Rightarrow> (None, w)
      | f # fs \<Rightarrow> (map_option fault_error f, w\<lparr>faults := fs\<rparr>))"

lemma next_fault_error:
  "next_fault w = (Some e, w') \<Longrightarrow> errors_As e = None \<and> \<not> IsNotFound status_errors e"
  by (auto simp: next_fault_def fault_error_def status_errors_def split: list.splits option.splits if_splits)

lemma next_fault_objects: "next_fault w = (f, w') \<Longrightarrow> objects w' = objects w"
  by (auto simp: next_fault_def split: list.splits)

definition put :: "kobject \<Rightarrow> server \<Rightarrow> server" where
  "put x w = w\<lparr>objects := x # filter (\<lambda>y. slot_of y \<noteq> slot_of x) (objects w), revision := Suc (revision w)\<rparr>"

definition drop_slot :: "slot \<Rightarrow> server \<Rightarrow> server" where
  "drop_slot k w = w\<lparr>objects := filter (\<lambda>y. slot_of y \<noteq> k) (objects w), revision := Suc (revision w)\<rparr>"

lemma find_other_slots:
  "find (\<lambda>x. slot_of x = k) (filter (\<lambda>y. slot_of y \<noteq> k') xs) = (if k = k' then None else find (\<lambda>x. slot_of x = k) xs)"
  by (induction xs) auto

lemma lookup_put [simp]: "server_lookup (put x w) = (server_lookup w)(slot_of x \<mapsto> x)"
  by (rule ext) (simp add: server_lookup_def put_def find_other_slots)

lemma lookup_drop [simp]: "server_lookup (drop_slot k w) = (server_lookup w)(k := None)"
  by (rule ext) (simp add: server_lookup_def drop_slot_def find_other_slots)

lemma lookup_keyed: "server_lookup w k = Some x \<Longrightarrow> slot_of x = k"
  by (auto simp: server_lookup_def find_Some_iff)

section \<open>Metadata that the server keeps\<close>

fun map_meta :: "(ObjectMeta \<Rightarrow> ObjectMeta) \<Rightarrow> kobject \<Rightarrow> kobject" where
  "map_meta f (AppObj x) = AppObj (x\<lparr>PlatformApplication.ObjectMeta := f (PlatformApplication.ObjectMeta x)\<rparr>)"
| "map_meta f (DeploymentObj x) = DeploymentObj (x\<lparr>K8sObject.ObjectMeta := f (K8sObject.ObjectMeta x)\<rparr>)"
| "map_meta f (ServiceObj x) = ServiceObj (x\<lparr>K8sObject.ObjectMeta := f (K8sObject.ObjectMeta x)\<rparr>)"
| "map_meta f (HPAObj x) = HPAObj (x\<lparr>K8sObject.ObjectMeta := f (K8sObject.ObjectMeta x)\<rparr>)"
| "map_meta f (HTTPRouteObj x) = HTTPRouteObj (x\<lparr>K8sObject.ObjectMeta := f (K8sObject.ObjectMeta x)\<rparr>)"
| "map_meta f (NetworkPolicyObj x) = NetworkPolicyObj (x\<lparr>K8sObject.ObjectMeta := f (K8sObject.ObjectMeta x)\<rparr>)"
| "map_meta f (PDBObj x) = PDBObj (x\<lparr>K8sObject.ObjectMeta := f (K8sObject.ObjectMeta x)\<rparr>)"
| "map_meta f (UnstructuredObj x) = UnstructuredObj (x\<lparr>K8sObject.ObjectMeta := f (K8sObject.ObjectMeta x)\<rparr>)"

lemma map_meta_simps [simp]:
  "meta_of (map_meta f x) = f (meta_of x)"
  "gotype_of (map_meta f x) = gotype_of x"
  "map_meta f (map_meta g x) = map_meta (\<lambda>m. f (g m)) x"
  by (cases x; simp)+

lemma map_meta_id [simp]: "map_meta (\<lambda>m. m) x = x"
  by (cases x) simp_all

definition with_revision :: "server \<Rightarrow> kobject \<Rightarrow> kobject" where
  "with_revision w x = map_meta (\<lambda>m. m\<lparr>ResourceVersion := nat_digits (Suc (revision w))\<rparr>) x"

lemma slot_of_map_meta:
  "ObjectMeta.Name (f (meta_of x)) = ObjectMeta.Name (meta_of x) \<Longrightarrow>
   ObjectMeta.Namespace (f (meta_of x)) = ObjectMeta.Namespace (meta_of x) \<Longrightarrow>
   slot_of (map_meta f x) = slot_of x"
  by (simp add: slot_defs)

lemma slot_with_revision [simp]: "slot_of (with_revision w x) = slot_of x"
  by (simp add: with_revision_def slot_of_map_meta)

lemma with_revision_meta [simp]:
  "DeletionTimestamp (meta_of (with_revision w x)) = DeletionTimestamp (meta_of x)"
  "Finalizers (meta_of (with_revision w x)) = Finalizers (meta_of x)"
  by (simp_all add: with_revision_def)

text \<open>An apply leaves the status alone, which the Deployment controller reports.\<close>

fun keep_ready :: "kobject \<Rightarrow> kobject \<Rightarrow> kobject" where
  "keep_ready (DeploymentObj old) (DeploymentObj new) = DeploymentObj (new\<lparr>K8sObject.Status := K8sObject.Status old\<rparr>)"
| "keep_ready old new = new"

fun forget_ready :: "kobject \<Rightarrow> kobject" where
  "forget_ready (DeploymentObj x) = DeploymentObj (x\<lparr>K8sObject.Status := \<lparr>DeploymentStatus.ReadyReplicas = 0\<rparr>\<rparr>)"
| "forget_ready x = x"

definition applied :: "server \<Rightarrow> kobject \<Rightarrow> kobject" where
  "applied w obj = (case server_lookup w (slot_of obj) of Some x \<Rightarrow> keep_ready x obj | None \<Rightarrow> obj)"

lemma keep_ready_simps [simp]:
  "meta_of (keep_ready x obj) = meta_of obj" "gotype_of (keep_ready x obj) = gotype_of obj"
  "forget_ready (keep_ready x obj) = forget_ready obj"
  by (cases x; cases obj; simp)+

lemma forget_ready_simps [simp]:
  "meta_of (forget_ready x) = meta_of x" "forget_ready (map_meta f x) = map_meta f (forget_ready x)"
  by (cases x; simp)+

lemma applied_simps [simp]:
  "meta_of (applied w obj) = meta_of obj" "gotype_of (applied w obj) = gotype_of obj"
  "slot_of (applied w obj) = slot_of obj" "forget_ready (applied w obj) = forget_ready obj"
  by (simp_all add: applied_def slot_defs split: option.split)

text \<open>What an object says apart from its version and the status; that is what a stored object must agree on.\<close>

definition content :: "kobject \<Rightarrow> kobject" where
  "content x = map_meta (\<lambda>m. m\<lparr>ResourceVersion := []\<rparr>) (forget_ready x)"

definition server_covers :: "kobject \<Rightarrow> kobject \<Rightarrow> bool" where
  "server_covers y d \<longleftrightarrow>
     map_meta (\<lambda>m. m\<lparr>OwnerReferences := []\<rparr>) (content y) = map_meta (\<lambda>m. m\<lparr>OwnerReferences := []\<rparr>) (content d) \<and>
     set (OwnerReferences (meta_of d)) \<subseteq> set (OwnerReferences (meta_of y))"

definition owner_reference :: "kobject \<Rightarrow> OwnerReference" where
  "owner_reference owner =
     \<lparr>OwnerKind = GetKind owner, OwnerName = GetName owner, OwnerUID = UID (meta_of owner), Controller = True\<rparr>"

definition server_owned_by :: "kobject \<Rightarrow> kobject \<Rightarrow> bool" where
  "server_owned_by owner y \<longleftrightarrow> owner_reference owner \<in> set (OwnerReferences (meta_of y))"

section \<open>The client\<close>

definition server_Get :: "ObjectKey \<Rightarrow> kobject \<Rightarrow> server \<Rightarrow> (go_error option \<times> kobject) \<times> server" where
  "server_Get key obj w =
     (case next_fault w of
        (Some e, w) \<Rightarrow> ((Some e, obj), w)
      | (None, w) \<Rightarrow>
          (case server_lookup w (gotype_of obj, key) of
             None \<Rightarrow> ((Some (ForeignError ''NotFound'' (KeyName key @ '' not found'')), obj), w)
           | Some x \<Rightarrow> ((None, x), w)))"

definition server_Create :: "kobject \<Rightarrow> server \<Rightarrow> (go_error option \<times> kobject) \<times> server" where
  "server_Create obj w =
     (case next_fault w of
        (Some e, w) \<Rightarrow> ((Some e, obj), w)
      | (None, w) \<Rightarrow>
          (case server_lookup w (slot_of obj) of
             Some x \<Rightarrow> ((Some (ForeignError ''AlreadyExists'' (GetName obj @ '' already exists'')), obj), w)
           | None \<Rightarrow> (let y = with_revision w obj in ((None, y), put y w))))"

definition server_Patch :: "kobject \<Rightarrow> string \<Rightarrow> server \<Rightarrow> (go_error option \<times> kobject) \<times> server" where
  "server_Patch obj manager w =
     (case next_fault w of
        (Some e, w) \<Rightarrow> ((Some e, obj), w)
      | (None, w) \<Rightarrow> (let y = with_revision w (applied w obj) in ((None, y), put y w)))"

definition server_Delete :: "kobject \<Rightarrow> server \<Rightarrow> go_error option \<times> server" where
  "server_Delete obj w =
     (case next_fault w of
        (Some e, w) \<Rightarrow> (Some e, w)
      | (None, w) \<Rightarrow>
          (case server_lookup w (slot_of obj) of
             None \<Rightarrow> (Some (ForeignError ''NotFound'' (GetName obj @ '' not found'')), w)
           | Some x \<Rightarrow> (None, drop_slot (slot_of obj) w)))"

text \<open>Updates check the version of the object; an update of the spec keeps the stored status and an
  update of the status keeps everything else. An object that is being deleted goes with its last
  finalizer.\<close>

definition conflict_error :: "kobject \<Rightarrow> go_error" where
  "conflict_error obj = ForeignError ''Conflict'' (GetName obj @ '' has been modified'')"

fun keep_status :: "kobject \<Rightarrow> kobject \<Rightarrow> kobject" where
  "keep_status (AppObj old) (AppObj new) =
     AppObj (new\<lparr>PlatformApplication.Status := PlatformApplication.Status old\<rparr>)"
| "keep_status old new = new"

fun only_status :: "kobject \<Rightarrow> kobject \<Rightarrow> kobject" where
  "only_status (AppObj old) (AppObj new) =
     AppObj (old\<lparr>PlatformApplication.Status := PlatformApplication.Status new\<rparr>)"
| "only_status old new = old"

definition server_write ::
    "(kobject \<Rightarrow> kobject \<Rightarrow> kobject) \<Rightarrow> kobject \<Rightarrow> server \<Rightarrow> (go_error option \<times> kobject) \<times> server" where
  "server_write merge obj w =
     (case next_fault w of
        (Some e, w) \<Rightarrow> ((Some e, obj), w)
      | (None, w) \<Rightarrow>
          (case server_lookup w (slot_of obj) of
             None \<Rightarrow> ((Some (ForeignError ''NotFound'' (GetName obj @ '' not found'')), obj), w)
           | Some x \<Rightarrow>
               if ResourceVersion (meta_of x) \<noteq> ResourceVersion (meta_of obj)
               then ((Some (conflict_error obj), obj), w)
               else (let y = with_revision w (merge x obj) in
                     if DeletionTimestamp (meta_of y) \<noteq> None \<and> Finalizers (meta_of y) = []
                     then ((None, y), drop_slot (slot_of obj) w)
                     else ((None, y), put y w))))"

definition server_Now :: "server \<Rightarrow> Time \<times> server" where
  "server_Now w = (clock w, w\<lparr>clock := clock w + 1\<rparr>)"

definition server_Select :: "int \<Rightarrow> server \<Rightarrow> go_error option \<times> server" where
  "server_Select delay w = (None, w\<lparr>clock := clock w + delay\<rparr>)"

definition add_owner :: "kobject \<Rightarrow> kobject \<Rightarrow> go_error + kobject" where
  "add_owner owner obj =
     (if GetNamespace owner \<noteq> GetNamespace obj
      then Inl (ErrorString ''cross-namespace owner references are disallowed'')
      else Inr (map_meta (\<lambda>m. m\<lparr>OwnerReferences := owner_reference owner # OwnerReferences m\<rparr>) obj))"

definition plain_quantity :: "string \<Rightarrow> quantity option" where
  "plain_quantity s = (if s \<noteq> [] \<and> list_all (\<lambda>c. digit_of c \<noteq> None \<or> c \<in> set ''mKMGi.'') s then Some (Quantity s) else None)"

definition server_env :: "server env" where
  "server_env = \<lparr>
     apierr = status_errors,
     env_Get = server_Get, env_Create = server_Create, env_Patch = server_Patch,
     env_Update = server_write keep_status, env_Delete = server_Delete,
     env_StatusUpdate = server_write only_status,
     env_Now = server_Now, env_Select = server_Select,
     SetControllerReference = add_owner,
     DeepEqual = (\<lambda>x y. x = y),
     ParseQuantity = plain_quantity,
     ContainsFinalizer = (\<lambda>m f. f \<in> set (Finalizers m)),
     AddFinalizer = (\<lambda>m f. if f \<in> set (Finalizers m) then m else m\<lparr>Finalizers := Finalizers m @ [f]\<rparr>),
     RemoveFinalizer = (\<lambda>m f. m\<lparr>Finalizers := filter (\<lambda>g. g \<noteq> f) (Finalizers m)\<rparr>)\<rparr>"

lemmas server_defs = server_Get_def server_Create_def server_Patch_def server_Delete_def
  server_Now_def server_Select_def server_write_def

section \<open>The contract holds\<close>

lemma covers_with_revision: "server_covers (with_revision w obj) obj" "server_covers (with_revision w (applied w' obj)) obj"
  by (simp_all add: server_covers_def content_def with_revision_def)

lemma lookup_clock: "server_lookup (w\<lparr>clock := t\<rparr>) = server_lookup w"
  by (rule ext) (simp add: server_lookup_def)

lemma next_fault_lookup: "next_fault w = (f, w') \<Longrightarrow> server_lookup w' = server_lookup w"
  by (rule ext) (simp add: server_lookup_def next_fault_objects)

lemma covers_refl: "server_covers x x"
  by (simp add: server_covers_def)

lemma server_env_sel [simp]:
  "apierr server_env = status_errors" "env_Get server_env = server_Get" "env_Create server_env = server_Create"
  "env_Patch server_env = server_Patch" "env_Update server_env = server_write keep_status"
  "env_Delete server_env = server_Delete" "env_StatusUpdate server_env = server_write only_status"
  "env_Now server_env = server_Now" "env_Select server_env = server_Select"
  "SetControllerReference server_env = add_owner" "DeepEqual server_env = (\<lambda>x y. x = y)"
  "ParseQuantity server_env = plain_quantity"
  by (simp_all add: server_env_def)

lemma add_owner_laws:
  assumes "add_owner owner obj = Inr d"
  shows "slot_of d = slot_of obj \<and> (\<forall>y. server_covers y d \<longrightarrow> server_covers y obj \<and> server_owned_by owner y)"
  using assms
  by (auto simp: add_owner_def slot_of_map_meta server_covers_def content_def server_owned_by_def split: if_splits)

interpretation server: api_server server_env server_lookup server_covers server_owned_by
proof unfold_locales
  fix key obj w r w'
  assume "env_Get server_env key obj w = (r, w')"
  then show "server_lookup w' = server_lookup w"
    by (auto simp: server_Get_def dest: next_fault_lookup split: prod.splits option.splits)
next
  fix key obj w x w'
  assume "env_Get server_env key obj w = ((None, x), w')"
  then show "server_lookup w (gotype_of obj, key) = Some x"
    by (auto simp: server_Get_def dest!: next_fault_lookup split: prod.splits option.splits)
next
  fix key obj w e x w'
  assume "env_Get server_env key obj w = ((Some e, x), w')" "IsNotFound (apierr server_env) e"
  then show "server_lookup w (gotype_of obj, key) = None"
    by (auto simp: server_Get_def dest!: next_fault_lookup next_fault_error split: prod.splits option.splits)
next
  fix obj w x w'
  assume "env_Create server_env obj w = ((None, x), w')"
  then show "\<exists>y. server_lookup w' = (server_lookup w)(slot_of obj \<mapsto> y) \<and> server_covers y obj"
    by (auto simp: server_Create_def Let_def covers_with_revision dest!: next_fault_lookup split: prod.splits option.splits)
next
  fix obj w e x w'
  assume "env_Create server_env obj w = ((Some e, x), w')"
  then show "x = obj \<and> (\<forall>s. s \<noteq> slot_of obj \<longrightarrow> server_lookup w' s = server_lookup w s)"
    by (auto simp: server_Create_def Let_def dest!: next_fault_lookup split: prod.splits option.splits)
next
  fix obj manager w x w'
  assume "env_Patch server_env obj manager w = ((None, x), w')"
  then show "\<exists>y. server_lookup w' = (server_lookup w)(slot_of obj \<mapsto> y) \<and> server_covers y obj"
    by (auto simp: server_Patch_def Let_def covers_with_revision dest!: next_fault_lookup split: prod.splits option.splits)
next
  fix obj manager w e x w'
  assume "env_Patch server_env obj manager w = ((Some e, x), w')"
  then show "x = obj \<and> (\<forall>s. s \<noteq> slot_of obj \<longrightarrow> server_lookup w' s = server_lookup w s)"
    by (auto simp: server_Patch_def Let_def dest!: next_fault_lookup split: prod.splits option.splits)
next
  fix obj w w'
  assume "env_Delete server_env obj w = (None, w')"
  then show "server_lookup w' = (server_lookup w)(slot_of obj := None)"
    by (auto simp: server_Delete_def dest!: next_fault_lookup split: prod.splits option.splits)
next
  fix obj w e w'
  assume "env_Delete server_env obj w = (Some e, w')" "IsNotFound (apierr server_env) e"
  then show "server_lookup w (slot_of obj) = None \<and> server_lookup w' = server_lookup w"
    by (auto simp: server_Delete_def dest!: next_fault_lookup next_fault_error split: prod.splits option.splits)
next
  fix obj w e w'
  assume "env_Delete server_env obj w = (Some e, w')"
  then show "\<forall>s. s \<noteq> slot_of obj \<longrightarrow> server_lookup w' s = server_lookup w s"
    by (auto simp: server_Delete_def dest!: next_fault_lookup split: prod.splits option.splits)
qed (auto simp: server_Now_def server_Select_def server_lookup_def add_owner_laws covers_refl)

lemma server_foreign: "foreign_errors server_env"
  unfolding foreign_errors_def
  by (auto simp: server_Get_def server_Create_def server_Patch_def server_Delete_def server_Select_def
      add_owner_def Let_def dest: next_fault_error split: prod.splits option.splits if_splits)

text \<open>Without faults in the script the server is up.\<close>

definition server_up :: "server \<Rightarrow> bool" where
  "server_up w \<longleftrightarrow> faults w = []"

lemma next_fault_up: "server_up w \<Longrightarrow> next_fault w = (None, w)"
  by (simp add: server_up_def next_fault_def)

lemma up_put [simp]: "server_up (put x w) = server_up w" "server_up (drop_slot k w) = server_up w"
  by (simp_all add: server_up_def put_def drop_slot_def)

lemma not_found [simp]: "IsNotFound status_errors (ForeignError ''NotFound'' m)"
  by (simp add: status_errors_def)

interpretation server: reliable_server server_env server_lookup server_covers server_owned_by server_up
proof unfold_locales
  fix w key obj err x w'
  assume "server_up w" "env_Get server_env key obj w = ((err, x), w')"
  then show "server_up w' \<and> (case err of
      None \<Rightarrow> server_lookup w (gotype_of obj, key) = Some x
    | Some e \<Rightarrow> IsNotFound (apierr server_env) e \<and> server_lookup w (gotype_of obj, key) = None)"
    by (auto simp: server_Get_def next_fault_up split: option.splits)
next
  fix w obj err x w'
  assume "server_up w" "server_lookup w (slot_of obj) = None" "env_Create server_env obj w = ((err, x), w')"
  then show "server_up w' \<and> err = None"
    by (auto simp: server_Create_def next_fault_up Let_def)
next
  fix w obj manager err x w'
  assume "server_up w" "server_lookup w (slot_of obj) \<noteq> None" "env_Patch server_env obj manager w = ((err, x), w')"
  then show "server_up w' \<and> err = None"
    by (auto simp: server_Patch_def next_fault_up Let_def)
next
  fix w obj err w'
  assume "server_up w" "env_Delete server_env obj w = (err, w')"
  then show "server_up w' \<and> (case err of None \<Rightarrow> True | Some e \<Rightarrow> IsNotFound (apierr server_env) e)"
    by (auto simp: server_Delete_def next_fault_up split: option.splits)
next
  fix w t w'
  assume "server_up w" "env_Now server_env w = (t, w')"
  then show "server_up w'"
    by (auto simp: server_Now_def server_up_def)
next
  fix owner obj
  assume "GetNamespace owner = GetNamespace obj"
  then show "\<exists>d. SetControllerReference server_env owner obj = Inr d"
    by (simp add: add_owner_def)
qed

text \<open>The server stores the application as well: updates and finalizers keep their laws.\<close>

lemma server_write_up:
  assumes "server_up w" and "server_lookup w (app_slot app) = Some (AppObj old)"
    and "ResourceVersion (meta app) = ResourceVersion (meta old)"
    and "server_write merge (AppObj app) w = ((err, x), w')" and "merge (AppObj old) (AppObj app) = AppObj new"
    and "app_slot new \<in> {app_slot old, app_slot app}"
  shows "server_up w' \<and> err = None \<and> x = with_revision w (AppObj new) \<and>
    server_lookup w' = (server_lookup w)(app_slot app :=
      if DeletionTimestamp (meta new) \<noteq> None \<and> Finalizers (meta new) = [] then None else Some x)"
  using assms(1-4) assms(6) lookup_keyed [OF assms(2)]
  by (auto simp: server_write_def next_fault_up app_slot_def Let_def assms(5) split: if_splits)

lemma applied_count:
  assumes "server_lookup w (slot_of obj) = Some x"
  shows "as_deployment_status (with_revision w' (applied w obj)) = as_deployment_status x"
proof -
  have "gotype_of x = gotype_of obj"
    using lookup_keyed [OF assms] by (simp add: slot_of_def)
  with assms show ?thesis
    by (cases x; cases obj) (simp_all add: applied_def with_revision_def)
qed

interpretation server: platform server_env server_lookup server_covers server_owned_by server_up
proof unfold_locales
  fix w app old err x w'
  assume up: "server_up w" and old: "server_lookup w (app_slot app) = Some (AppObj old)"
    and version: "ResourceVersion (meta app) = ResourceVersion (meta old)"
    and run: "env_Update server_env (AppObj app) w = ((err, x), w')"
  let ?new = "with_status app (PlatformApplication.Status old)"
  have "keep_status (AppObj old) (AppObj app) = AppObj ?new" "app_slot ?new \<in> {app_slot old, app_slot app}"
    by (simp_all add: with_status_def [symmetric])
  from server_write_up [OF up old version run [unfolded server_env_sel] this]
  show "server_up w' \<and> err = None \<and>
      (if DeletionTimestamp (meta app) \<noteq> None \<and> Finalizers (meta app) = []
       then server_lookup w' = (server_lookup w)(app_slot app := None)
       else \<exists>v. server_lookup w' = (server_lookup w)(app_slot app \<mapsto> AppObj (at_version v ?new)))"
    by (auto simp: with_revision_def at_version_def with_status_def)
next
  fix w app old err x w'
  assume up: "server_up w" and old: "server_lookup w (app_slot app) = Some (AppObj old)"
    and version: "ResourceVersion (meta app) = ResourceVersion (meta old)"
    and live: "DeletionTimestamp (meta old) = None"
    and run: "env_StatusUpdate server_env (AppObj app) w = ((err, x), w')"
  let ?new = "with_status old (PlatformApplication.Status app)"
  have "only_status (AppObj old) (AppObj app) = AppObj ?new" "app_slot ?new \<in> {app_slot old, app_slot app}"
    by (simp_all add: with_status_def [symmetric])
  from server_write_up [OF up old version run [unfolded server_env_sel] this] live
  show "server_up w' \<and> err = None \<and>
      (\<exists>v. x = AppObj (at_version v ?new) \<and> server_lookup w' = (server_lookup w)(app_slot app \<mapsto> x))"
    by (auto simp: with_revision_def at_version_def with_status_def)
next
  fix w obj x manager r w'
  assume "server_up w" "server_lookup w (slot_of obj) = Some x" "env_Patch server_env obj manager w = (r, w')"
  then show "map_option as_deployment_status (server_lookup w' (slot_of obj)) = Some (as_deployment_status x)"
    by (auto simp: server_Patch_def next_fault_up Let_def applied_count)
qed (simp_all add: server_env_def)

end
