(* ===== verification/Operation.thy ===== *)
theory Operation
  imports Reference_Server
begin

text \<open>
  The properties of the operator in operation, over an arbitrary environment: what a run of the
  sub-reconcilers achieves against an API server that meets its contract, and what a reconciliation
  logs, writes, reports and returns. The witnesses run on the server of theory Reference_Server.
\<close>

section \<open>Convergence\<close>

definition start_world :: "'w \<Rightarrow> 'w world" where
  "start_world w = \<lparr>outside = w, log = []\<rparr>"

lemma outside_start [simp]: "outside (start_world w) = w" "log (start_world w) = []"
  by (simp_all add: start_world_def)

text \<open>C10. Safety of the loop over the sub-reconcilers, for every API server that meets the documented
  contract and whatever calls fail: if it returns without an error, every child of the application is
  as wanted (enabled ones exist with the desired content and the application as controller, disabled
  ones do not exist); and in every case nothing outside the seven slots of the application has moved.\<close>

theorem sub_reconcilers_converge:
  assumes "api_server E lookup covers owned_by"
    and "buildDesiredDeployment (ParseQuantity E) app = Ret dep"
    and "run_state (reconcileResources E app) s = (r, s')"
  shows "(if r = Ret None
          then \<forall>c \<in> set (desired_children app dep). as_wanted lookup covers owned_by (AppObj app) c (outside s')
          else True) \<and>
         (\<forall>slot. slot \<in> fst ` set (desired_children app dep) \<or> lookup (outside s') slot = lookup (outside s) slot)"
  using tripleD [OF api_server.reconcileResources_converges [OF assms(1,2), of "lookup (outside s)"] _ assms(3)]
  by auto

text \<open>Liveness of the loop: against a cluster that is up, for every application whose Deployment
  can be built, the loop returns without an error, every child is then as wanted, and the cluster is
  still up; so does every later run, whatever was in the seven slots before.\<close>

theorem sub_reconcilers_succeed:
  assumes "reliable_server E lookup covers owned_by up"
    and "buildDesiredDeployment (ParseQuantity E) app = Ret dep" and "up (outside s)"
  shows "\<exists>s'. run_state (reconcileResources E app) s = (Ret None, s') \<and> up (outside s') \<and>
    (\<forall>c \<in> set (desired_children app dep). as_wanted lookup covers owned_by (AppObj app) c (outside s'))"
proof -
  obtain r s' where run: "run_state (reconcileResources E app) s = (r, s')"
    by (cases "run_state (reconcileResources E app) s")
  with tripleD [OF reliable_server.up_reconcileResources [OF assms(1,2)] assms(3)]
  have r: "up (outside s')" "r = Ret None" by auto
  have "api_server E lookup covers owned_by"
    using assms(1) by (rule reliable_server.axioms(1))
  from tripleD [OF api_server.reconcileResources_converges [OF this assms(2), of "lookup (outside s)"] _ run] r run
  show ?thesis by auto
qed

theorem sub_reconcilers_succeed_witness:
  "\<exists>dep s'. run_state (reconcileResources server_env sample_app) (start_world empty_server) = (Ret None, s') \<and>
     (\<forall>c \<in> set (desired_children sample_app dep).
        as_wanted server_lookup server_covers server_owned_by (AppObj sample_app) c (outside s'))"
proof -
  obtain dep where "buildDesiredDeployment (ParseQuantity server_env) sample_app = Ret dep"
    using sample_builds by blast
  from sub_reconcilers_succeed [OF server.reliable_server_axioms this, of "start_world empty_server"]
  show ?thesis by (auto simp: server_up_def empty_server_def)
qed

theorem sub_reconcilers_converge_witness:
  "\<exists>dep s'. run_state (reconcileResources server_env sample_app) (start_world empty_server) = (Ret None, s') \<and>
     (\<exists>c \<in> set (desired_children sample_app dep).
        as_wanted server_lookup server_covers server_owned_by (AppObj sample_app) c (outside s'))"
proof -
  obtain dep where dep: "buildDesiredDeployment (ParseQuantity server_env) sample_app = Ret dep"
    using sample_builds by blast
  obtain r s' where run: "run_state (reconcileResources server_env sample_app) (start_world empty_server) = (r, s')"
    by (cases "run_state (reconcileResources server_env sample_app) (start_world empty_server)")
  have r: "r = Ret None"
    using tripleD [OF server.up_reconcileResources [OF dep] _ run] by (simp add: server_up_def empty_server_def)
  from sub_reconcilers_converge [OF server.api_server_axioms dep run] r run show ?thesis
    by (auto simp: desired_children_def)
qed

section \<open>What a reconciliation does\<close>

lemma reconcile_log_views:
  "filter is_write (reconcile_log req fs) = filter is_write fs"
  "increments c (reconcile_log req fs) = increments c fs"
  "filter is_gauge (reconcile_log req fs) = GaugeInc ActiveReconcilers # filter is_gauge fs @ [GaugeDec ActiveReconcilers]"
  by (simp_all add: reconcile_log_def increments_Cons)

lemma writes_spec_log: "writes_spec r (reconcile_log req fs) = writes_spec r fs"
  by (simp only: writes_spec_def reconcile_log_views)

lemma panic_body:
  assumes "body_trace E ok (Panic m) fs"
  shows "\<exists>app. fs = [sub_start app ''Deployment'']"
  using assms
  by (cases rule: body_trace.cases) (auto dest: panic_first [OF _ refl] simp: sub_names_def)

lemma instruments_body:
  assumes "body_trace E ok r fs"
  shows "case r of
      Ret _ \<Rightarrow> span_stack (reconcile_log req fs) [] = Some []
    | Panic _ \<Rightarrow> span_stack (butlast (butlast (reconcile_log req fs))) [] = Some [sub_span ''Deployment'', reconcile_span] \<and>
        SpanEnd (sub_span ''Deployment'') \<notin> set (reconcile_log req fs)"
proof (cases r)
  case (Ret x)
  with span_stack_body [OF assms] show ?thesis by (simp add: reconcile_log_def)
next
  case (Panic m)
  with assms panic_body obtain app where "fs = [sub_start app ''Deployment'']" by blast
  with Panic show ?thesis
    by (simp add: reconcile_log_def sub_start_def reconcile_span_def sub_span_def)
qed

text \<open>C17. Every reconciliation, whatever the API server answers, leaves the instruments consistent:
  the gauge of active workers goes up once and down once; and the spans nest and are all ended, except
  that a panic of the Deployment builder leaves the span of that step open.\<close>

theorem instruments_balanced:
  "logs (\<lambda>r es.
      filter is_gauge es = [GaugeInc ActiveReconcilers, GaugeDec ActiveReconcilers] \<and>
      (case r of
         Ret _ \<Rightarrow> span_stack es [] = Some []
       | Panic _ \<Rightarrow> span_stack (butlast (butlast es)) [] = Some [sub_span ''Deployment'', reconcile_span] \<and>
           SpanEnd (sub_span ''Deployment'') \<notin> set es))
    (Reconcile E req)"
  by (rule logs_mono [OF logs_Reconcile [OF sub_errors_True]], elim exE conjE, hypsubst)
    (simp only: reconcile_log_views gauge_body append_Nil instruments_body simp_thms)

text \<open>C35. No reconciliation makes Prometheus panic: every metric update of it uses a collector of the
  right kind with as many label values as the collector declares.\<close>

theorem metrics_well_labelled: "logs (\<lambda>_ es. list_all well_labelled es) (Reconcile E req)"
  by (rule logs_mono [OF logs_Reconcile [OF sub_errors_True]])
    (auto simp: reconcile_log_def collector_defs well_labelled_body)

text \<open>C14. The writes of a reconciliation. A panic happens before any write. Otherwise there is no write
  at all, or the only write is one update of the application's metadata, and then no sub-reconciler
  ran; or the sub-reconcilers ran and the last write is the one status update of the application, no
  other write being on the application.\<close>

theorem reconciliation_writes: "logs writes_spec (Reconcile E req)"
  by (rule logs_mono [OF logs_Reconcile [OF sub_errors_True]])
    (auto simp: writes_spec_log writes_body)

text \<open>C9. What a reconciliation of a live application reports. Unless the Deployment builder panics, its
  only write to the application is one status update that changes nothing but the status, and that
  status is the one the outcome calls for: observed generation, deployed version, the ready replicas
  of the Deployment (of the old status when it cannot be read), the URL, exactly one of Ready,
  Degraded and Progressing true as the sub-reconcilers failed or not and the replicas suffice or not,
  ConfigurationValid true, no type twice if none was, and every other condition as before.\<close>

theorem status_reports_outcome: "logs (status_spec E app) (reconcile_live E t app)"
  by (rule logs_mono [OF logs_live [OF sub_errors_True]]) (rule status_live)

text \<open>C13. The retry policy, as the metrics show it. When no error from outside is a ReconcileError, the
  result follows from what was counted: a failed status update returns its error, or requeues after a
  second on a conflict; a failed sub-reconciler requeues after 30 seconds with the error when it is
  transient, after a second without it on a conflict, after 5 minutes without it when it is permanent,
  and no other class occurs; success returns no error, and requeues after 10 seconds or not at all.\<close>

theorem requeue_policy:
  assumes "foreign_errors E"
  shows "logs (\<lambda>r es. case r of Panic m \<Rightarrow> True | Ret x \<Rightarrow> result_spec x es) (reconcile_live E t app)"
  by (rule logs_mono [OF logs_live [OF foreign_sub_errors [OF assms]]]) (rule result_of_live)

theorem requeue_policy_witness:
  "logs (\<lambda>r es. case r of Panic m \<Rightarrow> True | Ret x \<Rightarrow> result_spec x es) (reconcile_live server_env 0 sample_app)"
  by (rule requeue_policy [OF server_foreign])

text \<open>C16. The sub-reconcilers run in a fixed order and stop at the first failure: what is counted is a
  success for each of them when no error is returned; and otherwise successes for those before the
  failing one, whose error is returned wrapped with its name, and nothing for those after it. Only the
  Deployment step, the first, can panic.\<close>

theorem sub_reconcilers_fail_fast:
  "logs (\<lambda>r es. case r of
      Ret None \<Rightarrow> increments SubReconcileTotal es = map (\<lambda>n. [n, ''success'']) sub_names
    | Ret (Some e) \<Rightarrow> (\<exists>k < length sub_names. \<exists>re.
        increments SubReconcileTotal es =
          map (\<lambda>n. [n, ''success'']) (take k sub_names) @ [[sub_names ! k, ''error'']] \<and>
        e = sub_error (sub_names ! k) re)
    | Panic m \<Rightarrow> increments SubReconcileTotal es = [])
    (reconcileResources E app)"
proof (rule logs_mono [OF reconcileResources_trace [OF sub_errors_True]])
  fix r es
  assume trace: "subs_trace (apierr E) app (\<lambda>_. True) sub_names r es"
  show "case r of
      Ret None \<Rightarrow> increments SubReconcileTotal es = map (\<lambda>n. [n, ''success'']) sub_names
    | Ret (Some e) \<Rightarrow> (\<exists>k < length sub_names. \<exists>re.
        increments SubReconcileTotal es =
          map (\<lambda>n. [n, ''success'']) (take k sub_names) @ [[sub_names ! k, ''error'']] \<and>
        e = sub_error (sub_names ! k) re)
    | Panic m \<Rightarrow> increments SubReconcileTotal es = []"
  proof (cases r)
    case (Panic m)
    with trace have "es = [sub_start app ''Deployment'']"
      by (auto intro!: panic_first simp: sub_names_def)
    with Panic show ?thesis by (simp add: sub_start_def increments_Cons)
  next
    case (Ret x)
    with sub_order [OF trace] show ?thesis by simp
  qed
qed

lemma fresh_error_class:
  assumes "errors_As e = None"
  shows "Class (classify_or_wrap A e name kind) =
      (case Classify A (Some e) of ClassUnknown \<Rightarrow> ClassTransient | c \<Rightarrow> c)"
    and "Class (classify_or_wrap A e name kind) \<in> {ClassTransient, ClassPermanent, ClassConflict}"
    and "Class (classify_or_wrap A e name kind) = ClassConflict \<longleftrightarrow> IsConflict A e"
    and "Resource (classify_or_wrap A e name kind) = name"
    and "ReconcileError.Kind (classify_or_wrap A e name kind) = kind"
    and "Err (classify_or_wrap A e name kind) = Some e"
  using assms by (simp_all add: classify_or_wrap_eq Classify_def)

text \<open>What becomes of the errors \<open>errs\<close> of the attempts, which are all the attempts there were: either the last one
  is a conflict and the wait before the next attempt is cancelled, with the error \<open>e\<close> of the context, or \<open>e\<close> is a
  ReconcileError with the name, the kind, the error and the class that the last one calls for.\<close>

definition apply_outcome :: "'w env \<Rightarrow> string \<Rightarrow> string \<Rightarrow> go_error list \<Rightarrow> go_error \<Rightarrow> bool" where
  "apply_outcome E kind name errs e \<longleftrightarrow>
     length errs \<le> 3 \<and> IsConflict (apierr E) (last errs) \<and>
       (\<exists>w w'. env_Select E (backoff_delay (length errs)) w = (Some e, w')) \<or>
     (\<exists>re. e = AsError re \<and> Resource re = name \<and> ReconcileError.Kind re = kind \<and> Err re = Some (last errs) \<and>
        Class re = (case Classify (apierr E) (Some (last errs)) of ClassUnknown \<Rightarrow> ClassTransient | c \<Rightarrow> c) \<and>
        Class re \<in> {ClassTransient, ClassPermanent, ClassConflict} \<and>
        (Class re = ClassConflict \<longleftrightarrow> length errs = 4 \<and> (\<forall>err \<in> set errs. IsConflict (apierr E) err)))"

definition accounted_error :: "'w env \<Rightarrow> string \<Rightarrow> string \<Rightarrow> string \<Rightarrow> go_error \<Rightarrow> effect list \<Rightarrow> bool" where
  "accounted_error E kind name namespace e es \<longleftrightarrow>
     (\<exists>errs. length errs = n_gets es \<and> errs \<noteq> [] \<and>
        (\<forall>err \<in> set errs. attempt_error E kind name namespace err) \<and>
        (\<forall>err \<in> set (butlast errs). IsConflict (apierr E) err) \<and>
        apply_outcome E kind name errs e)"

lemma run_error_accounted:
  assumes "foreign_errors E" and "run_logged E kind name namespace 0 (Inl e) es"
  shows "accounted_error E kind name namespace e es"
proof -
  obtain ats errs out where run: "apply_run E kind name namespace 0 (Inl e) ats errs out" and es: "es = paced 0 ats @ out"
    using assms(2) by (auto simp: run_logged_def)
  note ats = apply_run_attempts [OF run] and ends = apply_run_ends [OF run] and errs = apply_run_errors [OF run]
  have "n_gets out = 0" using ends by auto
  with es ats errs have len: "length errs = n_gets es" "errs \<noteq> []"
    by (auto simp: paced_gets)
  have conflicts: "(\<forall>err \<in> set errs. IsConflict (apierr E) err) \<longleftrightarrow> IsConflict (apierr E) (last errs)"
    using errs len(2) by (cases errs rule: rev_cases) auto
  have "errors_As (last errs) = None"
    using errs len(2) by (intro attempt_error_foreign [OF assms(1), of kind name namespace]) simp
  note cls = fresh_error_class [OF this, of "apierr E" name kind]
  from errs consider
      (cancelled) "out = [WaitStart (backoff_delay (length errs))]" "IsConflict (apierr E) (last errs)"
    | (failed) "e = AsError (classify_or_wrap (apierr E) (last errs) name kind)"
        "IsConflict (apierr E) (last errs) \<longrightarrow> length errs = 4"
    using len(2) by (auto simp: maxApplyRetries_def)
  then have outcome: "apply_outcome E kind name errs e"
  proof cases
    case cancelled
    with ends errs show ?thesis by (simp add: apply_outcome_def maxApplyRetries_def)
  next
    case failed
    with cls conflicts show ?thesis
      unfolding apply_outcome_def
      by (intro disjI2 exI [of _ "classify_or_wrap (apierr E) (last errs) name kind"]) blast
  qed
  show ?thesis
    unfolding accounted_error_def by (rule exI [of _ errs]) (use outcome errs len in blast)
qed

text \<open>C25. Every error that an apply returns, when no error from outside is a ReconcileError, is one of three.
  A refused owner reference is returned wrapped, before any read. Otherwise one to four attempts have failed, each
  with the wrapped error of its own read, create or patch, and all but the last of these errors are conflicts. If the last one
  is a conflict as well and the wait before the next attempt is cancelled, the context's error is returned as it
  is. In all other cases the error is a ReconcileError that names the object and its kind and carries the
  last attempt's error; its class is the classification of that error, with unknown errors made transient, so it
  is transient, permanent or conflict; and it is a conflict exactly when there were four attempts and all of
  them met a conflict.\<close>

theorem apply_errors_classified:
  assumes "foreign_errors E"
  shows "logs (\<lambda>r es. \<forall>e. r = Inl e \<longrightarrow>
      (\<exists>err. SetControllerReference E owner desired = Inl err \<and> es = [] \<and>
         e = WrapError (''setting controller reference: '' @ Error err) err) \<or>
      accounted_error E (GetKind desired) (GetName desired) (GetNamespace desired) e es)
    (Apply E owner desired)"
  by (rule logs_mono [OF Apply_run]) (auto intro: run_error_accounted [OF assms])

text \<open>The reference server with four conflicts in its script.\<close>

definition conflicting_world :: "server world" where
  "conflicting_world = start_world (empty_server\<lparr>faults := replicate 4 (Some (''Conflict'', ''modified''))\<rparr>)"

lemma attempt_conflicts:
  assumes "faults (outside s) = Some (''Conflict'', m) # fs"
  shows "run_state (applyOnce server_env d kind name namespace) s =
    ((Inl (WrapError (resource_text ''getting'' kind namespace name (ForeignError ''Conflict'' m)) (ForeignError ''Conflict'' m)), d),
     s\<lparr>outside := (outside s)\<lparr>faults := fs\<rparr>, log := log s @ [CallGet (gotype_of d) (ObjectKeyFromObject d)]\<rparr>)"
  using assms
  by (simp add: applyOnce_def client_Get_def server_env_def server_Get_def next_fault_def fault_error_def status_errors_def)

lemma conflicting_run:
  "\<exists>re s'. run_state (Apply server_env (AppObj sample_app) (AppObj sample_app)) conflicting_world = (Inl (AsError re), s') \<and>
     Class re = ClassConflict \<and> n_gets (log s') = 4"
  by (simp add: Apply_def Let_def add_owner_def)
    (simp add: conflicting_world_def start_world_def numeral_eq_Suc maxApplyRetries_def select_Done_After_def
      server_Select_def attempt_conflicts apply_failed_def observe_defs
      apply_attempts.simps [of _ _ _ _ 0] apply_attempts.simps [of _ _ _ _ "Suc 0"] apply_attempts.simps [of _ _ _ _ "Suc (Suc 0)"]
      apply_attempts.simps [of _ _ _ _ "Suc (Suc (Suc 0))"] status_errors_def classify_or_wrap_eq Classify_def)
theorem apply_errors_classified_witness:
  "\<exists>re s'. run_state (Apply server_env (AppObj sample_app) (AppObj sample_app)) conflicting_world = (Inl (AsError re), s') \<and>
     Class re = ClassConflict \<and> n_gets (log s') = 4 \<and>
     accounted_error server_env (GetKind (AppObj sample_app)) (GetName (AppObj sample_app)) (GetNamespace (AppObj sample_app))
       (AsError re) (log s')"
proof -
  obtain re s' where run: "run_state (Apply server_env (AppObj sample_app) (AppObj sample_app)) conflicting_world = (Inl (AsError re), s')"
      "Class re = ClassConflict" "n_gets (log s') = 4"
    using conflicting_run by blast
  obtain es where "log s' = log conflicting_world @ es" and told: "\<forall>e. Inl (AsError re) = (Inl e :: go_error + ApplyResult) \<longrightarrow>
      (\<exists>err. SetControllerReference server_env (AppObj sample_app) (AppObj sample_app) = Inl err \<and> es = [] \<and>
         e = WrapError (''setting controller reference: '' @ Error err) err) \<or>
      accounted_error server_env (GetKind (AppObj sample_app)) (GetName (AppObj sample_app)) (GetNamespace (AppObj sample_app)) e es"
    using logsD [OF apply_errors_classified [OF server_foreign] run(1)] by blast
  then have "es = log s'"
    by (simp add: conflicting_world_def start_world_def)
  with told have "accounted_error server_env (GetKind (AppObj sample_app)) (GetName (AppObj sample_app))
      (GetNamespace (AppObj sample_app)) (AsError re) (log s')"
    by (simp add: add_owner_def)
  with run show ?thesis by blast
qed

section \<open>What a reconciliation repeats\<close>

lemma attempt_continues:
  "logs (\<lambda>_ _. True)
     (case r of
        Inr result \<Rightarrow> do {
          ObserveResourceApply (resourceKind kind) (ApplyResult_string result);
          return (Inr result) }
      | Inl lastErr \<Rightarrow>
          if \<not> IsConflict (apierr E) lastErr then apply_failed E kind name lastErr
          else if Suc 0 \<le> maxApplyRetries
          then apply_attempts E kind name namespace (Suc 0) d
          else apply_failed E kind name lastErr)"
proof -
  have "logs (\<lambda>_ _. True) (apply_attempts E kind name namespace (Suc 0) d)"
    by (rule logs_mono [OF apply_attempts_logs]) (simp_all add: maxApplyRetries_def)
  then show ?thesis
    by (auto intro!: logs_sum logs_if logs_mono [OF logs_outcome] logs_mono [OF apply_failed_logs])
qed

lemma child_revision:
  assumes "buildDesiredDeployment parse app = Ret dep" and "(k, Some d) \<in> set (desired_children app dep)"
  shows "ResourceVersion (meta_of d) = []"
proof -
  have "ResourceVersion (child_meta app n l) = []" for n l
    by (simp add: child_meta_def zero_ObjectMeta_def)
  with assms(2) show ?thesis
    by (auto simp: desired_children_def child_def Deployment_meta [OF assms(1)] buildDesiredService_def
        buildDesiredHPA_def buildDesiredHTTPRoute_def buildDesiredNetworkPolicy_def buildDesiredPDB_def
        buildDesiredServiceMonitor_def split: if_splits)
qed

lemma patch_of_existing:
  assumes "\<forall>x y. DeepEqual E x y \<longrightarrow> ResourceVersion (meta_of x) = ResourceVersion (meta_of y)"
    and "env_Get E (ObjectKeyFromObject d) d (outside s) = ((None, existing), w)"
    and "ResourceVersion (meta_of existing) \<noteq> ResourceVersion (meta_of d)"
  obtains r d' s' es where "run_state (applyOnce E d kind name namespace) s = ((r, d'), s')"
    and "log s' = log s @ CallGet (gotype_of d) (ObjectKeyFromObject d) # CallPatch d FieldManager # es"
    and "increments NoOpApplyTotal es = []" and "filter is_write es = []"
proof -
  from assms have diff: "\<not> DeepEqual E existing d" by blast
  obtain t1 w1 where now1: "env_Now E w = (t1, w1)" by (cases "env_Now E w")
  obtain perr d' w2 where patch: "env_Patch E d FieldManager w1 = ((perr, d'), w2)" by (metis prod.exhaust)
  obtain t2 w3 where now2: "env_Now E w2 = (t2, w3)" by (cases "env_Now E w2")
  have "\<exists>r s'. run_state (applyOnce E d kind name namespace) s = ((r, d'), s') \<and>
      log s' = log s @ CallGet (gotype_of d) (ObjectKeyFromObject d) # CallPatch d FieldManager #
        [HistogramObserve APICallDurationSeconds [''patch'', resourceKind kind] (t2 - t1)]"
    by (cases perr) (simp_all add: applyOnce_defs client_defs time_Now_def time_Since_def observe_defs assms(2) diff now1 patch now2)
  then show thesis
    by (elim exE conjE) (rule that, assumption, assumption, simp_all add: increments_Cons)
qed

text \<open>C28. A child that exists is patched by every reconciliation, even when nothing has changed: when
  DeepEqual compares the resource version too, as it does, and the server has given the stored object
  one, the comparison with the freshly built object fails, and the first attempt of the apply is a read
  followed by a patch. So the branch that counts a no-op is not reached for an object that exists.\<close>

theorem existing_child_patched_again:
  assumes "\<forall>x y. DeepEqual E x y \<longrightarrow> ResourceVersion (meta_of x) = ResourceVersion (meta_of y)"
    and "(slot, Some d) \<in> set (desired_children app dep)"
    and "buildDesiredDeployment (ParseQuantity E) app = Ret dep"
    and "SetControllerReference E (AppObj app) d = Inr d'" and "ResourceVersion (meta_of d') = ResourceVersion (meta_of d)"
    and "env_Get E (ObjectKeyFromObject d') d' (outside s) = ((None, existing), w)"
    and "ResourceVersion (meta_of existing) \<noteq> []"
  shows "\<exists>r s' es. run_state (Apply E (AppObj app) d) s = (r, s') \<and>
    log s' = log s @ CallGet (gotype_of d') (ObjectKeyFromObject d') # CallPatch d' FieldManager # es"
proof -
  have "ResourceVersion (meta_of d) = []"
    by (rule child_revision [OF assms(3,2)])
  with assms(5,7) have diff: "ResourceVersion (meta_of existing) \<noteq> ResourceVersion (meta_of d')" by simp
  obtain r d'' s1 es where once: "run_state (applyOnce E d' (GetKind d) (GetName d) (GetNamespace d)) s = ((r, d''), s1)"
    and log: "log s1 = log s @ CallGet (gotype_of d') (ObjectKeyFromObject d') # CallPatch d' FieldManager # es"
    by (rule patch_of_existing [OF assms(1,6) diff])
  let ?rest = "case r of
        Inr result \<Rightarrow> do {
          ObserveResourceApply (resourceKind (GetKind d)) (ApplyResult_string result);
          return (Inr result) }
      | Inl lastErr \<Rightarrow>
          if \<not> IsConflict (apierr E) lastErr then apply_failed E (GetKind d) (GetName d) lastErr
          else if Suc 0 \<le> maxApplyRetries
          then apply_attempts E (GetKind d) (GetName d) (GetNamespace d) (Suc 0) d''
          else apply_failed E (GetKind d) (GetName d) lastErr"
  obtain res s' where rest: "run_state ?rest s1 = (res, s')" by (cases "run_state ?rest s1")
  then obtain fs where "log s' = log s1 @ fs"
    by (rule logsD [OF attempt_continues])
  moreover have "run_state (Apply E (AppObj app) d) s = (res, s')"
    using once rest by (simp add: Apply_def Let_def assms(4) apply_attempts.simps [of E _ _ _ 0])
  ultimately show ?thesis using log by simp
qed

theorem existing_child_patched_again_witness:
  "\<exists>d' w r s' es. run_state (Apply server_env (AppObj sample_app) (ServiceObj (buildDesiredService sample_app))) (start_world w) = (r, s') \<and>
     log s' = CallGet ServiceT (key_in sample_app ''web'') # CallPatch d' FieldManager # es"
proof -
  let ?d = "ServiceObj (buildDesiredService sample_app)"
  obtain dep where dep: "buildDesiredDeployment (ParseQuantity server_env) sample_app = Ret dep"
    using sample_builds by blast
  have ns: "GetNamespace (AppObj sample_app) = GetNamespace ?d"
    by (simp add: GetNamespace_def buildDesiredService_def)
  let ?owned = "map_meta (\<lambda>m. m\<lparr>OwnerReferences := owner_reference (AppObj sample_app) # OwnerReferences m\<rparr>) ?d"
  have "SetControllerReference server_env (AppObj sample_app) ?d = Inr ?owned"
    by (simp add: add_owner_def ns del: map_meta.simps)
  moreover have "ResourceVersion (meta_of ?owned) = ResourceVersion (meta_of ?d)" "slot_of ?owned = slot_of ?d"
    by (simp_all add: slot_of_map_meta del: map_meta.simps)
  ultimately obtain d' where d': "SetControllerReference server_env (AppObj sample_app) ?d = Inr d'"
      "ResourceVersion (meta_of d') = ResourceVersion (meta_of ?d)" "slot_of d' = slot_of ?d"
    by blast
  let ?existing = "map_meta (\<lambda>m. m\<lparr>ResourceVersion := ''5''\<rparr>) d'"
  let ?w = "put ?existing empty_server"
  have slot: "(gotype_of d', ObjectKeyFromObject d') = (ServiceT, key_in sample_app ''web'')"
    using d'(3) by (simp add: slots slot_of_def [symmetric] sample_app_def)
  have child: "(slot_of ?d, Some ?d) \<in> set (desired_children sample_app dep)"
    by (simp add: desired_children_def child_def)
  have get: "env_Get server_env (ObjectKeyFromObject d') d' ?w = ((None, ?existing), ?w)"
    using slot_of_map_meta [of "\<lambda>m. m\<lparr>ResourceVersion := ''5''\<rparr>" d']
    by (simp add: server_Get_def next_fault_def put_def empty_server_def slot_of_def server_lookup_def)
  have "\<forall>x y. DeepEqual server_env x y \<longrightarrow> ResourceVersion (meta_of x) = ResourceVersion (meta_of y)"
    by simp
  moreover have "ResourceVersion (meta_of ?existing) \<noteq> []"
    by simp
  moreover have "env_Get server_env (ObjectKeyFromObject d') d' (outside (start_world ?w)) = ((None, ?existing), ?w)"
    using get by simp
  ultimately obtain r s' es where "run_state (Apply server_env (AppObj sample_app) ?d) (start_world ?w) = (r, s')"
    "log s' = log (start_world ?w) @ CallGet (gotype_of d') (ObjectKeyFromObject d') # CallPatch d' FieldManager # es"
    using existing_child_patched_again [OF _ child dep d'(1,2)] by blast
  moreover have "gotype_of d' = ServiceT" "ObjectKeyFromObject d' = key_in sample_app ''web''" "log (start_world ?w) = []"
    using slot by simp_all
  ultimately show ?thesis by (intro exI [of _ d'] exI [of _ ?w] exI [of _ r] exI [of _ s'] exI [of _ es]) simp
qed

text \<open>The transition time of Progressing moves in every reconciliation of a live application, even
  when the condition ends up as it was before: it is set first to Reconciling and then, with another
  reason, to the outcome, and each change takes the time of the clock.\<close>

theorem progressing_time_moves:
  assumes "run_state (set_status E SetProgressing ConditionTrue ''Reconciling'' message app) s = (app1, s1)"
    and "condition_of (PlatformApplication.Status app2) ConditionProgressing =
      condition_of (PlatformApplication.Status app1) ConditionProgressing"
    and "run_state (setConditions E app2 e) s2 = ((res, app3), s3)"
  shows "\<exists>c. condition_of (PlatformApplication.Status app3) ConditionProgressing = Some c \<and>
    LastTransitionTime c = fst (env_Now E (outside s2))"
proof -
  obtain c where c: "condition_of (PlatformApplication.Status app2) ConditionProgressing = Some c"
    and "Reason c = ''Reconciling''"
    using assms(1,2)
    by (auto simp: set_status_def time_Now_def set_defs condition_of_SetCondition updated_condition_def split: prod.splits)
  moreover have "condition_of (SetCondition t3 (SetCondition t2 (SetCondition t1 s ConditionProgressing a1 b1 c1)
      ConditionDegraded a2 b2 c2) ConditionReady a3 b3 c3) ConditionProgressing =
    Some (updated_condition t1 ConditionProgressing a1 b1 c1 (condition_of s ConditionProgressing))"
    for s t1 t2 t3 a1 b1 c1 a2 b2 c2 a3 b3 c3
    by (simp add: condition_of_SetCondition condition_types)
  ultimately show ?thesis
    using assms(3)
    by (auto simp: setConditions_def set_status_def time_Now_def set_defs updated_condition_def
        split: prod.splits option.splits if_splits)
qed

theorem progressing_time_moves_witness:
  "\<exists>app1 s1 app3 s3 c.
     run_state (set_status server_env SetProgressing ConditionTrue ''Reconciling'' ''Reconciliation in progress'' sample_app)
       (start_world empty_server) = (app1, s1) \<and>
     run_state (setConditions server_env app1 None) s1 = ((requeue_after progressCheckDelay, app3), s3) \<and>
     condition_of (PlatformApplication.Status app3) ConditionProgressing = Some c \<and> LastTransitionTime c = 1"
proof -
  obtain app1 s1 where start: "run_state (set_status server_env SetProgressing ConditionTrue ''Reconciling''
      ''Reconciliation in progress'' sample_app) (start_world empty_server) = (app1, s1)"
    by (metis prod.exhaust)
  then have s1: "clock (outside s1) = 1" and app1: "\<not> all_ready app1"
    by (auto simp: set_status_def time_Now_def server_Now_def empty_server_def all_ready_def set_defs SetCondition_frame
        sample_app_def zero_PlatformApplication_def word_sle_eq)
  obtain r app3 s3 where run: "run_state (setConditions server_env app1 None) s1 = ((r, app3), s3)"
    by (metis prod.exhaust)
  have "r = requeue_after progressCheckDelay"
    using logsD [OF logs_setConditions run] app1 by (auto simp: planned_result_def)
  moreover from progressing_time_moves [OF start refl run] s1
  obtain c where "condition_of (PlatformApplication.Status app3) ConditionProgressing = Some c" "LastTransitionTime c = 1"
    by (auto simp: server_Now_def)
  ultimately show ?thesis using start run by blast
qed

section \<open>Reconciliations on a platform\<close>

lemma live_run:
  assumes "platform E lookup covers owned_by up" and "up (outside s)"
    and "lookup (outside s) (app_slot app) = Some (AppObj app)"
    and "DeletionTimestamp (meta app) = None" and "finalizerName \<in> set (Finalizers (meta app))"
    and "buildDesiredDeployment (ParseQuantity E) app = Ret dep"
    and "run_state (Reconcile E (deployment_key app)) s = (r, s')"
  shows "platform.live_post lookup covers owned_by up (lookup (outside s)) app dep r (outside s')"
  using tripleD [OF platform.triple_Reconcile_live [where L = "lookup (outside s)" and app = app,
      OF assms(1,6,3-5)] _ assms(7)] assms(2) by (simp add: platform.calm_def [OF assms(1)])

text \<open>C3. Convergence of a whole reconciliation. On every platform that is up and stores a live application
  with the finalizer, whose Deployment can be built, \<open>Reconcile\<close> returns without an error; the stored
  application then differs from before in the version and in the status alone; that status is the one
  that the Deployment the server stores calls for; all seven children are as wanted; the result says
  to come back exactly when the ready replicas do not suffice, and these are the ones that the Deployment had
  before, if it had been created, so that no reconciliation makes a ready application unready; and no other
  object has moved.\<close>

theorem reconcile_converges:
  assumes "platform E lookup covers owned_by up" and "up (outside s)"
    and "lookup (outside s) (app_slot app) = Some (AppObj app)"
    and "DeletionTimestamp (meta app) = None" and "finalizerName \<in> set (Finalizers (meta app))"
    and "buildDesiredDeployment (ParseQuantity E) app = Ret dep"
  shows "\<exists>res s'. run_state (Reconcile E (deployment_key app)) s = (Ret (res, None), s') \<and> up (outside s') \<and>
    reconciled lookup covers owned_by app dep res (outside s') \<and>
    (\<forall>d. lookup (outside s) (DeploymentT, deployment_key app) = Some d \<longrightarrow>
       res = report_result app (as_deployment_status d)) \<and>
    (\<forall>slot. slot = app_slot app \<or> slot \<in> fst ` set (desired_children app dep) \<or>
       lookup (outside s') slot = lookup (outside s) slot)"
proof -
  obtain r s' where run: "run_state (Reconcile E (deployment_key app)) s = (r, s')"
    by (cases "run_state (Reconcile E (deployment_key app)) s")
  from live_run [OF assms run] obtain res where res: "r = Ret (res, None)" "up (outside s')"
    "reconciled lookup covers owned_by app dep res (outside s')"
    "platform.same_count lookup (lookup (outside s)) app (outside s')"
    "\<forall>k. k \<notin> insert (app_slot app) (fst ` set (desired_children app dep)) \<longrightarrow> lookup (outside s') k = lookup (outside s) k"
    unfolding platform.live_post_def [OF assms(1)] by blast
  have "res = report_result app (as_deployment_status d)"
    if "lookup (outside s) (DeploymentT, deployment_key app) = Some d" for d
    using res(3,4) that
    by (auto simp: reconciled_def platform.same_count_def [OF assms(1)] platform.counts_def [OF assms(1)])
  with run res show ?thesis by blast
qed

definition stored :: "PlatformApplication \<Rightarrow> server world" where
  "stored app = start_world (put (AppObj app) empty_server)"

lemma stored_facts [simp]:
  "server_up (outside (stored app))"
  "server_lookup (outside (stored app)) (app_slot app) = Some (AppObj app)"
  by (simp_all add: stored_def app_slot_def) (simp add: server_up_def empty_server_def)

lemma sample_meta:
  "DeletionTimestamp (meta sample_app) = None" "Finalizers (meta sample_app) = [finalizerName]"
  by (simp_all add: sample_app_def zero_ObjectMeta_def finalizerName_def)

text \<open>The sample application with a Deployment that has rolled out.\<close>

definition rolled_out :: "server world" where
  "rolled_out = start_world (put (AppObj sample_app) (put
     (DeploymentObj (zero_Deployment\<lparr>K8sObject.ObjectMeta := child_meta sample_app (app_Name sample_app) [],
        K8sObject.Status := \<lparr>DeploymentStatus.ReadyReplicas = Min (Replicas (PlatformApplication.Spec sample_app))\<rparr>\<rparr>))
     empty_server))"

lemma rolled_out_facts:
  "server_up (outside rolled_out)" "server_lookup (outside rolled_out) (app_slot sample_app) = Some (AppObj sample_app)"
  "\<exists>d. server_lookup (outside rolled_out) (DeploymentT, deployment_key sample_app) = Some d \<and>
     as_deployment_status d = Min (Replicas (PlatformApplication.Spec sample_app))"
proof -
  show "server_up (outside rolled_out)" "server_lookup (outside rolled_out) (app_slot sample_app) = Some (AppObj sample_app)"
    by (simp_all add: rolled_out_def app_slot_def) (simp add: server_up_def empty_server_def)
  show "\<exists>d. server_lookup (outside rolled_out) (DeploymentT, deployment_key sample_app) = Some d \<and>
     as_deployment_status d = Min (Replicas (PlatformApplication.Spec sample_app))"
    by (simp add: rolled_out_def slot_defs deployment_key_def)
qed

theorem reconcile_converges_witness:
  "\<exists>dep s'. run_state (Reconcile server_env (deployment_key sample_app)) rolled_out = (Ret (no_requeue, None), s') \<and>
     reconciled server_lookup server_covers server_owned_by sample_app dep no_requeue (outside s')"
proof -
  obtain dep where "buildDesiredDeployment (ParseQuantity server_env) sample_app = Ret dep"
    using sample_builds by blast
  from reconcile_converges [OF server.platform_axioms rolled_out_facts(1,2) sample_meta(1) _ this] rolled_out_facts(3)
  show ?thesis by (auto simp: sample_meta report_result_def)
qed

text \<open>C5. The life of an application from its creation: on a platform that is up, the first reconciliation
  of an application without the finalizer only adds it, and the second brings the children to what the
  application wants, as above. The application in question is the one stored after the first.\<close>

theorem new_application_converges:
  assumes "platform E lookup covers owned_by up" and "up (outside s)"
    and "lookup (outside s) (app_slot app) = Some (AppObj app)"
    and "DeletionTimestamp (meta app) = None" and "finalizerName \<notin> set (Finalizers (meta app))"
    and "buildDesiredDeployment (ParseQuantity E) app = Ret dep"
  shows "\<exists>v res s1 s2. run_state (Reconcile E (deployment_key app)) s = (Ret (no_requeue, None), s1) \<and>
    lookup (outside s1) = (lookup (outside s))(app_slot app \<mapsto>
      AppObj (at_version v (with_finalizers (Finalizers (meta app) @ [finalizerName]) app))) \<and>
    run_state (Reconcile E (deployment_key app)) s1 = (Ret (res, None), s2) \<and>
    reconciled lookup covers owned_by
      (at_version v (with_finalizers (Finalizers (meta app) @ [finalizerName]) app)) dep res (outside s2)"
proof -
  let ?app = "\<lambda>v. at_version v (with_finalizers (Finalizers (meta app) @ [finalizerName]) app)"
  obtain r s1 where run: "run_state (Reconcile E (deployment_key app)) s = (r, s1)"
    by (cases "run_state (Reconcile E (deployment_key app)) s")
  have "r = Ret (no_requeue, None) \<and>
      (\<exists>v. platform.calm lookup up ((lookup (outside s))(app_slot app \<mapsto> AppObj (?app v))) (outside s1))"
    using tripleD [OF platform.triple_Reconcile_new [where L = "lookup (outside s)" and app = app,
        OF assms(1,3-5)] _ run] assms(2) by (simp add: platform.calm_def [OF assms(1)])
  then obtain v where r: "r = Ret (no_requeue, None)" and up: "up (outside s1)"
    and stored: "lookup (outside s1) = (lookup (outside s))(app_slot app \<mapsto> AppObj (?app v))"
    by (auto simp: platform.calm_def [OF assms(1)])
  have same: "same_spec (?app v) app" "deployment_key (?app v) = deployment_key app"
    by (simp_all add: same_spec_def deployment_key_def at_version_def with_finalizers_def)
  have "lookup (outside s1) (app_slot (?app v)) = Some (AppObj (?app v))"
    by (simp add: stored)
  note stored1 = this
  have live: "DeletionTimestamp (meta (?app v)) = None" "finalizerName \<in> set (Finalizers (meta (?app v)))"
    using assms(4) by (simp_all add: at_version_def)
  have "buildDesiredDeployment (ParseQuantity E) (?app v) = Ret dep"
    using assms(6) by (simp add: children_cong(1) [OF same(1)])
  note built = this
  obtain r2 s2 where run2: "run_state (Reconcile E (deployment_key app)) s1 = (r2, s2)"
    by (cases "run_state (Reconcile E (deployment_key app)) s1")
  from live_run [OF assms(1) up stored1 live built run2 [folded same(2)]] run2 obtain res s2 where "run_state (Reconcile E (deployment_key app)) s1 = (Ret (res, None), s2)"
    "reconciled lookup covers owned_by (?app v) dep res (outside s2)"
    unfolding platform.live_post_def [OF assms(1)] by blast
  with run r stored show ?thesis by blast
qed

theorem new_application_converges_witness:
  "\<exists>app v dep res s1 s2. run_state (Reconcile server_env (deployment_key app)) (stored app) = (Ret (no_requeue, None), s1) \<and>
     run_state (Reconcile server_env (deployment_key app)) s1 = (Ret (res, None), s2) \<and>
     reconciled server_lookup server_covers server_owned_by (at_version v (with_finalizers [finalizerName] app)) dep res (outside s2)"
proof -
  let ?app = "with_finalizers [] sample_app"
  obtain dep where "buildDesiredDeployment (ParseQuantity server_env) sample_app = Ret dep"
    using sample_builds by blast
  moreover have "same_spec ?app sample_app"
    by (simp add: same_spec_def with_finalizers_def)
  ultimately have "buildDesiredDeployment (ParseQuantity server_env) ?app = Ret dep"
    using children_cong(1) by metis
  from new_application_converges [OF server.platform_axioms stored_facts _ _ this] sample_meta(1)
  show ?thesis by simp blast
qed

text \<open>C6. The end of an application: on a platform that is up, the reconciliation of an application that is
  being deleted takes the operator's finalizer off and nothing else; when it was the last one the
  application is gone; the children are left to the garbage collector.\<close>

theorem deleted_application_released:
  assumes "platform E lookup covers owned_by up" and "up (outside s)"
    and "lookup (outside s) (app_slot app) = Some (AppObj app)"
    and "\<not> Time_IsZero (DeletionTimestamp (meta app))" and "finalizerName \<in> set (Finalizers (meta app))"
  shows "\<exists>s'. run_state (Reconcile E (deployment_key app)) s = (Ret (no_requeue, None), s') \<and>
    (let fs = filter (\<lambda>g. g \<noteq> finalizerName) (Finalizers (meta app)) in
     if fs = [] then lookup (outside s') = (lookup (outside s))(app_slot app := None)
     else \<exists>v. lookup (outside s') = (lookup (outside s))(app_slot app \<mapsto> AppObj (at_version v (with_finalizers fs app))))"
proof -
  obtain r s' where run: "run_state (Reconcile E (deployment_key app)) s = (r, s')"
    by (cases "run_state (Reconcile E (deployment_key app)) s")
  show ?thesis
    using tripleD [OF platform.triple_Reconcile_deleted [where L = "lookup (outside s)" and app = app,
        OF assms(1,3-5)] _ run] assms(2) run
    by (auto simp: platform.calm_def [OF assms(1)] Let_def split: if_splits)
qed

theorem deleted_application_released_witness:
  "\<exists>app s'. run_state (Reconcile server_env (deployment_key app)) (stored app) = (Ret (no_requeue, None), s') \<and>
     server_lookup (outside s') (app_slot app) = None"
proof -
  let ?app = "sample_app\<lparr>PlatformApplication.ObjectMeta := (meta sample_app)\<lparr>DeletionTimestamp := Some 7\<rparr>\<rparr>"
  have "\<not> Time_IsZero (DeletionTimestamp (meta ?app))" "finalizerName \<in> set (Finalizers (meta ?app))"
    by (simp_all add: Time_IsZero_def sample_meta)
  from deleted_application_released [OF server.platform_axioms stored_facts this]
  obtain s' where "run_state (Reconcile server_env (deployment_key ?app)) (stored ?app) = (Ret (no_requeue, None), s')"
    "server_lookup (outside s') = (server_lookup (outside (stored ?app)))(app_slot ?app := None)"
    by (auto simp: sample_meta Let_def)
  then show ?thesis
    by (intro exI [of _ ?app] exI [of _ s']) simp
qed

end
