(* ===== verification/Confinement.thy ===== *)
theory Confinement
  imports Operation
begin

text \<open>
  Which objects a reconciliation can write. Every key of an application has a family of eight slots: the
  application and its seven children. The families of different keys are disjoint, and every write of
  \<open>Reconcile\<close> goes into the family of its request, whatever the API server answers and whatever happens
  between two calls. So the workers that the controller runs concurrently never write the same object.
\<close>

section \<open>Families\<close>

definition family :: "ObjectKey \<Rightarrow> slot set" where
  "family key = range (\<lambda>t. (t, \<lparr>KeyNamespace = KeyNamespace key, KeyName = KeyName key @ name_suffix t\<rparr>))"

lemma mem_family:
  "(t, k) \<in> family key \<longleftrightarrow> k = \<lparr>KeyNamespace = KeyNamespace key, KeyName = KeyName key @ name_suffix t\<rparr>"
  by (auto simp: family_def)

lemma family_key: "(AppT, key) \<in> family key"
  by (simp add: mem_family)

lemma app_in_family: "app_slot app \<in> family (deployment_key app)"
  by (simp add: app_slot_key family_key)

lemma families_apart: "family key \<inter> family key' = {} \<longleftrightarrow> key \<noteq> key'"
proof
  show "family key \<inter> family key' = {} \<Longrightarrow> key \<noteq> key'"
    using family_key by blast
next
  assume "key \<noteq> key'"
  then show "family key \<inter> family key' = {}"
    by (auto simp: mem_family)
qed

lemma children_in_family:
  "buildDesiredDeployment parse app = Ret dep \<Longrightarrow>
   insert (app_slot app) (fst ` set (desired_children app dep)) = family (deployment_key app)"
  by (auto simp: set_eq_iff mem_slots mem_family app_slot_key key_in_def deployment_key_def)

text \<open>The slots of the children alone.\<close>

definition child_family :: "ObjectKey \<Rightarrow> slot set" where
  "child_family key = family key - {(AppT, key)}"

lemma child_family_sub: "child_family key \<subseteq> family key"
  by (auto simp: child_family_def)

section \<open>Writes\<close>

fun write_slot :: "effect \<Rightarrow> slot option" where
  "write_slot (CallCreate obj) = Some (slot_of obj)"
| "write_slot (CallPatch obj owner) = Some (slot_of obj)"
| "write_slot (CallUpdate obj) = Some (slot_of obj)"
| "write_slot (CallDelete obj) = Some (slot_of obj)"
| "write_slot (CallStatusUpdate obj) = Some (slot_of obj)"
| "write_slot _ = None"

definition confined :: "slot set \<Rightarrow> effect \<Rightarrow> bool" where
  "confined S e \<longleftrightarrow> (case write_slot e of None \<Rightarrow> True | Some k \<Rightarrow> k \<in> S)"

lemma confined_simps [simp]:
  "confined S (CallGet t key)" "confined S (CallCreate obj) = (slot_of obj \<in> S)"
  "confined S (CallPatch obj owner) = (slot_of obj \<in> S)" "confined S (CallUpdate obj) = (slot_of obj \<in> S)"
  "confined S (CallDelete obj) = (slot_of obj \<in> S)" "confined S (CallStatusUpdate obj) = (slot_of obj \<in> S)"
  "confined S (CounterInc c vs)" "confined S (HistogramObserve c vs d)" "confined S (GaugeInc c)"
  "confined S (GaugeDec c)" "confined S (SpanStart n as)" "confined S (SpanRecordError n m)"
  "confined S (SpanSetStatus n b m)" "confined S (SpanEnd n)" "confined S (RecordEvent a c' m)" "confined S (WaitStart d)"
  by (simp_all add: confined_def)

text \<open>The client fills in an object but never renames it, and what it reads is what was asked for; an owner
  reference and a finalizer do not rename an object either.\<close>

definition keeps_identity :: "'w env \<Rightarrow> bool" where
  "keeps_identity E \<longleftrightarrow>
     (\<forall>key obj w x w'. env_Get E key obj w = ((None, x), w') \<longrightarrow> slot_of x = (gotype_of obj, key)) \<and>
     (\<forall>obj w err x w'. env_Create E obj w = ((err, x), w') \<longrightarrow> slot_of x = slot_of obj) \<and>
     (\<forall>obj manager w err x w'. env_Patch E obj manager w = ((err, x), w') \<longrightarrow> slot_of x = slot_of obj) \<and>
     (\<forall>owner obj d. SetControllerReference E owner obj = Inr d \<longrightarrow> slot_of d = slot_of obj) \<and>
     (\<forall>m f. ObjectMeta.Name (AddFinalizer E m f) = ObjectMeta.Name m \<and>
        ObjectMeta.Namespace (AddFinalizer E m f) = ObjectMeta.Namespace m) \<and>
     (\<forall>m f. ObjectMeta.Name (RemoveFinalizer E m f) = ObjectMeta.Name m \<and>
        ObjectMeta.Namespace (RemoveFinalizer E m f) = ObjectMeta.Namespace m)"

lemma keeps_identityD:
  assumes "keeps_identity E"
  shows "env_Get E key obj w = ((None, x), w') \<Longrightarrow> slot_of x = (gotype_of obj, key)"
    and "env_Create E obj w = ((err, x), w') \<Longrightarrow> slot_of x = slot_of obj"
    and "env_Patch E obj manager w = ((err, x), w') \<Longrightarrow> slot_of x = slot_of obj"
    and "SetControllerReference E owner obj = Inr d \<Longrightarrow> slot_of d = slot_of obj"
    and "app_slot (app_meta_update (AddFinalizer E) app) = app_slot app"
    and "app_slot (app_meta_update (RemoveFinalizer E) app) = app_slot app"
proof -
  note laws = assms [unfolded keeps_identity_def]
  show "env_Get E key obj w = ((None, x), w') \<Longrightarrow> slot_of x = (gotype_of obj, key)"
    "env_Create E obj w = ((err, x), w') \<Longrightarrow> slot_of x = slot_of obj"
    "env_Patch E obj manager w = ((err, x), w') \<Longrightarrow> slot_of x = slot_of obj"
    "SetControllerReference E owner obj = Inr d \<Longrightarrow> slot_of d = slot_of obj"
    using laws by - (elim conjE, blast)+
  show "app_slot (app_meta_update (AddFinalizer E) app) = app_slot app"
    "app_slot (app_meta_update (RemoveFinalizer E) app) = app_slot app"
    using laws by (auto intro!: app_slot_cong simp: app_meta_update_def)
qed

section \<open>The sub-reconcilers\<close>

lemma applyOnce_confined:
  assumes "keeps_identity E" and "slot_of d \<in> S"
  shows "logs (\<lambda>(r, d') es. list_all (confined S) es \<and> slot_of d' = slot_of d) (applyOnce E d kind name namespace)"
  unfolding applyOnce_defs client_defs time_Now_def time_Since_def observe_defs
  using assms(2)
  by (auto simp: logs_def keeps_identityD(2,3) [OF assms(1)] split: prod.split option.split)

lemma apply_attempts_confined:
  assumes "keeps_identity E" and "slot_of d \<in> S"
  shows "only (confined S) (apply_attempts E kind name namespace k d)"
  using assms(2)
proof (induction "maxApplyRetries - k" arbitrary: k d rule: less_induct)
  case less
  have failed: "only (confined S) (apply_failed E kind name e)" for e
    unfolding apply_failed_def observe_defs Let_def by (intro logs_rules) simp
  have after: "only (confined S)
      (case r of
         Inr result \<Rightarrow> do {
           ObserveResourceApply (resourceKind kind) (ApplyResult_string result);
           return (Inr result) }
       | Inl lastErr \<Rightarrow>
           if \<not> IsConflict (apierr E) lastErr then apply_failed E kind name lastErr
           else if Suc k \<le> maxApplyRetries
           then apply_attempts E kind name namespace (Suc k) d'
           else apply_failed E kind name lastErr)" if "slot_of d' \<in> S" for r d'
    using that by (auto intro!: logs_rules failed less.hyps simp: observe_defs split: sum.split)
  have once: "only (confined S) (do {
        (r, d') \<leftarrow> applyOnce E d kind name namespace;
        (case r of
           Inr result \<Rightarrow> do {
             ObserveResourceApply (resourceKind kind) (ApplyResult_string result);
             return (Inr result) }
         | Inl lastErr \<Rightarrow>
             if \<not> IsConflict (apierr E) lastErr then apply_failed E kind name lastErr
             else if Suc k \<le> maxApplyRetries
             then apply_attempts E kind name namespace (Suc k) d'
             else apply_failed E kind name lastErr) })"
    unfolding only_def
    by (rule logs_bind [OF applyOnce_confined [OF assms(1) less.prems]])
      (use after less.prems in \<open>auto simp: only_def split: prod.splits elim!: logs_mono\<close>)
  show ?case
    by (subst apply_attempts.simps) (auto intro!: logs_rules once split: option.split)
qed

lemma Apply_confined:
  assumes "keeps_identity E" and "slot_of d \<in> S"
  shows "only (confined S) (Apply E owner d)"
  using keeps_identityD(4) [OF assms(1), of owner d] assms
  by (auto simp: Apply_def Let_def intro!: logs_rules apply_attempts_confined split: sum.split)

lemma delete_confined: "slot_of obj \<in> S \<Longrightarrow> only (confined S) (delete_then_unchanged E obj)"
  unfolding delete_then_unchanged_def DeleteIfExists_def observe_defs
  by (auto intro!: logs_rules split: option.split)

definition confined_step :: "slot set \<Rightarrow> string \<times> 'w step \<Rightarrow> bool" where
  "confined_step S st \<longleftrightarrow> only (confined S) (snd st)"

lemma no_panic_confined: "only (confined S) m \<Longrightarrow> confined_step S (name, no_panic m)"
  unfolding confined_step_def no_panic_def by (auto intro: logs_rules)

lemma sub_reconcilers_confined:
  assumes "keeps_identity E"
  shows "list_all (confined_step (child_family (deployment_key app))) (sub_reconcilers E app)"
proof -
  let ?S = "child_family (deployment_key app)"
  have others: "slot_of (ServiceObj (buildDesiredService app)) \<in> ?S" "slot_of (HPAObj (buildDesiredHPA app)) \<in> ?S"
    "slot_of (HTTPRouteObj (buildDesiredHTTPRoute app)) \<in> ?S"
    "slot_of (NetworkPolicyObj (buildDesiredNetworkPolicy app)) \<in> ?S" "slot_of (PDBObj (buildDesiredPDB app)) \<in> ?S"
    "slot_of (UnstructuredObj (buildDesiredServiceMonitor app)) \<in> ?S"
    by (simp_all add: slots child_family_def mem_family key_in_def deployment_key_def netpol_name_def pdb_name_def monitor_name_def)
  have "confined_step ?S (''Deployment'', ReconcileDeployment E app)"
  proof (cases "buildDesiredDeployment (ParseQuantity E) app")
    case (Ret dep)
    then have "slot_of (DeploymentObj dep) \<in> ?S"
      using slots(1) [of "ParseQuantity E" app dep] by (simp add: child_family_def mem_family key_in_def deployment_key_def)
    with Ret show ?thesis
      by (auto simp: confined_step_def ReconcileDeployment_def intro!: logs_rules Apply_confined [OF assms])
  qed (simp add: confined_step_def ReconcileDeployment_def logs_rules)
  with others show ?thesis
    by (simp add: sub_reconcilers_def ReconcileService_def
        ReconcileHPA_def ReconcileHTTPRoute_def ReconcileNetworkPolicy_def ReconcilePDB_def ReconcileServiceMonitor_def
        deleteHPAIfExists_def deleteHTTPRouteIfExists_def deleteNetworkPolicyIfExists_def deletePDBIfExists_def
        deleteServiceMonitorIfExists_def no_panic_confined Apply_confined [OF assms] delete_confined deleted_slots)
qed

lemma run_subs_confined:
  "list_all (confined_step S) sts \<Longrightarrow> only (confined S) (run_subs E app sts)"
proof (induction sts)
  case Nil
  then show ?case by (simp add: logs_rules)
next
  case (Cons st sts)
  obtain name fn where st: "st = (name, fn)" by (cases st)
  have ends: "only (confined S) (sub_failed E app name t err)" "only (confined S) (sub_succeeded E name t)" for t err
    unfolding sub_failed_def sub_succeeded_def observe_defs Let_def by (intro logs_rules; simp)+
  show ?case
    unfolding st run_subs.simps
    using Cons ends by (auto intro!: logs_rules simp: st confined_step_def split: go.split sum.split)
qed

lemma children_confined:
  "keeps_identity E \<Longrightarrow> only (confined (child_family (deployment_key app))) (reconcileResources E app)"
  unfolding reconcileResources_def by (rule run_subs_confined [OF sub_reconcilers_confined])

lemma confined_mono: "only (confined S) m \<Longrightarrow> S \<subseteq> S' \<Longrightarrow> only (confined S') m"
  unfolding only_def by (erule logs_mono) (auto simp: list_all_iff confined_def split: option.splits)

section \<open>Whole reconciliations\<close>

lemma finish_confined: "finish_trace A planned e r es \<Longrightarrow> list_all (confined S) es"
  by (induction rule: finish_trace.induct)
    (auto simp: retry_effects_def unknown_effects_def success_effects_def observed_def
      split: option.split ReconcileErrorClass.split)

lemma report_confined:
  assumes "app_slot app \<in> S"
  shows "only (confined S) (report_status E t app e)"
proof -
  have "list_all (confined S) es" if trace: "report_trace E app e r es" for r es
    using trace
  proof (rule report_trace_elim)
    fix ready fs ts
    assume es: "es = CallGet DeploymentT (deployment_key app) # CallStatusUpdate (AppObj (reported_app ready ts e app)) # fs"
      and fs: "finish_trace (apierr E) (planned_result (with_ready ready (observe_spec app)) e) e r fs"
    have "app_slot (reported_app ready ts e app) = app_slot app"
      by (rule app_slot_cong) (simp_all add: reported_frame)
    moreover have "list_all (confined S) fs"
      by (rule finish_confined [OF fs])
    ultimately show ?thesis
      using assms es by (simp add: app_slot_def)
  qed
  then show ?thesis
    unfolding only_def by (rule logs_mono [OF logs_report_status])
qed

lemma update_confined:
  assumes "keeps_identity E" and "app_slot app \<in> S"
  shows "only (confined S) (handleDeletion E app)" and "only (confined S) (add_finalizer E app)"
  using assms(2) keeps_identityD(5,6) [OF assms(1), of app]
  unfolding handleDeletion_def add_finalizer_def
  by (auto simp: app_slot_def intro!: logs_rules split: option.split)

lemma live_confined:
  assumes "keeps_identity E"
  shows "only (confined (family (deployment_key app))) (reconcile_live E t app)"
  unfolding only_def reconcile_live_def
proof (rule logs_started, fold only_def)
  fix ts
  let ?app = "started_app ts app"
  have key: "deployment_key ?app = deployment_key app"
    by (simp add: deployment_key_def started_frame)
  have report: "only (confined (family (deployment_key app))) (report_status E t ?app e)" for e
    using app_in_family [of ?app] by (intro report_confined) (simp add: key)
  have "only (confined (family (deployment_key app))) (reconcileResources E ?app)"
    using confined_mono [OF children_confined [OF assms, of ?app] child_family_sub] by (simp add: key)
  then show "only (confined (family (deployment_key app)))
      (do {
        r \<leftarrow> reconcileResources E ?app;
        (case r of Panic m \<Rightarrow> return (Panic m)
         | Ret e \<Rightarrow> do { res \<leftarrow> report_status E t ?app e; return (Ret res) }) })"
    by (rule only_bind) (auto intro!: logs_rules report split: go.split)
qed

lemma body_confined:
  assumes "keeps_identity E"
  shows "only (confined (family req)) (reconcile_body E req t)"
proof -
  have get: "logs (\<lambda>(err, obj) es. list_all (confined (family req)) es \<and> (err = None \<longrightarrow> slot_of obj = (AppT, req)))
      (client_Get E req (AppObj zero_PlatformApplication))"
    using keeps_identityD(1) [OF assms] by (auto simp: client_Get_def logs_def split: prod.split)
  have body: "only (confined (family req)) (case gerr of
        Some err \<Rightarrow> do { r \<leftarrow> fetch_failed E err; return (Ret r) }
      | None \<Rightarrow>
          let app = as_app obj in
          if \<not> Time_IsZero (DeletionTimestamp (meta app))
          then do { r \<leftarrow> handleDeletion E app; return (Ret r) }
          else if \<not> ContainsFinalizer E (meta app) finalizerName
          then do { r \<leftarrow> add_finalizer E app; return (Ret r) }
          else reconcile_live E t app)" if "gerr = None \<longrightarrow> slot_of obj = (AppT, req)" for gerr obj
  proof (cases gerr)
    case (Some err)
    then show ?thesis
      unfolding fetch_failed_def observe_defs by (auto intro!: logs_rules)
  next
    case None
    with that have slot: "slot_of obj = (AppT, req)" by simp
    then have "gotype_of obj = AppT" by (simp add: slot_of_def)
    then obtain app where "obj = AppObj app" by (cases obj) simp_all
    with slot have app: "obj = AppObj app" "app_slot app = (AppT, req)"
      by (simp_all add: app_slot_def)
    then have key: "deployment_key app = req" and mem: "app_slot app \<in> family req"
      using app_in_family [of app] by (simp_all add: app_slot_key)
    show ?thesis
      using None update_confined [OF assms mem] live_confined [OF assms, of app t]
      by (auto simp: Let_def app(1) key intro!: logs_rules)
  qed
  show ?thesis
    unfolding reconcile_body_def only_def
    by (rule logs_bind [OF get]) (use body in \<open>auto simp: only_def split: prod.splits elim!: logs_mono\<close>)
qed

lemma Reconcile_confined: "keeps_identity E \<Longrightarrow> only (confined (family req)) (Reconcile E req)"
  unfolding Reconcile_def StartSpan_def
  by (intro logs_rules body_confined) simp_all

text \<open>C11. Workers never write the same object. For every environment that does not rename objects, with calls
  that may fail, be reordered with those of other workers, or meet changes made by anyone in between, every
  object that a reconciliation creates, patches, updates or deletes is the application of its request or one
  of that application's seven children; and no object belongs to the families of two different requests.\<close>

theorem workers_write_apart:
  assumes "keeps_identity E"
  shows "logs (\<lambda>_ es. list_all (confined (family req)) es) (Reconcile E req) \<and>
    (family req \<inter> family req' = {} \<longleftrightarrow> req \<noteq> req')"
  using Reconcile_confined [OF assms, of req]
  by (simp only: only_def families_apart simp_thms)

lemma server_keeps_identity: "keeps_identity server_env"
  unfolding keeps_identity_def
  by (auto simp: server_Get_def server_Create_def server_Patch_def Let_def add_owner_def slot_of_map_meta server_env_def
      dest: lookup_keyed split: prod.splits option.splits if_splits)

theorem workers_write_apart_witness:
  "logs (\<lambda>_ es. list_all (confined (family (deployment_key sample_app))) es) (Reconcile server_env (deployment_key sample_app)) \<and>
   family (deployment_key sample_app) \<inter> family (deployment_key other_app) = {}"
proof -
  have "deployment_key sample_app \<noteq> deployment_key other_app"
    by (simp add: deployment_key_def sample_app_def other_app_def)
  with workers_write_apart [OF server_keeps_identity] show ?thesis by blast
qed

end
