(* ===== verification/Steps.thy ===== *)
theory Steps
  imports Confinement
begin

text \<open>
  From the log to the outside. Every operation of the environment is a step of the outside state with the
  effect it logs, and every computation of the operator is \<open>faithful\<close>: the outside moves through exactly
  the calls that the log shows, with nothing in between but readings of the clock. So a fact about logs
  becomes a fact about what happens to the store.
\<close>

section \<open>Calls\<close>

fun silent :: "effect \<Rightarrow> bool" where
  "silent (CallGet t key) = False"
| "silent (CallCreate obj) = False"
| "silent (CallPatch obj owner) = False"
| "silent (CallUpdate obj) = False"
| "silent (CallDelete obj) = False"
| "silent (CallStatusUpdate obj) = False"
| "silent (WaitStart d) = False"
| "silent _ = True"

text \<open>The step of the outside that belongs to an effect; an effect that is no call leaves it alone.\<close>

inductive call :: "'w env \<Rightarrow> effect \<Rightarrow> 'w \<Rightarrow> 'w \<Rightarrow> bool" for E :: "'w env" where
  silent: "silent e \<Longrightarrow> call E e w w"
| get: "env_Get E key obj w = (r, w') \<Longrightarrow> call E (CallGet (gotype_of obj) key) w w'"
| create: "env_Create E obj w = (r, w') \<Longrightarrow> call E (CallCreate obj) w w'"
| patch: "env_Patch E obj manager w = (r, w') \<Longrightarrow> call E (CallPatch obj manager) w w'"
| update: "env_Update E obj w = (r, w') \<Longrightarrow> call E (CallUpdate obj) w w'"
| delete: "env_Delete E obj w = (r, w') \<Longrightarrow> call E (CallDelete obj) w w'"
| status: "env_StatusUpdate E obj w = (r, w') \<Longrightarrow> call E (CallStatusUpdate obj) w w'"
| wait: "env_Select E d w = (r, w') \<Longrightarrow> call E (WaitStart d) w w'"

inductive happens :: "'w env \<Rightarrow> 'w \<Rightarrow> effect list \<Rightarrow> 'w \<Rightarrow> bool" for E :: "'w env" where
  nothing: "happens E w [] w"
| clock: "env_Now E w = (t, w') \<Longrightarrow> happens E w' es w'' \<Longrightarrow> happens E w es w''"
| call: "call E e w w' \<Longrightarrow> happens E w' es w'' \<Longrightarrow> happens E w (e # es) w''"

lemma happens_append: "happens E w es w' \<Longrightarrow> happens E w' fs w'' \<Longrightarrow> happens E w (es @ fs) w''"
  by (induction rule: happens.induct) (auto intro: happens.intros)

lemma happens_one: "call E e w w' \<Longrightarrow> happens E w [e] w'"
  by (blast intro: happens.intros)

text \<open>What every call that satisfies \<open>p\<close> keeps is kept by a run of such calls.\<close>

lemma happens_keeps:
  assumes "happens E w es w'" and "list_all p es" and "I w"
    and "\<And>w t w'. I w \<Longrightarrow> env_Now E w = (t, w') \<Longrightarrow> I w'"
    and "\<And>e w w'. I w \<Longrightarrow> p e \<Longrightarrow> call E e w w' \<Longrightarrow> I w'"
  shows "I w'"
  using assms(1-3) by (induction rule: happens.induct) (auto dest: assms(4,5))

section \<open>Faithful computations\<close>

definition faithful :: "'w env \<Rightarrow> ('w world, 'a) state \<Rightarrow> bool" where
  "faithful E m \<longleftrightarrow>
     (\<forall>s a s'. run_state m s = (a, s') \<longrightarrow> (\<exists>es. log s' = log s @ es \<and> happens E (outside s) es (outside s')))"

named_theorems faithful_rules \<open>one rule per operation\<close>

lemma faithfulD:
  assumes "faithful E m" and "run_state m s = (a, s')"
  obtains es where "log s' = log s @ es" and "happens E (outside s) es (outside s')"
  using assms unfolding faithful_def by blast

lemma faithful_return [faithful_rules]: "faithful E (return a)"
  by (auto simp: faithful_def intro: happens.nothing)

lemma faithful_bind [faithful_rules]:
  assumes "faithful E m" and "\<And>a. faithful E (f a)"
  shows "faithful E (m \<bind> f)"
  unfolding faithful_def
proof (intro allI impI)
  fix s b s''
  assume run: "run_state (m \<bind> f) s = (b, s'')"
  obtain a s' where m: "run_state m s = (a, s')" by (cases "run_state m s")
  with run have f: "run_state (f a) s' = (b, s'')" by simp
  obtain es where "log s' = log s @ es" "happens E (outside s) es (outside s')"
    using faithfulD [OF assms(1) m] .
  moreover obtain fs where "log s'' = log s' @ fs" "happens E (outside s') fs (outside s'')"
    using faithfulD [OF assms(2) f] .
  ultimately show "\<exists>es. log s'' = log s @ es \<and> happens E (outside s) es (outside s'')"
    by (auto intro: happens_append)
qed

lemma faithful_if [faithful_rules]:
  "(c \<Longrightarrow> faithful E m) \<Longrightarrow> (\<not> c \<Longrightarrow> faithful E n) \<Longrightarrow> faithful E (if c then m else n)"
  by simp

lemma faithful_option [faithful_rules]:
  "faithful E m \<Longrightarrow> (\<And>y. faithful E (f y)) \<Longrightarrow> faithful E (case x of None \<Rightarrow> m | Some y \<Rightarrow> f y)"
  by (cases x) simp_all

lemma faithful_sum [faithful_rules]:
  "(\<And>y. faithful E (f y)) \<Longrightarrow> (\<And>y. faithful E (g y)) \<Longrightarrow> faithful E (case x of Inl y \<Rightarrow> f y | Inr y \<Rightarrow> g y)"
  by (cases x) simp_all

lemma faithful_prod [faithful_rules]: "(\<And>y z. faithful E (f y z)) \<Longrightarrow> faithful E (case x of (y, z) \<Rightarrow> f y z)"
  by (cases x) simp

lemma faithful_go [faithful_rules]:
  "(\<And>y. faithful E (f y)) \<Longrightarrow> (\<And>m. faithful E (g m)) \<Longrightarrow> faithful E (case x of Ret y \<Rightarrow> f y | Panic m \<Rightarrow> g m)"
  by (cases x) simp_all

lemma faithful_class [faithful_rules]:
  "faithful E n \<Longrightarrow> faithful E a \<Longrightarrow> faithful E b \<Longrightarrow> faithful E c \<Longrightarrow> faithful E d \<Longrightarrow>
   faithful E (case x of ClassEmpty \<Rightarrow> n | ClassUnknown \<Rightarrow> a | ClassTransient \<Rightarrow> b | ClassPermanent \<Rightarrow> c | ClassConflict \<Rightarrow> d)"
  by (cases x) simp_all

lemma faithful_emit [faithful_rules]: "silent e \<Longrightarrow> faithful E (emit e)"
  by (auto simp: faithful_def intro: happens_one call.silent)

lemma faithful_time [faithful_rules]: "faithful E (time_Now E)" "faithful E (time_Since E t)"
proof -
  show "faithful E (time_Now E)"
    by (auto simp: faithful_def time_Now_def split: prod.splits intro: happens.clock happens.nothing)
  then show "faithful E (time_Since E t)"
    unfolding time_Since_def by (intro faithful_rules)
qed

lemma faithful_client [faithful_rules]:
  "faithful E (client_Get E key obj)" "faithful E (client_Create E obj)" "faithful E (client_Patch E obj manager)"
  "faithful E (client_Update E obj)" "faithful E (client_Delete E obj)" "faithful E (client_StatusUpdate E obj)"
  "faithful E (select_Done_After E d)"
  unfolding client_defs select_Done_After_def
  by (auto simp: faithful_def split: prod.splits intro!: happens_one
      intro: call.get call.create call.patch call.update call.delete call.status call.wait)

section \<open>The operator is faithful\<close>

lemma faithful_applyOnce [faithful_rules]: "faithful E (applyOnce E d kind name namespace)"
  unfolding applyOnce_defs observe_defs by (intro faithful_rules; simp)

lemma faithful_apply_failed [faithful_rules]: "faithful E (apply_failed E kind name e)"
  unfolding apply_failed_def observe_defs Let_def by (intro faithful_rules; simp)

lemma faithful_apply_attempts [faithful_rules]: "faithful E (apply_attempts E kind name namespace k d)"
proof (induction "maxApplyRetries - k" arbitrary: k d rule: less_induct)
  case less
  show ?case
    unfolding apply_attempts.simps [of E kind name namespace k] observe_defs
    by (auto intro!: faithful_rules less split: sum.split)
qed

lemma faithful_children [faithful_rules]:
  "faithful E (Apply E owner d)" "faithful E (delete_then_unchanged E d)" "faithful E (ReconcileDeployment E app)"
  unfolding Apply_def delete_then_unchanged_def DeleteIfExists_def ReconcileDeployment_def observe_defs Let_def
  by (intro faithful_rules; simp)+

lemma faithful_no_panic [faithful_rules]: "faithful E m \<Longrightarrow> faithful E (no_panic m)"
  unfolding no_panic_def by (intro faithful_rules)

lemma faithful_sub_reconcilers: "list_all (\<lambda>st. faithful E (snd st)) (sub_reconcilers E app)"
  by (simp add: sub_reconcilers_def ReconcileService_def ReconcileHPA_def ReconcileHTTPRoute_def
      ReconcileNetworkPolicy_def ReconcilePDB_def ReconcileServiceMonitor_def deleteHPAIfExists_def
      deleteHTTPRouteIfExists_def deleteNetworkPolicyIfExists_def deletePDBIfExists_def
      deleteServiceMonitorIfExists_def faithful_rules)

lemma faithful_outcome [faithful_rules]:
  "faithful E (sub_failed E app name t err)" "faithful E (sub_succeeded E name t)"
  unfolding sub_failed_def sub_succeeded_def observe_defs Let_def by (intro faithful_rules; simp)+

lemma faithful_StartSpan [faithful_rules]: "faithful E (StartSpan n as)"
  unfolding StartSpan_def by (intro faithful_rules; simp)

lemma faithful_run_subs: "list_all (\<lambda>st. faithful E (snd st)) sts \<Longrightarrow> faithful E (run_subs E app sts)"
  by (induction sts) (auto intro!: faithful_rules)

lemma faithful_reconcileResources [faithful_rules]: "faithful E (reconcileResources E app)"
  unfolding reconcileResources_def by (rule faithful_run_subs [OF faithful_sub_reconcilers])

lemma faithful_status [faithful_rules]:
  "faithful E (set_status E f a b c app)" "faithful E (updateDeploymentStatus E app)"
  "faithful E (finish E t app planned e)" "faithful E (status_update_failed E err)" "faithful E (fetch_failed E err)"
  unfolding set_status_def updateDeploymentStatus_def finish_def handleErrorResult_def unknown_error_def
    status_update_failed_def fetch_failed_def observe_defs
  by (intro faithful_rules; simp)+

lemma faithful_setConditions [faithful_rules]: "faithful E (setConditions E app e)"
  unfolding setConditions_def by (intro faithful_rules)

lemma faithful_parts [faithful_rules]:
  "faithful E (report_status E t app e)" "faithful E (handleDeletion E app)" "faithful E (add_finalizer E app)"
  unfolding report_status_def handleDeletion_def add_finalizer_def
  by (intro faithful_rules; simp)+

lemma faithful_Reconcile: "faithful E (Reconcile E req)"
  unfolding Reconcile_def reconcile_body_def reconcile_live_def Let_def
  by (intro faithful_rules; simp)

section \<open>Computations that only read\<close>

text \<open>They make no write; whatever the reads and waits of the outside keep is kept by them.\<close>

definition reading :: "'w env \<Rightarrow> ('w world, 'a) state \<Rightarrow> bool" where
  "reading E m \<longleftrightarrow> faithful E m \<and> only (confined {}) m"

lemma readingI: "faithful E m \<Longrightarrow> only (confined {}) m \<Longrightarrow> reading E m"
  by (simp add: reading_def)

lemma reading_bind: "reading E m \<Longrightarrow> (\<And>a. reading E (f a)) \<Longrightarrow> reading E (m \<bind> f)"
  unfolding reading_def by (blast intro: faithful_bind only_bind)

lemma confined_nowhere: "confined {} e \<longleftrightarrow> write_slot e = None"
  by (cases "write_slot e") (simp_all add: confined_def)

lemma reading_keeps:
  assumes "reading E m"
    and "\<And>w t w'. I w \<Longrightarrow> env_Now E w = (t, w') \<Longrightarrow> I w'"
    and "\<And>e w w'. I w \<Longrightarrow> write_slot e = None \<Longrightarrow> call E e w w' \<Longrightarrow> I w'"
  shows "triple I m (\<lambda>_. I)"
proof (rule tripleI)
  fix s a s'
  assume pre: "I (outside s)" and run: "run_state m s = (a, s')"
  obtain es where es: "log s' = log s @ es" "happens E (outside s) es (outside s')"
    using faithfulD [OF assms(1) [unfolded reading_def, THEN conjunct1] run] .
  obtain fs where "log s' = log s @ fs" "list_all (confined {}) fs"
    using logsD [OF assms(1) [unfolded reading_def only_def, THEN conjunct2] run] .
  with es(1) have "list_all (\<lambda>e. write_slot e = None) es"
    by (simp add: list_all_iff confined_nowhere)
  with es(2) show "I (outside s')"
    by (rule happens_keeps [where I = I]) (blast intro: pre assms(2,3))+
qed

lemma reading_emit: "silent e \<Longrightarrow> reading E (emit e)"
  by (cases e) (auto intro!: readingI faithful_rules logs_rules simp: confined_nowhere)

lemma reading_parts:
  "reading E (return x)" "reading E (time_Now E)" "reading E (client_Get E key obj)"
  "reading E (set_status E f a b c app)" "reading E (updateDeploymentStatus E app)" "reading E (setConditions E app e)"
  "reading E (finish E t app planned e)" "reading E (status_update_failed E err)" "reading E (fetch_failed E err)"
proof -
  have set: "only (confined {}) (set_status E f a b c app)" for f a b c app
    unfolding set_status_def by (intro logs_rules)
  then show "reading E (set_status E f a b c app)"
    by (intro readingI faithful_rules)
  show "reading E (return x)" "reading E (time_Now E)" "reading E (client_Get E key obj)"
    by (intro readingI faithful_rules logs_rules; simp)+
  show "reading E (setConditions E app e)"
    unfolding setConditions_def by (auto intro!: set readingI faithful_rules logs_rules split: option.split)
  show "reading E (updateDeploymentStatus E app)"
    unfolding updateDeploymentStatus_def by (auto intro!: readingI faithful_rules logs_rules)
  show "reading E (finish E t app planned e)" "reading E (status_update_failed E err)" "reading E (fetch_failed E err)"
    unfolding finish_def handleErrorResult_def unknown_error_def status_update_failed_def fetch_failed_def observe_defs
    by (auto intro!: readingI faithful_rules logs_rules split: option.split ReconcileErrorClass.split)
qed

end
