(* ===== verification/Lifecycle.thy ===== *)
theory Lifecycle
  imports Platform
begin

text \<open>
  The life of one application as the operator sees it, as an abstract machine over what the API server
  stores under one key: nothing, or an application. The steps of the operator are the promise that theory
  Linearization proves of \<open>Reconcile\<close>; the steps of everybody else are what the API server allows. The
  invariant says what may be concluded from a stored application at any time, in whatever order the two
  move and whichever calls of the operator fail.
\<close>

section \<open>Steps\<close>

definition live :: "PlatformApplication \<Rightarrow> bool" where
  "live a \<longleftrightarrow> Time_IsZero (DeletionTimestamp (meta a))"

definition finalized :: "PlatformApplication \<Rightarrow> bool" where
  "finalized a \<longleftrightarrow> finalizerName \<in> set (Finalizers (meta a))"

definition other_finalizers :: "PlatformApplication \<Rightarrow> string list" where
  "other_finalizers a = filter (\<lambda>f. f \<noteq> finalizerName) (Finalizers (meta a))"

text \<open>What a reconciliation may make of the stored application. The status it reports is the one that some
  count of ready replicas and the success or failure of the sub-reconcilers call for.\<close>

inductive operator_step :: "PlatformApplication option \<Rightarrow> PlatformApplication option \<Rightarrow> bool" where
  idle: "operator_step x x"
| adopt: "live a \<Longrightarrow> \<not> finalized a \<Longrightarrow>
    operator_step (Some a) (Some (at_version v (with_finalizers (Finalizers (meta a) @ [finalizerName]) a)))"
| report: "live a \<Longrightarrow> finalized a \<Longrightarrow> status_contract a ready failed st \<Longrightarrow>
    operator_step (Some a) (Some (at_version v (with_status a st)))"
| release: "\<not> live a \<Longrightarrow> finalized a \<Longrightarrow> other_finalizers a \<noteq> [] \<Longrightarrow>
    operator_step (Some a) (Some (at_version v (with_finalizers (other_finalizers a) a)))"
| let_go: "\<not> live a \<Longrightarrow> finalized a \<Longrightarrow> other_finalizers a = [] \<Longrightarrow> operator_step (Some a) None"

text \<open>What users and other controllers may do: create an application (the API server drops a status and sets
  the generation), change its spec (the generation grows), ask for its deletion, and change other metadata,
  finalizers included, the operator's own as well; an application goes when it is being deleted and loses its
  last finalizer. Two things are assumed of them: only the operator writes the status, and a change of the
  spec raises the generation.\<close>

definition with_spec :: "PlatformApplicationSpec \<Rightarrow> PlatformApplication \<Rightarrow> PlatformApplication" where
  "with_spec sp a = a\<lparr>PlatformApplication.Spec := sp\<rparr>"

definition with_meta :: "ObjectMeta \<Rightarrow> PlatformApplication \<Rightarrow> PlatformApplication" where
  "with_meta m a = a\<lparr>PlatformApplication.ObjectMeta := m\<rparr>"

inductive user_step :: "PlatformApplication option \<Rightarrow> PlatformApplication option \<Rightarrow> bool" where
  create: "PlatformApplication.Status a = PlatformApplication.Status zero_PlatformApplication \<Longrightarrow>
    Generation (meta a) = 1 \<Longrightarrow> live a \<Longrightarrow> user_step None (Some a)"
| edit: "Generation (meta a) <s Generation m \<Longrightarrow> DeletionTimestamp m = DeletionTimestamp (meta a) \<Longrightarrow>
    user_step (Some a) (Some (with_meta m (with_spec sp a)))"
| annotate: "Generation m = Generation (meta a) \<Longrightarrow> DeletionTimestamp m = DeletionTimestamp (meta a) \<Longrightarrow>
    live a \<or> Finalizers m \<noteq> [] \<Longrightarrow>
    user_step (Some a) (Some (with_meta m a))"
| delete_later: "live a \<Longrightarrow> Finalizers (meta a) \<noteq> [] \<Longrightarrow> t \<noteq> 0 \<Longrightarrow> Generation (meta a) \<le>s g \<Longrightarrow>
    user_step (Some a) (Some (with_meta ((meta a)\<lparr>DeletionTimestamp := Some t, Generation := g,
      ResourceVersion := v\<rparr>) a))"
| delete_now: "Finalizers (meta a) = [] \<Longrightarrow> user_step (Some a) None"
| last_finalizer: "\<not> live a \<Longrightarrow> user_step (Some a) None"

text \<open>Whoever is not the worker at hand: users, other controllers, and other workers of the operator, such as
  a replica that still finishes its reconciliation while the next leader has started.\<close>

definition anyone :: "PlatformApplication option \<Rightarrow> PlatformApplication option \<Rightarrow> bool" where
  "anyone x y \<longleftrightarrow> user_step x y \<or> operator_step x y"

text \<open>The same, of users that leave the operator's finalizer where it is.\<close>

definition careful :: "PlatformApplication option \<Rightarrow> PlatformApplication option \<Rightarrow> bool" where
  "careful x y \<longleftrightarrow>
     operator_step x y \<or>
     user_step x y \<and> (\<forall>a b. x = Some a \<and> y = Some b \<and> finalized a \<longrightarrow> finalized b)"

lemma anyoneI: "user_step x y \<Longrightarrow> anyone x y" "operator_step x y \<Longrightarrow> anyone x y"
  by (simp_all add: anyone_def)

lemma careful_anyone: "careful x y \<Longrightarrow> anyone x y"
  by (auto simp: careful_def anyone_def)

inductive_cases operator_step_gone: "operator_step (Some a) None"
inductive_cases user_step_gone: "user_step (Some a) None"

section \<open>The invariant\<close>

text \<open>The three conditions that tell the outcome of a reconciliation.\<close>

definition outcomes :: "PlatformApplicationStatus \<Rightarrow> string list" where
  "outcomes st = filter (\<lambda>ty. condition_status st ty = Some ConditionTrue)
     [ConditionReady, ConditionDegraded, ConditionProgressing]"

text \<open>
  A stored application is sound: no condition type occurs twice; the observed generation is not ahead; it
  was never reported on, or exactly one of Ready, Degraded and Progressing is true; and a status whose
  observed generation is the current one speaks of the current spec: its version is the spec's, and Ready
  means that the spec's replicas are ready. It is guarded if, once reported on, it has the finalizer or is
  being deleted.
\<close>

definition reported_well :: "PlatformApplication \<Rightarrow> bool" where
  "reported_well a \<longleftrightarrow>
     (let st = PlatformApplication.Status a; sp = PlatformApplication.Spec a in
      length (outcomes st) = 1 \<and>
      (ObservedGeneration st = Generation (meta a) \<longrightarrow>
         DeployedVersion st = Tag (Image sp) \<and>
         (IsReady st \<longrightarrow> Min (Replicas sp) \<le>s PlatformApplicationStatus.ReadyReplicas st)))"

definition sound :: "PlatformApplication \<Rightarrow> bool" where
  "sound a \<longleftrightarrow>
     conditions_wf (PlatformApplication.Status a) \<and>
     ObservedGeneration (PlatformApplication.Status a) \<le>s Generation (meta a) \<and>
     (Conditions (PlatformApplication.Status a) = [] \<or> reported_well a)"

definition guarded_app :: "PlatformApplication \<Rightarrow> bool" where
  "guarded_app a \<longleftrightarrow> Conditions (PlatformApplication.Status a) = [] \<or> finalized a \<or> \<not> live a"

lemma at_version_frame [simp]:
  "PlatformApplication.Status (at_version v a) = PlatformApplication.Status a"
  "PlatformApplication.Spec (at_version v a) = PlatformApplication.Spec a"
  "Generation (meta (at_version v a)) = Generation (meta a)"
  "DeletionTimestamp (meta (at_version v a)) = DeletionTimestamp (meta a)"
  "Finalizers (meta (at_version v a)) = Finalizers (meta a)"
  by (simp_all add: at_version_def)

lemma sound_at_version [simp]: "sound (at_version v a) = sound a"
  by (simp add: sound_def reported_well_def)

lemma guarded_at_version [simp]: "guarded_app (at_version v a) = guarded_app a"
  by (simp add: guarded_app_def live_def finalized_def)

lemmas sound_defs = sound_def reported_well_def

lemma one_outcome:
  assumes "status_contract a ready failed st"
  shows "length (outcomes st) = 1"
  using assms
  by (cases failed; cases "Min (Replicas (PlatformApplication.Spec a)) \<le>s ready")
    (auto simp: status_contract_def outcomes_def bool_status_def Let_def)

lemma operator_keeps_sound:
  assumes "operator_step x y" and "\<And>a. x = Some a \<Longrightarrow> sound a" and "y = Some b"
  shows "sound b"
  using assms
proof (cases rule: operator_step.cases)
  case (adopt a v)
  then show ?thesis
    using assms(2) [of a] assms(3) by (auto simp: sound_defs with_finalizers_def Let_def)
next
  case (report a ready failed st v)
  then show ?thesis
    using assms(2) [of a] assms(3) one_outcome [OF report(5)]
    by (auto simp: sound_defs with_status_def Let_def status_contract_def)
next
  case (release a v)
  then show ?thesis
    using assms(2) [of a] assms(3) by (auto simp: sound_defs with_finalizers_def Let_def)
qed simp_all

lemma user_keeps_sound:
  assumes "user_step x y" and "\<And>a. x = Some a \<Longrightarrow> sound a" and "y = Some b"
  shows "sound b"
  using assms
proof (cases rule: user_step.cases)
  case (create a)
  then show ?thesis
    using assms(3) by (simp add: sound_def zero_PlatformApplication_def conditions_wf_def word_sle_eq)
next
  case (edit a m sp)
  then have "ObservedGeneration (PlatformApplication.Status a) <s Generation m"
    using assms(2) [of a] by (auto simp: sound_def intro: signed.le_less_trans)
  with edit show ?thesis
    using assms(2) [of a] assms(3) by (auto simp: sound_defs with_spec_def with_meta_def Let_def)
next
  case (annotate m a)
  then show ?thesis
    using assms(2) [of a] assms(3) by (auto simp: sound_defs with_meta_def Let_def)
next
  case (delete_later a t g v)
  then have "ObservedGeneration (PlatformApplication.Status a) \<le>s g"
    using assms(2) [of a] by (auto simp: sound_def intro: signed.order_trans)
  with delete_later show ?thesis
    using assms(2) [of a] assms(3) by (auto simp: sound_defs with_meta_def Let_def Time_IsZero_def)
qed simp_all

lemma anyone_keeps_sound:
  assumes "anyone x y" and "pred_option sound x"
  shows "pred_option sound y"
proof (cases y)
  case (Some b)
  have "sound a" if "x = Some a" for a
    using assms(2) that by simp
  with assms(1) have "sound b"
    unfolding anyone_def
    by (elim disjE) (rule user_keeps_sound [OF _ _ Some] operator_keeps_sound [OF _ _ Some]; assumption)+
  with Some show ?thesis by simp
qed simp

lemma careful_keeps_guarded:
  assumes "careful x y" and "pred_option guarded_app x"
  shows "pred_option guarded_app y"
  using assms(1) unfolding careful_def
proof (elim disjE conjE)
  assume "operator_step x y"
  then show ?thesis
    using assms(2)
    by cases (auto simp: guarded_app_def with_finalizers_def with_status_def live_def finalized_def)
next
  assume "user_step x y" and keep: "\<forall>a b. x = Some a \<and> y = Some b \<and> finalized a \<longrightarrow> finalized b"
  then show ?thesis
    using assms(2)
    by cases (auto simp: guarded_app_def with_meta_def with_spec_def live_def Time_IsZero_def zero_PlatformApplication_def)
qed

end
