(* ===== verification/Linearization.thy ===== *)
theory Linearization
  imports Steps Lifecycle
begin

text \<open>
  The operator among others. Here the API server is shared: before, between and after the calls of a
  reconciliation, users and other controllers may create, edit and delete applications, calls may fail
  whether or not they took effect, and a read may come from a cache that is behind. What the server promises
  is optimistic concurrency: an update takes
  effect only on the version it was made from, and every change gives a version never used before. Under
  this contract every run of \<open>Reconcile\<close> changes its application in at most one atomic step, and that step is
  a legal one of theory Lifecycle on a state that was stored at that moment.
\<close>

section \<open>Views and moves\<close>

text \<open>What is stored under a key, with the versions that have been used.\<close>

type_synonym app_view = "PlatformApplication option \<times> string set"

text \<open>A relation between what is stored before and after one change.\<close>

type_synonym app_step = "PlatformApplication option \<Rightarrow> PlatformApplication option \<Rightarrow> bool"

definition moves :: "app_step \<Rightarrow> app_view \<Rightarrow> app_view \<Rightarrow> bool" where
  "moves R s t \<longleftrightarrow> snd s \<subseteq> snd t \<and>
     (fst t = fst s \<or> R (fst s) (fst t) \<and> (\<forall>b. fst t = Some b \<longrightarrow> ResourceVersion (meta b) \<in> snd t - snd s))"

text \<open>What others do, whose single changes are \<open>U\<close>: the users of theory Lifecycle, say, or nobody.\<close>

definition others :: "app_step \<Rightarrow> app_view \<Rightarrow> app_view \<Rightarrow> bool" where
  "others U = (moves U)\<^sup>*\<^sup>*"

definition nobody :: app_step where
  "nobody x y \<longleftrightarrow> False"

text \<open>A view of the same key at a later time, whoever has changed it in between: what is stored is the same
  or has a version that was not used before.\<close>

definition later :: "app_view \<Rightarrow> app_view \<Rightarrow> bool" where
  "later s t \<longleftrightarrow> snd s \<subseteq> snd t \<and>
     (fst t = fst s \<or> (\<forall>b. fst t = Some b \<longrightarrow> ResourceVersion (meta b) \<notin> snd s))"

text \<open>At most one step of the operator, others before and after it.\<close>

definition linear :: "app_step \<Rightarrow> app_view \<Rightarrow> app_view \<Rightarrow> bool" where
  "linear U s t \<longleftrightarrow> (\<exists>x y. others U s x \<and> moves operator_step x y \<and> others U y t)"

lemma others_refl [simp]: "others U s s"
  by (simp add: others_def)

lemma others_trans [trans]: "others U s t \<Longrightarrow> others U t u \<Longrightarrow> others U s u"
  unfolding others_def by (rule rtranclp_trans)

lemma others_step: "moves U s t \<Longrightarrow> others U s t"
  unfolding others_def by blast

lemma moves_refl [simp]: "moves R s s"
  by (simp add: moves_def)

lemma linear_others: "others U s t \<Longrightarrow> linear U s t"
  unfolding linear_def using moves_refl [of operator_step s] others_refl [of U s] by blast

lemma others_linear: "others U s t \<Longrightarrow> linear U t u \<Longrightarrow> linear U s u"
  unfolding linear_def by (blast intro: others_trans)

lemma linear_then_others: "linear U s t \<Longrightarrow> others U t u \<Longrightarrow> linear U s u"
  unfolding linear_def by (blast intro: others_trans)

text \<open>A version is never used again, so the stored application is the one that was read as long as it has
  the version that was read.\<close>

lemma later_refl [simp]: "later s s"
  by (simp add: later_def)

lemma later_trans: "later s t \<Longrightarrow> later t u \<Longrightarrow> later s u"
  unfolding later_def by (elim conjE disjE) auto

lemma moves_later: "moves R s t \<Longrightarrow> later s t"
  by (auto simp: moves_def later_def)

lemma others_later: "others U s t \<Longrightarrow> later s t"
  unfolding others_def by (induction rule: rtranclp_induct) (auto intro: later_trans moves_later)

lemma same_version:
  assumes "later (Some a, V) (Some b, V')" and "ResourceVersion (meta a) \<in> V"
    and "ResourceVersion (meta b) = ResourceVersion (meta a)"
  shows "b = a"
  using assms by (auto simp: later_def)

lemma later_others: "later s t \<Longrightarrow> others U t u \<Longrightarrow> later s u"
  by (blast intro: later_trans others_later)

text \<open>What one worker guarantees the others tolerate: a run that is linear among all the others is, to each of
  them, one more sequence of changes by others.\<close>

lemma others_mono: "(\<And>x y. U x y \<Longrightarrow> U' x y) \<Longrightarrow> others U s t \<Longrightarrow> others U' s t"
  unfolding others_def by (erule rtranclp_mono [THEN predicate2D, rotated]) (auto simp: moves_def)

lemma linear_tolerated:
  assumes "\<And>x y. operator_step x y \<Longrightarrow> U x y" and "linear U s t"
  shows "others U s t"
proof -
  from assms(2) obtain x y where s: "others U s x" and step: "moves operator_step x y" and t: "others U y t"
    unfolding linear_def by blast
  from step assms(1) have "moves U x y"
    by (auto simp: moves_def)
  from others_trans [OF s others_trans [OF others_step [OF this] t]] show ?thesis .
qed

text \<open>What every step of the operator and of the others keeps, a run among the others keeps.\<close>

lemma others_keep:
  assumes "\<And>x y. U x y \<Longrightarrow> I x \<Longrightarrow> I y" and "others U s t" and "I (fst s)"
  shows "I (fst t)"
  using assms(2,3) unfolding others_def
  by (induction rule: rtranclp_induct) (auto simp: moves_def intro: assms(1))

lemma linear_keeps:
  assumes "\<And>x y. U x y \<Longrightarrow> I x \<Longrightarrow> I y" and "\<And>x y. operator_step x y \<Longrightarrow> I x \<Longrightarrow> I y"
    and "linear U s t" and "I (fst s)"
  shows "I (fst t)"
proof -
  from assms(3) obtain x y where "others U s x" and step: "moves operator_step x y" and t: "others U y t"
    unfolding linear_def by blast
  with others_keep [of U I s x] assms(1,4) have "I (fst x)" by blast
  with step assms(2) have "I (fst y)" by (auto simp: moves_def)
  with others_keep [of U I y t] assms(1) t show ?thesis by blast
qed

section \<open>The shared API server\<close>

text \<open>What is stored after a write: an object that is being deleted goes with its last finalizer.\<close>

definition after_write :: "string \<Rightarrow> PlatformApplication \<Rightarrow> PlatformApplication option" where
  "after_write v x =
     (if DeletionTimestamp (meta x) \<noteq> None \<and> Finalizers (meta x) = [] then None else Some (at_version v x))"

text \<open>A write of \<open>b\<close> that the server accepts: the stored application has the version that \<open>b\<close> carries.
  What it becomes is said for objects that leave alone what the server itself computes.\<close>

definition accepted ::
    "(PlatformApplication \<Rightarrow> PlatformApplication) \<Rightarrow> PlatformApplication \<Rightarrow> app_view \<Rightarrow> app_view \<Rightarrow> bool" where
  "accepted merge b s t \<longleftrightarrow>
     (\<exists>a V v. s = (Some a, V) \<and> ResourceVersion (meta b) = ResourceVersion (meta a) \<and> V \<subseteq> snd t \<and> v \<in> snd t - V \<and>
        (PlatformApplication.Spec b = PlatformApplication.Spec a \<and> Generation (meta b) = Generation (meta a) \<and>
         DeletionTimestamp (meta b) = DeletionTimestamp (meta a) \<longrightarrow> fst t = after_write v (merge a)))"

definition updates :: "app_step \<Rightarrow> (PlatformApplication \<Rightarrow> PlatformApplication) \<Rightarrow> PlatformApplication \<Rightarrow> app_view \<Rightarrow> app_view \<Rightarrow> bool" where
  "updates U merge b s t \<longleftrightarrow> (\<exists>x y. others U s x \<and> (y = x \<or> accepted merge b x y) \<and> others U y t)"

locale shared_server =
  fixes E :: "'w env"
    and U :: app_step
    and view :: "'w \<Rightarrow> ObjectKey \<Rightarrow> app_view"
    and ok :: "'w \<Rightarrow> bool"
  assumes elsewhere: "ok w \<Longrightarrow> call E e w w' \<Longrightarrow> write_slot e \<noteq> Some (AppT, key) \<Longrightarrow>
      ok w' \<and> others U (view w key) (view w' key)"
    and clock: "ok w \<Longrightarrow> env_Now E w = (t, w') \<Longrightarrow> ok w' \<and> others U (view w key) (view w' key)"
    and read: "ok w \<Longrightarrow> env_Get E key (AppObj o') w = ((None, x), w') \<Longrightarrow>
      \<exists>a V. x = AppObj a \<and> deployment_key a = key \<and> ResourceVersion (meta a) \<in> V \<and> later (Some a, V) (view w' key)"
    and update: "ok w \<Longrightarrow> env_Update E (AppObj b) w = (r, w') \<Longrightarrow>
      ok w' \<and> updates U (\<lambda>a. with_status b (PlatformApplication.Status a)) b
        (view w (deployment_key b)) (view w' (deployment_key b))"
    and status: "ok w \<Longrightarrow> env_StatusUpdate E (AppObj b) w = (r, w') \<Longrightarrow>
      ok w' \<and> updates U (\<lambda>a. with_status a (PlatformApplication.Status b)) b
        (view w (deployment_key b)) (view w' (deployment_key b))"
    and identity: "keeps_identity E"
    and contains: "ContainsFinalizer E m f \<longleftrightarrow> f \<in> set (Finalizers m)"
    and add: "AddFinalizer E m f = m\<lparr>Finalizers := if f \<in> set (Finalizers m) then Finalizers m else Finalizers m @ [f]\<rparr>"
    and remove: "RemoveFinalizer E m f = m\<lparr>Finalizers := filter (\<lambda>g. g \<noteq> f) (Finalizers m)\<rparr>"
begin

definition reached :: "ObjectKey \<Rightarrow> app_view \<Rightarrow> 'w \<Rightarrow> bool" where
  "reached key s w \<longleftrightarrow> ok w \<and> others U s (view w key)"

definition touched :: "ObjectKey \<Rightarrow> app_view \<Rightarrow> 'w \<Rightarrow> bool" where
  "touched key s w \<longleftrightarrow> ok w \<and> linear U s (view w key)"

definition idle :: "ObjectKey \<Rightarrow> ('w world, 'a) state \<Rightarrow> bool" where
  "idle key m \<longleftrightarrow> (\<forall>s. triple (reached key s) m (\<lambda>_. reached key s))"

lemma others_run:
  assumes "happens E w es w'" and "list_all (\<lambda>e. write_slot e \<noteq> Some (AppT, key)) es" and "reached key s w"
  shows "reached key s w'"
  using assms(1,2,3)
  by (rule happens_keeps) (auto simp: reached_def dest: elsewhere clock intro: others_trans)

lemma idleI:
  assumes "faithful E m" and "only (confined S) m" and "(AppT, key) \<notin> S"
  shows "idle key m"
  unfolding idle_def triple_def
proof (intro allI impI)
  fix s :: app_view and st :: "'w world"
  assume pre: "reached key s (outside st)"
  obtain a st' where run: "run_state m st = (a, st')" by (cases "run_state m st")
  obtain es where es: "log st' = log st @ es" "happens E (outside st) es (outside st')"
    using faithfulD [OF assms(1) run] .
  obtain fs where "log st' = log st @ fs" "list_all (confined S) fs"
    using logsD [OF assms(2) [unfolded only_def] run] .
  with es(1) have "list_all (confined S) es" by simp
  then have "list_all (\<lambda>e. write_slot e \<noteq> Some (AppT, key)) es"
    using assms(3) by (auto simp: list_all_iff confined_def split: option.splits)
  from others_run [OF es(2) this pre] show "case run_state m st of (a, st') \<Rightarrow> reached key s (outside st')"
    by (simp add: run)
qed

lemma idle_reading: "reading E m \<Longrightarrow> idle key m"
  by (rule idleI [where S = "{}"]) (simp_all add: reading_def)

lemma idle_reached: "idle key m \<Longrightarrow> triple (reached key s) m (\<lambda>_. reached key s)"
  unfolding idle_def by (rule spec)

text \<open>The operator knows a version that was stored at some time, perhaps long before it was read.\<close>

definition knows :: "ObjectKey \<Rightarrow> app_view \<Rightarrow> PlatformApplication \<Rightarrow> string set \<Rightarrow> 'w \<Rightarrow> bool" where
  "knows key s a V w \<longleftrightarrow> reached key s w \<and> later (Some a, V) (view w key)"

text \<open>What others cannot destroy survives an idle computation.\<close>

definition lasting :: "ObjectKey \<Rightarrow> ('w \<Rightarrow> bool) \<Rightarrow> bool" where
  "lasting key P \<longleftrightarrow> (\<forall>w. P w \<longrightarrow> ok w \<and> (\<forall>w'. reached key (view w key) w' \<longrightarrow> P w'))"

lemma lasting_views: "lasting key (reached key s)" "lasting key (touched key s)" "lasting key (knows key s a V)"
  by (auto simp: lasting_def reached_def touched_def knows_def intro: others_trans linear_then_others later_others)

lemma idle_lasting:
  assumes "idle key m" and "lasting key P"
  shows "triple P m (\<lambda>_. P)"
proof (rule tripleI)
  fix st a st'
  assume pre: "P (outside st)" and run: "run_state m st = (a, st')"
  have "reached key (view (outside st) key) (outside st')"
    by (rule tripleD [OF idle_reached [OF assms(1)] _ run]) (use assms(2) pre in \<open>auto simp: reached_def lasting_def\<close>)
  with assms(2) pre show "P (outside st')"
    unfolding lasting_def by blast
qed

lemma idle_result:
  assumes "idle key m" and "logs (\<lambda>a _. Q a) m" and "lasting key P"
  shows "triple P m (\<lambda>a w. P w \<and> Q a)"
  by (rule triple_logs [OF idle_lasting [OF assms(1,3)] assms(2)])

lemma knows_touched: "knows key s a V w \<Longrightarrow> touched key s w"
  by (simp add: knows_def reached_def touched_def linear_others)

lemma reached_touched: "reached key s w \<Longrightarrow> touched key s w"
  by (simp add: reached_def touched_def linear_others)

lemma triple_idle_end:
  "idle key m \<Longrightarrow> triple (reached key s) m (\<lambda>_. touched key s)"
  "idle key m \<Longrightarrow> triple (knows key s a V) m (\<lambda>_. touched key s)"
  by (rule triple_mono [OF idle_lasting [OF _ lasting_views(1)]], assumption+, erule reached_touched)
    (rule triple_mono [OF idle_lasting [OF _ lasting_views(3)]], assumption+, erule knows_touched)

section \<open>The writes of the application\<close>

text \<open>An accepted write hits the application that was read.\<close>

lemma accepted_step:
  assumes "others U u s" and "later (Some a, V) s" and "updates U merge b s t"
    and "ResourceVersion (meta a) \<in> V"
    and "ResourceVersion (meta b) = ResourceVersion (meta a)" "PlatformApplication.Spec b = PlatformApplication.Spec a"
      "Generation (meta b) = Generation (meta a)" "DeletionTimestamp (meta b) = DeletionTimestamp (meta a)"
    and "\<And>v. operator_step (Some a) (after_write v (merge a))"
  shows "linear U u t"
proof -
  from assms(3) obtain x y where x: "others U s x" and y: "y = x \<or> accepted merge b x y" "others U y t"
    unfolding updates_def by blast
  have ux: "others U u x"
    by (rule others_trans [OF assms(1) x])
  have ax: "later (Some a, V) x"
    by (rule later_others [OF assms(2) x])
  from y(1) show ?thesis
  proof
    assume "y = x"
    with ux y(2) show ?thesis by (blast intro: others_trans linear_others)
  next
    assume "accepted merge b x y"
    then obtain a' V' v where acc: "x = (Some a', V')" "ResourceVersion (meta b) = ResourceVersion (meta a')"
        "V' \<subseteq> snd y" "v \<in> snd y - V'"
        "PlatformApplication.Spec b = PlatformApplication.Spec a' \<and> Generation (meta b) = Generation (meta a') \<and>
         DeletionTimestamp (meta b) = DeletionTimestamp (meta a') \<longrightarrow> fst y = after_write v (merge a')"
      unfolding accepted_def by blast
    have "a' = a"
      using same_version [OF ax [unfolded acc(1)] assms(4)] acc(2) assms(5) by simp
    with acc assms(6-8) have "fst y = after_write v (merge a)" by simp
    with acc \<open>a' = a\<close> assms(9) [of v] have "moves operator_step x y"
      by (auto simp: moves_def after_write_def at_version_def split: if_splits)
    with ux y(2) show ?thesis
      unfolding linear_def by blast
  qed
qed

lemma triple_Update:
  assumes "deployment_key a = key" and "ResourceVersion (meta a) \<in> V"
    and "\<And>v. operator_step (Some a) (after_write v (with_finalizers fs a))"
  shows "triple (knows key s a V) (client_Update E (AppObj (with_finalizers fs a))) (\<lambda>_. touched key s)"
  unfolding client_Update_def
proof (rule triple_bind [OF triple_emit triple_lift], assumption)
  fix w r w'
  let ?b = "with_finalizers fs a"
  assume w: "knows key s a V w" and run: "env_Update E (AppObj ?b) w = (r, w')"
  have key: "deployment_key ?b = key"
    using assms(1) by (simp add: deployment_key_def)
  from update [OF _ run] w have upd: "ok w'"
    "updates U (\<lambda>a. with_status ?b (PlatformApplication.Status a)) ?b (view w key) (view w' key)"
    by (simp_all add: knows_def reached_def key)
  have "linear U s (view w' key)"
    by (rule accepted_step [OF _ _ upd(2) assms(2)]) (use w assms(3) in \<open>simp_all add: knows_def reached_def with_finalizers_def with_status_def\<close>)
  with upd(1) show "touched key s w'"
    by (simp add: touched_def)
qed

lemma triple_StatusUpdate:
  assumes "deployment_key a = key" and "ResourceVersion (meta a) \<in> V"
    and "\<And>v. operator_step (Some a) (after_write v (with_status a st))"
  shows "triple (knows key s a V) (client_StatusUpdate E (AppObj (with_status a st))) (\<lambda>_. touched key s)"
  unfolding client_StatusUpdate_def
proof (rule triple_bind [OF triple_emit triple_lift], assumption)
  fix w r w'
  let ?b = "with_status a st"
  assume w: "knows key s a V w" and run: "env_StatusUpdate E (AppObj ?b) w = (r, w')"
  have key: "deployment_key ?b = key"
    using assms(1) by (simp add: deployment_key_def with_status_def)
  from status [OF _ run] w have upd: "ok w'"
    "updates U (\<lambda>a. with_status a (PlatformApplication.Status ?b)) ?b (view w key) (view w' key)"
    by (simp_all add: knows_def reached_def key)
  have "linear U s (view w' key)"
    by (rule accepted_step [OF _ _ upd(2) assms(2)]) (use w assms(3) in \<open>simp_all add: knows_def reached_def with_status_def\<close>)
  with upd(1) show "touched key s w'"
    by (simp add: touched_def)
qed

section \<open>Runs of the reconciler\<close>

lemma triple_idle_seq:
  "idle key m \<Longrightarrow> lasting key P \<Longrightarrow> (\<And>a. triple P (f a) Q) \<Longrightarrow> triple P (m \<bind> f) Q"
  by (rule triple_bind [OF idle_lasting])

lemma triple_touched_seq:
  "triple P m (\<lambda>_. touched key s) \<Longrightarrow> (\<And>a. idle key (f a)) \<Longrightarrow> triple P (m \<bind> f) (\<lambda>_. touched key s)"
  by (rule triple_bind, assumption) (rule idle_lasting [OF _ lasting_views(2)])

lemma idle_bind: "idle key m \<Longrightarrow> (\<And>a. idle key (f a)) \<Longrightarrow> idle key (m \<bind> f)"
  unfolding idle_def by (blast intro: triple_bind)

lemma idle_parts:
  "idle key (set_status E f a b c app)" "idle key (setConditions E app e)" "idle key (finish E t app planned e)"
  "idle key (status_update_failed E err)" "idle key (fetch_failed E err)" "idle key (return x)"
  "silent eff \<Longrightarrow> idle key (emit eff)" "idle key (time_Now E)" "idle key (updateDeploymentStatus E app)"
  by (intro idle_reading reading_parts reading_emit; assumption?)+

text \<open>The report: the status that is sent is one that the contract allows, whatever could be read.\<close>

lemma triple_report:
  assumes "lasting key P" and "\<And>ready ts. triple P
      (client_StatusUpdate E (AppObj (reported_app ready ts e app))) (\<lambda>_. touched key s)"
  shows "triple P (report_status E t app e) (\<lambda>_. touched key s)"
proof (rule triple_report_rule [where C = "\<lambda>_. True"])
  show "triple P (updateDeploymentStatus E (observe_spec app))
      (\<lambda>app' w. P w \<and> (\<exists>ready. True \<and> app' = with_ready ready (observe_spec app)))"
    by (rule idle_result [OF idle_parts(9) _ assms(1)], rule logs_mono [OF logs_updateDeploymentStatus]) (auto simp: with_ready_def)
  show "triple P (setConditions E app' e) (\<lambda>_. P)" for app'
    by (rule idle_lasting [OF idle_parts(2) assms(1)])
  have "idle key (case p of (serr, obj) \<Rightarrow>
      (case serr of Some err \<Rightarrow> status_update_failed E err | None \<Rightarrow> finish E t (as_app obj) result e))" for p result
    by (auto intro: idle_parts split: prod.split option.split)
  then show "triple P (do {
      (serr, obj) \<leftarrow> client_StatusUpdate E (AppObj (reported_app ready ts e app));
      (case serr of Some err \<Rightarrow> status_update_failed E err
       | None \<Rightarrow> finish E t (as_app obj) (planned_result (with_ready ready (observe_spec app)) e) e) })
      (\<lambda>_. touched key s)" for ready ts
    by (rule triple_touched_seq [OF assms(2)])
qed

lemma triple_live:
  assumes "deployment_key a = key" and "ResourceVersion (meta a) \<in> V" and "live a" and "finalized a"
  shows "triple (knows key s a V) (reconcile_live E t a) (\<lambda>_. touched key s)"
  unfolding reconcile_live_def
proof (rule triple_start_rule [OF idle_lasting [OF idle_parts(1) lasting_views(3)]])
  fix ts
  let ?app = "started_app ts a"
  have key: "deployment_key ?app = key"
    using assms(1) by (simp add: deployment_key_def started_frame)
  have "(AppT, key) \<notin> child_family (deployment_key ?app)"
    by (simp add: key child_family_def)
  then have children: "idle key (reconcileResources E ?app)"
    by (rule idleI [OF faithful_reconcileResources children_confined [OF identity]])
  have send: "triple (knows key s a V) (client_StatusUpdate E (AppObj (reported_app ready ts' e ?app)))
      (\<lambda>_. touched key s)" for ready ts' e
  proof -
    let ?st = "PlatformApplication.Status (reported_app ready ts' e ?app)"
    have "operator_step (Some a) (after_write v (with_status a ?st))" for v
      using operator_step.report [OF assms(3,4) reported_status] assms(4)
      by (auto simp: after_write_def with_status_def finalized_def)
    then show ?thesis
      using triple_StatusUpdate [OF assms(1,2), of ?st] with_status_reported [of ready ts' e ts a] by simp
  qed
  have "triple (knows key s a V) (case r of Panic m \<Rightarrow> return (Panic m)
       | Ret e \<Rightarrow> do { res \<leftarrow> report_status E t ?app e; return (Ret res) }) (\<lambda>_. touched key s)" for r
    by (cases r) (auto intro: triple_touched_seq [OF triple_report [OF lasting_views(3) send] idle_parts(6)] triple_idle_end(2) [OF idle_parts(6)])
  then show "triple (knows key s a V) (do {
      r \<leftarrow> reconcileResources E ?app;
      (case r of Panic m \<Rightarrow> return (Panic m)
       | Ret e \<Rightarrow> do { res \<leftarrow> report_status E t ?app e; return (Ret res) }) }) (\<lambda>_. touched key s)"
    by (rule triple_idle_seq [OF children lasting_views(3)])
qed

lemma triple_deletion:
  assumes "deployment_key a = key" and "ResourceVersion (meta a) \<in> V" and "\<not> live a"
  shows "triple (knows key s a V) (handleDeletion E a) (\<lambda>_. touched key s)"
proof (cases "finalized a")
  case False
  then show ?thesis
    by (auto simp: handleDeletion_def contains finalized_def intro: triple_idle_end idle_parts)
next
  case True
  have sent: "app_meta_update (RemoveFinalizer E) a = with_finalizers (other_finalizers a) a"
    by (simp add: app_meta_update_def remove with_finalizers_def other_finalizers_def)
  have "DeletionTimestamp (meta a) \<noteq> None"
    using assms(3) by (auto simp: live_def Time_IsZero_def)
  then have "operator_step (Some a) (after_write v (with_finalizers (other_finalizers a) a))" for v
    using assms(3) True by (auto simp: after_write_def intro: operator_step.intros)
  note upd = triple_Update [OF assms(1,2) this]
  show ?thesis
    using True unfolding handleDeletion_def sent contains finalized_def
    by (simp only: not_True_eq_False if_False)
      (auto intro!: triple_touched_seq [OF upd] idle_bind idle_parts split: option.split)
qed

lemma triple_adopt:
  assumes "deployment_key a = key" and "ResourceVersion (meta a) \<in> V" and "live a" and "\<not> finalized a"
  shows "triple (knows key s a V) (add_finalizer E a) (\<lambda>_. touched key s)"
proof -
  have sent: "app_meta_update (AddFinalizer E) a = with_finalizers (Finalizers (meta a) @ [finalizerName]) a"
    using assms(4) by (simp add: app_meta_update_def add with_finalizers_def finalized_def)
  have "operator_step (Some a) (after_write v (with_finalizers (Finalizers (meta a) @ [finalizerName]) a))" for v
    using operator_step.adopt [OF assms(3,4)] by (simp add: after_write_def)
  from triple_Update [OF assms(1,2) this] show ?thesis
    unfolding add_finalizer_def sent
    by (rule triple_touched_seq) (auto intro: idle_parts split: option.split)
qed

lemma triple_read:
  "triple (reached key s) (client_Get E key (AppObj zero_PlatformApplication))
     (\<lambda>(err, obj) w. case err of Some e \<Rightarrow> reached key s w
        | None \<Rightarrow> \<exists>a. obj = AppObj a \<and> (\<exists>V. deployment_key a = key \<and> ResourceVersion (meta a) \<in> V \<and> knows key s a V w))"
  unfolding client_Get_def
proof (rule triple_bind [OF triple_emit triple_lift], assumption)
  fix w r w'
  assume w: "reached key s w" and run: "env_Get E key (AppObj zero_PlatformApplication) w = (r, w')"
  have "call E (CallGet AppT key) w w'"
    using call.get [OF run] by simp
  from elsewhere [OF _ this, of key] w have after: "reached key s w'"
    by (auto simp: reached_def intro: others_trans)
  moreover have "\<exists>a V. x = AppObj a \<and> deployment_key a = key \<and> ResourceVersion (meta a) \<in> V \<and>
      later (Some a, V) (view w' key)" if "r = (None, x)" for x
    using read [OF _ run [unfolded that]] w unfolding reached_def by blast
  ultimately show "(\<lambda>(err, obj) w. case err of Some e \<Rightarrow> reached key s w
        | None \<Rightarrow> \<exists>a. obj = AppObj a \<and> (\<exists>V. deployment_key a = key \<and> ResourceVersion (meta a) \<in> V \<and> knows key s a V w)) r w'"
    unfolding knows_def by (auto split: option.split)
qed

lemma triple_found:
  assumes "deployment_key a = key" and "ResourceVersion (meta a) \<in> V"
  shows "triple (knows key s a V)
    (if \<not> Time_IsZero (DeletionTimestamp (meta a)) then do { r \<leftarrow> handleDeletion E a; return (Ret r) }
     else if \<not> ContainsFinalizer E (meta a) finalizerName then do { r \<leftarrow> add_finalizer E a; return (Ret r) }
     else reconcile_live E t a) (\<lambda>_. touched key s)"
  using triple_deletion [OF assms, where s = s] triple_adopt [OF assms, where s = s] triple_live [OF assms, where s = s]
  by (auto simp: live_def finalized_def contains intro!: triple_touched_seq idle_parts)

lemma triple_body: "triple (reached key s) (reconcile_body E key t) (\<lambda>_. touched key s)"
proof (rule triple_body_rule [OF triple_read])
  show "triple (reached key s) (do { r \<leftarrow> fetch_failed E e; return (Ret r) }) (\<lambda>_. touched key s)" for e
    by (intro triple_touched_seq triple_idle_end(1) idle_parts)
  show "triple (\<lambda>w. \<exists>V. deployment_key a = key \<and> ResourceVersion (meta a) \<in> V \<and> knows key s a V w)
      (if \<not> Time_IsZero (DeletionTimestamp (meta a)) then do { r \<leftarrow> handleDeletion E a; return (Ret r) }
       else if \<not> ContainsFinalizer E (meta a) finalizerName then do { r \<leftarrow> add_finalizer E a; return (Ret r) }
       else reconcile_live E t a) (\<lambda>_. touched key s)" for a
  proof (rule triple_ex)
    fix V
    show "triple (\<lambda>w. deployment_key a = key \<and> ResourceVersion (meta a) \<in> V \<and> knows key s a V w)
      (if \<not> Time_IsZero (DeletionTimestamp (meta a)) then do { r \<leftarrow> handleDeletion E a; return (Ret r) }
       else if \<not> ContainsFinalizer E (meta a) finalizerName then do { r \<leftarrow> add_finalizer E a; return (Ret r) }
       else reconcile_live E t a) (\<lambda>_. touched key s)"
      using triple_found [of a key V s t]
      by (cases "deployment_key a = key \<and> ResourceVersion (meta a) \<in> V") (simp_all only: simp_thms, auto simp: triple_def)
  qed
qed

lemma triple_Reconcile: "triple (reached key s) (Reconcile E key) (\<lambda>_. touched key s)"
  by (rule triple_Reconcile_rule [OF idle_lasting [OF idle_parts(8) lasting_views(1)] triple_body])

lemma triple_Reconcile_other: "key \<noteq> req \<Longrightarrow> triple (reached key s) (Reconcile E req) (\<lambda>_. reached key s)"
  by (rule idle_reached [OF idleI [OF faithful_Reconcile Reconcile_confined [OF identity]]])
    (auto simp: mem_family)

end

end
