(* ===== verification/Versioned_Server.thy ===== *)
theory Versioned_Server
  imports Linearization
begin

text \<open>
  The reference server keeps the contract of theory Linearization: it gives every change a version never
  used before, refuses an update made from another version than the stored one, and leaves alone what an
  operation does not name.
\<close>

section \<open>Versions\<close>

lemma digit_char_inj: "m < 10 \<Longrightarrow> n < 10 \<Longrightarrow> digit_char m = digit_char n \<longleftrightarrow> m = n"
  by (metis digit_of_digit_char option.inject)

lemma nat_digits_snoc: "nat_digits n = (if n < 10 then [] else nat_digits (n div 10)) @ [digit_char (n mod 10)]"
  by (subst nat_digits.simps) simp

lemma nat_digits_inj: "nat_digits m = nat_digits n \<longleftrightarrow> m = n"
proof
  show "nat_digits m = nat_digits n \<Longrightarrow> m = n"
  proof (induction m arbitrary: n rule: less_induct)
    case (less m)
    have parts: "(if m < 10 then [] else nat_digits (m div 10)) = (if n < 10 then [] else nat_digits (n div 10))"
      "m mod 10 = n mod 10"
      using less.prems by (simp_all add: nat_digits_snoc [of m] nat_digits_snoc [of n] digit_char_inj del: nat_digits.simps)
    show ?case
    proof (cases "m < 10")
      case True
      with parts(1) have "n < 10" by (auto split: if_splits dest: sym)
      with True parts(2) show ?thesis by simp
    next
      case False
      with parts have "nat_digits (m div 10) = nat_digits (n div 10)" by (simp split: if_splits)
      moreover from False have "m div 10 < m" by simp
      ultimately have "m div 10 = n div 10" by (rule less.IH [rotated])
      with parts(2) show ?thesis by (metis div_mult_mod_eq)
    qed
  qed
qed simp

definition versions :: "server \<Rightarrow> string set" where
  "versions w = insert [] (nat_digits ` {..revision w})"

lemma fresh_version: "nat_digits (Suc (revision w)) \<notin> versions w"
  by (auto simp: versions_def nat_digits_inj)

text \<open>Every stored object has a version that has been given.\<close>

definition stamped :: "server \<Rightarrow> bool" where
  "stamped w \<longleftrightarrow> (\<forall>x \<in> set (objects w). ResourceVersion (meta_of x) \<in> versions w)"

definition app_at :: "server \<Rightarrow> ObjectKey \<Rightarrow> PlatformApplication option" where
  "app_at w key = (case server_lookup w (AppT, key) of Some (AppObj a) \<Rightarrow> Some a | _ \<Rightarrow> None)"

definition server_view :: "server \<Rightarrow> ObjectKey \<Rightarrow> app_view" where
  "server_view w key = (app_at w key, versions w)"

lemma versions_put [simp]: "versions (put x w) = insert (nat_digits (Suc (revision w))) (versions w)"
  by (auto simp: versions_def put_def atMost_Suc)

lemma versions_drop [simp]: "versions (drop_slot k w) = insert (nat_digits (Suc (revision w))) (versions w)"
  by (auto simp: versions_def drop_slot_def atMost_Suc)

lemma stamped_put: "stamped w \<Longrightarrow> stamped (put (with_revision w x) w)"
  by (auto simp: stamped_def) (auto simp: put_def with_revision_def)

lemma stamped_drop: "stamped w \<Longrightarrow> stamped (drop_slot k w)"
  by (auto simp: stamped_def) (auto simp: drop_slot_def)

lemma app_at_put_other: "slot_of x \<noteq> (AppT, key) \<Longrightarrow> app_at (put x w) key = app_at w key"
  by (auto simp: app_at_def)

lemma app_at_put_app: "app_slot a = (AppT, key) \<Longrightarrow> app_at (put (AppObj a) w) key = Some a"
  by (simp add: app_at_def app_slot_def)

lemma app_at_drop: "app_at (drop_slot k w) key = (if k = (AppT, key) then None else app_at w key)"
  by (simp add: app_at_def)

lemma app_at_found:
  "app_at w key = Some a \<longleftrightarrow> server_lookup w (AppT, key) = Some (AppObj a)"
  by (auto simp: app_at_def split: option.splits kobject.splits)

lemma lookup_stored: "server_lookup w k = Some x \<Longrightarrow> x \<in> set (objects w)"
  by (auto simp: server_lookup_def find_Some_iff)

lemma app_at_version:
  assumes "stamped w" and "app_at w key = Some a"
  shows "ResourceVersion (meta a) \<in> versions w"
proof -
  have "AppObj a \<in> set (objects w)"
    using assms(2) by (simp add: app_at_found lookup_stored)
  with assms(1) have "ResourceVersion (meta_of (AppObj a)) \<in> versions w"
    unfolding stamped_def by blast
  then show ?thesis by simp
qed

lemma key_simps [simp]:
  "deployment_key (at_version v a) = deployment_key a" "deployment_key (with_status a st) = deployment_key a"
  "deployment_key (with_finalizers fs a) = deployment_key a"
  by (simp_all add: deployment_key_def at_version_def with_status_def)

lemma app_at_key: "app_at w key = Some a \<Longrightarrow> deployment_key a = key"
  by (auto simp: app_at_found app_slot_def [symmetric] app_slot_key dest!: lookup_keyed)

lemma with_revision_app:
  "with_revision w (AppObj a) = AppObj (at_version (nat_digits (Suc (revision w))) a)"
  by (simp add: with_revision_def at_version_def)

text \<open>Whatever changes gets a new version.\<close>

lemma later_same: "later (x, V) (x, insert v V)" "later (x, V) (None, insert v V)"
  by (auto simp: later_def)

lemma later_put:
  assumes "app_at w' = app_at w"
  shows "later (app_at w key, versions w) (app_at (put (with_revision w x) w') key, insert v (versions w))"
proof (cases "slot_of x = (AppT, key)")
  case True
  then obtain a where a: "x = AppObj a"
    by (cases x) (simp_all add: slot_of_def)
  let ?b = "at_version (nat_digits (Suc (revision w))) a"
  have "app_slot ?b = (AppT, key)"
    using True by (simp add: a app_slot_def [symmetric] app_slot_key)
  then have "app_at (put (with_revision w x) w') key = Some ?b"
    by (simp add: a with_revision_app app_at_put_app)
  with fresh_version [of w] show ?thesis
    by (auto simp: later_def at_version_def)
next
  case False
  with assms show ?thesis
    by (simp add: app_at_put_other later_same)
qed

section \<open>The calls of the operator\<close>

text \<open>An operation that may write the slot \<open>k\<close> only.\<close>

definition on_slot :: "slot option \<Rightarrow> (server \<Rightarrow> 'a \<times> server) \<Rightarrow> bool" where
  "on_slot k f \<longleftrightarrow> (\<forall>w a w'. stamped w \<longrightarrow> f w = (a, w') \<longrightarrow> stamped w' \<and> versions w \<subseteq> versions w' \<and>
     (\<forall>key. later (server_view w key) (server_view w' key)) \<and>
     (\<forall>key. k \<noteq> Some (AppT, key) \<longrightarrow> app_at w' key = app_at w key))"

lemma next_fault_keeps:
  assumes "next_fault w = (f, w')"
  shows "stamped w' = stamped w \<and> versions w' = versions w \<and> app_at w' = app_at w \<and> revision w' = revision w \<and>
    server_lookup w' = server_lookup w \<and> with_revision w' = with_revision w"
proof -
  have same: "objects w' = objects w" "revision w' = revision w"
    using assms by (auto simp: next_fault_def split: list.splits)
  moreover from this have "server_lookup w' = server_lookup w"
    by (simp add: server_lookup_def fun_eq_iff)
  ultimately show ?thesis
    by (simp add: stamped_def versions_def with_revision_def app_at_def fun_eq_iff)
qed

lemma server_on_slot:
  "on_slot None (server_Get key obj)" "on_slot (Some (slot_of obj)) (server_Create obj)"
  "on_slot (Some (slot_of obj)) (server_Patch obj manager)" "on_slot (Some (slot_of obj)) (server_Delete obj)"
  "on_slot None server_Now" "on_slot None (server_Select d)"
proof -
  show "on_slot None (server_Get key obj)"
    by (auto simp: on_slot_def server_Get_def server_view_def dest!: next_fault_keeps split: prod.splits option.splits)
  show "on_slot (Some (slot_of obj)) (server_Create obj)"
    by (auto simp: on_slot_def server_Create_def server_view_def Let_def app_at_put_other
        dest!: next_fault_keeps intro: stamped_put later_put split: prod.splits option.splits)
  show "on_slot (Some (slot_of obj)) (server_Patch obj manager)"
    by (auto simp: on_slot_def server_Patch_def server_view_def Let_def app_at_put_other
        dest!: next_fault_keeps intro: stamped_put later_put split: prod.splits option.splits)
  show "on_slot (Some (slot_of obj)) (server_Delete obj)"
    by (auto simp: on_slot_def server_Delete_def server_view_def app_at_drop later_same
        dest!: next_fault_keeps intro: stamped_drop split: prod.splits option.splits)
  show "on_slot None server_Now" "on_slot None (server_Select d)"
    by (auto simp: on_slot_def server_Now_def server_Select_def server_view_def stamped_def versions_def app_at_def server_lookup_def)
qed

lemma server_write_on_slot:
  assumes "\<And>x. slot_of x = slot_of obj \<Longrightarrow> slot_of (merge x obj) = slot_of obj"
  shows "on_slot (Some (slot_of obj)) (server_write merge obj)"
proof -
  have "slot_of (merge x obj) = slot_of obj" if "server_lookup w (slot_of obj) = Some x" for w x
    using assms lookup_keyed [OF that] by simp
  then show ?thesis
    by (auto simp: on_slot_def server_write_def server_view_def Let_def app_at_put_other app_at_drop later_same
        dest!: next_fault_keeps intro: stamped_put stamped_drop later_put split: prod.splits option.splits if_splits)
qed

text \<open>A write of an application is accepted or changes nothing.\<close>

lemma server_write_updates:
  assumes "stamped w" and "server_write merge (AppObj b) w = (r, w')"
    and "\<And>a. merge (AppObj a) (AppObj b) = AppObj (m a)"
    and "\<And>a. deployment_key a = deployment_key b \<Longrightarrow> deployment_key (m a) = deployment_key b"
  shows "updates U m b (server_view w (deployment_key b)) (server_view w' (deployment_key b))"
proof -
  let ?key = "deployment_key b"
  have slot: "slot_of (AppObj b) = (AppT, ?key)"
    by (simp add: app_slot_def [symmetric] app_slot_key)
  obtain f w1 where fault: "next_fault w = (f, w1)" by (cases "next_fault w")
  note keeps = next_fault_keeps [OF fault]
  then have view: "server_view w1 ?key = server_view w ?key"
    by (simp add: server_view_def)
  have "server_view w' ?key = server_view w ?key \<or> accepted m b (server_view w ?key) (server_view w' ?key)"
  proof (cases "\<exists>a. f = None \<and> app_at w ?key = Some a \<and> ResourceVersion (meta a) = ResourceVersion (meta b)")
    case False
    have other: "ResourceVersion (meta_of x) \<noteq> ResourceVersion (meta b)"
      if "f = None" "server_lookup w (AppT, ?key) = Some x" for x
    proof -
      from lookup_keyed [OF that(2)] have "gotype_of x = AppT" by (simp add: slot_of_def)
      then obtain a where "x = AppObj a" by (cases x) simp_all
      with False that show ?thesis by (auto simp: app_at_found)
    qed
    have "w' = w1"
      using assms(2) other keeps
      by (cases f; cases "server_lookup w (AppT, ?key)") (simp_all add: server_write_def fault slot)
    with view show ?thesis by simp
  next
    case True
    then obtain a where a: "f = None" "app_at w ?key = Some a" "ResourceVersion (meta a) = ResourceVersion (meta b)"
      by blast
    let ?v = "nat_digits (Suc (revision w))"
    have lookup: "server_lookup w1 (AppT, ?key) = Some (AppObj a)"
      using a(2) keeps by (simp add: app_at_found)
    have key: "app_slot (at_version ?v (m a)) = (AppT, ?key)"
      using assms(4) app_at_key [OF a(2)] by (simp add: app_slot_key)
    have "app_at w' ?key = after_write ?v (m a)"
      using assms(2) a(1,3) lookup key
      by (auto simp: server_write_def fault slot Let_def assms(3) keeps with_revision_app after_write_def
          app_at_put_app app_at_drop split: if_splits)
    moreover have "versions w' = insert ?v (versions w)"
      using assms(2) a(1,3) lookup
      by (auto simp: server_write_def fault slot Let_def assms(3) keeps split: if_splits)
    ultimately show ?thesis
      using a(2,3) fresh_version [of w] unfolding accepted_def server_view_def by auto
  qed
  then show ?thesis
    unfolding updates_def by (metis others_refl)
qed

lemma merged_slots:
  "slot_of (keep_status old new) = slot_of new" "slot_of (only_status old new) = slot_of old"
  by (cases old; cases new; simp add: slot_defs)+

lemma writes_on_slot:
  "on_slot (Some (slot_of obj)) (server_write keep_status obj)"
  "on_slot (Some (slot_of obj)) (server_write only_status obj)"
  by (auto intro: server_write_on_slot simp: merged_slots)

lemma on_slot_stamped: "on_slot k f \<Longrightarrow> f w = (a, w') \<Longrightarrow> stamped w \<Longrightarrow> stamped w'"
  unfolding on_slot_def by blast

text \<open>What is not written is not changed, whoever else is there.\<close>

lemma on_slot_others:
  assumes "on_slot k f" and "f w = (a, w')" and "stamped w" and "k \<noteq> Some (AppT, key)"
  shows "stamped w' \<and> others U (server_view w key) (server_view w' key)"
proof -
  from assms have keep: "stamped w'" "versions w \<subseteq> versions w'" "app_at w' key = app_at w key"
    unfolding on_slot_def by blast+
  then have "moves U (server_view w key) (server_view w' key)"
    by (simp add: moves_def server_view_def)
  with keep(1) show ?thesis by (simp add: others_step)
qed

lemma server_read:
  assumes "server_Get key (AppObj o') w = ((None, x), w')"
  obtains a where "x = AppObj a" and "app_at w key = Some a" and "server_view w' key = server_view w key"
proof -
  from assms have lookup: "server_lookup w (AppT, key) = Some x" and view: "server_view w' key = server_view w key"
    by (auto simp: server_Get_def server_view_def dest!: next_fault_keeps split: prod.splits option.splits)
  from lookup_keyed [OF lookup] have "gotype_of x = AppT" by (simp add: slot_of_def)
  then obtain a where "x = AppObj a" by (cases x) simp_all
  with lookup view that show thesis by (simp add: app_at_found)
qed

section \<open>The server alone\<close>

text \<open>Without visitors nobody but the operator changes an application.\<close>

lemma server_elsewhere:
  assumes "stamped w" and "call server_env e w w'" and "write_slot e \<noteq> Some (AppT, key)"
  shows "stamped w' \<and> others nobody (server_view w key) (server_view w' key)"
  using assms(2)
proof (cases rule: call.cases)
  case silent
  with assms(1) show ?thesis by simp
next
  case (get key' obj r)
  show ?thesis
    by (rule on_slot_others [OF server_on_slot(1)]) (use get assms in auto)
next
  case (create obj r)
  show ?thesis
    by (rule on_slot_others [OF server_on_slot(2)]) (use create assms in auto)
next
  case (patch obj r manager)
  show ?thesis
    by (rule on_slot_others [OF server_on_slot(3)]) (use patch assms in auto)
next
  case (update obj r)
  show ?thesis
    by (rule on_slot_others [OF writes_on_slot(1)]) (use update assms in auto)
next
  case (delete obj r)
  show ?thesis
    by (rule on_slot_others [OF server_on_slot(4)]) (use delete assms in auto)
next
  case (status obj r)
  show ?thesis
    by (rule on_slot_others [OF writes_on_slot(2)]) (use status assms in auto)
next
  case (wait d r)
  show ?thesis
    by (rule on_slot_others [OF server_on_slot(6)]) (use wait assms in auto)
qed

lemma server_updates:
  assumes "stamped w"
  shows "server_write keep_status (AppObj b) w = (r, w') \<Longrightarrow>
      updates U (\<lambda>a. with_status b (PlatformApplication.Status a)) b
        (server_view w (deployment_key b)) (server_view w' (deployment_key b))"
    and "server_write only_status (AppObj b) w = (r, w') \<Longrightarrow>
      updates U (\<lambda>a. with_status a (PlatformApplication.Status b)) b
        (server_view w (deployment_key b)) (server_view w' (deployment_key b))"
  by (rule server_write_updates [OF assms], assumption, simp_all add: with_status_def [symmetric])+

interpretation lone: shared_server server_env nobody server_view stamped
proof unfold_locales
  fix w e w' key
  assume "stamped w" "call server_env e w w'" "write_slot e \<noteq> Some (AppT, key)"
  then show "stamped w' \<and> others nobody (server_view w key) (server_view w' key)"
    by (rule server_elsewhere)
next
  fix w t w' key
  assume "stamped w" "env_Now server_env w = (t, w')"
  then show "stamped w' \<and> others nobody (server_view w key) (server_view w' key)"
    using on_slot_others [OF server_on_slot(5)] by simp
next
  fix w key o' x w'
  assume ok: "stamped w" and run: "env_Get server_env key (AppObj o') w = ((None, x), w')"
  then have get: "server_Get key (AppObj o') w = ((None, x), w')" by simp
  obtain a where a: "x = AppObj a" "app_at w key = Some a" "server_view w' key = server_view w key"
    using server_read [OF get] by blast
  with app_at_key [OF a(2)] app_at_version [OF ok a(2)]
  show "\<exists>a V. x = AppObj a \<and> deployment_key a = key \<and> ResourceVersion (meta a) \<in> V \<and>
      later (Some a, V) (server_view w' key)"
    by (intro exI [of _ a] exI [of _ "versions w"]) (simp add: server_view_def later_def)
next
  fix w b r w'
  assume ok: "stamped w" and run: "env_Update server_env (AppObj b) w = (r, w')"
  then have w: "server_write keep_status (AppObj b) w = (r, w')" by simp
  from on_slot_stamped [OF writes_on_slot(1) w ok] server_updates(1) [OF ok w]
  show "stamped w' \<and> updates nobody (\<lambda>a. with_status b (PlatformApplication.Status a)) b
      (server_view w (deployment_key b)) (server_view w' (deployment_key b))" ..
next
  fix w b r w'
  assume ok: "stamped w" and run: "env_StatusUpdate server_env (AppObj b) w = (r, w')"
  then have w: "server_write only_status (AppObj b) w = (r, w')" by simp
  from on_slot_stamped [OF writes_on_slot(2) w ok] server_updates(2) [OF ok w]
  show "stamped w' \<and> updates nobody (\<lambda>a. with_status a (PlatformApplication.Status b)) b
      (server_view w (deployment_key b)) (server_view w' (deployment_key b))" ..
qed (rule server_keeps_identity, simp_all add: server_env_def)

end
