(* ===== verification/Shared_Server.thy ===== *)
theory Shared_Server
  imports Versioned_Server
begin

text \<open>
  The reference server with visitors: before each call of the operator the next visit of a script is made,
  in which a user creates, edits or deletes an application or another replica of the operator writes it, while reads are served from a snapshot that is as old as
  the script has it. It meets the contract of theory Linearization, and on it
  the properties of the operator among others are stated and evaluated.
\<close>

section \<open>Visitors\<close>

datatype visit =
    Create PlatformApplication
  | Edit ObjectKey PlatformApplicationSpec
  | Remove ObjectKey Time
  | Replica ObjectKey int32 "go_error option"
  | CatchUp

definition created :: "PlatformApplication \<Rightarrow> PlatformApplication" where
  "created a = with_status (with_meta ((meta a)\<lparr>Generation := 1, DeletionTimestamp := None\<rparr>) a)
     (PlatformApplication.Status zero_PlatformApplication)"

definition edited :: "PlatformApplicationSpec \<Rightarrow> PlatformApplication \<Rightarrow> PlatformApplication" where
  "edited sp a = with_meta ((meta a)\<lparr>Generation := Generation (meta a) + 1\<rparr>) (with_spec sp a)"

text \<open>What another replica writes: it adopts, reports on or releases the application, as its state calls for.\<close>

definition replica_write :: "int32 \<Rightarrow> go_error option \<Rightarrow> PlatformApplication \<Rightarrow> PlatformApplication" where
  "replica_write ready e a =
     (if live a then
        if finalized a then with_status a (PlatformApplication.Status (reported_app ready (0, 0, 0) e (started_app (0, 0) a)))
        else with_finalizers (Finalizers (meta a) @ [finalizerName]) a
      else with_finalizers (other_finalizers a) a)"

definition put_app :: "PlatformApplication \<Rightarrow> server \<Rightarrow> server" where
  "put_app a w = put (with_revision w (AppObj a)) w"

fun receive :: "visit \<Rightarrow> server \<Rightarrow> server" where
  "receive (Create a) w = (if server_lookup w (app_slot a) = None then put_app (created a) w else w)"
| "receive (Edit key sp) w =
     (case app_at w key of
        Some a \<Rightarrow> if Generation (meta a) <s Generation (meta a) + 1 then put_app (edited sp a) w else w
      | None \<Rightarrow> w)"
| "receive (Remove key t) w =
     (case app_at w key of
        Some a \<Rightarrow>
          if Finalizers (meta a) = [] then drop_slot (AppT, key) w
          else if live a \<and> t \<noteq> 0 then put_app (with_meta ((meta a)\<lparr>DeletionTimestamp := Some t\<rparr>) a) w
          else w
      | None \<Rightarrow> w)"
| "receive (Replica key ready e) w =
     (case app_at w key of
        Some a \<Rightarrow>
          if live a then put_app (replica_write ready e a) w
          else if \<not> finalized a then w
          else if other_finalizers a = [] then drop_slot (AppT, key) w
          else put_app (replica_write ready e a) w
      | None \<Rightarrow> w)"
| "receive CatchUp w = w"

lemma put_app_at:
  "app_slot a = (AppT, key) \<Longrightarrow> app_at (put_app a w) key = Some (at_version (nat_digits (Suc (revision w))) a)"
  "app_slot a \<noteq> (AppT, key) \<Longrightarrow> app_at (put_app a w) key = app_at w key"
  by (simp_all add: put_app_def with_revision_app app_at_put_app app_at_put_other app_slot_def [symmetric])

lemma put_app_moves:
  assumes "deployment_key a = key'"
    and "U (app_at w key') (Some (at_version (nat_digits (Suc (revision w))) a))"
  shows "moves U (server_view w key) (server_view (put_app a w) key)"
proof (cases "key' = key")
  case True
  with assms have "app_slot a = (AppT, key)" by (simp add: app_slot_key)
  with True assms(2) fresh_version [of w] show ?thesis
    by (auto simp: moves_def server_view_def put_app_at) (auto simp: put_app_def at_version_def)
next
  case False
  with assms have "app_slot a \<noteq> (AppT, key)" by (simp add: app_slot_key)
  then show ?thesis
    by (auto simp: moves_def server_view_def put_app_at) (auto simp: put_app_def)
qed

lemma changed_keys [simp]:
  "deployment_key (created a) = deployment_key a" "deployment_key (edited sp a) = deployment_key a"
  "deployment_key (with_meta ((meta a)\<lparr>DeletionTimestamp := t\<rparr>) a) = deployment_key a"
  by (simp_all add: created_def edited_def deployment_key_def with_meta_def with_spec_def with_status_def)

lemma carefulI:
  "user_step x y \<Longrightarrow> (\<And>a b. x = Some a \<Longrightarrow> y = Some b \<Longrightarrow> finalized a \<Longrightarrow> finalized b) \<Longrightarrow> careful x y"
  "user_step x None \<Longrightarrow> careful x None" "operator_step x y \<Longrightarrow> careful x y"
  by (auto simp: careful_def)

text \<open>Each visit is a step of the users, on the application it is about.\<close>

lemma user_steps:
  "careful None (Some (at_version v (created a)))"
  "Generation (meta a) <s Generation (meta a) + 1 \<Longrightarrow> careful (Some a) (Some (at_version v (edited sp a)))"
  "live a \<Longrightarrow> Finalizers (meta a) \<noteq> [] \<Longrightarrow> t \<noteq> 0 \<Longrightarrow>
   careful (Some a) (Some (at_version v (with_meta ((meta a)\<lparr>DeletionTimestamp := Some t\<rparr>) a)))"
proof -
  show "careful None (Some (at_version v (created a)))"
    by (rule carefulI(1) [OF user_step.create]) (simp_all add: created_def with_meta_def with_status_def live_def Time_IsZero_def)
  have "at_version v (edited sp a) =
      with_meta ((meta a)\<lparr>Generation := Generation (meta a) + 1, ResourceVersion := v\<rparr>) (with_spec sp a)"
    by (simp add: at_version_def edited_def with_meta_def with_spec_def)
  then show "careful (Some a) (Some (at_version v (edited sp a)))"
    if "Generation (meta a) <s Generation (meta a) + 1"
    using user_step.edit [of a "(meta a)\<lparr>Generation := Generation (meta a) + 1, ResourceVersion := v\<rparr>" sp] that
    by (intro carefulI(1)) (simp_all add: finalized_def with_meta_def)
  have "at_version v (with_meta ((meta a)\<lparr>DeletionTimestamp := Some t\<rparr>) a) =
      with_meta ((meta a)\<lparr>DeletionTimestamp := Some t, Generation := Generation (meta a), ResourceVersion := v\<rparr>) a"
    by (simp add: at_version_def with_meta_def)
  then show "live a \<Longrightarrow> Finalizers (meta a) \<noteq> [] \<Longrightarrow> t \<noteq> 0 \<Longrightarrow>
      careful (Some a) (Some (at_version v (with_meta ((meta a)\<lparr>DeletionTimestamp := Some t\<rparr>) a)))"
    using user_step.delete_later [of a t "Generation (meta a)" v]
    by (intro carefulI(1)) (simp_all add: finalized_def with_meta_def)
qed

lemma replica_steps:
  "live a \<or> finalized a \<and> other_finalizers a \<noteq> [] \<Longrightarrow>
   operator_step (Some a) (Some (at_version v (replica_write ready e a)))"
  by (auto simp: replica_write_def intro: operator_step.intros reported_status)

lemma replica_key: "deployment_key (replica_write ready e a) = deployment_key a"
  by (simp add: replica_write_def)

lemma created_absent: "server_lookup w (app_slot a) = None \<Longrightarrow> app_at w (deployment_key a) = None"
  by (simp add: app_at_def app_slot_key)

lemma drop_moves:
  assumes "app_at w key' = Some a" and "U (Some a) None"
  shows "moves U (server_view w key) (server_view (drop_slot (AppT, key') w) key)"
  using assms by (auto simp: moves_def server_view_def app_at_drop)

lemma receive_moves: "moves careful (server_view w key) (server_view (receive v w) key)"
proof (cases v)
  case (Create a)
  have "moves careful (server_view w key) (server_view (put_app (created a) w) key)"
    if "server_lookup w (app_slot a) = None"
    by (rule put_app_moves [of _ "deployment_key a"]) (simp_all add: created_absent [OF that] user_steps)
  with Create show ?thesis by simp
next
  case (Edit key' sp)
  have "moves careful (server_view w key) (server_view (put_app (edited sp a) w) key)"
    if "app_at w key' = Some a" "Generation (meta a) <s Generation (meta a) + 1" for a
    by (rule put_app_moves [of _ key']) (use that in \<open>simp_all add: app_at_key user_steps\<close>)
  with Edit show ?thesis by (simp split: option.split)
next
  case (Remove key' t)
  have "moves careful (server_view w key)
      (server_view (put_app (with_meta ((meta a)\<lparr>DeletionTimestamp := Some t\<rparr>) a) w) key)"
    if "app_at w key' = Some a" "live a" "Finalizers (meta a) \<noteq> []" "t \<noteq> 0" for a
    by (rule put_app_moves [of _ key']) (use that in \<open>simp_all add: app_at_key user_steps\<close>)
  with Remove show ?thesis
    by (auto intro: drop_moves carefulI(2) user_step.delete_now split: option.split)
next
  case (Replica key' ready e)
  have "moves careful (server_view w key) (server_view (put_app (replica_write ready e a) w) key)"
    if "app_at w key' = Some a" "live a \<or> finalized a \<and> other_finalizers a \<noteq> []" for a
    by (rule put_app_moves [of _ key']) (use that in \<open>simp_all add: app_at_key replica_key replica_steps carefulI\<close>)
  with Replica show ?thesis
    by (auto intro: drop_moves carefulI(3) operator_step.let_go split: option.split)
qed simp

lemma receive_stamped: "stamped w \<Longrightarrow> stamped (receive v w)"
  by (cases v) (auto simp: put_app_def intro: stamped_put stamped_drop split: option.split)

section \<open>The visited server\<close>

text \<open>The server, the snapshot of it that reads are served from, and the visits to come. The snapshot is as
  old as the last time it caught up.\<close>

type_synonym busy = "server \<times> server \<times> visit list"

fun next_visit :: "busy \<Rightarrow> busy" where
  "next_visit (w, c, []) = (w, c, [])"
| "next_visit (w, c, v # vs) = (receive v w, if v = CatchUp then w else c, vs)"

definition visited :: "(server \<Rightarrow> 'a \<times> server) \<Rightarrow> busy \<Rightarrow> 'a \<times> busy" where
  "visited f b = (case next_visit b of (w, r) \<Rightarrow> (case f w of (a, w') \<Rightarrow> (a, (w', r))))"

definition cached :: "(server \<Rightarrow> 'a \<times> server) \<Rightarrow> busy \<Rightarrow> 'a \<times> busy" where
  "cached f b = (case next_visit b of (w, c, vs) \<Rightarrow> (case f c of (a, c') \<Rightarrow> (a, (w, c', vs))))"

definition busy_env :: "busy env" where
  "busy_env = \<lparr>
     apierr = apierr server_env,
     env_Get = (\<lambda>key obj. cached (server_Get key obj)), env_Create = (\<lambda>obj. visited (server_Create obj)),
     env_Patch = (\<lambda>obj manager. visited (server_Patch obj manager)),
     env_Update = (\<lambda>obj. visited (server_write keep_status obj)), env_Delete = (\<lambda>obj. visited (server_Delete obj)),
     env_StatusUpdate = (\<lambda>obj. visited (server_write only_status obj)),
     env_Now = visited server_Now, env_Select = (\<lambda>d. visited (server_Select d)),
     SetControllerReference = SetControllerReference server_env, DeepEqual = DeepEqual server_env,
     ParseQuantity = ParseQuantity server_env, ContainsFinalizer = ContainsFinalizer server_env,
     AddFinalizer = AddFinalizer server_env, RemoveFinalizer = RemoveFinalizer server_env\<rparr>"

lemma busy_env_sel [simp]:
  "env_Get busy_env = (\<lambda>key obj. cached (server_Get key obj))" "env_Create busy_env = (\<lambda>obj. visited (server_Create obj))"
  "env_Patch busy_env = (\<lambda>obj manager. visited (server_Patch obj manager))"
  "env_Update busy_env = (\<lambda>obj. visited (server_write keep_status obj))"
  "env_Delete busy_env = (\<lambda>obj. visited (server_Delete obj))"
  "env_StatusUpdate busy_env = (\<lambda>obj. visited (server_write only_status obj))"
  "env_Now busy_env = visited server_Now" "env_Select busy_env = (\<lambda>d. visited (server_Select d))"
  "SetControllerReference busy_env = add_owner" "ParseQuantity busy_env = plain_quantity"
  "ContainsFinalizer busy_env = ContainsFinalizer server_env"
  "AddFinalizer busy_env = AddFinalizer server_env" "RemoveFinalizer busy_env = RemoveFinalizer server_env"
  by (simp_all add: busy_env_def)

definition busy_view :: "busy \<Rightarrow> ObjectKey \<Rightarrow> app_view" where
  "busy_view b = server_view (fst b)"

definition busy_ok :: "busy \<Rightarrow> bool" where
  "busy_ok b \<longleftrightarrow> stamped (fst b) \<and> stamped (fst (snd b)) \<and>
     (\<forall>key. later (server_view (fst (snd b)) key) (server_view (fst b) key))"

lemma next_visit_ok:
  assumes "busy_ok b"
  shows "busy_ok (next_visit b) \<and> others careful (busy_view b key) (busy_view (next_visit b) key)"
proof (cases b rule: next_visit.cases)
  case (2 w c v vs)
  have moves: "others careful (server_view w key) (server_view (receive v w) key)" for key
    by (rule others_step [OF receive_moves])
  have "later (server_view c key) (server_view (receive v w) key)" for key
    using assms later_others [OF _ moves] by (simp add: busy_ok_def 2)
  with assms moves show ?thesis
    by (simp add: busy_ok_def busy_view_def 2 receive_stamped)
qed (use assms in simp)

lemma visitedE:
  assumes "visited f b = (a, b')" and "busy_ok b"
  obtains w r w' where "f w = (a, w')" and "busy_ok (w, r)" and "b' = (w', r)"
    and "\<And>key. others careful (busy_view b key) (server_view w key)"
proof -
  obtain w r where n: "next_visit b = (w, r)" by (cases "next_visit b")
  with next_visit_ok [OF assms(2)] assms(1) that [of w "fst b'" r] show thesis
    by (auto simp: visited_def busy_view_def split: prod.splits)
qed

lemma cachedE:
  assumes "cached f b = (a, b')" and "busy_ok b"
  obtains w c vs c' where "f c = (a, c')" and "busy_ok (w, c, vs)" and "b' = (w, c', vs)"
    and "\<And>key. others careful (busy_view b key) (server_view w key)"
proof -
  obtain w c vs where n: "next_visit b = (w, c, vs)" by (cases "next_visit b")
  with next_visit_ok [OF assms(2)] assms(1) that [of c "fst (snd b')" w vs] show thesis
    by (auto simp: cached_def busy_view_def split: prod.splits)
qed

lemma visited_ok: "on_slot k f \<Longrightarrow> visited f b = (a, b') \<Longrightarrow> busy_ok b \<Longrightarrow> busy_ok b'"
  unfolding on_slot_def by (erule (1) visitedE) (auto simp: busy_ok_def intro: later_trans)

lemma visited_on_slot:
  assumes "on_slot k f" and "visited f b = (a, b')" and "busy_ok b" and "k \<noteq> Some (AppT, key)"
  shows "busy_ok b' \<and> others careful (busy_view b key) (busy_view b' key)"
proof -
  obtain w r w' where f: "f w = (a, w')" "busy_ok (w, r)" "b' = (w', r)"
    and visit: "others careful (busy_view b key) (server_view w key)"
    using visitedE [OF assms(2,3)] by metis
  from f(2) have "stamped w" by (simp add: busy_ok_def)
  from on_slot_others [OF assms(1) f(1) this assms(4), where U = careful] visit f(3) visited_ok [OF assms(1-3)]
  show ?thesis
    by (auto simp: busy_view_def intro: others_trans)
qed

text \<open>A read changes nothing, in the snapshot either.\<close>

lemma cached_read:
  assumes "cached (server_Get key' obj) b = (a, b')" and "busy_ok b"
  shows "busy_ok b' \<and> others careful (busy_view b key) (busy_view b' key)"
proof -
  obtain w c vs c' where f: "server_Get key' obj c = (a, c')" "busy_ok (w, c, vs)" "b' = (w, c', vs)"
    and visit: "others careful (busy_view b key) (server_view w key)"
    using cachedE [OF assms] by metis
  from f(1) have "stamped c' = stamped c" "server_view c' = server_view c"
    by (auto simp: server_Get_def server_view_def fun_eq_iff dest!: next_fault_keeps split: prod.splits option.splits)
  with f(2,3) visit show ?thesis
    by (simp add: busy_ok_def busy_view_def)
qed

lemma visited_write:
  assumes "visited (server_write merge (AppObj b)) s = (r, s')" and "busy_ok s"
    and "\<And>a. merge (AppObj a) (AppObj b) = AppObj (m a)"
    and "\<And>a. deployment_key a = deployment_key b \<Longrightarrow> deployment_key (m a) = deployment_key b"
  shows "updates careful m b (busy_view s (deployment_key b)) (busy_view s' (deployment_key b))"
proof -
  obtain w q w' where f: "server_write merge (AppObj b) w = (r, w')" "busy_ok (w, q)" "s' = (w', q)"
    and visit: "others careful (busy_view s (deployment_key b)) (server_view w (deployment_key b))"
    using visitedE [OF assms(1,2)] by metis
  from f(2) have "stamped w" by (simp add: busy_ok_def)
  from server_write_updates [OF this f(1) assms(3,4), where U = careful] visit f(3) show ?thesis
    unfolding updates_def busy_view_def by (auto intro: others_trans)
qed

lemma busy_elsewhere:
  assumes "busy_ok w" and "call busy_env e w w'" and "write_slot e \<noteq> Some (AppT, key)"
  shows "busy_ok w' \<and> others careful (busy_view w key) (busy_view w' key)"
  using assms(2)
proof (cases rule: call.cases)
  case silent
  with assms(1) show ?thesis by simp
next
  case (update obj r)
  show ?thesis
    by (rule visited_on_slot [OF writes_on_slot(1)]) (use update assms in auto)
next
  case (status obj r)
  show ?thesis
    by (rule visited_on_slot [OF writes_on_slot(2)]) (use status assms in auto)
next
  case (get key' obj r)
  show ?thesis
    by (rule cached_read) (use get assms in auto)
next
  case (create obj r)
  show ?thesis
    by (rule visited_on_slot [OF server_on_slot(2)]) (use create assms in auto)
next
  case (patch obj r manager)
  show ?thesis
    by (rule visited_on_slot [OF server_on_slot(3)]) (use patch assms in auto)
next
  case (delete obj r)
  show ?thesis
    by (rule visited_on_slot [OF server_on_slot(4)]) (use delete assms in auto)
next
  case (wait d r)
  show ?thesis
    by (rule visited_on_slot [OF server_on_slot(6)]) (use wait assms in auto)
qed

lemma visited_result: "visited f b = (a, b') \<Longrightarrow> \<exists>w w'. f w = (a, w')" "cached f b = (a, b') \<Longrightarrow> \<exists>w w'. f w = (a, w')"
  by (auto simp: visited_def cached_def split: prod.splits)

lemma busy_identity: "keeps_identity busy_env"
  unfolding keeps_identity_def busy_env_sel
  using keeps_identityD(1-4) [OF server_keeps_identity]
  by (auto dest!: visited_result simp: server_env_def)

interpretation busy: shared_server busy_env careful busy_view busy_ok
proof unfold_locales
  fix w e w' key
  assume "busy_ok w" "call busy_env e w w'" "write_slot e \<noteq> Some (AppT, key)"
  then show "busy_ok w' \<and> others careful (busy_view w key) (busy_view w' key)"
    by (rule busy_elsewhere)
next
  fix w t w' key
  assume "busy_ok w" "env_Now busy_env w = (t, w')"
  then show "busy_ok w' \<and> others careful (busy_view w key) (busy_view w' key)"
    using visited_on_slot [OF server_on_slot(5)] by simp
next
  fix s key o' x s'
  assume ok: "busy_ok s" and run: "env_Get busy_env key (AppObj o') s = ((None, x), s')"
  then obtain w c vs c' where get: "server_Get key (AppObj o') c = ((None, x), c')" "busy_ok (w, c, vs)" "s' = (w, c', vs)"
    using cachedE [of "server_Get key (AppObj o')" s "(None, x)" s'] by (metis busy_env_sel(1))
  from get(2) have c: "stamped c" "later (server_view c key) (server_view w key)"
    by (simp_all add: busy_ok_def)
  obtain a where a: "x = AppObj a" "app_at c key = Some a"
    using server_read [OF get(1)] by blast
  with c get(3) app_at_key [OF a(2)] app_at_version [OF c(1) a(2)]
  show "\<exists>a V. x = AppObj a \<and> deployment_key a = key \<and> ResourceVersion (meta a) \<in> V \<and>
      later (Some a, V) (busy_view s' key)"
    by (intro exI [of _ a] exI [of _ "versions c"]) (simp add: busy_view_def server_view_def)
next
  fix s b r s'
  assume ok: "busy_ok s" and run: "env_Update busy_env (AppObj b) s = (r, s')"
  have "busy_ok s'"
    using run by (intro visited_ok [OF writes_on_slot(1) _ ok]) simp
  moreover have "updates careful (\<lambda>a. with_status b (PlatformApplication.Status a)) b
      (busy_view s (deployment_key b)) (busy_view s' (deployment_key b))"
    using run by (intro visited_write [OF _ ok, where merge = keep_status]) (simp_all add: with_status_def [symmetric])
  ultimately show "busy_ok s' \<and> updates careful (\<lambda>a. with_status b (PlatformApplication.Status a)) b
      (busy_view s (deployment_key b)) (busy_view s' (deployment_key b))" ..
next
  fix s b r s'
  assume ok: "busy_ok s" and run: "env_StatusUpdate busy_env (AppObj b) s = (r, s')"
  have "busy_ok s'"
    using run by (intro visited_ok [OF writes_on_slot(2) _ ok]) simp
  moreover have "updates careful (\<lambda>a. with_status a (PlatformApplication.Status b)) b
      (busy_view s (deployment_key b)) (busy_view s' (deployment_key b))"
    using run by (intro visited_write [OF _ ok, where merge = only_status]) (simp_all add: with_status_def [symmetric])
  ultimately show "busy_ok s' \<and> updates careful (\<lambda>a. with_status a (PlatformApplication.Status b)) b
      (busy_view s (deployment_key b)) (busy_view s' (deployment_key b))" ..
qed (simp_all add: busy_identity server_env_def)

section \<open>The operator among others\<close>

lemma reconcile_linear:
  assumes "shared_server E U view ok" and "ok (outside s)"
    and "run_state (Reconcile E req) s = (r, s')"
  shows "ok (outside s') \<and> linear U (view (outside s) req) (view (outside s') req) \<and>
    (\<forall>key. key = req \<or> others U (view (outside s) key) (view (outside s') key))"
proof -
  have start: "shared_server.reached U view ok key (view (outside s) key) (outside s)" for key
    using assms(2) by (simp add: shared_server.reached_def [OF assms(1)])
  from tripleD [OF shared_server.triple_Reconcile [OF assms(1)] start assms(3)]
  have "ok (outside s') \<and> linear U (view (outside s) req) (view (outside s') req)"
    by (simp add: shared_server.touched_def [OF assms(1)])
  moreover have "others U (view (outside s) key) (view (outside s') key)" if "key \<noteq> req" for key
    using tripleD [OF shared_server.triple_Reconcile_other [OF assms(1) that] start assms(3)]
    by (simp add: shared_server.reached_def [OF assms(1)])
  ultimately show ?thesis by blast
qed

text \<open>C1. Every reconciliation is one atomic step. On every API server with optimistic concurrency, whatever
  users and other controllers do between its calls, whichever calls fail, and however old the version is
  that the cache lets it read, a run of \<open>Reconcile\<close> changes
  the stored application of its request at most once, and that change is a legal step of the operator on
  the application as it was stored at that moment: adopting a live one with the finalizer, reporting on a
  live and adopted one the status its spec and some outcome call for, or releasing one that is being
  deleted. Everything else that happens to the application is done by others, and the stored applications
  of all other keys are changed by others only.\<close>

theorem reconcile_linearizable:
  assumes "shared_server E U view ok" and "ok (outside s)"
    and "run_state (Reconcile E req) s = (r, s')"
  shows "ok (outside s') \<and> linear U (view (outside s) req) (view (outside s') req) \<and>
    (\<forall>key. key = req \<or> others U (view (outside s) key) (view (outside s') key))"
  by (rule reconcile_linear [OF assms])

text \<open>Any number of reconciliations of any applications, one after the other, in any order; a panic ends
  only the run it happens in, as the controller recovers from it.\<close>

fun schedule :: "'w env \<Rightarrow> ObjectKey list \<Rightarrow> ('w world, unit) state" where
  "schedule E [] = return ()"
| "schedule E (req # reqs) = do { r \<leftarrow> Reconcile E req; schedule E reqs }"

text \<open>What every step of the operator and of the others keeps, all the stored applications keep.\<close>

lemma schedule_keeps:
  assumes "shared_server E U view ok" and "\<And>x y. U x y \<Longrightarrow> I x \<Longrightarrow> I y" and "\<And>x y. operator_step x y \<Longrightarrow> I x \<Longrightarrow> I y"
    and "ok (outside s)" and "I (fst (view (outside s) key))"
    and "run_state (schedule E reqs) s = (u, s')"
  shows "I (fst (view (outside s') key))"
  using assms(4-6)
proof (induction reqs arbitrary: s)
  case (Cons req reqs)
  obtain r s1 where run: "run_state (Reconcile E req) s = (r, s1)" by (cases "run_state (Reconcile E req) s")
  note lin = reconcile_linear [OF assms(1) Cons.prems(1) run]
  have "I (fst (view (outside s1) key))"
  proof (cases "key = req")
    case True
    with lin have "linear U (view (outside s) key) (view (outside s1) key)" by simp
    with Cons.prems(2) show ?thesis using linear_keeps [where I = I and U = U] assms(2,3) by blast
  next
    case False
    with lin have "others U (view (outside s) key) (view (outside s1) key)" by blast
    with Cons.prems(2) show ?thesis using others_keep [where I = I and U = U] assms(2) by blast
  qed
  with Cons.IH [of s1] lin run Cons.prems(3) show ?case by simp
qed simp

text \<open>C2. What a stored application says may be relied on at any time, under assumptions that are stated
  here in full. The API server has optimistic concurrency. Others, between any two calls, create
  applications without a status, edit specs, which raises the generation, change any metadata, the
  operator's finalizer included, delete applications, or are other replicas of the operator, which C1 shows to
  make operator steps only; only the operator writes the status. The applications stored at the start are
  sound, for example because there are none. Then after any sequence of reconciliations every stored
  application is sound: no condition type occurs twice; the observed generation is not ahead of the
  generation; a reported application shows exactly one of Ready, Degraded and Progressing as true; and a
  status whose observed generation is current names the version of the current spec and is Ready only with
  the replicas that the current spec asks for. If moreover the others never remove the operator's finalizer,
  and a reported application had it at the start or was being deleted, a reported application has it or is
  being deleted.\<close>

theorem stored_status_trustworthy:
  assumes "shared_server E U view ok" and "\<And>x y. U x y \<Longrightarrow> anyone x y" and "ok (outside s)"
    and "pred_option sound (fst (view (outside s) key))"
    and "run_state (schedule E reqs) s = (u, s')"
  shows "pred_option sound (fst (view (outside s') key)) \<and>
    ((\<forall>x y. U x y \<longrightarrow> careful x y) \<and> pred_option guarded_app (fst (view (outside s) key)) \<longrightarrow>
     pred_option guarded_app (fst (view (outside s') key)))"
proof (intro conjI impI)
  show "pred_option sound (fst (view (outside s') key))"
    using schedule_keeps [where I = "pred_option sound", OF assms(1) _ _ assms(3-5)] anyone_keeps_sound assms(2) anyoneI(2)
    by blast
next
  assume "(\<forall>x y. U x y \<longrightarrow> careful x y) \<and> pred_option guarded_app (fst (view (outside s) key))"
  then show "pred_option guarded_app (fst (view (outside s') key))"
    using schedule_keeps [where I = "pred_option guarded_app", OF assms(1) _ _ assms(3) _ assms(5)] careful_keeps_guarded
      carefulI(3) by blast
qed

section \<open>A run among others\<close>

text \<open>The sample application is created, without finalizer, while the operator starts to reconcile its key.\<close>

definition bare_app :: PlatformApplication where
  "bare_app = created (with_finalizers [] sample_app)"

lemma bare_facts:
  "app_slot bare_app = (AppT, deployment_key sample_app)" "Finalizers (meta bare_app) = []" "DeletionTimestamp (meta bare_app) = None"
  "created bare_app = bare_app"
  by (simp_all add: bare_app_def app_slot_key) (simp_all add: created_def with_meta_def with_finalizers_def with_status_def)

definition visited_world :: "busy world" where
  "visited_world = start_world (empty_server, empty_server, [Create bare_app, CatchUp])"

lemma adopting_run:
  "\<exists>s' a. run_state (Reconcile busy_env (deployment_key sample_app)) visited_world = (Ret (no_requeue, None), s') \<and>
     fst (busy_view (outside s') (deployment_key sample_app)) = Some a \<and> finalized a"
proof -
  let ?key = "deployment_key sample_app"
  let ?w = "put_app bare_app empty_server"
  have calm: "next_fault w = (None, w)" if "faults w = []" for w
    using that by (simp add: next_fault_def)
  have create: "receive (Create bare_app) empty_server = ?w"
    by (simp add: bare_facts server_lookup_def empty_server_def)
  have faults: "faults ?w = []" by (simp add: put_app_def put_def empty_server_def)
  have lookup: "server_lookup ?w (AppT, ?key) = Some (AppObj (at_version ''1'' bare_app))"
    using put_app_at(1) [OF bare_facts(1), of empty_server] app_at_found
    by (simp add: empty_server_def nat_digits.simps digit_char_def)
  have slot: "slot_of (AppObj x) = (AppT, ?key)" if "app_Name x = ''web''" "app_Namespace x = ''prod''" for x
    using that by (simp add: slot_defs deployment_key_def sample_app_def)
  let ?a = "at_version ''1'' bare_app"
  let ?b = "with_finalizers [finalizerName] ?a"
  have slot: "slot_of (AppObj ?a) = (AppT, ?key)" "slot_of (AppObj ?b) = (AppT, ?key)"
    using bare_facts(1) by (simp_all add: app_slot_def [symmetric])
  have sent: "app_meta_update (AddFinalizer server_env) ?a = ?b" "\<not> ContainsFinalizer server_env (meta ?a) finalizerName"
    by (simp_all add: app_meta_update_def server_env_def with_finalizers_def at_version_def bare_facts)
  have same: "keep_status (AppObj ?a) (AppObj ?b) = AppObj ?b"
    by (simp add: with_finalizers_def)
  have clocked: "with_revision (w\<lparr>clock := c\<rparr>) x = with_revision w x" for w c x
    by (simp add: with_revision_def)
  have upd: "server_write keep_status (AppObj ?b) (?w\<lparr>clock := c\<rparr>) =
      ((None, with_revision ?w (AppObj ?b)), put (with_revision ?w (AppObj ?b)) (?w\<lparr>clock := c\<rparr>))" for c
    by (simp add: server_write_def calm faults slot lookup_clock lookup same clocked Let_def bare_facts del: keep_status.simps)
  have final: "app_at (put (with_revision ?w (AppObj ?b)) (?w\<lparr>clock := c\<rparr>)) ?key =
      Some (at_version (nat_digits (Suc (revision ?w))) ?b)" for c
    unfolding with_revision_app by (rule app_at_put_app) (simp add: bare_facts)
  show ?thesis
    by (simp add: Reconcile_def StartSpan_def visited_world_def time_Now_def visited_def cached_def create faults server_Now_def
        reconcile_body_def client_Get_def server_Get_def calm lookup lookup_clock Let_def bare_facts add_finalizer_def
        client_Update_def Time_IsZero_def sent upd busy_view_def server_view_def final finalized_def del: receive.simps(1-3))
qed

lemma visited_start: "busy_ok (outside visited_world)" "fst (busy_view (outside visited_world) key) = None"
  by (simp_all add: visited_world_def busy_ok_def busy_view_def stamped_def server_view_def app_at_def server_lookup_def
      empty_server_def)

theorem reconcile_linearizable_witness:
  "\<exists>s' a. run_state (Reconcile busy_env (deployment_key sample_app)) visited_world = (Ret (no_requeue, None), s') \<and>
     fst (busy_view (outside s') (deployment_key sample_app)) = Some a \<and> finalized a \<and>
     linear careful (busy_view (outside visited_world) (deployment_key sample_app)) (busy_view (outside s') (deployment_key sample_app))"
proof -
  obtain s' a where run: "run_state (Reconcile busy_env (deployment_key sample_app)) visited_world = (Ret (no_requeue, None), s')"
    and stored: "fst (busy_view (outside s') (deployment_key sample_app)) = Some a" "finalized a"
    using adopting_run by blast
  from reconcile_linearizable [OF busy.shared_server_axioms visited_start(1) run] run stored show ?thesis by blast
qed

theorem stored_status_trustworthy_witness:
  "\<exists>u s' a. run_state (schedule busy_env [deployment_key sample_app]) visited_world = (u, s') \<and>
     fst (busy_view (outside s') (deployment_key sample_app)) = Some a \<and> finalized a \<and> sound a \<and> guarded_app a"
proof -
  obtain s' a where run: "run_state (Reconcile busy_env (deployment_key sample_app)) visited_world = (Ret (no_requeue, None), s')"
    and stored: "fst (busy_view (outside s') (deployment_key sample_app)) = Some a" "finalized a"
    using adopting_run by blast
  from run have sched: "run_state (schedule busy_env [deployment_key sample_app]) visited_world = ((), s')" by simp
  from stored_status_trustworthy [OF busy.shared_server_axioms careful_anyone visited_start(1) _ sched, of "deployment_key sample_app"]
    visited_start(2) stored(1) have "sound a" "guarded_app a" by simp_all
  with sched stored show ?thesis by blast
qed

end
