(* ===== verification/Fleet.thy ===== *)
theory Fleet
  imports Shared_Server
begin

text \<open>
  Many applications. On a platform that is up, reconciling any number of them, one after the other, brings
  each of them to its goal and leaves it there, because their families of slots are disjoint.
\<close>

section \<open>One application among many\<close>

text \<open>An application that its next reconciliation can finish.\<close>

definition ready_to_run :: "'w env \<Rightarrow> ('w \<Rightarrow> slot \<Rightarrow> kobject option) \<Rightarrow> PlatformApplication \<Rightarrow> 'w \<Rightarrow> bool" where
  "ready_to_run E lookup app w \<longleftrightarrow>
     lookup w (app_slot app) = Some (AppObj app) \<and> DeletionTimestamp (meta app) = None \<and>
     finalizerName \<in> set (Finalizers (meta app)) \<and> (\<exists>dep. buildDesiredDeployment (ParseQuantity E) app = Ret dep)"

text \<open>An application that is where it is meant to be.\<close>

definition settled ::
    "'w env \<Rightarrow> ('w \<Rightarrow> slot \<Rightarrow> kobject option) \<Rightarrow> (kobject \<Rightarrow> kobject \<Rightarrow> bool) \<Rightarrow> (kobject \<Rightarrow> kobject \<Rightarrow> bool) \<Rightarrow>
     PlatformApplication \<Rightarrow> 'w \<Rightarrow> bool" where
  "settled E lookup covers owned_by app w \<longleftrightarrow>
     (\<exists>dep res. buildDesiredDeployment (ParseQuantity E) app = Ret dep \<and> reconciled lookup covers owned_by app dep res w)"

text \<open>Both depend on the application's own family of slots.\<close>

definition same_family :: "('w \<Rightarrow> slot \<Rightarrow> kobject option) \<Rightarrow> PlatformApplication \<Rightarrow> 'w \<Rightarrow> 'w \<Rightarrow> bool" where
  "same_family lookup app w w' \<longleftrightarrow> (\<forall>k \<in> family (deployment_key app). lookup w' k = lookup w k)"

lemma ready_cong: "same_family lookup app w w' \<Longrightarrow> ready_to_run E lookup app w' = ready_to_run E lookup app w"
  using app_in_family [of app] by (simp add: same_family_def ready_to_run_def del: split_paired_All)

lemma settled_cong:
  assumes "same_family lookup app w w'" and "settled E lookup covers owned_by app w"
  shows "settled E lookup covers owned_by app w'"
proof -
  from assms(2) obtain dep res where dep: "buildDesiredDeployment (ParseQuantity E) app = Ret dep"
    and rec: "reconciled lookup covers owned_by app dep res w"
    unfolding settled_def by blast
  have children: "fst c \<in> family (deployment_key app)" if "c \<in> set (desired_children app dep)" for c
    using that children_in_family [OF dep] by (metis imageI insertI2)
  have dep_slot: "(DeploymentT, deployment_key app) \<in> family (deployment_key app)"
    by (simp add: mem_family)
  have same: "lookup w' k = lookup w k" if "k \<in> family (deployment_key app)" for k
    using assms(1) that unfolding same_family_def by blast
  have "as_wanted lookup covers owned_by owner c w' = as_wanted lookup covers owned_by owner c w"
    if "c \<in> set (desired_children app dep)" for c owner
    unfolding as_wanted_def same [OF children [OF that]] ..
  then have "reconciled lookup covers owned_by app dep res w'"
    using rec unfolding reconciled_def by (simp add: same [OF dep_slot] same [OF app_in_family])
  with dep show ?thesis unfolding settled_def by blast
qed

lemma one_settles:
  assumes "platform E lookup covers owned_by up" and "up (outside s)" and "ready_to_run E lookup app (outside s)"
    and "run_state (Reconcile E (deployment_key app)) s = (r, s')"
  shows "up (outside s') \<and> settled E lookup covers owned_by app (outside s') \<and>
    (\<forall>other. deployment_key other \<noteq> deployment_key app \<longrightarrow> same_family lookup other (outside s) (outside s'))"
proof -
  from assms(3) obtain dep where dep: "buildDesiredDeployment (ParseQuantity E) app = Ret dep"
    and stored: "lookup (outside s) (app_slot app) = Some (AppObj app)" "DeletionTimestamp (meta app) = None"
      "finalizerName \<in> set (Finalizers (meta app))"
    unfolding ready_to_run_def by blast
  from live_run [OF assms(1,2) stored dep assms(4)] obtain res where run: "up (outside s')"
    "reconciled lookup covers owned_by app dep res (outside s')"
    and frame: "\<forall>k. k \<notin> family (deployment_key app) \<longrightarrow> lookup (outside s') k = lookup (outside s) k"
    unfolding platform.live_post_def [OF assms(1)] children_in_family [OF dep] by blast
  have "same_family lookup other (outside s) (outside s')" if "deployment_key other \<noteq> deployment_key app" for other
  proof -
    have "k \<notin> family (deployment_key app)" if "k \<in> family (deployment_key other)" for k
      using families_apart [of "deployment_key other" "deployment_key app"] that \<open>deployment_key other \<noteq> _\<close> by blast
    with frame show ?thesis unfolding same_family_def by blast
  qed
  with run dep show ?thesis
    unfolding settled_def by blast
qed

section \<open>The fleet\<close>

lemma schedule_settles:
  assumes "platform E lookup covers owned_by up" and "up (outside s)"
    and "distinct (map deployment_key apps)" and "\<forall>app \<in> set apps. ready_to_run E lookup app (outside s)"
    and "run_state (schedule E (map deployment_key apps)) s = (u, s')"
  shows "up (outside s') \<and> (\<forall>app \<in> set apps. settled E lookup covers owned_by app (outside s')) \<and>
    (\<forall>other. deployment_key other \<notin> deployment_key ` set apps \<longrightarrow> same_family lookup other (outside s) (outside s'))"
  using assms(2-5)
proof (induction apps arbitrary: s)
  case Nil
  then show ?case by (simp add: same_family_def)
next
  case (Cons app apps)
  obtain r s1 where run: "run_state (Reconcile E (deployment_key app)) s = (r, s1)"
    by (cases "run_state (Reconcile E (deployment_key app)) s")
  have "ready_to_run E lookup app (outside s)"
    using Cons.prems(3) by simp
  note first = one_settles [OF assms(1) Cons.prems(1) this run]
  have rest: "run_state (schedule E (map deployment_key apps)) s1 = (u, s')"
    using Cons.prems(4) run by simp
  have others: "deployment_key other \<noteq> deployment_key app" if "other \<in> set apps" for other
    using Cons.prems(2) that by (auto simp: image_iff)
  then have "\<forall>other \<in> set apps. ready_to_run E lookup other (outside s1)"
    using first Cons.prems(3) ready_cong by (metis list.set_intros(2))
  note later = Cons.IH [OF conjunct1 [OF first] _ this rest]
  have apart: "deployment_key app \<notin> deployment_key ` set apps"
    using Cons.prems(2) by simp
  have tail: "up (outside s')" "\<forall>app \<in> set apps. settled E lookup covers owned_by app (outside s')"
    "\<And>other. deployment_key other \<notin> deployment_key ` set apps \<Longrightarrow> same_family lookup other (outside s1) (outside s')"
    using later Cons.prems(2) by auto
  have "settled E lookup covers owned_by app (outside s')"
    using settled_cong [OF tail(3) [OF apart]] first by blast
  moreover have "same_family lookup other (outside s) (outside s')"
    if "deployment_key other \<notin> deployment_key ` set (app # apps)" for other
  proof -
    have "same_family lookup other (outside s) (outside s1)" "same_family lookup other (outside s1) (outside s')"
      using that first tail(3) by simp_all
    then show ?thesis by (simp add: same_family_def del: split_paired_All)
  qed
  ultimately show ?case using tail by simp
qed



end
