(* ===== verification/Recovery.thy ===== *)
theory Recovery
  imports Fleet
begin

text \<open>
  Outages. The locale joins the platform and the shared server with a budget of trouble: as long as it is
  not used up, calls may fail, or succeed, or take effect without saying so; every read uses up some of it,
  and when nothing is left the server is up. An application that is reconciled again and again gets through
  every such outage and is settled soon after its end.
\<close>

text \<open>The application is stored, with the spec of \<open>app\<close>, and is not being deleted.\<close>

definition keeps_spec :: "('w \<Rightarrow> slot \<Rightarrow> kobject option) \<Rightarrow> PlatformApplication \<Rightarrow> PlatformApplication \<Rightarrow> 'w \<Rightarrow> bool" where
  "keeps_spec lookup app a w \<longleftrightarrow>
     lookup w (AppT, deployment_key app) = Some (AppObj a) \<and> same_spec a app \<and> DeletionTimestamp (meta a) = None"

text \<open>The operator alone never changes the spec of a live application, nor takes its finalizer away.\<close>

lemma operator_keeps_spec:
  assumes "operator_step (Some a) y" and "DeletionTimestamp (meta a) = None"
  shows "\<exists>b. y = Some b \<and> same_spec b a \<and> DeletionTimestamp (meta b) = None \<and> (finalized a \<longrightarrow> finalized b)"
  using assms
  by (cases rule: operator_step.cases)
    (auto simp: live_def Time_IsZero_def same_spec_def finalized_def at_version_def with_status_def with_finalizers_def)

lemma others_nobody: "others nobody s t \<Longrightarrow> fst t = fst s"
  unfolding others_def by (induction rule: rtranclp_induct) (auto simp: moves_def nobody_def)

lemma linear_nobody: "linear nobody s t \<Longrightarrow> fst t = fst s \<or> operator_step (fst s) (fst t)"
  unfolding linear_def moves_def by (auto dest!: others_nobody)

lemma same_spec_trans: "same_spec x y \<Longrightarrow> same_spec y z \<Longrightarrow> same_spec x z"
  by (simp add: same_spec_def)

lemma same_spec_key: "same_spec x y \<Longrightarrow> deployment_key x = deployment_key y"
  by (simp add: same_spec_def deployment_key_def)

locale recovering_server = platform E lookup covers owned_by up + shared: shared_server E nobody view ok
  for E :: "'w env"
    and lookup :: "'w \<Rightarrow> slot \<Rightarrow> kobject option"
    and covers :: "kobject \<Rightarrow> kobject \<Rightarrow> bool"
    and owned_by :: "kobject \<Rightarrow> kobject \<Rightarrow> bool"
    and up :: "'w \<Rightarrow> bool"
    and view :: "'w \<Rightarrow> ObjectKey \<Rightarrow> app_view"
    and ok :: "'w \<Rightarrow> bool" +
  fixes debt :: "'w \<Rightarrow> nat"
  assumes view_lookup: "fst (view w key) = Some a \<longleftrightarrow> lookup w (AppT, key) = Some (AppObj a)"
    and debt_call: "call E e w w' \<Longrightarrow> debt w' \<le> debt w"
    and debt_read: "call E (CallGet ty key) w w' \<Longrightarrow> debt w \<noteq> 0 \<Longrightarrow> debt w' < debt w"
    and debt_now: "env_Now E w = (t, w') \<Longrightarrow> debt w' \<le> debt w"
    and recovered: "debt w = 0 \<Longrightarrow> up w"
begin

lemma debt_run:
  assumes "happens E w es w'"
  shows "debt w' \<le> debt w - (if list_ex is_get es then 1 else 0)"
  using assms
proof (induction rule: happens.induct)
  case (clock w t w' es w'')
  with debt_now [OF clock.hyps(1)] show ?case by (auto split: if_splits)
next
  case (call e w w' es w'')
  show ?case
  proof (cases "is_get e")
    case True
    then obtain t key where "e = CallGet t key" by (cases e) simp_all
    with call.IH debt_read debt_call [OF call.hyps(1)] call.hyps(1) show ?thesis
      by (cases "debt w = 0") (force split: if_splits)+
  next
    case False
    with call.IH debt_call [OF call.hyps(1)] show ?thesis by (auto split: if_splits)
  qed
qed simp

text \<open>Every run uses up some of the trouble.\<close>

lemma run_uses_debt:
  assumes "run_state (Reconcile E req) s = (r, s')"
  shows "debt (outside s') \<le> debt (outside s) - 1"
proof -
  obtain es where es: "log s' = log s @ es" "happens E (outside s) es (outside s')"
    using faithfulD [OF faithful_Reconcile assms] .
  obtain es' fs where "log s' = log s @ es'" "es' = reconcile_log req fs"
    using logsD [OF logs_Reconcile [OF sub_errors_True] assms] by blast
  with es(1) have "es = reconcile_log req fs" by simp
  then have "list_ex is_get es" by (simp add: reconcile_log_def)
  with debt_run [OF es(2)] show ?thesis by simp
qed

lemma run_keeps_spec:
  assumes "ok (outside s)" and "keeps_spec lookup app a (outside s)"
    and "run_state (Reconcile E (deployment_key app)) s = (r, s')"
  shows "ok (outside s') \<and> (\<exists>b. keeps_spec lookup app b (outside s') \<and> (finalized a \<longrightarrow> finalized b))"
proof -
  let ?key = "deployment_key app"
  have view: "fst (view (outside s) ?key) = Some a"
    using assms(2) by (simp add: keeps_spec_def view_lookup)
  note lin = reconcile_linear [OF shared.shared_server_axioms assms(1,3)]
  from linear_nobody [OF conjunct1 [OF conjunct2 [OF lin]]]
  have "\<exists>b. fst (view (outside s') ?key) = Some b \<and> same_spec b a \<and> DeletionTimestamp (meta b) = None \<and> (finalized a \<longrightarrow> finalized b)"
    using operator_keeps_spec [of a] assms(2) by (auto simp: view keeps_spec_def same_spec_def)
  with lin assms(2) show ?thesis
    by (auto simp: keeps_spec_def view_lookup intro: same_spec_trans)
qed

text \<open>The outage: as many runs as there is trouble.\<close>

lemma outage_ends:
  assumes "ok (outside s)" and "keeps_spec lookup app a (outside s)"
    and "run_state (schedule E (replicate n (deployment_key app))) s = (u, s')"
  shows "ok (outside s') \<and> (\<exists>b. keeps_spec lookup app b (outside s')) \<and> debt (outside s') \<le> debt (outside s) - n"
  using assms
proof (induction n arbitrary: s a)
  case (Suc n)
  obtain r s1 where run: "run_state (Reconcile E (deployment_key app)) s = (r, s1)"
    by (cases "run_state (Reconcile E (deployment_key app)) s")
  from run_keeps_spec [OF Suc.prems(1,2) run] obtain b where b: "ok (outside s1)" "keeps_spec lookup app b (outside s1)"
    by blast
  from Suc.IH [OF b] Suc.prems(3) run run_uses_debt [OF run] show ?case by auto
qed (auto simp: keeps_spec_def)

text \<open>After the outage one run adopts the application if need be, and the next one settles it.\<close>

lemma adopted_after_outage:
  assumes "ok (outside s)" and "keeps_spec lookup app a (outside s)" and "debt (outside s) = 0"
    and "run_state (Reconcile E (deployment_key app)) s = (r, s')"
  shows "ok (outside s') \<and> (\<exists>b. keeps_spec lookup app b (outside s') \<and> finalized b)"
proof (cases "finalized a")
  case True
  with run_keeps_spec [OF assms(1,2,4)] show ?thesis by blast
next
  case False
  have key: "deployment_key a = deployment_key app"
    using assms(2) by (simp add: keeps_spec_def same_spec_key)
  have stored: "lookup (outside s) (app_slot a) = Some (AppObj a)" "DeletionTimestamp (meta a) = None"
    using assms(2) by (simp_all add: keeps_spec_def app_slot_key key)
  have calm: "calm (lookup (outside s)) (outside s)"
    by (simp add: calm_def recovered [OF assms(3)])
  from tripleD [OF triple_Reconcile_new [where L = "lookup (outside s)", OF stored] calm, unfolded key, OF _ assms(4)] False
  obtain v where "lookup (outside s') (app_slot a) =
      Some (AppObj (at_version v (with_finalizers (Finalizers (meta a) @ [finalizerName]) a)))"
    by (auto simp: finalized_def calm_def)
  then have "keeps_spec lookup app (at_version v (with_finalizers (Finalizers (meta a) @ [finalizerName]) a)) (outside s')"
    using assms(2) by (simp add: keeps_spec_def app_slot_key key) (simp add: same_spec_def at_version_def with_finalizers_def)
  moreover have "finalized (at_version v (with_finalizers (Finalizers (meta a) @ [finalizerName]) a))"
    by (simp add: finalized_def)
  ultimately show ?thesis
    using run_keeps_spec [OF assms(1,2,4)] by blast
qed

lemma settled_after_outage:
  assumes "keeps_spec lookup app a (outside s)" and "finalized a" and "debt (outside s) = 0"
    and "buildDesiredDeployment (ParseQuantity E) app = Ret dep"
    and "run_state (Reconcile E (deployment_key app)) s = (r, s')"
  shows "settled E lookup covers owned_by a (outside s')"
proof -
  have same: "same_spec a app" using assms(1) by (simp add: keeps_spec_def)
  note key = same_spec_key [OF same]
  have "ready_to_run E lookup a (outside s)"
    using assms(1,2,4) by (simp add: ready_to_run_def keeps_spec_def finalized_def app_slot_key key children_cong(1) [OF same])
  from one_settles [OF platform_axioms recovered [OF assms(3)] this] assms(5) key show ?thesis by auto
qed

lemma schedule_append:
  "schedule F (reqs @ reqs') = do { schedule F reqs; schedule F reqs' }"
  by (induction reqs) simp_all

lemma heals:
  assumes "ok (outside s)" and "keeps_spec lookup app a (outside s)"
    and "buildDesiredDeployment (ParseQuantity E) app = Ret dep" and "debt (outside s) \<le> n"
  shows "\<exists>s' b. run_state (schedule E (replicate (n + 2) (deployment_key app))) s = ((), s') \<and> same_spec b app \<and>
    settled E lookup covers owned_by b (outside s')"
proof -
  let ?key = "deployment_key app"
  obtain u s1 where run1: "run_state (schedule E (replicate n ?key)) s = (u, s1)"
    by (cases "run_state (schedule E (replicate n ?key)) s")
  obtain r2 s2 where run2: "run_state (Reconcile E ?key) s1 = (r2, s2)" by (cases "run_state (Reconcile E ?key) s1")
  obtain r3 s3 where run3: "run_state (Reconcile E ?key) s2 = (r3, s3)" by (cases "run_state (Reconcile E ?key) s2")
  from outage_ends [OF assms(1,2) run1] assms(4) obtain a1 where a1: "ok (outside s1)" "keeps_spec lookup app a1 (outside s1)"
    and debt: "debt (outside s1) = 0"
    by auto
  from adopted_after_outage [OF a1 debt run2] obtain a2 where a2: "keeps_spec lookup app a2 (outside s2)" "finalized a2"
    by blast
  have "debt (outside s2) = 0" using run_uses_debt [OF run2] debt by simp
  from settled_after_outage [OF a2 this assms(3) run3] have settled: "settled E lookup covers owned_by a2 (outside s3)" .
  have "replicate (n + 2) ?key = replicate n ?key @ [?key, ?key]"
    using replicate_add [of n 2 ?key] by (simp add: numeral_2_eq_2)
  then have "run_state (schedule E (replicate (n + 2) ?key)) s = ((), s3)"
    using run1 run2 run3 by (simp add: schedule_append)
  with settled a2(1) show ?thesis by (auto simp: keeps_spec_def)
qed

end

section \<open>The reference server recovers\<close>

text \<open>Its trouble is the script of faults; every call of the API uses up one entry.\<close>

definition server_debt :: "server \<Rightarrow> nat" where
  "server_debt w = length (faults w)"

lemma next_fault_debt: "next_fault w = (f, w') \<Longrightarrow> server_debt w' = server_debt w - 1"
  by (auto simp: next_fault_def server_debt_def split: list.splits)

lemma debt_simps [simp]:
  "server_debt (put x w) = server_debt w" "server_debt (drop_slot k w) = server_debt w"
  "server_debt (w\<lparr>clock := t\<rparr>) = server_debt w"
  by (simp_all add: server_debt_def put_def drop_slot_def)

lemma server_call_debt:
  assumes "call server_env e w w'"
  shows "server_debt w' \<le> server_debt w - (if is_get e then 1 else 0)"
  using assms
proof (cases rule: call.cases)
  case silent
  then show ?thesis by (cases e) simp_all
qed (auto simp: server_defs Let_def dest!: next_fault_debt split: prod.splits option.splits if_splits)

interpretation recovering: recovering_server server_env server_lookup server_covers server_owned_by server_up
    server_view stamped server_debt
proof unfold_locales
  show "fst (server_view w key) = Some a \<longleftrightarrow> server_lookup w (AppT, key) = Some (AppObj a)" for w key a
    by (simp add: server_view_def app_at_found)
  show "server_debt w' \<le> server_debt w" if "call server_env e w w'" for e w w'
    using server_call_debt [OF that] by (simp split: if_splits)
  show "server_debt w' < server_debt w" if "call server_env (CallGet t key) w w'" "server_debt w \<noteq> 0" for t key w w'
    using server_call_debt [OF that(1)] that(2) by simp
  show "server_debt w' \<le> server_debt w" if "env_Now server_env w = (t, w')" for t w w'
    using that by (auto simp: server_Now_def)
  show "server_up w" if "server_debt w = 0" for w
    using that by (simp add: server_debt_def server_up_def)
qed

text \<open>C7. The operator heals. When the API server is in trouble for a bounded number of calls, with any calls
  failing, whether they took effect or not, an application that is not being deleted, is not edited, and
  whose Deployment can be built, is settled after as many reconciliations as there is trouble and two more:
  one for the finalizer, one for the children and the status.\<close>

theorem operator_heals:
  assumes "recovering_server E lookup covers owned_by up view ok debt" and "ok (outside s)"
    and "lookup (outside s) (app_slot app) = Some (AppObj app)" and "DeletionTimestamp (meta app) = None"
    and "buildDesiredDeployment (ParseQuantity E) app = Ret dep" and "debt (outside s) \<le> n"
  shows "\<exists>s' a. run_state (schedule E (replicate (n + 2) (deployment_key app))) s = ((), s') \<and> same_spec a app \<and>
    settled E lookup covers owned_by a (outside s')"
proof (rule recovering_server.heals [OF assms(1,2) _ assms(5,6)])
  show "keeps_spec lookup app app (outside s)"
    using assms(3,4) by (simp add: keeps_spec_def app_slot_key same_spec_def)
qed

text \<open>The sample application during an outage of three calls: a timeout, a success, a conflict.\<close>

theorem operator_heals_witness:
  "\<exists>s s' a. faults (outside s) = [Some (''Timeout'', ''''), None, Some (''Conflict'', '''')] \<and>
     run_state (schedule server_env (replicate 5 (deployment_key sample_app))) s = ((), s') \<and> same_spec a sample_app \<and>
     settled server_env server_lookup server_covers server_owned_by a (outside s')"
proof -
  let ?w = "(put (AppObj sample_app) empty_server)\<lparr>faults := [Some (''Timeout'', ''''), None, Some (''Conflict'', '''')]\<rparr>"
  let ?s = "start_world ?w"
  have lookup: "server_lookup (outside ?s) (app_slot sample_app) = Some (AppObj sample_app)"
    by (simp add: server_lookup_def put_def app_slot_def)
  have ok: "stamped (outside ?s)"
    by (simp add: stamped_def put_def empty_server_def sample_app_def zero_ObjectMeta_def versions_def)
  obtain dep where dep: "buildDesiredDeployment (ParseQuantity server_env) sample_app = Ret dep"
    using sample_builds by blast
  have sum: "(3 :: nat) + 2 = 5" by simp
  have "server_debt (outside ?s) \<le> 3" by (simp add: server_debt_def)
  from operator_heals [OF recovering.recovering_server_axioms ok lookup sample_meta(1) dep this]
  have "\<exists>s' a. run_state (schedule server_env (replicate 5 (deployment_key sample_app))) ?s = ((), s') \<and>
      same_spec a sample_app \<and> settled server_env server_lookup server_covers server_owned_by a (outside s')"
    by (simp only: sum)
  moreover have "faults (outside ?s) = [Some (''Timeout'', ''''), None, Some (''Conflict'', '''')]" by simp
  ultimately show ?thesis by blast
qed

end
