(* ===== verification/Quiescence.thy ===== *)
theory Quiescence
  imports Versioned_Server Operation
begin

text \<open>
  When the operator falls silent. A reconciliation that asks for no requeue and returns no error is the last
  one until something changes, so it must not leave work behind. The locale adds to theory Cluster what an
  acknowledged write of the application promises; calls may still fail at any time, with or without effect,
  and then the operator may not fall silent.
\<close>

section \<open>The goal\<close>

text \<open>The count of ready replicas that is reported: of the stored Deployment, or of the old status when the
  Deployment could not be read.\<close>

definition count_of :: "(slot \<Rightarrow> kobject option) \<Rightarrow> PlatformApplication \<Rightarrow> int32 \<Rightarrow> bool" where
  "count_of L app ready \<longleftrightarrow>
     (\<exists>d. L (DeploymentT, deployment_key app) = Some d \<and> ready = as_deployment_status d) \<or>
     ready = PlatformApplicationStatus.ReadyReplicas (PlatformApplication.Status app)"

text \<open>A live application at rest: it has the children that it asks for, and its stored status says that it is
  ready, with enough replicas.\<close>

definition at_rest ::
    "'w env \<Rightarrow> ('w \<Rightarrow> slot \<Rightarrow> kobject option) \<Rightarrow> (kobject \<Rightarrow> kobject \<Rightarrow> bool) \<Rightarrow> (kobject \<Rightarrow> kobject \<Rightarrow> bool) \<Rightarrow>
     PlatformApplication \<Rightarrow> 'w \<Rightarrow> bool" where
  "at_rest E lookup covers owned_by app w \<longleftrightarrow>
     (\<exists>dep ready st v owner_st.
        buildDesiredDeployment (ParseQuantity E) app = Ret dep \<and>
        (\<forall>c \<in> set (desired_children app dep). as_wanted lookup covers owned_by (AppObj (with_status app owner_st)) c w) \<and>
        lookup w (app_slot app) = Some (AppObj (at_version v (with_status app st))) \<and>
        status_contract app ready False st \<and> Min (Replicas (PlatformApplication.Spec app)) \<le>s ready \<and>
        count_of (lookup w) app ready)"

text \<open>The application of a request is where it need not be reconciled again: it is not stored, or was let
  go, or has just got its finalizer, which is a change that starts the next reconciliation, or is at rest.\<close>

definition no_work_left ::
    "'w env \<Rightarrow> ('w \<Rightarrow> slot \<Rightarrow> kobject option) \<Rightarrow> (kobject \<Rightarrow> kobject \<Rightarrow> bool) \<Rightarrow> (kobject \<Rightarrow> kobject \<Rightarrow> bool) \<Rightarrow>
     (slot \<Rightarrow> kobject option) \<Rightarrow> ObjectKey \<Rightarrow> 'w \<Rightarrow> bool" where
  "no_work_left E lookup covers owned_by L key w \<longleftrightarrow>
     (case L (AppT, key) of
        None \<Rightarrow> lookup w = L
      | Some x \<Rightarrow>
          (\<exists>a. x = AppObj a \<and>
             (if live a then
                if finalized a then at_rest E lookup covers owned_by a w
                else \<exists>v. lookup w = L((AppT, key) \<mapsto>
                  AppObj (at_version v (with_finalizers (Finalizers (meta a) @ [finalizerName]) a)))
              else
                if finalized a then \<exists>v. lookup w = L((AppT, key) :=
                  map_option AppObj (after_write v (with_finalizers (other_finalizers a) a)))
                else lookup w = L)))"

text \<open>The count of a Deployment that cannot be read is the old one, for whatever reason the read failed.\<close>

lemma unread_count_kept:
  "run_state (client_Get E (deployment_key app) (DeploymentObj zero_Deployment)) s = ((Some e, x), s') \<Longrightarrow>
   run_state (updateDeploymentStatus E app) s = (app, s')"
  by (simp add: updateDeploymentStatus_def deployment_key_def)

section \<open>What the results say\<close>

lemma retry_not_silent: "retry_policy err \<noteq> (no_requeue, None)"
  by (auto simp: retry_policy_def delay_defs split: option.splits ReconcileErrorClass.splits)

lemma finish_silent: "logs (\<lambda>r _. r = (no_requeue, None) \<longrightarrow> e = None \<and> planned = no_requeue) (finish E t app planned e)"
proof (rule logs_mono [OF logs_finish], intro impI)
  fix r es
  assume "finish_trace (apierr E) planned e r es" and "r = (no_requeue, None)"
  then show "e = None \<and> planned = no_requeue"
    by (cases rule: finish_trace.cases) (auto simp: delay_defs retry_not_silent dest: sym split: if_splits)
qed

lemma failed_silent: "logs (\<lambda>r _. r \<noteq> (no_requeue, None)) (status_update_failed E err)"
  by (simp add: status_update_failed_def logs_def delay_defs)

lemma fetch_silent: "logs (\<lambda>r _. r = (no_requeue, None) \<longrightarrow> IsNotFound (apierr E) err) (fetch_failed E err)"
  by (simp add: fetch_failed_def observe_defs logs_def)

lemma planned_silent: "planned_result app None = no_requeue \<longleftrightarrow> all_ready app"
  by (simp add: planned_result_def delay_defs)

lemma triple_Ret: "triple P m (\<lambda>r. Q (Ret r)) \<Longrightarrow> triple P (do { r \<leftarrow> m; return (Ret r) }) Q"
  by (erule triple_bind) (rule triple_return)

section \<open>The contract\<close>

locale acknowledging_server = api_server E lookup covers owned_by
  for E :: "'w env"
    and lookup :: "'w \<Rightarrow> slot \<Rightarrow> kobject option"
    and covers :: "kobject \<Rightarrow> kobject \<Rightarrow> bool"
    and owned_by :: "kobject \<Rightarrow> kobject \<Rightarrow> bool" +
  assumes stored_app: "lookup w (AppT, key) = Some x \<Longrightarrow> \<exists>a. x = AppObj a \<and> deployment_key a = key"
    and update_ok: "env_Update E (AppObj b) w = ((None, x), w') \<Longrightarrow> lookup w (app_slot b) = Some (AppObj a) \<Longrightarrow>
      PlatformApplication.Spec b = PlatformApplication.Spec a \<Longrightarrow> Generation (meta b) = Generation (meta a) \<Longrightarrow>
      DeletionTimestamp (meta b) = DeletionTimestamp (meta a) \<Longrightarrow>
      \<exists>v. lookup w' = (lookup w)(app_slot b :=
        map_option AppObj (after_write v (with_status b (PlatformApplication.Status a))))"
    and status_ok: "env_StatusUpdate E (AppObj b) w = ((None, x), w') \<Longrightarrow> lookup w (app_slot b) = Some (AppObj a) \<Longrightarrow>
      \<exists>v. lookup w' = (lookup w)(app_slot b :=
        map_option AppObj (after_write v (with_status a (PlatformApplication.Status b))))"
    and contains: "ContainsFinalizer E m f \<longleftrightarrow> f \<in> set (Finalizers m)"
    and add: "AddFinalizer E m f = m\<lparr>Finalizers := if f \<in> set (Finalizers m) then Finalizers m else Finalizers m @ [f]\<rparr>"
    and remove: "RemoveFinalizer E m f = m\<lparr>Finalizers := filter (\<lambda>g. g \<noteq> f) (Finalizers m)\<rparr>"
begin

lemma read_frame: "call E e w w' \<Longrightarrow> write_slot e = None \<Longrightarrow> lookup w' = lookup w"
  by (erule call.cases) (auto dest: get_frame select_frame)

lemma stable_reading: "stable P \<Longrightarrow> reading E m \<Longrightarrow> triple P m (\<lambda>_. P)"
  by (rule reading_keeps, assumption) (auto simp: stable_def dest: now_frame read_frame)

abbreviation store :: "(slot \<Rightarrow> kobject option) \<Rightarrow> 'w \<Rightarrow> bool" where
  "store L w \<equiv> lookup w = L"

lemma store_reading: "reading E m \<Longrightarrow> triple (store L) m (\<lambda>_. store L)"
  by (rule stable_reading) (simp_all add: stable_def)

lemma store_reading_seq: "reading E m \<Longrightarrow> (\<And>a. triple (store L) (f a) Q) \<Longrightarrow> triple (store L) (m \<bind> f) Q"
  by (rule triple_bind [OF store_reading])

lemma store_logs: "reading E m \<Longrightarrow> logs (\<lambda>a _. Q a) m \<Longrightarrow> triple (store L) m (\<lambda>a w. store L w \<and> Q a)"
  by (rule triple_logs [OF store_reading])

lemma store_Get:
  "triple (store L) (client_Get E key obj) (\<lambda>(err, x) w. store L w \<and>
     (case err of None \<Rightarrow> L (gotype_of obj, key) = Some x | Some e \<Rightarrow> IsNotFound (apierr E) e \<longrightarrow> L (gotype_of obj, key) = None))"
  unfolding client_Get_def
  by (rule triple_bind [OF triple_emit triple_lift], assumption)
    (auto dest: get_frame get_found get_missing split: option.split)

section \<open>Reporting\<close>

lemma store_ready:
  assumes "same_spec app a" and "PlatformApplicationStatus.ReadyReplicas (PlatformApplication.Status app) =
    PlatformApplicationStatus.ReadyReplicas (PlatformApplication.Status a)"
  shows "triple (store M) (updateDeploymentStatus E app)
    (\<lambda>app' w. store M w \<and> (\<exists>ready. count_of M a ready \<and> app' = with_ready ready app))"
proof -
  have key: "deployment_key app = deployment_key a"
    using assms(1) by (simp add: same_spec_def deployment_key_def)
  show ?thesis
    unfolding updateDeploymentStatus_def deployment_key_def [symmetric] key
  proof (rule triple_bind [OF store_Get], rule triple_case_prod)
    fix err :: "go_error option" and x
    have read: "(case err of None \<Rightarrow> app\<lparr>PlatformApplication.Status := (PlatformApplication.Status app)
          \<lparr>PlatformApplicationStatus.ReadyReplicas := as_deployment_status x\<rparr>\<rparr> | Some e \<Rightarrow> app) =
        with_ready (case err of None \<Rightarrow> as_deployment_status x
          | Some e \<Rightarrow> PlatformApplicationStatus.ReadyReplicas (PlatformApplication.Status a)) app"
      by (simp add: with_ready_def with_status_def assms(2) [symmetric] split: option.split)
    show "triple (\<lambda>w. store M w \<and> (case err of
          None \<Rightarrow> M (gotype_of (DeploymentObj zero_Deployment), deployment_key a) = Some x
        | Some e \<Rightarrow> IsNotFound (apierr E) e \<longrightarrow> M (gotype_of (DeploymentObj zero_Deployment), deployment_key a) = None))
      (case err of Some e \<Rightarrow> return app
       | None \<Rightarrow> return (app\<lparr>PlatformApplication.Status := (PlatformApplication.Status app)
          \<lparr>PlatformApplicationStatus.ReadyReplicas := as_deployment_status x\<rparr>\<rparr>))
      (\<lambda>app' w. store M w \<and> (\<exists>ready. count_of M a ready \<and> app' = with_ready ready app))"
      using read by (cases err) (auto simp: count_of_def intro!: triple_return)
  qed
qed

lemma store_StatusUpdate:
  assumes "M (app_slot a) = Some (AppObj a)" and "app_slot b = app_slot a" and "finalized a"
  shows "triple (store M) (client_StatusUpdate E (AppObj b)) (\<lambda>r w. fst r = None \<longrightarrow>
    (\<exists>v. store (M(app_slot a \<mapsto> AppObj (at_version v (with_status a (PlatformApplication.Status b))))) w))"
  unfolding client_StatusUpdate_def
proof (rule triple_bind [OF triple_emit triple_lift], assumption)
  fix w r w'
  assume w: "store M w" and run: "env_StatusUpdate E (AppObj b) w = (r, w')"
  have "after_write v (with_status a st) = Some (at_version v (with_status a st))" for v st
    using assms(3) by (auto simp: after_write_def finalized_def with_status_def)
  then show "fst r = None \<longrightarrow>
      (\<exists>v. store (M(app_slot a \<mapsto> AppObj (at_version v (with_status a (PlatformApplication.Status b))))) w')"
    using status_ok [of b w _ w' a] run w assms(1,2) by (cases r) auto
qed

lemma silent_end:
  assumes "stable G"
  shows "triple (\<lambda>w. err = None \<longrightarrow> G w)
    (case err of Some e' \<Rightarrow> status_update_failed E e' | None \<Rightarrow> finish E t app planned e)
    (\<lambda>r w. r = (no_requeue, None) \<longrightarrow> G w \<and> e = None \<and> planned = no_requeue)"
proof (cases err)
  case None
  have "triple G (finish E t app planned e) (\<lambda>r w. r = (no_requeue, None) \<longrightarrow> G w \<and> e = None \<and> planned = no_requeue)"
    by (rule triple_mono [OF triple_logs [OF stable_reading [OF assms reading_parts(7)] finish_silent]]) auto
  with None show ?thesis by simp
next
  case (Some e')
  have "stable (\<lambda>_. True)" by (simp add: stable_def)
  from triple_logs [OF stable_reading [OF this reading_parts(8)] failed_silent]
  have "triple (\<lambda>_. True) (status_update_failed E e') (\<lambda>r w. r = (no_requeue, None) \<longrightarrow> G w \<and> e = None \<and> planned = no_requeue)"
    by (rule triple_mono) auto
  with Some show ?thesis by simp
qed

definition silent_report :: "(slot \<Rightarrow> kobject option) \<Rightarrow> PlatformApplication \<Rightarrow> 'w \<Rightarrow> bool" where
  "silent_report M a w \<longleftrightarrow>
     (\<exists>ready st v. count_of M a ready \<and> status_contract a ready False st \<and> Min (Replicas (PlatformApplication.Spec a)) \<le>s ready \<and>
        store (M(app_slot a \<mapsto> AppObj (at_version v (with_status a st)))) w)"

lemma stable_report: "stable (silent_report M a)"
  by (auto simp: stable_def silent_report_def)

lemma store_report:
  assumes "M (app_slot a) = Some (AppObj a)" and "finalized a"
  shows "triple (store M) (report_status E t (started_app ts a) e)
    (\<lambda>r w. r = (no_requeue, None) \<longrightarrow> e = None \<and> silent_report M a w)"
proof -
  let ?x = "started_app ts a"
  let ?app = "\<lambda>ready. with_ready ready (observe_spec ?x)"
  let ?Q = "\<lambda>r w. r = (no_requeue, None) \<longrightarrow> e = None \<and> silent_report M a w"
  have same: "same_spec (observe_spec ?x) a"
    by (simp add: same_spec_def started_frame)
  have old: "PlatformApplicationStatus.ReadyReplicas (PlatformApplication.Status (observe_spec ?x)) =
      PlatformApplicationStatus.ReadyReplicas (PlatformApplication.Status a)"
    by (simp add: observe_spec_def started_app_def with_status_def set_defs SetCondition_frame)
  have send: "triple (store M) (do {
      (serr, obj) \<leftarrow> client_StatusUpdate E (AppObj (reported_app ready ts' e ?x));
      (case serr of Some err \<Rightarrow> status_update_failed E err
       | None \<Rightarrow> finish E t (as_app obj) (planned_result (?app ready) e) e) }) ?Q" if count: "count_of M a ready" for ready ts'
  proof -
    let ?st = "PlatformApplication.Status (reported_app ready ts' e ?x)"
    let ?G = "\<lambda>w. \<exists>v. store (M(app_slot a \<mapsto> AppObj (at_version v (with_status a ?st)))) w"
    have slot: "app_slot (reported_app ready ts' e ?x) = app_slot a"
      by (rule app_slot_cong) (simp_all add: reported_frame started_frame)
    have G: "stable ?G" by (auto simp: stable_def)
    have quiet: "silent_report M a w" if "?G w" "e = None" "planned_result (?app ready) e = no_requeue" for w
      using that count reported_status [of a ready e ts' ts] unfolding silent_report_def
      by (auto simp: planned_silent all_ready_with_ready started_frame)
    have tail: "triple (\<lambda>w. err = None \<longrightarrow> ?G w)
      (case err of Some err \<Rightarrow> status_update_failed E err
       | None \<Rightarrow> finish E t (as_app obj) (planned_result (?app ready) e) e) ?Q" for err obj
      by (rule triple_mono [OF silent_end [OF G]]) (auto intro: quiet)
    show ?thesis
    proof (rule triple_bind [OF store_StatusUpdate [where M = M, OF assms(1) slot assms(2)]])
      fix r
      show "triple (\<lambda>w. fst r = None \<longrightarrow> ?G w)
        (case r of (serr, obj) \<Rightarrow> (case serr of Some err \<Rightarrow> status_update_failed E err
          | None \<Rightarrow> finish E t (as_app obj) (planned_result (?app ready) e) e)) ?Q"
        using tail [of "fst r" "snd r"] by (cases r) (simp only: fst_conv snd_conv prod.case)
    qed
  qed
  show ?thesis
    by (rule triple_report_rule [OF store_ready [OF same old] store_reading [OF reading_parts(6)] send])
qed

section \<open>Reconciling\<close>

lemma rest_after_report:
  assumes "buildDesiredDeployment (ParseQuantity E) a = Ret dep"
    and "\<forall>c \<in> set (desired_children a dep). wanted (AppObj (started_app ts a)) c w"
    and "silent_report (lookup w) a w'"
  shows "at_rest E lookup covers owned_by a w'"
proof -
  obtain ready st v where rep: "count_of (lookup w) a ready" "status_contract a ready False st"
      "Min (Replicas (PlatformApplication.Spec a)) \<le>s ready"
    and upd: "lookup w' = (lookup w)(app_slot a \<mapsto> AppObj (at_version v (with_status a st)))"
    using assms(3) by (auto simp: silent_report_def)
  have dep_slot: "(DeploymentT, deployment_key a) \<noteq> app_slot a" by (simp add: app_slot_key)
  note wanted = wanted_after_report [OF assms(1,2) upd]
  show ?thesis
    unfolding at_rest_def
    by (intro exI [of _ dep] exI [of _ ready] exI [of _ st] exI [of _ v]
        exI [of _ "PlatformApplication.Status (started_app ts a)"])
      (use assms(1) rep upd wanted dep_slot in \<open>simp add: started_app_def count_of_def\<close>)
qed

lemma panic_not_silent:
  assumes "buildDesiredDeployment (ParseQuantity E) x = Panic m"
  shows "triple P (do { r \<leftarrow> reconcileResources E x;
     (case r of Panic m \<Rightarrow> return (Panic m) | Ret e \<Rightarrow> k e) }) (\<lambda>r w. r = Ret res \<longrightarrow> Q w)"
  by (auto simp: triple_def reconcileResources_def sub_reconcilers_def ReconcileDeployment_def StartSpan_def time_Now_def assms
      split: prod.splits)

lemma store_live_report:
  assumes "buildDesiredDeployment (ParseQuantity E) a = Ret dep" and "finalized a"
  shows "triple (\<lambda>w. lookup w (app_slot a) = Some (AppObj a) \<and> (e = None \<longrightarrow> (\<forall>c \<in> set (desired_children a dep). wanted (AppObj (started_app ts a)) c w)))
    (do { res \<leftarrow> report_status E t (started_app ts a) e; return (Ret res) })
    (\<lambda>r w. r = Ret (no_requeue, None) \<longrightarrow> at_rest E lookup covers owned_by a w)"
proof (rule tripleI, rule impI)
  fix u :: "'w world" and r u'
  assume pre: "lookup (outside u) (app_slot a) = Some (AppObj a) \<and> (e = None \<longrightarrow> (\<forall>c \<in> set (desired_children a dep). wanted (AppObj (started_app ts a)) c (outside u)))"
    and run: "run_state (do { res \<leftarrow> report_status E t (started_app ts a) e; return (Ret res) }) u = (r, u')"
    and "r = Ret (no_requeue, None)"
  then have "run_state (report_status E t (started_app ts a) e) u = ((no_requeue, None), u')"
    by (auto split: prod.splits)
  from tripleD [OF store_report [where M = "lookup (outside u)", OF _ assms(2)] refl this] pre
  have "e = None" and "silent_report (lookup (outside u)) a (outside u')" by simp_all
  with pre rest_after_report [OF assms(1)] show "at_rest E lookup covers owned_by a (outside u')"
    by blast
qed

lemma store_live:
  assumes "L (app_slot a) = Some (AppObj a)" and "finalized a"
  shows "triple (store L) (reconcile_live E t a)
    (\<lambda>r w. r = Ret (no_requeue, None) \<longrightarrow> at_rest E lookup covers owned_by a w)"
  unfolding reconcile_live_def
proof (rule triple_start_rule [OF store_reading [OF reading_parts(4)]])
  fix ts
  let ?x = "started_app ts a"
  note cong = children_cong [OF same_spec_started [of ts a]]
  show "triple (store L) (do {
      r \<leftarrow> reconcileResources E ?x;
      (case r of Panic m \<Rightarrow> return (Panic m)
       | Ret e \<Rightarrow> do { res \<leftarrow> report_status E t ?x e; return (Ret res) }) })
      (\<lambda>r w. r = Ret (no_requeue, None) \<longrightarrow> at_rest E lookup covers owned_by a w)"
  proof (cases "buildDesiredDeployment (ParseQuantity E) a")
    case (Panic m)
    then show ?thesis
      by (intro panic_not_silent [of ?x m]) (simp add: cong)
  next
    case (Ret dep)
    then have built: "buildDesiredDeployment (ParseQuantity E) ?x = Ret dep"
      by (simp add: cong)
    have children: "triple (store L) (reconcileResources E ?x) (\<lambda>r w. lookup w (app_slot a) = Some (AppObj a) \<and>
        (r = Ret None \<longrightarrow> (\<forall>c \<in> set (desired_children a dep). wanted (AppObj ?x) c w)))"
      by (rule triple_mono [OF reconcileResources_converges [OF built, of L]])
        (use assms(1) app_slot_not_child [OF Ret, of a] in \<open>auto simp: cong simp del: split_paired_All\<close>)
    have "triple (\<lambda>w. lookup w (app_slot a) = Some (AppObj a) \<and>
          (r = Ret None \<longrightarrow> (\<forall>c \<in> set (desired_children a dep). wanted (AppObj ?x) c w)))
        (case r of Panic m \<Rightarrow> return (Panic m)
         | Ret e \<Rightarrow> do { res \<leftarrow> report_status E t ?x e; return (Ret res) })
        (\<lambda>r w. r = Ret (no_requeue, None) \<longrightarrow> at_rest E lookup covers owned_by a w)" for r
      using store_live_report [OF Ret assms(2)] by (cases r) (auto intro: triple_return)
    then show ?thesis
      by (rule triple_bind [OF children])
  qed
qed

lemma store_Update:
  assumes "L (app_slot a) = Some (AppObj a)"
  shows "triple (store L) (client_Update E (AppObj (with_finalizers fs a))) (\<lambda>r w. fst r = None \<longrightarrow>
    (\<exists>v. store (L(app_slot a := map_option AppObj (after_write v (with_finalizers fs a)))) w))"
  unfolding client_Update_def
proof (rule triple_bind [OF triple_emit triple_lift], assumption)
  fix w r w'
  assume w: "store L w" and run: "env_Update E (AppObj (with_finalizers fs a)) w = (r, w')"
  have keep: "PlatformApplication.Spec (with_finalizers fs a) = PlatformApplication.Spec a"
    by (simp add: with_finalizers_def)
  show "fst r = None \<longrightarrow> (\<exists>v. store (L(app_slot a := map_option AppObj (after_write v (with_finalizers fs a)))) w')"
    using update_ok [of "with_finalizers fs a" w _ w' a] run w assms keep by (cases r) auto
qed

lemma store_deletion:
  assumes "L (app_slot a) = Some (AppObj a)" and "\<not> live a"
  shows "triple (store L) (handleDeletion E a) (\<lambda>r w. r = (no_requeue, None) \<longrightarrow>
    (if finalized a
     then \<exists>v. store (L(app_slot a := map_option AppObj (after_write v (with_finalizers (other_finalizers a) a)))) w
     else store L w))"
proof (cases "finalized a")
  case False
  then show ?thesis
    by (auto simp: handleDeletion_def contains finalized_def intro: triple_return)
next
  case True
  have sent: "app_meta_update (RemoveFinalizer E) a = with_finalizers (other_finalizers a) a"
    by (simp add: app_meta_update_def remove with_finalizers_def other_finalizers_def)
  show ?thesis
    unfolding handleDeletion_def sent contains
    by (simp only: True [unfolded finalized_def] True not_True_eq_False if_False if_True)
      (rule triple_bind [OF store_Update [where L = L, OF assms(1)]],
        auto simp: triple_def delay_defs split: option.split prod.split)
qed

lemma store_adopt:
  assumes "L (app_slot a) = Some (AppObj a)" and "live a" and "\<not> finalized a"
  shows "triple (store L) (add_finalizer E a) (\<lambda>r w. r = (no_requeue, None) \<longrightarrow>
    (\<exists>v. store (L(app_slot a \<mapsto> AppObj (at_version v (with_finalizers (Finalizers (meta a) @ [finalizerName]) a)))) w))"
proof -
  have sent: "app_meta_update (AddFinalizer E) a = with_finalizers (Finalizers (meta a) @ [finalizerName]) a"
    using assms(3) by (simp add: app_meta_update_def add with_finalizers_def finalized_def)
  show ?thesis
    unfolding add_finalizer_def sent
    by (rule triple_bind [OF store_Update [where L = L, OF assms(1)]])
      (auto simp: triple_def after_write_def split: option.split prod.split)
qed

text \<open>What \<open>Reconcile\<close> does with the application that it has read.\<close>

lemma store_found:
  assumes "L (app_slot a) = Some (AppObj a)" and "deployment_key a = key"
  shows "triple (store L)
    (if \<not> Time_IsZero (DeletionTimestamp (meta a)) then do { r \<leftarrow> handleDeletion E a; return (Ret r) }
     else if \<not> ContainsFinalizer E (meta a) finalizerName then do { r \<leftarrow> add_finalizer E a; return (Ret r) }
     else reconcile_live E t a)
    (\<lambda>r w. r = Ret (no_requeue, None) \<longrightarrow> no_work_left E lookup covers owned_by L key w)"
proof -
  let ?Q = "\<lambda>r w. r = Ret (no_requeue, None) \<longrightarrow> no_work_left E lookup covers owned_by L key w"
  have key: "(AppT, key) = app_slot a" by (simp add: app_slot_key assms(2))
  have work: "no_work_left E lookup covers owned_by L key w =
      (if live a then
         if finalized a then at_rest E lookup covers owned_by a w
         else \<exists>v. store (L(app_slot a \<mapsto> AppObj (at_version v (with_finalizers (Finalizers (meta a) @ [finalizerName]) a)))) w
       else
         if finalized a then \<exists>v. store (L(app_slot a := map_option AppObj (after_write v (with_finalizers (other_finalizers a) a)))) w
         else store L w)" for w
    by (simp add: no_work_left_def key assms(1))
  have deleted: "triple (store L) (do { r \<leftarrow> handleDeletion E a; return (Ret r) }) ?Q" if "\<not> live a"
    by (rule triple_Ret, rule triple_mono [OF store_deletion [where L = L, OF assms(1) that]]) (use that in \<open>simp_all add: work\<close>)
  have adopted: "triple (store L) (do { r \<leftarrow> add_finalizer E a; return (Ret r) }) ?Q" if "live a" "\<not> finalized a"
    by (rule triple_Ret, rule triple_mono [OF store_adopt [where L = L, OF assms(1) that]]) (use that in \<open>simp_all add: work\<close>)
  have lives: "triple (store L) (reconcile_live E t a) ?Q" if "live a" "finalized a"
    by (rule triple_mono [OF store_live [where L = L, OF assms(1) that(2)]]) (use that in \<open>simp_all add: work\<close>)
  show ?thesis
    using deleted adopted lives by (simp add: live_def [symmetric] contains finalized_def [symmetric])
qed

lemma store_missing:
  assumes "IsNotFound (apierr E) e \<longrightarrow> L (AppT, key) = None"
  shows "triple (store L) (do { r \<leftarrow> fetch_failed E e; return (Ret r) })
    (\<lambda>r w. r = Ret (no_requeue, None) \<longrightarrow> no_work_left E lookup covers owned_by L key w)"
  by (rule triple_Ret, rule triple_mono [OF store_logs [OF reading_parts(9) fetch_silent]])
    (use assms in \<open>auto simp: no_work_left_def\<close>)

lemma store_read:
  "triple (store L) (client_Get E key (AppObj zero_PlatformApplication))
     (\<lambda>(err, obj) w. case err of Some e \<Rightarrow> store L w \<and> (IsNotFound (apierr E) e \<longrightarrow> L (AppT, key) = None)
        | None \<Rightarrow> \<exists>a. obj = AppObj a \<and> store L w \<and> L (app_slot a) = Some (AppObj a) \<and> deployment_key a = key)"
proof (rule triple_mono [OF store_Get], assumption)
  have found: "\<exists>a. x = AppObj a \<and> lookup w (AppT, deployment_key a) = Some (AppObj a) \<and> deployment_key a = key"
    if "lookup w (AppT, key) = Some x" for x w
    using stored_app [OF that] that by auto
  show "(\<lambda>(err, obj) w. case err of Some e \<Rightarrow> store L w \<and> (IsNotFound (apierr E) e \<longrightarrow> L (AppT, key) = None)
        | None \<Rightarrow> \<exists>a. obj = AppObj a \<and> store L w \<and> L (app_slot a) = Some (AppObj a) \<and> deployment_key a = key) r w"
    if "(\<lambda>(err, x) w. store L w \<and> (case err of None \<Rightarrow> L (gotype_of (AppObj zero_PlatformApplication), key) = Some x
        | Some e \<Rightarrow> IsNotFound (apierr E) e \<longrightarrow> L (gotype_of (AppObj zero_PlatformApplication), key) = None)) r w" for r w
    using that by (auto simp: app_slot_key split: option.splits intro: found)
qed

lemma store_body:
  "triple (store L) (reconcile_body E key t)
    (\<lambda>r w. r = Ret (no_requeue, None) \<longrightarrow> no_work_left E lookup covers owned_by L key w)"
  by (rule triple_body_rule [OF store_read]; intro triple_conj) (erule store_missing, erule conjE, rule store_found)

lemma store_Reconcile:
  "triple (store L) (Reconcile E key)
    (\<lambda>r w. r = Ret (no_requeue, None) \<longrightarrow> no_work_left E lookup covers owned_by L key w)"
  by (rule triple_Reconcile_rule [OF store_reading [OF reading_parts(2)] store_body])

end

section \<open>The reference server\<close>

text \<open>A write that the server acknowledges has taken place, whatever happened to others.\<close>

lemma acknowledged_write:
  assumes "server_write merge (AppObj b) w = ((None, x), w')"
    and "server_lookup w (app_slot b) = Some (AppObj a)"
    and "merge (AppObj a) (AppObj b) = AppObj m" and "app_slot m \<in> {app_slot a, app_slot b}"
  shows "\<exists>v. server_lookup w' = (server_lookup w)(app_slot b := map_option AppObj (after_write v m))"
proof -
  have slots: "app_slot a = app_slot b"
    using lookup_keyed [OF assms(2)] by (simp add: app_slot_def)
  obtain f w0 where fault: "next_fault w = (f, w0)" by (cases "next_fault w")
  have look: "server_lookup w0 = server_lookup w"
    using fault by (rule next_fault_lookup)
  have ok: "f = None"
    using assms(1) fault by (auto simp: server_write_def split: option.splits)
  let ?v = "nat_digits (Suc (revision w0))"
  have slot: "slot_of (AppObj (at_version ?v m)) = app_slot b" "slot_of (AppObj b) = app_slot b"
    using assms(4) slots by (auto simp: app_slot_def [symmetric])
  have "server_lookup w' = (server_lookup w)(app_slot b := map_option AppObj (after_write ?v m))"
    using assms(1,2) slot
    by (auto simp: server_write_def fault ok look assms(3) with_revision_app after_write_def Let_def split: if_splits)
  then show ?thesis ..
qed

interpretation server: acknowledging_server server_env server_lookup server_covers server_owned_by
proof unfold_locales
  fix w key x
  assume "server_lookup w (AppT, key) = Some x"
  from lookup_keyed [OF this] show "\<exists>a. x = AppObj a \<and> deployment_key a = key"
    by (cases x) (auto simp: slot_defs deployment_key_def)
next
  fix b w x w' a
  assume "env_Update server_env (AppObj b) w = ((None, x), w')"
    and stored: "server_lookup w (app_slot b) = Some (AppObj a)"
  from this(1) have run: "server_write keep_status (AppObj b) w = ((None, x), w')" by simp
  show "\<exists>v. server_lookup w' = (server_lookup w)(app_slot b :=
      map_option AppObj (after_write v (with_status b (PlatformApplication.Status a))))"
    by (rule acknowledged_write [OF run stored]) (simp_all add: with_status_def [symmetric])
next
  fix b w x w' a
  assume "env_StatusUpdate server_env (AppObj b) w = ((None, x), w')"
    and stored: "server_lookup w (app_slot b) = Some (AppObj a)"
  from this(1) have run: "server_write only_status (AppObj b) w = ((None, x), w')" by simp
  show "\<exists>v. server_lookup w' = (server_lookup w)(app_slot b :=
      map_option AppObj (after_write v (with_status a (PlatformApplication.Status b))))"
    by (rule acknowledged_write [OF run stored]) (simp_all add: with_status_def [symmetric])
qed (simp_all add: server_env_def)

text \<open>C4. Silence means that nothing is left to do. On every server, whatever calls fail, with or without
  effect: when \<open>Reconcile\<close> asks for no requeue and returns no error, so that only a change starts it again,
  then the application is not stored, or has been let go by the operator if it is being deleted, or has
  just got the finalizer (a change), or is at rest: all seven children are there as it asks for, the
  stored status says so, and enough replicas have been reported.\<close>

theorem silence_means_done:
  assumes "acknowledging_server E lookup covers owned_by"
    and "run_state (Reconcile E key) s = (Ret (no_requeue, None), s')"
  shows "no_work_left E lookup covers owned_by (lookup (outside s)) key (outside s')"
  using tripleD [OF acknowledging_server.store_Reconcile [OF assms(1)] refl assms(2)] by simp

theorem silence_means_done_witness:
  "\<exists>s'. run_state (Reconcile server_env (deployment_key sample_app)) rolled_out = (Ret (no_requeue, None), s') \<and>
     at_rest server_env server_lookup server_covers server_owned_by sample_app (outside s')"
proof -
  obtain dep where dep: "buildDesiredDeployment (ParseQuantity server_env) sample_app = Ret dep"
    using sample_builds by blast
  obtain r s' where run: "run_state (Reconcile server_env (deployment_key sample_app)) rolled_out = (r, s')"
    by (cases "run_state (Reconcile server_env (deployment_key sample_app)) rolled_out")
  have "finalizerName \<in> set (Finalizers (meta sample_app))" by (simp add: sample_meta)
  from live_run [OF server.platform_axioms rolled_out_facts(1,2) sample_meta(1) this dep run] rolled_out_facts(3)
  have "r = Ret (no_requeue, None)"
    by (auto simp: server.live_post_def server.same_count_def server.counts_def reconciled_def report_result_def)
  note run = run [unfolded this]
  have "server_lookup (outside rolled_out) (AppT, deployment_key sample_app) = Some (AppObj sample_app)"
    using rolled_out_facts(2) by (simp add: app_slot_key)
  with silence_means_done [OF server.acknowledging_server_axioms run] sample_meta
  have "at_rest server_env server_lookup server_covers server_owned_by sample_app (outside s')"
    by (simp add: no_work_left_def live_def finalized_def Time_IsZero_def)
  with run show ?thesis by blast
qed

end
