(* ===== verification/Cost.thy ===== *)
theory Cost
  imports Controller
begin

text \<open>
  How much a reconciliation can cost. \<open>costs g n t m\<close> says that every run of \<open>m\<close>, whatever the outside
  answers, makes at most \<open>g\<close> reads and \<open>n\<close> writes of the API and waits at most \<open>t\<close> nanoseconds; the bounds
  of a sequence add up. No run of the reconciler is longer than a constant.
\<close>

definition within :: "nat \<Rightarrow> nat \<Rightarrow> int \<Rightarrow> effect list \<Rightarrow> bool" where
  "within g n t es \<longleftrightarrow> n_gets es \<le> g \<and> n_writes es \<le> n \<and> sum_list (waits es) \<le> t"

definition costs :: "nat \<Rightarrow> nat \<Rightarrow> int \<Rightarrow> ('w world, 'a) state \<Rightarrow> bool" where
  "costs g n t m \<longleftrightarrow> logs (\<lambda>_ es. within g n t es) m"

named_theorems cost_rules \<open>one rule per operation for what it costs\<close>

lemma costs_bind:
  assumes "costs g n t m" and "\<And>a. costs g' n' t' (f a)"
  shows "costs (g + g') (n + n') (t + t') (m \<bind> f)"
  unfolding costs_def
  by (rule logs_bind [OF assms(1) [unfolded costs_def]], rule logs_mono [OF assms(2) [unfolded costs_def]])
    (simp add: within_def)

lemma costs_mono: "costs g n t m \<Longrightarrow> g \<le> g' \<Longrightarrow> n \<le> n' \<Longrightarrow> t \<le> t' \<Longrightarrow> costs g' n' t' m"
  unfolding costs_def by (auto elim!: logs_mono simp: within_def)

lemma costs_return [cost_rules]: "costs 0 0 0 (return a)"
  by (simp add: costs_def within_def logs_return)

text \<open>Sequences with a free first or last part.\<close>

lemma costs_free_seq: "costs 0 0 0 m \<Longrightarrow> (\<And>a. costs g n t (f a)) \<Longrightarrow> costs g n t (m \<bind> f)"
  using costs_bind [of 0 0 0 m g n t f] by simp

lemma costs_seq_free: "costs g n t m \<Longrightarrow> (\<And>a. costs 0 0 0 (f a)) \<Longrightarrow> costs g n t (m \<bind> f)"
  using costs_bind [of g n t m 0 0 0 f] by simp

definition free :: "effect \<Rightarrow> bool" where
  "free e \<longleftrightarrow> \<not> is_get e \<and> \<not> is_write e \<and> waits [e] = []"

lemma within_free: "list_all free es \<Longrightarrow> within 0 0 0 es"
proof (induction es)
  case (Cons e es)
  have "waits (e # es) = waits [e] @ waits es"
    using waits_append [of "[e]" es] by simp
  with Cons show ?case by (simp add: within_def free_def)
qed (simp add: within_def)

lemma costs_only: "only free m \<Longrightarrow> costs 0 0 0 m"
  unfolding only_def costs_def by (auto elim!: logs_mono intro: within_free)

lemma only_free [cost_rules]:
  "free e \<Longrightarrow> costs 0 0 0 (emit e)"
  "costs 0 0 0 (time_Now E)" "costs 0 0 0 (time_Since E t)"
  by (auto intro!: costs_only logs_rules)

section \<open>The client and the children\<close>

lemma costs_client:
  "costs 1 0 0 (client_Get E key obj)" "costs 0 1 0 (client_Update E obj)" "costs 0 1 0 (client_StatusUpdate E obj)"
  "costs 0 1 0 (client_Delete E obj)"
  by (simp_all add: costs_def within_def client_defs logs_def split: prod.split)

lemma prefix_sum_le: "prefix xs ys \<Longrightarrow> list_all (\<lambda>y. 0 \<le> y) ys \<Longrightarrow> sum_list xs \<le> (sum_list ys :: int)"
  by (auto simp: prefix_def sum_list_nonneg list_all_iff)

lemma costs_Apply: "costs 4 4 700000000 (Apply E owner desired)"
  unfolding costs_def
  by (rule logs_mono [OF Apply_logs])
    (auto simp: apply_spec_def within_def backoffs_from_start maxApplyRetries_def dest!: prefix_sum_le)

lemma costs_delete: "costs 4 4 700000000 (delete_then_unchanged E obj)"
proof -
  have "costs 0 1 0 (DeleteIfExists E obj)"
    unfolding DeleteIfExists_def
    by (rule costs_seq_free [OF costs_client(4)])
      (auto intro!: costs_only logs_rules simp: observe_defs free_def split: option.split)
  then have "costs 0 1 0 (delete_then_unchanged E obj)"
    unfolding delete_then_unchanged_def
    by (rule costs_seq_free) (auto intro: cost_rules split: option.split)
  then show ?thesis by (rule costs_mono) simp_all
qed

definition cheap_step :: "string \<times> 'w step \<Rightarrow> bool" where
  "cheap_step st \<longleftrightarrow> costs 4 4 700000000 (snd st)"

lemma cheap_no_panic: "costs 4 4 700000000 m \<Longrightarrow> cheap_step (name, no_panic m)"
  unfolding cheap_step_def no_panic_def by (auto intro!: costs_seq_free cost_rules)

lemma cheap_Deployment: "cheap_step (name, ReconcileDeployment E app)"
  unfolding cheap_step_def ReconcileDeployment_def
  by (auto intro!: costs_seq_free [OF costs_Apply] costs_mono [OF costs_return] cost_rules split: go.split)

lemma cheap_sub_reconcilers: "list_all cheap_step (sub_reconcilers E app)"
  by (simp add: sub_reconcilers_def cheap_Deployment cheap_no_panic costs_Apply costs_delete ReconcileService_def
      ReconcileHPA_def ReconcileHTTPRoute_def ReconcileNetworkPolicy_def ReconcilePDB_def ReconcileServiceMonitor_def
      deleteHPAIfExists_def deleteHTTPRouteIfExists_def deleteNetworkPolicyIfExists_def
      deletePDBIfExists_def deleteServiceMonitorIfExists_def)

section \<open>The loop and the report\<close>

lemma costs_outcome:
  "costs 0 0 0 (sub_failed E app name t err)" "costs 0 0 0 (sub_succeeded E name t)"
  unfolding sub_failed_def sub_succeeded_def observe_defs Let_def
  by (auto intro!: costs_only logs_rules simp: free_def)

lemma costs_run_subs:
  "list_all cheap_step sts \<Longrightarrow>
   costs (4 * length sts) (4 * length sts) (700000000 * int (length sts)) (run_subs E app sts)"
proof (induction sts)
  case Nil
  then show ?case by (simp add: cost_rules)
next
  case (Cons st sts)
  obtain name fn where st: "st = (name, fn)" by (cases st)
  let ?n = "4 * length sts" and ?t = "700000000 * int (length sts)"
  have after: "costs ?n ?n ?t
      (case r of
        Panic m \<Rightarrow> return (Panic m)
      | Ret (Inl err) \<Rightarrow> do { e \<leftarrow> sub_failed E app name t err; return (Ret (Some e)) }
      | Ret (Inr _) \<Rightarrow> do { sub_succeeded E name t; run_subs E app sts })" for r t
    using Cons by (auto intro!: costs_free_seq costs_outcome costs_mono [OF costs_return] split: go.split sum.split)
  have "costs (4 + ?n) (4 + ?n) (700000000 + ?t) (run_subs E app (st # sts))"
    unfolding st run_subs.simps StartSpan_def
    by (intro costs_free_seq cost_rules costs_bind [OF _ after])
      (use Cons.prems in \<open>simp_all add: free_def cheap_step_def st\<close>)
  then show ?case by (simp add: algebra_simps)
qed

lemma costs_reconcileResources: "costs 28 28 4900000000 (reconcileResources E app)"
  using costs_run_subs [OF cheap_sub_reconcilers, of E app E app]
  by (simp add: reconcileResources_def sub_reconcilers_def)

lemma costs_set_status [cost_rules]: "costs 0 0 0 (set_status E f a b c app)"
  unfolding set_status_def by (auto intro!: costs_only logs_rules)

lemma costs_setConditions [cost_rules]: "costs 0 0 0 (setConditions E app e)"
  unfolding setConditions_def by (auto intro!: costs_free_seq cost_rules split: option.split)

lemma costs_result:
  "costs 0 0 0 (finish E t app planned e)" "costs 0 0 0 (status_update_failed E err)" "costs 0 0 0 (fetch_failed E err)"
  unfolding finish_def handleErrorResult_def unknown_error_def status_update_failed_def fetch_failed_def observe_defs
  by (auto intro!: costs_free_seq cost_rules simp: free_def split: option.split ReconcileErrorClass.split)

lemma costs_updateDeploymentStatus: "costs 1 0 0 (updateDeploymentStatus E app)"
  unfolding updateDeploymentStatus_def
  by (rule costs_seq_free [OF costs_client(1)]) (auto intro!: cost_rules split: prod.split option.split)

lemma costs_report_status: "costs 1 1 0 (report_status E t app e)"
proof -
  have "costs 0 1 0 (do {
      (result, app) \<leftarrow> setConditions E app e;
      (serr, obj) \<leftarrow> client_StatusUpdate E (AppObj (set_url app));
      (case serr of
         Some err \<Rightarrow> status_update_failed E err
       | None \<Rightarrow> finish E t (as_app obj) result e) })" for app
    by (rule costs_free_seq [OF costs_setConditions], split prod.split, intro allI impI,
        rule costs_seq_free [OF costs_client(3)])
      (auto intro: costs_result split: prod.split option.split)
  from costs_bind [OF costs_updateDeploymentStatus this] show ?thesis
    unfolding report_status_def by simp
qed

section \<open>Whole reconciliations\<close>

lemma costs_update:
  "costs 0 1 0 (handleDeletion E app)" "costs 0 1 0 (add_finalizer E app)"
proof -
  show "costs 0 1 0 (handleDeletion E app)"
  proof (cases "ContainsFinalizer E (PlatformApplication.ObjectMeta app) finalizerName")
    case True
    then show ?thesis
      unfolding handleDeletion_def
      by (simp only: not_True_eq_False if_False, intro costs_seq_free [OF costs_client(2)])
        (auto intro!: costs_free_seq cost_rules simp: free_def split: option.split)
  next
    case False
    then show ?thesis
      by (simp add: handleDeletion_def costs_mono [OF costs_return])
  qed
  show "costs 0 1 0 (add_finalizer E app)"
    unfolding add_finalizer_def
    by (rule costs_seq_free [OF costs_client(2)]) (auto intro: cost_rules split: option.split)
qed

lemma costs_live: "costs 29 29 4900000000 (reconcile_live E t app)"
proof -
  have report: "costs 1 1 0 (case r of Panic m \<Rightarrow> return (Panic m)
      | Ret e \<Rightarrow> do { res \<leftarrow> report_status E t app e; return (Ret res) })" for r app
  proof (cases r)
    case (Ret e)
    then show ?thesis
      by (simp only: go.case) (rule costs_seq_free [OF costs_report_status], rule costs_return)
  qed (simp add: costs_mono [OF costs_return])
  show ?thesis
    unfolding reconcile_live_def
    by (rule costs_free_seq [OF costs_set_status], rule costs_free_seq [OF costs_set_status],
        rule costs_bind [OF costs_reconcileResources report, simplified])
qed

lemma costs_body: "costs 30 29 4900000000 (reconcile_body E req t)"
proof -
  have small: "costs 0 1 0 m \<Longrightarrow> costs 29 29 4900000000 (do { r \<leftarrow> m; return (Ret r) })" for m
    by (rule costs_mono [where g = 0 and n = 1 and t = 0]) (auto intro!: costs_seq_free cost_rules)
  have "costs 29 29 4900000000 (case gerr of
        Some err \<Rightarrow> do { r \<leftarrow> fetch_failed E err; return (Ret r) }
      | None \<Rightarrow>
          let app = as_app obj in
          if \<not> Time_IsZero (DeletionTimestamp (PlatformApplication.ObjectMeta app))
          then do { r \<leftarrow> handleDeletion E app; return (Ret r) }
          else if \<not> ContainsFinalizer E (PlatformApplication.ObjectMeta app) finalizerName
          then do { r \<leftarrow> add_finalizer E app; return (Ret r) }
          else reconcile_live E t app)" for gerr obj
    unfolding Let_def
    by (auto intro: small costs_update costs_live costs_mono [OF costs_result(3)] split: option.split)
  from costs_bind [OF costs_client(1) this] show ?thesis
    unfolding reconcile_body_def by (simp add: case_prod_unfold)
qed

text \<open>C12. Every reconciliation comes to its end. Whatever the API server answers, however often it meets
  conflicts, and whatever is in the application, \<open>Reconcile\<close> makes at most 30 reads and 29 writes of the
  API, and its waits between retries add up to at most 4.9 seconds: seven times the 700 milliseconds of one
  apply.\<close>

theorem reconcile_terminates:
  "logs (\<lambda>r es. n_gets es \<le> 30 \<and> n_writes es \<le> 29 \<and> sum_list (waits es) \<le> 4900000000) (Reconcile E req)"
proof -
  have "costs 30 29 4900000000 (Reconcile E req)"
    unfolding Reconcile_def StartSpan_def
    by (intro costs_free_seq cost_rules costs_seq_free [OF costs_body]) (simp_all add: free_def)
  then show ?thesis
    by (simp add: costs_def within_def)
qed

end
