(* ===== verification/Interceptor.thy ===== *)
theory Interceptor
  imports Operation
begin

text \<open>
  The fault-injecting client of \<open>internal/testing/fakeclient/interceptor.go\<close>, on which the chaos and
  failure tests run the reconciler: a client that returns configured errors and else passes calls on. Here
  it turns an environment into another whose outside state also holds the counters of injected faults.
  The mutex makes each check of a call atomic, which is what one step of the state passing says.
\<close>

section \<open>Faults\<close>

type_synonym FaultType = string

definition FaultTransient :: FaultType where "FaultTransient = ''transient''"
definition FaultPermanent :: FaultType where "FaultPermanent = ''permanent''"
definition FaultConflict :: FaultType where "FaultConflict = ''conflict''"

record FaultConfig =
  Operation :: string
  ResourceKind :: string
  Fault :: FaultType
  Count :: int

text \<open>The error of an injected fault, and its value of type \<open>error\<close>: a \<open>*faultError\<close>, not an API status.\<close>

record faultError =
  msg :: string
  transient :: bool
  permanent :: bool
  conflict :: bool

definition faultError_value :: "faultError \<Rightarrow> go_error" where
  "faultError_value e = ForeignError ''*fakeclient.faultError'' (msg e)"

definition faultError_IsTransient :: "faultError \<Rightarrow> bool" where "faultError_IsTransient e = transient e"

definition faultError_IsPermanent :: "faultError \<Rightarrow> bool" where "faultError_IsPermanent e = permanent e"

definition faultError_IsConflict :: "faultError \<Rightarrow> bool" where "faultError_IsConflict e = conflict e"

definition makeFaultError :: "FaultConfig \<Rightarrow> faultError" where
  "makeFaultError f =
     (if Fault f = FaultTransient then
        \<lparr>msg = ''injected transient error: service unavailable'', transient = True, permanent = False, conflict = False\<rparr>
      else if Fault f = FaultPermanent then
        \<lparr>msg = ''injected permanent error: forbidden'', transient = False, permanent = True, conflict = False\<rparr>
      else if Fault f = FaultConflict then
        \<lparr>msg = ''injected conflict error: resource version mismatch'', transient = False, permanent = False,
         conflict = True\<rparr>
      else \<lparr>msg = ''injected unknown fault'', transient = True, permanent = False, conflict = False\<rparr>)"

text \<open>The counters \<open>injected\<close>, one per operation; a missing entry of the Go map reads as zero.\<close>

type_synonym counters = "string \<Rightarrow> int"

definition no_counters :: counters where
  "no_counters = (\<lambda>_. 0)"

fun shouldFault :: "FaultConfig list \<Rightarrow> string \<Rightarrow> string \<Rightarrow> counters \<Rightarrow> go_error option \<times> counters" where
  "shouldFault [] operation kind injected = (None, injected)"
| "shouldFault (f # fs) operation kind injected =
     (if Operation f \<noteq> operation then shouldFault fs operation kind injected
      else if ResourceKind f \<noteq> '''' \<and> ResourceKind f \<noteq> kind then shouldFault fs operation kind injected
      else if Count f > 0 \<and> injected operation \<ge> Count f then shouldFault fs operation kind injected
      else (Some (faultError_value (makeFaultError f)), injected(operation := injected operation + 1)))"

section \<open>The interceptor\<close>

text \<open>The outside state seen through an interceptor, and its operations on the counters.\<close>

record 'w intercepted_world =
  inner :: 'w
  injected :: counters

definition NewInterceptor :: "'w \<Rightarrow> 'w intercepted_world" where
  "NewInterceptor c = \<lparr>inner = c, injected = no_counters\<rparr>"

definition InjectedCount :: "string \<Rightarrow> 'w intercepted_world \<Rightarrow> int" where
  "InjectedCount operation w = injected w operation"

definition Reset :: "'w intercepted_world \<Rightarrow> 'w intercepted_world" where
  "Reset w = w\<lparr>injected := no_counters\<rparr>"

text \<open>The verb \<open>%T\<close> on a client object: the Go type, with its package's name.\<close>

fun type_text :: "gotype \<Rightarrow> string" where
  "type_text AppT = ''*v1alpha1.PlatformApplication''"
| "type_text DeploymentT = ''*v1.Deployment''"
| "type_text ServiceT = ''*v1.Service''"
| "type_text HPAT = ''*v2.HorizontalPodAutoscaler''"
| "type_text HTTPRouteT = ''*v1.HTTPRoute''"
| "type_text NetworkPolicyT = ''*v1.NetworkPolicy''"
| "type_text PDBT = ''*v1.PodDisruptionBudget''"
| "type_text UnstructuredT = ''*unstructured.Unstructured''"

text \<open>What every intercepted call does: it fails with the injected error, or it is passed on.\<close>

definition guarded ::
    "FaultConfig list \<Rightarrow> string \<Rightarrow> kobject \<Rightarrow> (go_error \<Rightarrow> 'r) \<Rightarrow> ('w \<Rightarrow> 'r \<times> 'w) \<Rightarrow>
     'w intercepted_world \<Rightarrow> 'r \<times> 'w intercepted_world" where
  "guarded fs operation obj failed call w =
     (case shouldFault fs operation (type_text (gotype_of obj)) (injected w) of
        (Some err, counts) \<Rightarrow> (failed err, w\<lparr>injected := counts\<rparr>)
      | (None, counts) \<Rightarrow>
          (case call (inner w) of (r, c) \<Rightarrow> (r, \<lparr>inner = c, injected = counts\<rparr>)))"

definition intercepted_Get ::
    "FaultConfig list \<Rightarrow> 'w env \<Rightarrow> ObjectKey \<Rightarrow> kobject \<Rightarrow> 'w intercepted_world \<Rightarrow>
     (go_error option \<times> kobject) \<times> 'w intercepted_world" where
  "intercepted_Get fs E key obj = guarded fs ''get'' obj (\<lambda>err. (Some err, obj)) (env_Get E key obj)"

definition intercepted_Create ::
    "FaultConfig list \<Rightarrow> 'w env \<Rightarrow> kobject \<Rightarrow> 'w intercepted_world \<Rightarrow>
     (go_error option \<times> kobject) \<times> 'w intercepted_world" where
  "intercepted_Create fs E obj = guarded fs ''create'' obj (\<lambda>err. (Some err, obj)) (env_Create E obj)"

definition intercepted_Update ::
    "FaultConfig list \<Rightarrow> 'w env \<Rightarrow> kobject \<Rightarrow> 'w intercepted_world \<Rightarrow>
     (go_error option \<times> kobject) \<times> 'w intercepted_world" where
  "intercepted_Update fs E obj = guarded fs ''update'' obj (\<lambda>err. (Some err, obj)) (env_Update E obj)"

definition intercepted_Patch ::
    "FaultConfig list \<Rightarrow> 'w env \<Rightarrow> kobject \<Rightarrow> string \<Rightarrow> 'w intercepted_world \<Rightarrow>
     (go_error option \<times> kobject) \<times> 'w intercepted_world" where
  "intercepted_Patch fs E obj manager =
     guarded fs ''patch'' obj (\<lambda>err. (Some err, obj)) (env_Patch E obj manager)"

definition intercepted_Delete ::
    "FaultConfig list \<Rightarrow> 'w env \<Rightarrow> kobject \<Rightarrow> 'w intercepted_world \<Rightarrow> go_error option \<times> 'w intercepted_world" where
  "intercepted_Delete fs E obj = guarded fs ''delete'' obj Some (env_Delete E obj)"

definition intercepted_StatusUpdate ::
    "FaultConfig list \<Rightarrow> 'w env \<Rightarrow> kobject \<Rightarrow> 'w intercepted_world \<Rightarrow>
     (go_error option \<times> kobject) \<times> 'w intercepted_world" where
  "intercepted_StatusUpdate fs E obj =
     guarded fs ''status'' obj (\<lambda>err. (Some err, obj)) (env_StatusUpdate E obj)"

text \<open>What is not a call of the client goes on as before.\<close>

definition passed_on :: "('w \<Rightarrow> 'r \<times> 'w) \<Rightarrow> 'w intercepted_world \<Rightarrow> 'r \<times> 'w intercepted_world" where
  "passed_on f w = (case f (inner w) of (r, c) \<Rightarrow> (r, w\<lparr>inner := c\<rparr>))"

definition intercept :: "FaultConfig list \<Rightarrow> 'w env \<Rightarrow> 'w intercepted_world env" where
  "intercept fs E =
     \<lparr>apierr = apierr E,
      env_Get = intercepted_Get fs E, env_Create = intercepted_Create fs E,
      env_Patch = intercepted_Patch fs E, env_Update = intercepted_Update fs E,
      env_Delete = intercepted_Delete fs E, env_StatusUpdate = intercepted_StatusUpdate fs E,
      env_Now = passed_on (env_Now E), env_Select = (\<lambda>delay. passed_on (env_Select E delay)),
      SetControllerReference = SetControllerReference E, DeepEqual = DeepEqual E, ParseQuantity = ParseQuantity E,
      ContainsFinalizer = ContainsFinalizer E, AddFinalizer = AddFinalizer E, RemoveFinalizer = RemoveFinalizer E\<rparr>"

lemmas intercepted_defs = intercepted_Get_def intercepted_Create_def intercepted_Patch_def
  intercepted_Update_def intercepted_Delete_def intercepted_StatusUpdate_def

lemma intercept_sel [simp]:
  "apierr (intercept fs E) = apierr E"
  "env_Get (intercept fs E) = intercepted_Get fs E"
  "env_Create (intercept fs E) = intercepted_Create fs E"
  "env_Patch (intercept fs E) = intercepted_Patch fs E"
  "env_Update (intercept fs E) = intercepted_Update fs E"
  "env_Delete (intercept fs E) = intercepted_Delete fs E"
  "env_StatusUpdate (intercept fs E) = intercepted_StatusUpdate fs E"
  "env_Now (intercept fs E) = passed_on (env_Now E)"
  "env_Select (intercept fs E) = (\<lambda>delay. passed_on (env_Select E delay))"
  "SetControllerReference (intercept fs E) = SetControllerReference E"
  "DeepEqual (intercept fs E) = DeepEqual E"
  "ParseQuantity (intercept fs E) = ParseQuantity E"
  by (simp_all add: intercept_def)

text \<open>The two ways a guarded call goes.\<close>

lemma shouldFault_error:
  "shouldFault fs operation kind counts = (Some err, counts') \<Longrightarrow> \<exists>f \<in> set fs. err = faultError_value (makeFaultError f)"
  by (induction fs) (auto split: if_splits)

lemma guarded_cases:
  assumes "guarded fs operation obj failed call w = (r, w')"
  obtains (injected) f where "f \<in> set fs" "r = failed (faultError_value (makeFaultError f))" "inner w' = inner w"
  | (passed) "call (inner w) = (r, inner w')"
  using assms
  by (auto simp: guarded_def dest: shouldFault_error split: prod.splits option.splits)

section \<open>The contract under injection\<close>

text \<open>
  The contract of the API server is closed under injection: a server whose errors for missing objects are
  API statuses meets it behind an interceptor too, with the counters as a part of the state that the
  store does not depend on.
\<close>

locale intercepted = api_server E lookup covers owned_by
  for E :: "'w env"
    and lookup :: "'w \<Rightarrow> slot \<Rightarrow> kobject option"
    and covers :: "kobject \<Rightarrow> kobject \<Rightarrow> bool"
    and owned_by :: "kobject \<Rightarrow> kobject \<Rightarrow> bool" +
  fixes fs :: "FaultConfig list"
  assumes no_status: "\<not> IsNotFound (apierr E) (faultError_value e)"

sublocale intercepted \<subseteq> faulty: api_server "intercept fs E" "\<lambda>w. lookup (inner w)" covers owned_by
proof (unfold_locales, goal_cases)
  case (1 key obj w r w') then show ?case
    by (auto simp: intercepted_defs elim!: guarded_cases dest: get_frame)
next
  case (2 key obj w x w') then show ?case
    by (auto simp: intercepted_defs elim!: guarded_cases dest: get_found)
next
  case (3 key obj w e x w') then show ?case
    by (auto simp: intercepted_defs no_status elim!: guarded_cases dest: get_missing)
next
  case (4 obj w x w') then show ?case
    by (auto simp: intercepted_defs elim!: guarded_cases dest: create_ok)
next
  case (5 obj w e x w') then show ?case
    by (auto simp: intercepted_defs elim!: guarded_cases dest: create_failed)
next
  case (6 obj manager w x w') then show ?case
    by (auto simp: intercepted_defs elim!: guarded_cases dest: patch_ok)
next
  case (7 obj manager w e x w') then show ?case
    by (auto simp: intercepted_defs elim!: guarded_cases dest: patch_failed)
next
  case (8 obj w w') then show ?case
    by (auto simp: intercepted_defs elim!: guarded_cases dest: delete_ok)
next
  case (9 obj w e w') then show ?case
    by (auto simp: intercepted_defs no_status elim!: guarded_cases dest: delete_missing)
next
  case (10 obj w e w') then show ?case
    by (auto simp: intercepted_defs elim!: guarded_cases dest: delete_failed)
next
  case (11 w t w') then show ?case
    by (auto simp: passed_on_def dest: now_frame split: prod.splits)
next
  case (12 delay w c w') then show ?case
    by (auto simp: passed_on_def dest: select_frame split: prod.splits)
qed (simp_all add: controller_reference deep_equal)

context intercepted
begin

lemmas converges_through_faults = faulty.reconcileResources_converges [unfolded intercept_sel]

end

lemma wanted_inner:
  "as_wanted (\<lambda>w. lookup (inner w)) covers owned_by owner c w = as_wanted lookup covers owned_by owner c (inner w)"
  by (simp add: as_wanted_def)

lemma server_no_status: "\<not> IsNotFound status_errors (faultError_value e)"
  by (simp add: status_errors_def faultError_value_def)

interpretation chaos: intercepted server_env server_lookup server_covers server_owned_by fs for fs
  by unfold_locales (simp add: server_no_status)

text \<open>Injected faults cannot make the operator believe in children that are not there: over every server
  that meets the contract and for every list of faults, a run of the sub-reconcilers through the interceptor
  that returns without an error leaves all seven children as wanted in the real store, and in every case
  nothing outside their slots has moved.\<close>

lemma injection_is_safe:
  assumes "intercepted E lookup covers owned_by"
    and "buildDesiredDeployment (ParseQuantity E) app = Ret dep"
    and "run_state (reconcileResources (intercept fs E) app) s = (r, s')"
  shows "(if r = Ret None
          then list_all (\<lambda>c. as_wanted lookup covers owned_by (AppObj app) c (inner (outside s'))) (desired_children app dep)
          else True) \<and>
         (\<forall>slot. slot \<in> fst ` set (desired_children app dep) \<or>
            lookup (inner (outside s')) slot = lookup (inner (outside s)) slot)"
  using tripleD [OF intercepted.converges_through_faults [OF assms(1,2), of "lookup (inner (outside s))" fs] _ assms(3)]
  by (auto simp: list_all_iff wanted_inner)

section \<open>Which calls fail\<close>

text \<open>The first fault that fires for a call: it is for the operation, for every kind or the kind of the object,
  and without a limit (zero is none) or with one above the number of faults injected into the operation before.\<close>

definition fires :: "string \<Rightarrow> string \<Rightarrow> int \<Rightarrow> FaultConfig \<Rightarrow> bool" where
  "fires operation kind n f \<longleftrightarrow>
     Operation f = operation \<and> (ResourceKind f = '''' \<or> ResourceKind f = kind) \<and> (Count f \<le> 0 \<or> n < Count f)"

lemma shouldFault_fires:
  "shouldFault fs operation kind counts =
    (case find (fires operation kind (counts operation)) fs of
       None \<Rightarrow> (None, counts)
     | Some f \<Rightarrow> (Some (faultError_value (makeFaultError f)), counts(operation := counts operation + 1)))"
  by (induction fs) (auto simp: fires_def)

text \<open>The calls of a client, in the order in which they are made.\<close>

datatype client_call =
    GetCall ObjectKey kobject
  | CreateCall kobject
  | UpdateCall kobject
  | PatchCall kobject string
  | DeleteCall kobject
  | StatusCall kobject

fun call_operation :: "client_call \<Rightarrow> string" where
  "call_operation (GetCall key obj) = ''get''"
| "call_operation (CreateCall obj) = ''create''"
| "call_operation (UpdateCall obj) = ''update''"
| "call_operation (PatchCall obj manager) = ''patch''"
| "call_operation (DeleteCall obj) = ''delete''"
| "call_operation (StatusCall obj) = ''status''"

fun call_object :: "client_call \<Rightarrow> kobject" where
  "call_object (GetCall key obj) = obj"
| "call_object (CreateCall obj) = obj"
| "call_object (UpdateCall obj) = obj"
| "call_object (PatchCall obj manager) = obj"
| "call_object (DeleteCall obj) = obj"
| "call_object (StatusCall obj) = obj"

abbreviation call_kind :: "client_call \<Rightarrow> string" where
  "call_kind c \<equiv> type_text (gotype_of (call_object c))"

text \<open>A call sent to a server: its error and its object afterwards, which a deletion leaves as it is.\<close>

type_synonym answer = "go_error option \<times> kobject"

fun send :: "'w env \<Rightarrow> client_call \<Rightarrow> 'w \<Rightarrow> answer \<times> 'w" where
  "send E (GetCall key obj) = env_Get E key obj"
| "send E (CreateCall obj) = env_Create E obj"
| "send E (UpdateCall obj) = env_Update E obj"
| "send E (PatchCall obj manager) = env_Patch E obj manager"
| "send E (DeleteCall obj) = (\<lambda>w. case env_Delete E obj w of (err, w) \<Rightarrow> ((err, obj), w))"
| "send E (StatusCall obj) = env_StatusUpdate E obj"

fun send_all :: "'w env \<Rightarrow> client_call list \<Rightarrow> 'w \<Rightarrow> answer list \<times> 'w" where
  "send_all E [] w = ([], w)"
| "send_all E (c # cs) w =
     (case send E c w of (a, w) \<Rightarrow> (case send_all E cs w of (as, w) \<Rightarrow> (a # as, w)))"

lemma send_intercepted:
  "send (intercept fs E) c w =
    (case find (fires (call_operation c) (call_kind c) (injected w (call_operation c))) fs of
       Some f \<Rightarrow> ((Some (faultError_value (makeFaultError f)), call_object c),
         w\<lparr>injected := (injected w)(call_operation c := injected w (call_operation c) + 1)\<rparr>)
     | None \<Rightarrow> (case send E c (inner w) of (a, x) \<Rightarrow> (a, w\<lparr>inner := x\<rparr>)))"
  by (cases c) (simp_all add: intercepted_defs guarded_def shouldFault_fires split: option.split prod.split)

text \<open>A decision for each call is the fault that is injected or none. How many faults the decisions before
  call number \<open>i\<close> inject into an operation, the calls that are passed on, and the answers that the client gets
  when the server's answers to those are \<open>as\<close>:\<close>

definition injected_before :: "FaultConfig option list \<Rightarrow> client_call list \<Rightarrow> string \<Rightarrow> nat \<Rightarrow> nat" where
  "injected_before ps cs operation i =
     length (filter (\<lambda>(p, c). p \<noteq> None \<and> call_operation c = operation) (take i (zip ps cs)))"

definition passed_calls :: "FaultConfig option list \<Rightarrow> client_call list \<Rightarrow> client_call list" where
  "passed_calls ps cs = map snd (filter (\<lambda>(p, c). p = None) (zip ps cs))"

fun client_answers :: "FaultConfig option list \<Rightarrow> client_call list \<Rightarrow> answer list \<Rightarrow> answer list" where
  "client_answers (Some f # ps) (c # cs) as =
     (Some (faultError_value (makeFaultError f)), call_object c) # client_answers ps cs as"
| "client_answers (None # ps) (c # cs) (a # as) = a # client_answers ps cs as"
| "client_answers ps cs as = []"

definition decided :: "FaultConfig list \<Rightarrow> counters \<Rightarrow> client_call list \<Rightarrow> FaultConfig option list \<Rightarrow> bool" where
  "decided fs counts cs ps \<longleftrightarrow>
     ps = map (\<lambda>i. find (fires (call_operation (cs ! i)) (call_kind (cs ! i))
                 (counts (call_operation (cs ! i)) + int (injected_before ps cs (call_operation (cs ! i)) i))) fs)
           [0..<length cs]"

lemma injected_before_simps [simp]:
  "injected_before ps cs operation 0 = 0"
  "injected_before (p # ps) (c # cs) operation (Suc i) =
     (if p \<noteq> None \<and> call_operation c = operation then 1 else 0) + injected_before ps cs operation i"
  by (simp_all add: injected_before_def)

lemma passed_calls_simps [simp]:
  "passed_calls [] [] = []"
  "passed_calls (None # ps) (c # cs) = c # passed_calls ps cs"
  "passed_calls (Some f # ps) (c # cs) = passed_calls ps cs"
  by (simp_all add: passed_calls_def)

lemma decided_Cons:
  assumes "decided fs counts' cs ps"
    and "p = find (fires (call_operation c) (call_kind c) (counts (call_operation c))) fs"
    and "counts' = (if p = None then counts else counts(call_operation c := counts (call_operation c) + 1))"
  shows "decided fs counts (c # cs) (p # ps)"
proof -
  have "[0..<length (c # cs)] = 0 # map Suc [0..<length cs]"
    by (simp add: map_Suc_upt upt_conv_Cons del: upt_Suc)
  moreover have "counts' operation + int (injected_before ps cs operation i) =
      counts operation + int (injected_before (p # ps) (c # cs) operation (Suc i))" for operation i
    by (simp add: assms(3))
  ultimately show ?thesis
    using assms(1,2) unfolding decided_def by (simp add: comp_def del: injected_before_simps(2) upt_Suc)
qed

lemma send_all_intercepted:
  "\<exists>ps. decided fs (injected w) cs ps \<and>
     (case send_all E (passed_calls ps cs) (inner w) of (as, x) \<Rightarrow>
        send_all (intercept fs E) cs w =
          (client_answers ps cs as,
           \<lparr>inner = x, injected = (\<lambda>operation. injected w operation + int (injected_before ps cs operation (length cs)))\<rparr>))"
proof (induction cs arbitrary: w)
  case Nil
  then show ?case by (simp add: decided_def)
next
  case (Cons c cs)
  let ?op = "call_operation c"
  let ?p = "find (fires ?op (call_kind c) (injected w ?op)) fs"
  obtain a w' where sent: "send (intercept fs E) c w = (a, w')" by (cases "send (intercept fs E) c w")
  from Cons [of w'] obtain ps where ps: "decided fs (injected w') cs ps"
    and rest: "case send_all E (passed_calls ps cs) (inner w') of (as, x) \<Rightarrow>
      send_all (intercept fs E) cs w' = (client_answers ps cs as,
        \<lparr>inner = x, injected = (\<lambda>operation. injected w' operation + int (injected_before ps cs operation (length cs)))\<rparr>)"
    by (elim exE conjE) (rule that)
  obtain as x where inner: "send_all E (passed_calls ps cs) (inner w') = (as, x)"
    by (cases "send_all E (passed_calls ps cs) (inner w')")
  with rest sent have outer: "send_all (intercept fs E) (c # cs) w = (a # client_answers ps cs as,
      \<lparr>inner = x, injected = (\<lambda>operation. injected w' operation + int (injected_before ps cs operation (length cs)))\<rparr>)"
    by simp
  have counts: "injected w' = (if ?p = None then injected w else (injected w)(?op := injected w ?op + 1))"
    using sent by (auto simp: send_intercepted split: option.splits prod.splits)
  note decided = decided_Cons [OF ps refl counts]
  show ?case
  proof (rule exI [of _ "?p # ps"], intro conjI, rule decided, cases ?p)
    case None
    with sent have "send E c (inner w) = (a, inner w')" "injected w' = injected w"
      by (auto simp: send_intercepted split: prod.splits)
    then show "case send_all E (passed_calls (?p # ps) (c # cs)) (inner w) of (as, x) \<Rightarrow>
        send_all (intercept fs E) (c # cs) w = (client_answers (?p # ps) (c # cs) as,
          \<lparr>inner = x, injected = (\<lambda>operation. injected w operation +
             int (injected_before (?p # ps) (c # cs) operation (length (c # cs))))\<rparr>)"
      by (simp only: None outer) (simp add: inner)
  next
    case (Some f)
    with sent have "a = (Some (faultError_value (makeFaultError f)), call_object c)"
        "inner w' = inner w" "injected w' = (injected w)(?op := injected w ?op + 1)"
      by (auto simp: send_intercepted)
    then show "case send_all E (passed_calls (?p # ps) (c # cs)) (inner w) of (as, x) \<Rightarrow>
        send_all (intercept fs E) (c # cs) w = (client_answers (?p # ps) (c # cs) as,
          \<lparr>inner = x, injected = (\<lambda>operation. injected w operation +
             int (injected_before (?p # ps) (c # cs) operation (length (c # cs))))\<rparr>)"
      using inner by (simp only: Some outer) (simp add: fun_eq_iff)
  qed
qed

lemma decided_fresh:
  "decided fs no_counters cs ps \<longleftrightarrow>
   ps = map (\<lambda>i. find (fires (call_operation (cs ! i)) (call_kind (cs ! i))
              (int (injected_before ps cs (call_operation (cs ! i)) i))) fs) [0..<length cs]"
  by (simp only: decided_def no_counters_def add_0)

text \<open>C40. The interceptor injects exactly the configured faults. From a new interceptor, or one that was reset,
  for every list of faults and every sequence of calls of the client: into a call the first fault is injected that is for its
  operation, for any kind or the kind of its object, and has no limit or a limit above the number of
  faults injected into the same operation before. A call with a fault gets that fault's error and its object
  unchanged, and never reaches the server behind; the server is in the state, and the other calls have the
  answers, of a run in which those calls alone were made in this order; and \<open>InjectedCount\<close> is the number of
  faults injected into the operation.\<close>

theorem interceptor_exact:
  "\<exists>ps. ps = map (\<lambda>i. find (fires (call_operation (cs ! i)) (call_kind (cs ! i))
                 (int (injected_before ps cs (call_operation (cs ! i)) i))) fs) [0..<length cs] \<and>
     (case send_all E (passed_calls ps cs) c of (as, c') \<Rightarrow>
        (case send_all (intercept fs E) cs (NewInterceptor c) of (answers, w) \<Rightarrow>
           answers = client_answers ps cs as \<and> inner w = c' \<and>
           (\<forall>operation. InjectedCount operation w = int (injected_before ps cs operation (length cs))))) \<and>
     Reset v = NewInterceptor (inner v)"
proof -
  let ?w = "NewInterceptor c :: 'a intercepted_world"
  have fresh: "injected ?w = no_counters" "inner ?w = c"
    by (simp_all add: NewInterceptor_def)
  obtain ps where ps: "decided fs no_counters cs ps"
    and run: "case send_all E (passed_calls ps cs) c of (as, x) \<Rightarrow> send_all (intercept fs E) cs ?w =
      (client_answers ps cs as,
       \<lparr>inner = x, injected = (\<lambda>operation. no_counters operation + int (injected_before ps cs operation (length cs)))\<rparr>)"
    using send_all_intercepted [of fs ?w cs E] unfolding fresh by (elim exE conjE) (rule that)
  have counted: "case send_all E (passed_calls ps cs) c of (as, c') \<Rightarrow>
      (case send_all (intercept fs E) cs ?w of (answers, w) \<Rightarrow>
         answers = client_answers ps cs as \<and> inner w = c' \<and>
         (\<forall>operation. InjectedCount operation w = int (injected_before ps cs operation (length cs))))"
    using run by (cases "send_all E (passed_calls ps cs) c") (simp add: no_counters_def InjectedCount_def)
  have reset: "Reset v = NewInterceptor (inner v)"
    by (simp add: NewInterceptor_def Reset_def)
  show ?thesis
    by (intro exI [of _ ps] conjI) (rule ps [unfolded decided_fresh] counted reset)+
qed

section \<open>The budget of a fault\<close>

text \<open>A fault list whose faults for one operation are not restricted to a kind: the first fault of the
  operation with budget left is injected. A \<open>Count\<close> of zero is no limit.\<close>

definition has_budget :: "string \<Rightarrow> int \<Rightarrow> FaultConfig \<Rightarrow> bool" where
  "has_budget operation n f \<longleftrightarrow> Operation f = operation \<and> (Count f \<le> 0 \<or> n < Count f)"

definition any_kind :: "string \<Rightarrow> FaultConfig \<Rightarrow> bool" where
  "any_kind operation f \<longleftrightarrow> Operation f \<noteq> operation \<or> ResourceKind f = ''''"

lemma shouldFault_find:
  assumes "list_all (any_kind operation) fs"
  shows "shouldFault fs operation kind counts =
    (case find (has_budget operation (counts operation)) fs of
       None \<Rightarrow> (None, counts)
     | Some f \<Rightarrow> (Some (faultError_value (makeFaultError f)), counts(operation := counts operation + 1)))"
  using assms by (induction fs) (auto simp: has_budget_def any_kind_def)

text \<open>A sequence of calls of one operation on objects of the given types, and the injected errors.\<close>

fun fault_results :: "FaultConfig list \<Rightarrow> string \<Rightarrow> string list \<Rightarrow> counters \<Rightarrow> go_error option list \<times> counters" where
  "fault_results fs operation [] counts = ([], counts)"
| "fault_results fs operation (k # ks) counts =
     (case shouldFault fs operation k counts of
        (err, counts) \<Rightarrow> (case fault_results fs operation ks counts of (errs, counts) \<Rightarrow> (err # errs, counts)))"

definition fault_at :: "FaultConfig list \<Rightarrow> string \<Rightarrow> int \<Rightarrow> go_error option" where
  "fault_at fs operation n = map_option (\<lambda>f. faultError_value (makeFaultError f)) (find (has_budget operation n) fs)"

lemma no_budget_later:
  "fault_at fs operation n = None \<Longrightarrow> n \<le> m \<Longrightarrow> fault_at fs operation m = None"
  by (auto simp: fault_at_def find_None_iff has_budget_def)

lemma fault_results_exhausted:
  assumes "list_all (any_kind operation) fs" and "fault_at fs operation (counts operation) = None"
  shows "fault_results fs operation ks counts = (replicate (length ks) None, counts)"
  using assms(2) by (induction ks) (simp_all add: shouldFault_find [OF assms(1)] fault_at_def)

lemma fault_results_from:
  assumes "list_all (any_kind operation) fs"
  shows "fst (fault_results fs operation ks counts) =
      map (\<lambda>i. fault_at fs operation (counts operation + int i)) [0..<length ks] \<and>
    snd (fault_results fs operation ks counts) operation =
      counts operation + int (length (filter (\<lambda>e. e \<noteq> None) (fst (fault_results fs operation ks counts))))"
proof (induction ks arbitrary: counts)
  case (Cons k ks)
  show ?case
  proof (cases "fault_at fs operation (counts operation)")
    case None
    then have "map (\<lambda>i. fault_at fs operation (counts operation + int i)) [0..<length (k # ks)] =
        replicate (length (k # ks)) None"
      by (intro nth_equalityI) (auto intro!: no_budget_later [where n = "counts operation"] simp del: upt_Suc replicate_Suc)
    with None show ?thesis
      by (simp only: fault_results_exhausted [where counts = counts, OF assms]) simp
  next
    case (Some e)
    let ?counts = "counts(operation := counts operation + 1)"
    have step: "shouldFault fs operation k counts = (Some e, ?counts)"
      using Some by (auto simp: shouldFault_find [OF assms] fault_at_def)
    have "[0..<length (k # ks)] = 0 # map Suc [0..<length ks]"
      by (simp add: map_Suc_upt upt_conv_Cons del: upt_Suc)
    with step Some Cons.IH [of ?counts] show ?thesis
      by (simp add: split_beta add.assoc add.commute [of 1] comp_def fun_upd_same del: upt_Suc fun_upd_apply)
  qed
qed simp

text \<open>Faults of one operation share one counter. From fresh counters, the n-th call of an operation gets
  the error of the first fault of that operation whose limit exceeds the number of calls before it (or has
  none), whatever the other faults have used up; so with limits the calls fail up to the largest one and
  never again, and \<open>InjectedCount\<close> is the number of failed calls.\<close>

theorem faults_share_budget:
  assumes "list_all (any_kind operation) fs"
  shows "case fault_results fs operation kinds no_counters of (errs, counts) \<Rightarrow>
    errs = map (\<lambda>i. fault_at fs operation (int i)) [0..<length kinds] \<and>
    InjectedCount operation \<lparr>inner = w, injected = counts\<rparr> = int (length (filter (\<lambda>e. e \<noteq> None) errs))"
  using fault_results_from [OF assms, of kinds no_counters]
  by (simp add: InjectedCount_def no_counters_def split_beta)

theorem faults_share_budget_witness:
  "map (\<lambda>e. e \<noteq> None) (fst (fault_results
      [\<lparr>Operation = ''get'', ResourceKind = '''', Fault = FaultTransient, Count = 2\<rparr>,
       \<lparr>Operation = ''get'', ResourceKind = '''', Fault = FaultConflict, Count = 3\<rparr>] ''get'' (replicate 5 ''*v1.Service'') no_counters))
    = [True, True, True, False, False]"
proof -
  let ?fs = "[\<lparr>Operation = ''get'', ResourceKind = '''', Fault = FaultTransient, Count = 2\<rparr>,
       \<lparr>Operation = ''get'', ResourceKind = '''', Fault = FaultConflict, Count = 3\<rparr>]"
  have "list_all (any_kind ''get'') ?fs"
    by (simp add: any_kind_def)
  from faults_share_budget [OF this, of "replicate 5 ''*v1.Service''"]
  have "fst (fault_results ?fs ''get'' (replicate 5 ''*v1.Service'') no_counters) =
      map (\<lambda>i. fault_at ?fs ''get'' (int i)) [0..<5]"
    unfolding split_beta length_replicate by (rule conjunct1)
  then show ?thesis
    by (simp add: fault_at_def has_budget_def upt_conv_Cons)
qed

text \<open>What a fault says of itself: exactly one of the three, transient unless it is one of the other types.\<close>

lemma faultError_kinds:
  "faultError_IsConflict (makeFaultError f) \<longleftrightarrow> Fault f = FaultConflict"
  "faultError_IsPermanent (makeFaultError f) \<longleftrightarrow> Fault f = FaultPermanent"
  "faultError_IsTransient (makeFaultError f) \<longleftrightarrow> Fault f \<notin> {FaultConflict, FaultPermanent}"
  by (simp_all add: faultError_IsConflict_def faultError_IsPermanent_def faultError_IsTransient_def makeFaultError_def
      FaultTransient_def FaultPermanent_def FaultConflict_def)

text \<open>An injected error is never the API status it stands for: as none of the predicates of package
  apierrors holds of a value without a status, the operator's classification of an injected fault of any
  type, conflicts and permanent faults included, is unknown, and \<open>ClassifyOrWrap\<close> makes it transient.\<close>

theorem injected_faults_are_transient:
  assumes "list_all (\<lambda>p. \<not> p (faultError_value (makeFaultError f))) (api_predicates A)"
  shows "Classify A (Some (faultError_value (makeFaultError f))) = ClassUnknown \<and>
    Class (classify_or_wrap A (faultError_value (makeFaultError f)) resource kind) = ClassTransient"
proof -
  have "errors_As (faultError_value (makeFaultError f)) = None"
    by (simp add: faultError_value_def)
  with assms show ?thesis
    by (simp add: classify_or_wrap_eq Classify_def api_predicates_def)
qed

theorem injected_faults_are_transient_witness:
  "faultError_IsConflict (makeFaultError \<lparr>Operation = ''patch'', ResourceKind = '''', Fault = FaultConflict, Count = 1\<rparr>) \<and>
   Class (classify_or_wrap status_errors (faultError_value (makeFaultError
     \<lparr>Operation = ''patch'', ResourceKind = '''', Fault = FaultConflict, Count = 1\<rparr>)) ''web'' ''Service'') = ClassTransient"
proof -
  let ?f = "\<lparr>Operation = ''patch'', ResourceKind = '''', Fault = FaultConflict, Count = 1\<rparr>"
  have "list_all (\<lambda>p. \<not> p (faultError_value (makeFaultError ?f))) (api_predicates status_errors)"
    by (simp add: api_predicates_def status_errors_def faultError_value_def)
  moreover have "faultError_IsConflict (makeFaultError ?f)"
    by (simp add: faultError_IsConflict_def makeFaultError_def FaultTransient_def FaultPermanent_def FaultConflict_def)
  ultimately show ?thesis
    using injected_faults_are_transient by blast
qed

end
