(* ===== verification/Scheme.thy ===== *)
theory Scheme
  imports Deployment
begin

text \<open>
  The registration of the API types: \<open>groupversion_info.go\<close> and the \<open>init\<close> functions of the three API
  packages, and the scheme that \<open>init\<close> of \<open>cmd/main.go\<close> fills from them. The scheme and its builder are
  controller-runtime's and apimachinery's, so they are a parameter; what the code relies on is the locale
  \<open>scheme_library\<close>. A package's variables are initialised before its \<open>init\<close> runs, and the method value
  \<open>AddToScheme\<close> is bound to the pointer, so it sees the types that \<open>init\<close> registers.
\<close>

section \<open>The library\<close>

record GroupVersion =
  Group :: string
  Version :: string

text \<open>Group, version and kind of a registered type.\<close>

type_synonym gvk = "string \<times> string \<times> string"

record ('b, 's) scheme_lib =
  NewBuilder :: "GroupVersion \<Rightarrow> 'b"
  Register :: "'b \<Rightarrow> string list \<Rightarrow> 'b"
  Builder_AddToScheme :: "'b \<Rightarrow> 's \<Rightarrow> go_error + 's"
  NewScheme :: 's
  clientgoscheme_AddToScheme :: "'s \<Rightarrow> go_error + 's"
  gatewayv1_Install :: "'s \<Rightarrow> go_error + 's"

section \<open>Package v1alpha1\<close>

definition GroupVersion_V1alpha1 :: GroupVersion where
  "GroupVersion_V1alpha1 = \<lparr>Group = ''platform.example.io'', Version = ''v1alpha1''\<rparr>"

definition SchemeBuilder_V1alpha1 :: "('b, 's) scheme_lib \<Rightarrow> 'b" where
  "SchemeBuilder_V1alpha1 lib = NewBuilder lib GroupVersion_V1alpha1"

definition init_V1alpha1 :: "('b, 's) scheme_lib \<Rightarrow> 'b \<Rightarrow> 'b" where
  "init_V1alpha1 lib b = Register lib b [''PlatformApplication'', ''PlatformApplicationList'']"

definition AddToScheme_V1alpha1 :: "('b, 's) scheme_lib \<Rightarrow> 's \<Rightarrow> go_error + 's" where
  "AddToScheme_V1alpha1 lib = Builder_AddToScheme lib (init_V1alpha1 lib (SchemeBuilder_V1alpha1 lib))"

section \<open>Package v1beta1\<close>

definition GroupVersion_V1beta1 :: GroupVersion where
  "GroupVersion_V1beta1 = \<lparr>Group = ''platform.example.io'', Version = ''v1beta1''\<rparr>"

definition SchemeBuilder_V1beta1 :: "('b, 's) scheme_lib \<Rightarrow> 'b" where
  "SchemeBuilder_V1beta1 lib = NewBuilder lib GroupVersion_V1beta1"

definition init_V1beta1 :: "('b, 's) scheme_lib \<Rightarrow> 'b \<Rightarrow> 'b" where
  "init_V1beta1 lib b = Register lib b [''PlatformApplication'', ''PlatformApplicationList'']"

definition AddToScheme_V1beta1 :: "('b, 's) scheme_lib \<Rightarrow> 's \<Rightarrow> go_error + 's" where
  "AddToScheme_V1beta1 lib = Builder_AddToScheme lib (init_V1beta1 lib (SchemeBuilder_V1beta1 lib))"

section \<open>Package v1\<close>

text \<open>Nothing imports this package's \<open>AddToScheme\<close>.\<close>

definition GroupVersion_V1 :: GroupVersion where
  "GroupVersion_V1 = \<lparr>Group = ''platform.example.io'', Version = ''v1''\<rparr>"

definition SchemeBuilder_V1 :: "('b, 's) scheme_lib \<Rightarrow> 'b" where
  "SchemeBuilder_V1 lib = NewBuilder lib GroupVersion_V1"

definition init_V1 :: "('b, 's) scheme_lib \<Rightarrow> 'b \<Rightarrow> 'b" where
  "init_V1 lib b = Register lib b [''PlatformApplication'', ''PlatformApplicationList'']"

definition AddToScheme_V1 :: "('b, 's) scheme_lib \<Rightarrow> 's \<Rightarrow> go_error + 's" where
  "AddToScheme_V1 lib = Builder_AddToScheme lib (init_V1 lib (SchemeBuilder_V1 lib))"

section \<open>The scheme of the process\<close>

text \<open>\<open>utilruntime.Must\<close> on the calls of \<open>init\<close>, in order: an error panics with its text.\<close>

fun must_all :: "('s \<Rightarrow> go_error + 's) list \<Rightarrow> 's \<Rightarrow> 's go" where
  "must_all [] scheme = Ret scheme"
| "must_all (add # adds) scheme =
     (case add scheme of
        Inl err \<Rightarrow> Panic (Error err)
      | Inr scheme' \<Rightarrow> must_all adds scheme')"

definition init_scheme :: "('b, 's) scheme_lib \<Rightarrow> 's go" where
  "init_scheme lib =
     must_all [clientgoscheme_AddToScheme lib, AddToScheme_V1alpha1 lib, AddToScheme_V1beta1 lib, gatewayv1_Install lib]
       (NewScheme lib)"

section \<open>The contract of the library\<close>

text \<open>
  What a scheme knows is a set of group, version and kind. A builder adds the kinds registered with it
  under its group and version, and kinds of the library's own (\<open>common\<close>, the options and watch types of
  every group); the other two parts know nothing of the operator's group.
\<close>

locale scheme_library =
  fixes lib :: "('b, 's) scheme_lib"
    and knows :: "'s \<Rightarrow> gvk set"
    and common :: "string set"
  assumes empty: "knows (NewScheme lib) = {}"
    and builder: "Builder_AddToScheme lib (Register lib (NewBuilder lib gv) kinds) s = Inr s' \<Longrightarrow> k \<notin> common \<Longrightarrow>
      (g, v, k) \<in> knows s' \<longleftrightarrow> (g, v, k) \<in> knows s \<or> g = Group gv \<and> v = Version gv \<and> k \<in> set kinds"
    and client_go: "clientgoscheme_AddToScheme lib s = Inr s' \<Longrightarrow>
      (''platform.example.io'', v, k) \<in> knows s' \<longleftrightarrow> (''platform.example.io'', v, k) \<in> knows s"
    and gateway: "gatewayv1_Install lib s = Inr s' \<Longrightarrow>
      (''platform.example.io'', v, k) \<in> knows s' \<longleftrightarrow> (''platform.example.io'', v, k) \<in> knows s"
    and common: "''PlatformApplication'' \<notin> common" "''PlatformApplicationList'' \<notin> common"
begin

lemmas package_defs = AddToScheme_V1alpha1_def AddToScheme_V1beta1_def init_V1alpha1_def init_V1beta1_def
  SchemeBuilder_V1alpha1_def SchemeBuilder_V1beta1_def GroupVersion_V1alpha1_def GroupVersion_V1beta1_def

lemma init_scheme_knows:
  assumes "init_scheme lib = Ret s" and "k \<notin> common"
  shows "(''platform.example.io'', v, k) \<in> knows s \<longleftrightarrow>
    v \<in> {''v1alpha1'', ''v1beta1''} \<and> k \<in> {''PlatformApplication'', ''PlatformApplicationList''}"
proof -
  from assms(1) obtain s1 s2 s3 where
    "clientgoscheme_AddToScheme lib (NewScheme lib) = Inr s1" "AddToScheme_V1alpha1 lib s1 = Inr s2"
    "AddToScheme_V1beta1 lib s2 = Inr s3" "gatewayv1_Install lib s3 = Inr s"
    by (auto simp: init_scheme_def split: sum.splits)
  then show ?thesis
    unfolding package_defs using assms(2)
    by (auto simp: client_go gateway builder empty)
qed

end

section \<open>A library that meets the contract\<close>

text \<open>A scheme as the list of its kinds; a builder adds the watch event as its own kind.\<close>

definition list_lib :: "(GroupVersion \<times> string list, gvk list) scheme_lib" where
  "list_lib = \<lparr>
     NewBuilder = (\<lambda>gv. (gv, [])),
     Register = (\<lambda>(gv, kinds) more. (gv, kinds @ more)),
     Builder_AddToScheme = (\<lambda>(gv, kinds) s. Inr (s @ map (\<lambda>k. (Group gv, Version gv, k)) (''WatchEvent'' # kinds))),
     NewScheme = [],
     clientgoscheme_AddToScheme = (\<lambda>s. Inr (s @ [(''apps'', ''v1'', ''Deployment'')])),
     gatewayv1_Install = (\<lambda>s. Inr (s @ [(''gateway.networking.k8s.io'', ''v1'', ''HTTPRoute'')]))\<rparr>"

interpretation scheme_list: scheme_library list_lib set "{''WatchEvent''}"
  by unfold_locales (auto simp: list_lib_def)

text \<open>C39. The kinds of the operator in the scheme: when \<open>init\<close> does not panic, the scheme knows the
  application and its list in v1alpha1 and v1beta1 and, apart from the kinds that the library registers
  with every group, nothing else of the operator's group: the types of v1 are never registered.\<close>

theorem scheme_lacks_v1:
  assumes "scheme_library lib knows common" and "init_scheme lib = Ret scheme" and "kind \<notin> common"
  shows "(''platform.example.io'', version, kind) \<in> knows scheme \<longleftrightarrow>
    version \<in> {''v1alpha1'', ''v1beta1''} \<and> kind \<in> {''PlatformApplication'', ''PlatformApplicationList''}"
  by (rule scheme_library.init_scheme_knows [OF assms])

theorem scheme_lacks_v1_witness:
  "\<exists>scheme. init_scheme list_lib = Ret scheme \<and>
     (''platform.example.io'', ''v1beta1'', ''PlatformApplication'') \<in> set scheme \<and>
     (''platform.example.io'', ''v1'', ''PlatformApplication'') \<notin> set scheme"
proof -
  obtain scheme where init: "init_scheme list_lib = Ret scheme"
    by (simp add: init_scheme_def list_lib_def AddToScheme_V1alpha1_def AddToScheme_V1beta1_def init_V1alpha1_def
        init_V1beta1_def SchemeBuilder_V1alpha1_def SchemeBuilder_V1beta1_def)
  have "(''platform.example.io'', version, ''PlatformApplication'') \<in> set scheme \<longleftrightarrow> version \<in> {''v1alpha1'', ''v1beta1''}"
    for version
    using scheme_lacks_v1 [OF scheme_list.scheme_library_axioms init, of "''PlatformApplication''" version] by simp
  with init show ?thesis by simp
qed

end
