(* ===== verification/Startup.thy ===== *)
theory Startup
  imports Controller Scheme "HOL-Library.Sublist"
begin

text \<open>
  The entry point \<open>cmd/main.go\<close>: the flags with their defaults, and the sequence of \<open>main\<close> from
  tracing to the running manager, with the scheme of theory Scheme. What controller-runtime, the Gateway API
  and the OpenTelemetry SDK answer is a parameter. The result is the exit code and the steps that were made, in
  order; \<open>os.Exit\<close> ends the process without running deferred calls.
\<close>

section \<open>Flags\<close>

record Flags =
  metricsAddr :: string
  probeAddr :: string
  pprofAddr :: string
  enableLeaderElection :: bool
  leaderElectionID :: string
  concurrentReconciles :: int
  enableTracing :: bool
  tracingExporter :: string
  tracingEndpoint :: string

definition default_Flags :: Flags where
  "default_Flags =
     \<lparr>metricsAddr = '':8080'', probeAddr = '':8081'', pprofAddr = '''', enableLeaderElection = False,
      leaderElectionID = ''platform-operator.example.io'', concurrentReconciles = 1,
      enableTracing = False, tracingExporter = ''none'', tracingEndpoint = ''localhost:4317''\<rparr>"

definition tracing_config :: "Flags \<Rightarrow> Config" where
  "tracing_config fl =
     \<lparr>Enabled = enableTracing fl, Exporter = tracingExporter fl, Endpoint = tracingEndpoint fl,
      ServiceName = ''platform-operator'', Insecure = True\<rparr>"

section \<open>The sequence\<close>

record 's ManagerOptions =
  Scheme :: 's
  BindAddress :: string
  HealthProbeBindAddress :: string
  PprofBindAddress :: string
  LeaderElection :: bool
  LeaderElectionID :: string
  WebhookPort :: int

definition manager_options :: "'s \<Rightarrow> Flags \<Rightarrow> 's ManagerOptions" where
  "manager_options scheme fl =
     \<lparr>Scheme = scheme, BindAddress = metricsAddr fl, HealthProbeBindAddress = probeAddr fl,
      PprofBindAddress = pprofAddr fl, LeaderElection = enableLeaderElection fl,
      LeaderElectionID = leaderElectionID fl, WebhookPort = 9443\<rparr>"

datatype ('r, 'e, 's) startup_step =
    NewManager "'s ManagerOptions"
  | SetupController controller_setup
  | NewWebhook string
  | AddHealthzCheck string
  | AddReadyzCheck string
  | StartManager
  | ShutdownTracer "('r, 'e) Provider"

text \<open>The surroundings of the process: the SDK, the recorder factory, the environment variable, and how
  each call on the manager answers.\<close>

record ('r, 'e, 'q, 's) process =
  sdk :: "('r, 'e) otel"
  GetEventRecorderFor :: "string \<Rightarrow> 'q"
  ENABLE_WEBHOOKS :: string
  answer :: "('r, 'e, 's) startup_step \<Rightarrow> go_error option"

definition reconciler_of :: "('r, 'e, 'q, 's) process \<Rightarrow> Flags \<Rightarrow> 'q PlatformApplicationReconciler" where
  "reconciler_of P fl =
     \<lparr>Recorder = Some (GetEventRecorderFor P ''platform-operator''), Concurrency = concurrentReconciles fl\<rparr>"

text \<open>Makes the calls of \<open>steps\<close> in order until one returns an error: the calls made, and whether all
  succeeded.\<close>

fun run_steps ::
    "(('r, 'e, 's) startup_step \<Rightarrow> go_error option) \<Rightarrow> ('r, 'e, 's) startup_step list \<Rightarrow> ('r, 'e, 's) startup_step list \<times> bool"
  where
  "run_steps ans [] = ([], True)"
| "run_steps ans (s # ss) =
     (case ans s of
        Some err \<Rightarrow> ([s], False)
      | None \<Rightarrow> (case run_steps ans ss of (made, ok) \<Rightarrow> (s # made, ok)))"

definition webhook_steps :: "('r, 'e, 'q, 's) process \<Rightarrow> ('r, 'e, 's) startup_step list" where
  "webhook_steps P =
     (if ENABLE_WEBHOOKS P \<noteq> ''false'' then [NewWebhook ''v1alpha1'', NewWebhook ''v1beta1''] else [])"

text \<open>The call of \<open>SetupWithManager\<close>; it answers what the builder's \<open>Complete\<close> answers.\<close>

definition setup_controller :: "('r, 'e, 'q, 's) process \<Rightarrow> Flags \<Rightarrow> ('r, 'e, 's) startup_step list \<times> bool" where
  "setup_controller P fl =
     (case SetupWithManager (GetEventRecorderFor P) (\<lambda>setup. answer P (SetupController setup)) (reconciler_of P fl) of
        (_, err) \<Rightarrow> ([SetupController (controller_options (reconciler_of P fl))], err = None))"

text \<open>One phase after another, as long as they succeed.\<close>

definition then_steps ::
    "('r, 'e, 's) startup_step list \<times> bool \<Rightarrow> ('r, 'e, 's) startup_step list \<times> bool \<Rightarrow> ('r, 'e, 's) startup_step list \<times> bool" where
  "then_steps a b = (if snd a then (fst a @ fst b, snd b) else a)"

definition main :: "('r, 'e, 'q, 's) process \<Rightarrow> 's \<Rightarrow> Flags \<Rightarrow> int \<times> ('r, 'e, 's) startup_step list" where
  "main P scheme fl =
     (case fst (Init (sdk P) (tracing_config fl)) of
        Inl err \<Rightarrow> (1, [])
      | Inr tp \<Rightarrow>
          (case then_steps (run_steps (answer P) [NewManager (manager_options scheme fl)])
              (then_steps (setup_controller P fl)
                (run_steps (answer P) (webhook_steps P @
                   [AddHealthzCheck ''healthz'', AddReadyzCheck ''readyz'', StartManager]))) of
             (made, True) \<Rightarrow> (0, made @ [ShutdownTracer (provider tp)])
           | (made, False) \<Rightarrow> (1, made)))"

section \<open>Properties\<close>

text \<open>Everything that a start makes, up to the running manager.\<close>

definition startup_plan :: "('r, 'e, 'q, 's) process \<Rightarrow> 's \<Rightarrow> Flags \<Rightarrow> ('r, 'e, 's) startup_step list" where
  "startup_plan P scheme fl =
     [NewManager (manager_options scheme fl), SetupController (controller_options (reconciler_of P fl))] @
     webhook_steps P @ [AddHealthzCheck ''healthz'', AddReadyzCheck ''readyz'', StartManager]"

lemma run_steps_append:
  "run_steps ans (ss @ ts) = then_steps (run_steps ans ss) (run_steps ans ts)"
  by (induction ss) (auto simp: then_steps_def split: option.split prod.split)

lemma setup_controller_run:
  "setup_controller P fl = run_steps (answer P) [SetupController (controller_options (reconciler_of P fl))]"
  by (simp add: setup_controller_def SetupWithManager_def reconciler_of_def Let_def split: option.split)

lemma main_runs_plan:
  "main P scheme fl =
     (case fst (Init (sdk P) (tracing_config fl)) of
        Inl err \<Rightarrow> (1, [])
      | Inr tp \<Rightarrow>
          (case run_steps (answer P) (startup_plan P scheme fl) of
             (made, True) \<Rightarrow> (0, made @ [ShutdownTracer (provider tp)])
           | (made, False) \<Rightarrow> (1, made)))"
  unfolding main_def startup_plan_def setup_controller_run run_steps_append [symmetric]
  by (simp only: append_Cons append_Nil)

lemma run_steps_result:
  "run_steps ans ss = (made, ok) \<Longrightarrow>
   (if ok then made = ss \<and> list_all (\<lambda>s. ans s = None) ss
    else made \<noteq> [] \<and> prefix made ss \<and> list_all (\<lambda>s. ans s = None) (butlast made) \<and> ans (last made) \<noteq> None)"
  by (induction ss arbitrary: made) (auto split: option.splits prod.splits if_splits)

text \<open>C38. The start of the process. When the exit code is 0, tracing was set up, every call of the plan was
  made in order and succeeded (the manager, the controller, the webhooks of both versions unless they are
  switched off, the two probes, and the manager's run last), and the tracer is shut down at the end. Else
  the code is 1, and either tracing failed and nothing was called, or the calls made are a beginning of the
  plan whose last call failed; then the tracer is not shut down. In every case the number of workers
  that is configured is the flag's or at least one.\<close>

theorem main_starts_or_exits:
  "case main P scheme fl of (code, made) \<Rightarrow>
     (case fst (Init (sdk P) (tracing_config fl)) of
        Inl err \<Rightarrow> code = 1 \<and> made = []
      | Inr tp \<Rightarrow>
          if code = 0
          then made = startup_plan P scheme fl @ [ShutdownTracer (provider tp)] \<and>
            list_all (\<lambda>s. answer P s = None) (startup_plan P scheme fl)
          else code = 1 \<and> made \<noteq> [] \<and> prefix made (startup_plan P scheme fl) \<and>
            list_all (\<lambda>s. answer P s = None) (butlast made) \<and> answer P (last made) \<noteq> None) \<and>
     MaxConcurrentReconciles (controller_options (reconciler_of P fl)) = max 1 (concurrentReconciles fl)"
proof -
  obtain made ok where run: "run_steps (answer P) (startup_plan P scheme fl) = (made, ok)"
    by (cases "run_steps (answer P) (startup_plan P scheme fl)")
  from run_steps_result [OF run] show ?thesis
    by (cases ok; cases "fst (Init (sdk P) (tracing_config fl))")
      (simp_all add: main_runs_plan run controller_options_def reconciler_of_def effective_concurrency_def max_def)
qed

end
