(* ===== verification/Go_Heap.thy ===== *)
theory Go_Heap
  imports Go_Prelude "HOL-Library.State_Monad"
begin

text \<open>
  A heap of Go's memory, for the code whose point is which memory it shares: the generated deep
  copies. A cell holds what one pointer, map or slice refers to; a nil reference is \<open>None\<close>. Cells are of
  one type per program part (a sum of the Go types that occur); a \<open>ctype\<close> is the view of one of its
  summands. Memory is allocated upwards, so that freshness is a comparison with the old limit.

  The locale \<open>deep_copy\<close> is the contract of a deep copy; it is closed under the ways in which Go
  types are built: structs, pointers, slices and maps.
\<close>

section \<open>Cells\<close>

type_synonym addr = nat

record 'c heap =
  contents :: "addr \<Rightarrow> 'c option"
  limit :: addr

definition empty_heap :: "'c heap" where
  "empty_heap = \<lparr>contents = \<lambda>_. None, limit = 0\<rparr>"

text \<open>The type of a cell: how its values are stored, and its zero value.\<close>

record ('c, 'v) ctype =
  inject :: "'v \<Rightarrow> 'c"
  project :: "'c \<Rightarrow> 'v option"
  zero :: 'v

definition lawful :: "('c, 'v) ctype \<Rightarrow> bool" where
  "lawful T \<longleftrightarrow> (\<forall>v. project T (inject T v) = Some v)"

definition typed :: "('c, 'v) ctype \<Rightarrow> 'c heap \<Rightarrow> addr \<Rightarrow> bool" where
  "typed T h a \<longleftrightarrow> a < limit h \<and> (\<exists>v. contents h a = Some (inject T v))"

text \<open>A type of memory inside another: the cells of a library among those of the program.\<close>

definition nested :: "('c, 'f) ctype \<Rightarrow> ('f, 'v) ctype \<Rightarrow> ('c, 'v) ctype" where
  "nested F T =
     \<lparr>inject = (\<lambda>v. inject F (inject T v)), project = (\<lambda>c. Option.bind (project F c) (project T)), zero = zero T\<rparr>"

lemma lawful_nested: "lawful F \<Longrightarrow> lawful T \<Longrightarrow> lawful (nested F T)"
  by (simp add: lawful_def nested_def)

text \<open>The deep copy of a type that another package defines: its \<open>DeepCopyInto\<close> and its zero value.\<close>

record ('c, 'x) copier =
  copy_into :: "'x \<Rightarrow> ('c heap, 'x) state"
  zero_of :: 'x

text \<open>Go's references are typed, so the other cases do not arise.\<close>

definition value_at :: "('c, 'v) ctype \<Rightarrow> 'c heap \<Rightarrow> addr \<Rightarrow> 'v" where
  "value_at T h a =
     (case contents h a of
        None \<Rightarrow> zero T
      | Some c \<Rightarrow> (case project T c of None \<Rightarrow> zero T | Some v \<Rightarrow> v))"

definition put_cell :: "('c, 'v) ctype \<Rightarrow> addr \<Rightarrow> 'v \<Rightarrow> 'c heap \<Rightarrow> 'c heap" where
  "put_cell T a v h = h\<lparr>contents := (contents h)(a \<mapsto> inject T v)\<rparr>"

definition alloc :: "('c, 'v) ctype \<Rightarrow> 'v \<Rightarrow> ('c heap, addr) state" where
  "alloc T v = State (\<lambda>h. (limit h, put_cell T (limit h) v (h\<lparr>limit := Suc (limit h)\<rparr>)))"

definition load :: "('c, 'v) ctype \<Rightarrow> addr \<Rightarrow> ('c heap, 'v) state" where
  "load T a = State (\<lambda>h. (value_at T h a, h))"

definition store :: "('c, 'v) ctype \<Rightarrow> addr \<Rightarrow> 'v \<Rightarrow> ('c heap, unit) state" where
  "store T a v = State (\<lambda>h. ((), put_cell T a v h))"

lemmas heap_defs = alloc_def load_def store_def

lemma contents_put [simp]:
  "contents (put_cell T a v h) b = (if b = a then Some (inject T v) else contents h b)"
  "limit (put_cell T a v h) = limit h"
  by (simp_all add: put_cell_def)

lemma value_at_put [simp]:
  "lawful T \<Longrightarrow> value_at T (put_cell T a v h) a = v"
  "b \<noteq> a \<Longrightarrow> value_at T' (put_cell T a v h) b = value_at T' h b"
  by (simp_all add: value_at_def lawful_def)

lemma value_at_limit [simp]: "value_at T (h\<lparr>limit := n\<rparr>) a = value_at T h a"
  by (simp add: value_at_def)

lemma value_at_cong: "contents h' a = contents h a \<Longrightarrow> value_at T h' a = value_at T h a"
  by (simp add: value_at_def)

section \<open>Copying\<close>

text \<open>The loop that copies a map, in the order of the iteration.\<close>

fun copy_entries :: "('c, gomap) ctype \<Rightarrow> addr \<Rightarrow> gomap \<Rightarrow> ('c heap, unit) state" where
  "copy_entries T b [] = State_Monad.return ()"
| "copy_entries T b ((key, val) # m) = do {
     out \<leftarrow> load T b;
     store T b (AList.update key val out);
     copy_entries T b m }"

definition copy_map :: "('c, gomap) ctype \<Rightarrow> addr option \<Rightarrow> ('c heap, addr option) state" where
  "copy_map T r =
     (case r of
        None \<Rightarrow> State_Monad.return None
      | Some a \<Rightarrow> do {
          m \<leftarrow> load T a;
          b \<leftarrow> alloc T [];
          copy_entries T b m;
          State_Monad.return (Some b) })"

text \<open>The loop that copies the elements of a slice with \<open>into\<close>, from index \<open>i\<close> on.\<close>

fun copy_elems ::
    "('c, 'e list) ctype \<Rightarrow> ('e \<Rightarrow> ('c heap, 'e) state) \<Rightarrow> addr \<Rightarrow> nat \<Rightarrow> 'e list \<Rightarrow> ('c heap, unit) state"
  where
  "copy_elems T into b i [] = State_Monad.return ()"
| "copy_elems T into b i (x # xs) = do {
     y \<leftarrow> into x;
     out \<leftarrow> load T b;
     store T b (out[i := y]);
     copy_elems T into b (Suc i) xs }"

definition copy_slice ::
    "('c, 'e list) ctype \<Rightarrow> 'e \<Rightarrow> ('e \<Rightarrow> ('c heap, 'e) state) \<Rightarrow> addr option \<Rightarrow> ('c heap, addr option) state"
  where
  "copy_slice T zero_elem into r =
     (case r of
        None \<Rightarrow> State_Monad.return None
      | Some a \<Rightarrow> do {
          xs \<leftarrow> load T a;
          b \<leftarrow> alloc T (replicate (length xs) zero_elem);
          copy_elems T into b 0 xs;
          State_Monad.return (Some b) })"

text \<open>\<open>DeepCopy\<close> of a type, from its \<open>DeepCopyInto\<close>: nil for nil, else into new memory.\<close>

definition deep_copy_pointer ::
    "('c, 'v) ctype \<Rightarrow> ('v \<Rightarrow> ('c heap, 'v) state) \<Rightarrow> addr option \<Rightarrow> ('c heap, addr option) state" where
  "deep_copy_pointer T into p =
     (case p of
        None \<Rightarrow> State_Monad.return None
      | Some a \<Rightarrow> do {
          out \<leftarrow> alloc T (zero T);
          v \<leftarrow> load T a;
          v' \<leftarrow> into v;
          store T out v';
          State_Monad.return (Some out) })"

section \<open>The contract\<close>

text \<open>
  \<open>view h x\<close> is what \<open>x\<close> says when its references are read in \<open>h\<close>; \<open>refs h x\<close> is the memory reachable from
  it; \<open>ok h x\<close> that all of it is allocated, typed and well formed.
\<close>

definition extends :: "'c heap \<Rightarrow> 'c heap \<Rightarrow> bool" where
  "extends h h' \<longleftrightarrow> limit h \<le> limit h' \<and> (\<forall>a < limit h. contents h' a = contents h a)"

lemma extends_refl [simp]: "extends h h"
  by (simp add: extends_def)

lemma extends_trans: "extends h h' \<Longrightarrow> extends h' h'' \<Longrightarrow> extends h h''"
  by (simp add: extends_def)

definition agree :: "addr set \<Rightarrow> 'c heap \<Rightarrow> 'c heap \<Rightarrow> bool" where
  "agree A h h' \<longleftrightarrow> limit h \<le> limit h' \<and> (\<forall>a \<in> A. contents h' a = contents h a)"

lemma agree_extends: "extends h h' \<Longrightarrow> A \<subseteq> {..<limit h} \<Longrightarrow> agree A h h'"
  by (auto simp: agree_def extends_def)

lemma agree_put: "a \<notin> A \<Longrightarrow> agree A h (put_cell T a v h)"
  by (simp add: agree_def)

lemma agree_Un [simp]: "agree (A \<union> B) h h' \<longleftrightarrow> agree A h h' \<and> agree B h h'"
  by (auto simp: agree_def)

text \<open>What anyone may do to memory later: a sequence of writes of cells, each at an address.\<close>

fun write_all :: "(addr \<times> 'c) list \<Rightarrow> 'c heap \<Rightarrow> 'c heap" where
  "write_all [] h = h"
| "write_all ((a, c) # ws) h = write_all ws (h\<lparr>contents := (contents h)(a \<mapsto> c)\<rparr>)"

lemma write_all_frame:
  "limit (write_all ws h) = limit h"
  "b \<notin> fst ` set ws \<Longrightarrow> contents (write_all ws h) b = contents h b"
  by (induction ws h rule: write_all.induct) auto

lemma agree_writes: "A \<inter> fst ` set ws = {} \<Longrightarrow> agree A h (write_all ws h)"
  by (auto simp: agree_def write_all_frame intro!: write_all_frame(2))

definition fresh_refs :: "'c heap \<Rightarrow> 'c heap \<Rightarrow> addr set" where
  "fresh_refs h h' = {limit h..<limit h'}"

locale deep_copy =
  fixes copy :: "'x \<Rightarrow> ('c heap, 'x) state"
    and view :: "'c heap \<Rightarrow> 'x \<Rightarrow> 'v"
    and refs :: "'c heap \<Rightarrow> 'x \<Rightarrow> addr set"
    and ok :: "'c heap \<Rightarrow> 'x \<Rightarrow> bool"
  assumes copies: "ok h x \<Longrightarrow> run_state (copy x) h = (y, h') \<Longrightarrow>
      extends h h' \<and> view h' y = view h x \<and> refs h' y \<subseteq> fresh_refs h h' \<and> ok h' y"
    and reads: "agree (refs h x) h h' \<Longrightarrow> view h' x = view h x \<and> refs h' x = refs h x"
    and reads_ok: "agree (refs h x) h h' \<Longrightarrow> ok h x \<Longrightarrow> ok h' x"
    and allocated: "ok h x \<Longrightarrow> refs h x \<subseteq> {..<limit h}"
begin

lemma survives:
  assumes "ok h x" and "extends h h'"
  shows "view h' x = view h x" "refs h' x = refs h x" "ok h' x"
  using agree_extends [OF assms(2) allocated [OF assms(1)]] reads reads_ok assms(1) by auto

text \<open>Whatever is written to the memory that was there before, the copy stays as it is; and whatever is
  written to the memory of the copy, or to any that came after, the original stays as it is.\<close>

lemma independent:
  assumes "ok h x" and "run_state (copy x) h = (y, h')"
  shows "fst ` set ws \<subseteq> {..<limit h} \<Longrightarrow> view (write_all ws h') y = view h x"
    and "fst ` set ws \<inter> {..<limit h} = {} \<Longrightarrow> view (write_all ws h') x = view h x"
proof -
  from copies [OF assms] have y: "view h' y = view h x" "refs h' y \<subseteq> fresh_refs h h'" and ext: "extends h h'"
    by simp_all
  show "view (write_all ws h') y = view h x" if "fst ` set ws \<subseteq> {..<limit h}"
  proof -
    have "refs h' y \<inter> fst ` set ws = {}" using y that by (fastforce simp: fresh_refs_def)
    from reads [OF agree_writes [OF this, of h']] y show ?thesis by simp
  qed
  show "view (write_all ws h') x = view h x" if "fst ` set ws \<inter> {..<limit h} = {}"
  proof -
    have "refs h' x \<inter> fst ` set ws = {}"
      using survives(2) [OF assms(1) ext] allocated [OF assms(1)] that by auto
    from reads [OF agree_writes [OF this, of h']] survives(1) [OF assms(1) ext] show ?thesis by simp
  qed
qed

lemma isolated:
  assumes "ok h x" and "run_state (copy x) h = (y, h')"
  shows "view (write_all (filter (\<lambda>(a, c). a < limit h) ws) h') y = view h x"
    and "view (write_all (filter (\<lambda>(a, c). limit h \<le> a) ws) h') x = view h x"
  by (intro independent [OF assms]; auto)+

end

section \<open>Plain values and structs\<close>

text \<open>A type without references is copied by assignment.\<close>

lemma deep_copy_plain: "deep_copy State_Monad.return (\<lambda>_ v. v) (\<lambda>_ _. {}) (\<lambda>_ _. True)"
  by unfold_locales auto

lemma deep_copy_pair:
  assumes A: "deep_copy c1 v1 r1 o1" and B: "deep_copy c2 v2 r2 o2"
  shows "deep_copy (\<lambda>(x, y). do { x' \<leftarrow> c1 x; y' \<leftarrow> c2 y; State_Monad.return (x', y') })
    (\<lambda>h (x, y). (v1 h x, v2 h y)) (\<lambda>h (x, y). r1 h x \<union> r2 h y) (\<lambda>h (x, y). o1 h x \<and> o2 h y)"
proof (unfold_locales, goal_cases)
  case (1 h p q h')
  obtain x y where p: "p = (x, y)" by (cases p)
  obtain x' h1 where run1: "run_state (c1 x) h = (x', h1)" by (cases "run_state (c1 x) h")
  obtain y' where run2: "run_state (c2 y) h1 = (y', h')" and q: "q = (x', y')"
    using 1 by (cases "run_state (c2 y) h1") (auto simp: p run1)
  from 1 have oks: "o1 h x" "o2 h y" by (simp_all add: p)
  note one = deep_copy.copies [OF A oks(1) run1]
  then have y1: "v2 h1 y = v2 h y" "o2 h1 y"
    using deep_copy.survives [OF B oks(2)] by blast+
  note two = deep_copy.copies [OF B y1(2) run2]
  then have "v1 h' x' = v1 h1 x'" "r1 h' x' = r1 h1 x'" "o1 h' x'"
    using deep_copy.survives [OF A] one by blast+
  moreover have "extends h h'"
    using one two extends_trans by blast
  moreover have "fresh_refs h h1 \<subseteq> fresh_refs h h'" "fresh_refs h1 h' \<subseteq> fresh_refs h h'"
    using one two by (auto simp: fresh_refs_def extends_def)
  ultimately show ?case
    using one two y1 by (auto simp: p q)
next
  case (2 h p h')
  then show ?case
    using deep_copy.reads [OF A, of h "fst p" h'] deep_copy.reads [OF B, of h "snd p" h']
    by (cases p) simp
next
  case (3 h p h')
  then show ?case
    using deep_copy.reads_ok [OF A, of h "fst p" h'] deep_copy.reads_ok [OF B, of h "snd p" h']
    by (cases p) simp
next
  case (4 h p)
  then show ?case
    using deep_copy.allocated [OF A, of h "fst p"] deep_copy.allocated [OF B, of h "snd p"]
    by (cases p) simp
qed

text \<open>A struct whose references all sit in one part of it, which is copied and put back.\<close>

lemma deep_copy_field:
  fixes sel :: "'s \<Rightarrow> 'x" and upd :: "'s \<Rightarrow> 'x \<Rightarrow> 's"
  assumes C: "deep_copy c v r k"
    and get_set: "\<And>s x. sel (upd s x) = x"
    and view: "\<And>h s. view h s = W s (v h (sel s))" and rest: "\<And>s x. W (upd s x) = W s"
  shows "deep_copy (\<lambda>s. do { x \<leftarrow> c (sel s); State_Monad.return (upd s x) })
    view (\<lambda>h s. r h (sel s)) (\<lambda>h s. k h (sel s))"
proof (unfold_locales, goal_cases)
  case (1 h s t h')
  obtain x h1 where run: "run_state (c (sel s)) h = (x, h1)" by (cases "run_state (c (sel s)) h")
  with 1 have "t = upd s x" "h1 = h'" by simp_all
  with deep_copy.copies [OF C 1(1) run] show ?case
    by (simp add: get_set view rest)
next
  case (2 h s h')
  then show ?case
    using deep_copy.reads [OF C, of h "sel s" h'] by (simp add: view)
next
  case (3 h s h')
  then show ?case
    by (rule deep_copy.reads_ok [OF C])
next
  case (4 h s)
  then show ?case
    by (rule deep_copy.allocated [OF C])
qed

section \<open>Maps\<close>

definition map_view :: "('c, gomap) ctype \<Rightarrow> 'c heap \<Rightarrow> addr option \<Rightarrow> gomap option" where
  "map_view T h r = map_option (value_at T h) r"

definition map_ok :: "('c, gomap) ctype \<Rightarrow> 'c heap \<Rightarrow> addr option \<Rightarrow> bool" where
  "map_ok T h r \<longleftrightarrow> (\<forall>a \<in> set_option r. typed T h a \<and> wf_map (value_at T h a))"

definition entries_into :: "gomap \<Rightarrow> gomap \<Rightarrow> gomap" where
  "entries_into out m = foldl (\<lambda>out (key, val). AList.update key val out) out m"

lemma update_new: "k \<notin> fst ` set m \<Longrightarrow> AList.update k v m = m @ [(k, v)]"
  by (induction m) auto

lemma entries_into_append: "wf_map (out @ m) \<Longrightarrow> entries_into out m = out @ m"
proof (induction m arbitrary: out)
  case Nil
  then show ?case by (simp add: entries_into_def)
next
  case (Cons e m)
  obtain k v where e: "e = (k, v)" by (cases e)
  with Cons.prems have "k \<notin> fst ` set out" "wf_map ((out @ [(k, v)]) @ m)"
    by (auto simp: wf_map_def)
  with Cons.IH [of "out @ [(k, v)]"] show ?case
    by (simp add: entries_into_def e update_new)
qed

lemma put_same: "contents h b = Some (inject T v) \<Longrightarrow> put_cell T b v h = h"
  by (simp add: put_cell_def fun_upd_idem)

lemma put_put [simp]: "put_cell T b v (put_cell T b w h) = put_cell T b v h"
  by (simp add: put_cell_def)

lemma run_copy_entries:
  assumes "lawful T" and "contents h b = Some (inject T out)"
  shows "run_state (copy_entries T b m) h = ((), put_cell T b (entries_into out m) h)"
  using assms(2)
proof (induction m arbitrary: out h)
  case Nil
  then show ?case by (simp add: entries_into_def put_same)
next
  case (Cons e m)
  obtain k v where e: "e = (k, v)" by (cases e)
  have "value_at T h b = out"
    using Cons.prems assms(1) by (simp add: value_at_def lawful_def)
  with Cons.IH [of "put_cell T b (AList.update k v out) h"] show ?case
    by (simp add: e heap_defs entries_into_def)
qed

lemma value_of_typed:
  "lawful T \<Longrightarrow> typed T h a \<Longrightarrow> contents h a = Some (inject T (value_at T h a)) \<and> a < limit h"
  by (auto simp: typed_def value_at_def lawful_def)

lemma agree_cell:
  assumes "agree A h h'" and "a \<in> A"
  shows "value_at T h' a = value_at T h a" "typed T h a \<Longrightarrow> typed T h' a"
  using assms by (auto simp: agree_def typed_def intro: value_at_cong)

lemma deep_copy_map:
  assumes "lawful T"
  shows "deep_copy (copy_map T) (map_view T) (\<lambda>_. set_option) (map_ok T)"
proof (unfold_locales, goal_cases)
  case (1 h r q h')
  show ?case
  proof (cases r)
    case None
    with 1 show ?thesis by (simp add: copy_map_def map_view_def map_ok_def)
  next
    case (Some a)
    with 1 have a: "a < limit h" "wf_map (value_at T h a)"
      by (simp_all add: map_ok_def typed_def)
    let ?h1 = "put_cell T (limit h) [] (h\<lparr>limit := Suc (limit h)\<rparr>)"
    have "run_state (copy_entries T (limit h) (value_at T h a)) ?h1 =
        ((), put_cell T (limit h) (value_at T h a) (h\<lparr>limit := Suc (limit h)\<rparr>))"
      using entries_into_append [of "[]"] a(2) by (simp add: run_copy_entries [OF assms, where out = "[]"])
    with 1 Some have q: "q = Some (limit h)" and h': "h' = put_cell T (limit h) (value_at T h a) (h\<lparr>limit := Suc (limit h)\<rparr>)"
      by (simp_all add: copy_map_def heap_defs)
    have "extends h h'"
      by (simp add: h' extends_def)
    moreover have "value_at T h' (limit h) = value_at T h a"
      using assms by (simp add: h')
    moreover have "typed T h' (limit h)"
      by (auto simp: h' typed_def)
    ultimately show ?thesis
      using a by (simp add: Some q map_view_def map_ok_def fresh_refs_def h')
  qed
next
  case (2 h r h')
  then show ?case
    using agree_cell(1) [OF 2, where T = T] by (cases r) (simp_all add: map_view_def)
next
  case (3 h r h')
  then show ?case
    using agree_cell [OF 3(1), where T = T] by (cases r) (simp_all add: map_ok_def)
next
  case (4 h r)
  then show ?case by (auto simp: map_ok_def typed_def)
qed

section \<open>Slices\<close>

definition slice_view ::
    "('c, 'e list) ctype \<Rightarrow> ('c heap \<Rightarrow> 'e \<Rightarrow> 'v) \<Rightarrow> 'c heap \<Rightarrow> addr option \<Rightarrow> 'v list option" where
  "slice_view T v h r = map_option (\<lambda>a. map (v h) (value_at T h a)) r"

definition slice_refs ::
    "('c, 'e list) ctype \<Rightarrow> ('c heap \<Rightarrow> 'e \<Rightarrow> addr set) \<Rightarrow> 'c heap \<Rightarrow> addr option \<Rightarrow> addr set" where
  "slice_refs T r h s = (case s of None \<Rightarrow> {} | Some a \<Rightarrow> insert a (\<Union>x \<in> set (value_at T h a). r h x))"

definition slice_ok ::
    "('c, 'e list) ctype \<Rightarrow> ('c heap \<Rightarrow> 'e \<Rightarrow> bool) \<Rightarrow> 'c heap \<Rightarrow> addr option \<Rightarrow> bool" where
  "slice_ok T k h s = (case s of None \<Rightarrow> True | Some a \<Rightarrow> typed T h a \<and> (\<forall>x \<in> set (value_at T h a). k h x))"

text \<open>The loop, from a state in which the elements before index \<open>length ys\<close> are in place.\<close>

lemma run_copy_elems:
  assumes D: "deep_copy into v r k" and T: "lawful T"
    and "contents h b = Some (inject T (ys @ zs))" and "length zs = length xs" and "b < limit h"
    and "\<forall>x \<in> set xs. k h x \<and> b \<notin> r h x"
    and "run_state (copy_elems T into b (length ys) xs) h = (u, h')"
  shows "\<exists>ys'. limit h \<le> limit h' \<and> (\<forall>a. a < limit h \<longrightarrow> a \<noteq> b \<longrightarrow> contents h' a = contents h a) \<and>
    contents h' b = Some (inject T (ys @ ys')) \<and> map (v h') ys' = map (v h) xs \<and>
    (\<forall>y \<in> set ys'. r h' y \<subseteq> fresh_refs h h' \<and> k h' y)"
  using assms(3-)
proof (induction xs arbitrary: ys zs h)
  case Nil
  then show ?case by simp
next
  case (Cons x xs)
  note p = Cons.prems
  obtain z zs' where zs: "zs = z # zs'" using p(2) by (cases zs) simp_all
  obtain y h1 where run1: "run_state (into x) h = (y, h1)" by (cases "run_state (into x) h")
  have kx: "k h x" using p(4) by simp
  note one = deep_copy.copies [OF D kx run1]
  then have ext: "extends h h1" by simp
  then have b1: "contents h1 b = Some (inject T (ys @ zs))" "b < limit h1"
    using p(1,3) by (auto simp: extends_def)
  let ?h2 = "put_cell T b ((ys @ [y]) @ zs') h1"
  have "value_at T h1 b = ys @ zs"
    using b1(1) T by (simp add: value_at_def lawful_def)
  then have run2: "run_state (copy_elems T into b (length (ys @ [y])) xs) ?h2 = (u, h')"
    using p(5) run1 by (simp add: heap_defs zs list_update_append)
  have later: "k ?h2 x' \<and> b \<notin> r ?h2 x' \<and> v ?h2 x' = v h x'" if "x' \<in> set xs" for x'
  proof -
    have k: "k h x'" "b \<notin> r h x'" using p(4) that by simp_all
    note s = deep_copy.survives [OF D k(1) ext]
    with k(2) have "agree (r h1 x') h1 ?h2" by (intro agree_put) simp
    with s k(2) show ?thesis
      using deep_copy.reads [OF D, of h1 x' ?h2] deep_copy.reads_ok [OF D, of h1 x' ?h2] by simp
  qed
  have "b \<notin> r h1 y" using one p(3) by (auto simp: fresh_refs_def)
  then have "agree (r h1 y) h1 ?h2" by (rule agree_put)
  from deep_copy.reads [OF D this] deep_copy.reads_ok [OF D this] one
  have y: "v ?h2 y = v h x" "r ?h2 y \<subseteq> fresh_refs h h1" "k ?h2 y" by simp_all
  obtain ys' where ys': "limit ?h2 \<le> limit h'" "\<forall>a. a < limit ?h2 \<longrightarrow> a \<noteq> b \<longrightarrow> contents h' a = contents ?h2 a"
    "contents h' b = Some (inject T ((ys @ [y]) @ ys'))" "map (v h') ys' = map (v ?h2) xs"
    "\<forall>y \<in> set ys'. r h' y \<subseteq> fresh_refs ?h2 h' \<and> k h' y"
    using Cons.IH [OF _ _ _ _ run2, of zs'] p(2) b1(2) later by (auto simp: zs)
  have "agree (r ?h2 y) ?h2 h'"
    using y(2) ys'(1,2) p(3) by (auto simp: agree_def fresh_refs_def)
  from deep_copy.reads [OF D this] deep_copy.reads_ok [OF D this] y
  have y': "v h' y = v h x" "r h' y \<subseteq> fresh_refs h h1" "k h' y" by simp_all
  have sub: "fresh_refs h h1 \<subseteq> fresh_refs h h'" "fresh_refs ?h2 h' \<subseteq> fresh_refs h h'"
    and lim: "limit h \<le> limit h'"
    using ys'(1) ext by (auto simp: fresh_refs_def extends_def)
  have frame: "\<forall>a. a < limit h \<longrightarrow> a \<noteq> b \<longrightarrow> contents h' a = contents h a"
    using ys'(2) ext by (simp add: extends_def)
  have views: "map (v h') (y # ys') = map (v h) (x # xs)"
    using later ys'(4) y'(1) by simp
  have each: "\<forall>y' \<in> set (y # ys'). r h' y' \<subseteq> fresh_refs h h' \<and> k h' y'"
    using ys'(5) y'(2,3) sub unfolding list.set by blast
  have cell: "contents h' b = Some (inject T (ys @ y # ys'))"
    using ys'(3) by simp
  show ?case
    using lim frame cell views each by (intro exI [of _ "y # ys'"] conjI)
qed

lemma run_copy_slice:
  assumes D: "deep_copy into v r k" and T: "lawful T"
    and a: "a < limit h" "\<forall>x \<in> set (value_at T h a). k h x"
    and "run_state (copy_slice T e into (Some a)) h = (q, h')"
  shows "\<exists>b. q = Some b \<and> extends h h' \<and> typed T h' b \<and> b \<in> fresh_refs h h' \<and>
    map (v h') (value_at T h' b) = map (v h) (value_at T h a) \<and>
    (\<forall>y \<in> set (value_at T h' b). r h' y \<subseteq> fresh_refs h h' \<and> k h' y)"
proof -
  let ?xs = "value_at T h a"
  let ?h1 = "put_cell T (limit h) (replicate (length ?xs) e) (h\<lparr>limit := Suc (limit h)\<rparr>)"
  have ext: "extends h ?h1" by (simp add: extends_def)
  obtain u h2 where run: "run_state (copy_elems T into (limit h) 0 ?xs) ?h1 = (u, h2)"
    by (cases "run_state (copy_elems T into (limit h) 0 ?xs) ?h1")
  with assms(5) have q: "q = Some (limit h)" "h' = h2"
    using a(1) by (simp_all add: copy_slice_def heap_defs)
  have elems: "\<forall>x \<in> set ?xs. k ?h1 x \<and> limit h \<notin> r ?h1 x" "map (v ?h1) ?xs = map (v h) ?xs"
    using a(2) deep_copy.survives [OF D _ ext] deep_copy.allocated [OF D] by fastforce+
  obtain ys' where ys': "limit ?h1 \<le> limit h2" "\<forall>a. a < limit ?h1 \<longrightarrow> a \<noteq> limit h \<longrightarrow> contents h2 a = contents ?h1 a"
    "contents h2 (limit h) = Some (inject T ys')" "map (v h2) ys' = map (v ?h1) ?xs"
    "\<forall>y \<in> set ys'. r h2 y \<subseteq> fresh_refs ?h1 h2 \<and> k h2 y"
    using run_copy_elems [OF D T _ _ _ elems(1), where ys = "[]" and zs = "replicate (length ?xs) e" and u = u and h' = h2] run
    by auto
  have "value_at T h2 (limit h) = ys'"
    using ys'(3) T by (simp add: value_at_def lawful_def)
  moreover have "fresh_refs ?h1 h2 \<subseteq> fresh_refs h h2" by (auto simp: fresh_refs_def)
  moreover have "typed T h2 (limit h)" "extends h h2" "limit h \<in> fresh_refs h h2"
    using ys'(1-3) by (auto simp: typed_def extends_def fresh_refs_def)
  ultimately show ?thesis
    using ys'(4,5) elems(2) q by (intro exI [of _ "limit h"]) auto
qed

lemma deep_copy_slice:
  assumes D: "deep_copy into v r k" and T: "lawful T"
  shows "deep_copy (copy_slice T e into) (slice_view T v) (slice_refs T r) (slice_ok T k)"
proof (unfold_locales, goal_cases)
  case (1 h s q h')
  show ?case
  proof (cases s)
    case None
    with 1 show ?thesis by (simp add: copy_slice_def slice_view_def slice_refs_def slice_ok_def)
  next
    case (Some a)
    with 1 have "a < limit h" "\<forall>x \<in> set (value_at T h a). k h x"
      by (simp_all add: slice_ok_def typed_def)
    from run_copy_slice [OF D T this 1(2) [unfolded Some]] show ?thesis
      using Some by (auto simp: slice_view_def slice_refs_def slice_ok_def) blast
  qed
next
  case (2 h s h')
  show ?case
  proof (cases s)
    case (Some a)
    then have "value_at T h' a = value_at T h a"
      using agree_cell(1) [OF 2, where T = T] by (simp add: slice_refs_def)
    moreover have "v h' x = v h x \<and> r h' x = r h x" if "x \<in> set (value_at T h a)" for x
    proof (rule deep_copy.reads [OF D])
      show "agree (r h x) h h'" using 2 Some that by (auto simp: agree_def slice_refs_def)
    qed
    ultimately show ?thesis
      by (simp add: Some slice_view_def slice_refs_def)
  qed (simp add: slice_view_def slice_refs_def)
next
  case (3 h s h')
  show ?case
  proof (cases s)
    case (Some a)
    then have "value_at T h' a = value_at T h a" "typed T h a \<Longrightarrow> typed T h' a"
      using agree_cell [OF 3(1), where T = T] by (simp_all add: slice_refs_def)
    moreover have "k h x \<Longrightarrow> k h' x" if "x \<in> set (value_at T h a)" for x
    proof (rule deep_copy.reads_ok [OF D])
      show "agree (r h x) h h'" using 3(1) Some that by (auto simp: agree_def slice_refs_def)
    qed
    ultimately show ?thesis
      using 3(2) by (simp add: Some slice_ok_def)
  qed (simp add: slice_ok_def)
next
  case (4 h s)
  then show ?case
    using deep_copy.allocated [OF D] by (fastforce simp: slice_ok_def slice_refs_def typed_def split: option.splits)
qed

section \<open>Pointers\<close>

definition pointer_view :: "('c, 's) ctype \<Rightarrow> ('c heap \<Rightarrow> 's \<Rightarrow> 'v) \<Rightarrow> 'c heap \<Rightarrow> addr option \<Rightarrow> 'v option" where
  "pointer_view T v h p = map_option (\<lambda>a. v h (value_at T h a)) p"

definition pointer_refs :: "('c, 's) ctype \<Rightarrow> ('c heap \<Rightarrow> 's \<Rightarrow> addr set) \<Rightarrow> 'c heap \<Rightarrow> addr option \<Rightarrow> addr set" where
  "pointer_refs T r h p = (case p of None \<Rightarrow> {} | Some a \<Rightarrow> insert a (r h (value_at T h a)))"

definition pointer_ok :: "('c, 's) ctype \<Rightarrow> ('c heap \<Rightarrow> 's \<Rightarrow> bool) \<Rightarrow> 'c heap \<Rightarrow> addr option \<Rightarrow> bool" where
  "pointer_ok T k h p = (case p of None \<Rightarrow> True | Some a \<Rightarrow> typed T h a \<and> k h (value_at T h a))"

lemma deep_copy_of_pointer:
  assumes D: "deep_copy into v r k" and T: "lawful T"
  shows "deep_copy (deep_copy_pointer T into) (pointer_view T v) (pointer_refs T r) (pointer_ok T k)"
proof (unfold_locales, goal_cases)
  case (1 h p q h')
  show ?case
  proof (cases p)
    case None
    with 1 show ?thesis by (simp add: deep_copy_pointer_def pointer_view_def pointer_refs_def pointer_ok_def)
  next
    case (Some a)
    let ?x = "value_at T h a"
    from 1 Some have a: "a < limit h" "k h ?x"
      by (simp_all add: pointer_ok_def typed_def)
    let ?h1 = "put_cell T (limit h) (zero T) (h\<lparr>limit := Suc (limit h)\<rparr>)"
    have ext1: "extends h ?h1" by (simp add: extends_def)
    note s = deep_copy.survives [OF D a(2) ext1]
    obtain y h2 where run: "run_state (into ?x) ?h1 = (y, h2)" by (cases "run_state (into ?x) ?h1")
    note c = deep_copy.copies [OF D s(3) run]
    have q: "q = Some (limit h)" "h' = put_cell T (limit h) y h2"
      using 1 Some a(1) run by (simp_all add: deep_copy_pointer_def heap_defs)
    have "limit h \<notin> r h2 y" using c by (auto simp: fresh_refs_def)
    then have "agree (r h2 y) h2 h'" unfolding q by (rule agree_put)
    then have y: "v h' y = v h ?x" "r h' y \<subseteq> fresh_refs ?h1 h2" "k h' y"
      using deep_copy.reads [OF D, of h2 y h'] deep_copy.reads_ok [OF D, of h2 y h'] c s(1) by simp_all
    have at_new: "value_at T h' (limit h) = y"
      using T by (simp add: q)
    have lim: "Suc (limit h) \<le> limit h2"
      using c by (simp add: extends_def)
    then have "extends h h'" "typed T h' (limit h)"
      using c by (auto simp: q extends_def typed_def)
    moreover have "insert (limit h) (r h' y) \<subseteq> fresh_refs h h'"
      using y(2) lim by (auto simp: q fresh_refs_def)
    ultimately show ?thesis
      using y by (simp add: Some q(1) at_new pointer_view_def pointer_refs_def pointer_ok_def)
  qed
next
  case (2 h p h')
  show ?case
  proof (cases p)
    case (Some a)
    have "agree (r h (value_at T h a)) h h'" using 2 Some by (simp add: agree_def pointer_refs_def)
    with deep_copy.reads [OF D this] agree_cell(1) [OF 2, where T = T] Some show ?thesis
      by (simp add: pointer_view_def pointer_refs_def)
  qed (simp add: pointer_view_def pointer_refs_def)
next
  case (3 h p h')
  show ?case
  proof (cases p)
    case (Some a)
    have "agree (r h (value_at T h a)) h h'" using 3(1) Some by (simp add: agree_def pointer_refs_def)
    with deep_copy.reads_ok [OF D this] agree_cell [OF 3(1), where T = T] Some 3(2) show ?thesis
      by (simp add: pointer_refs_def pointer_ok_def)
  qed (simp add: pointer_ok_def)
next
  case (4 h p)
  then show ?case
    using deep_copy.allocated [OF D] by (auto simp: pointer_ok_def pointer_refs_def typed_def split: option.splits)
qed

end
