(* ===== verification/Imported_Types.thy ===== *)
theory Imported_Types
  imports K8s Go_Heap
begin

text \<open>
  The API types hold three structs of other packages that have references: \<open>metav1.ObjectMeta\<close>, \<open>metav1.ListMeta\<close> and
  \<open>corev1.EnvFromSource\<close>. Their deep copies are not code of this repository, so in the theories of the generated deep copies they are parameters,
  with the contract \<open>deep_copy\<close> as hypothesis. This theory has the instance on which those hypotheses are
  discharged: the structs as they lie in memory, with a reference for every pointer, map and slice, and copies
  that follow these references. Their cells are of a type of their own, inside the cells of a program
  part by an outer cell type \<open>F\<close>.
\<close>

section \<open>Memory of the library types\<close>

datatype library_cell =
    StringMapCell gomap
  | StringsCell "string list"
  | OwnersCell "OwnerReference list"
  | TimeCell Time
  | CountCell int64
  | TextCell string

definition string_maps :: "(library_cell, gomap) ctype" where
  "string_maps = \<lparr>inject = StringMapCell, project = (\<lambda>c. case c of StringMapCell v \<Rightarrow> Some v | _ \<Rightarrow> None), zero = []\<rparr>"

definition string_slices :: "(library_cell, string list) ctype" where
  "string_slices = \<lparr>inject = StringsCell, project = (\<lambda>c. case c of StringsCell v \<Rightarrow> Some v | _ \<Rightarrow> None), zero = []\<rparr>"

definition owner_slices :: "(library_cell, OwnerReference list) ctype" where
  "owner_slices = \<lparr>inject = OwnersCell, project = (\<lambda>c. case c of OwnersCell v \<Rightarrow> Some v | _ \<Rightarrow> None), zero = []\<rparr>"

definition times :: "(library_cell, Time) ctype" where
  "times = \<lparr>inject = TimeCell, project = (\<lambda>c. case c of TimeCell v \<Rightarrow> Some v | _ \<Rightarrow> None), zero = 0\<rparr>"

definition counts :: "(library_cell, int64) ctype" where
  "counts = \<lparr>inject = CountCell, project = (\<lambda>c. case c of CountCell v \<Rightarrow> Some v | _ \<Rightarrow> None), zero = 0\<rparr>"

definition texts :: "(library_cell, string) ctype" where
  "texts = \<lparr>inject = TextCell, project = (\<lambda>c. case c of TextCell v \<Rightarrow> Some v | _ \<Rightarrow> None), zero = []\<rparr>"

lemmas library_types = string_maps_def string_slices_def owner_slices_def times_def counts_def texts_def

lemma lawful_library:
  "lawful string_maps" "lawful string_slices" "lawful owner_slices" "lawful times" "lawful counts" "lawful texts"
  by (simp_all add: lawful_def library_types)

section \<open>Object metadata\<close>

record StoredMeta =
  MetaName :: string
  MetaNamespace :: string
  MetaUID :: string
  MetaResourceVersion :: string
  MetaGeneration :: int64
  DeletionRef :: "addr option"
  LabelsRef :: "addr option"
  AnnotationsRef :: "addr option"
  OwnersRef :: "addr option"
  FinalizersRef :: "addr option"

definition zero_StoredMeta :: StoredMeta where
  "zero_StoredMeta = \<lparr>MetaName = [], MetaNamespace = [], MetaUID = [], MetaResourceVersion = [], MetaGeneration = 0,
     DeletionRef = None, LabelsRef = None, AnnotationsRef = None, OwnersRef = None, FinalizersRef = None\<rparr>"

definition copy_meta_refs ::
    "('c, library_cell) ctype \<Rightarrow> addr option \<times> addr option \<times> addr option \<times> addr option \<times> addr option \<Rightarrow>
     ('c heap, addr option \<times> addr option \<times> addr option \<times> addr option \<times> addr option) state" where
  "copy_meta_refs F = (\<lambda>(t, r). do {
     t \<leftarrow> deep_copy_pointer (nested F times) State_Monad.return t;
     r \<leftarrow> (\<lambda>(l, r). do {
       l \<leftarrow> copy_map (nested F string_maps) l;
       r \<leftarrow> (\<lambda>(a, r). do {
         a \<leftarrow> copy_map (nested F string_maps) a;
         r \<leftarrow> (\<lambda>(ow, f). do {
           ow \<leftarrow> copy_slice (nested F owner_slices) \<lparr>OwnerKind = [], OwnerName = [], OwnerUID = [], Controller = False\<rparr>
             State_Monad.return ow;
           f \<leftarrow> copy_slice (nested F string_slices) [] State_Monad.return f;
           State_Monad.return (ow, f) }) r;
         State_Monad.return (a, r) }) r;
       State_Monad.return (l, r) }) r;
     State_Monad.return (t, r) })"

definition meta_refs_of :: "StoredMeta \<Rightarrow> addr option \<times> addr option \<times> addr option \<times> addr option \<times> addr option" where
  "meta_refs_of s = (DeletionRef s, LabelsRef s, AnnotationsRef s, OwnersRef s, FinalizersRef s)"

definition with_meta_refs ::
    "StoredMeta \<Rightarrow> addr option \<times> addr option \<times> addr option \<times> addr option \<times> addr option \<Rightarrow> StoredMeta" where
  "with_meta_refs s = (\<lambda>(t, l, a, ow, f).
     s\<lparr>DeletionRef := t, LabelsRef := l, AnnotationsRef := a, OwnersRef := ow, FinalizersRef := f\<rparr>)"

definition meta_copier :: "('c, library_cell) ctype \<Rightarrow> ('c, StoredMeta) copier" where
  "meta_copier F = \<lparr>copy_into = (\<lambda>s. do { r \<leftarrow> copy_meta_refs F (meta_refs_of s); State_Monad.return (with_meta_refs s r) }),
     zero_of = zero_StoredMeta\<rparr>"

text \<open>What metadata in memory says: the value, and which of its maps and slices are nil.\<close>

type_synonym meta_nils = "bool \<times> bool \<times> bool \<times> bool"

definition meta_value ::
    "StoredMeta \<Rightarrow> Time option \<times> gomap option \<times> gomap option \<times> OwnerReference list option \<times> string list option \<Rightarrow>
     ObjectMeta \<times> meta_nils" where
  "meta_value s = (\<lambda>(t, l, a, ow, f).
     (\<lparr>ObjectMeta.Name = MetaName s, ObjectMeta.Namespace = MetaNamespace s, UID = MetaUID s,
       ResourceVersion = MetaResourceVersion s, Generation = MetaGeneration s, DeletionTimestamp = t,
       Labels = (case l of None \<Rightarrow> [] | Some m \<Rightarrow> m), Annotations = (case a of None \<Rightarrow> [] | Some m \<Rightarrow> m),
       OwnerReferences = (case ow of None \<Rightarrow> [] | Some os \<Rightarrow> os),
       Finalizers = (case f of None \<Rightarrow> [] | Some fs \<Rightarrow> fs)\<rparr>, l = None, a = None, ow = None, f = None))"

definition meta_view :: "('c, library_cell) ctype \<Rightarrow> 'c heap \<Rightarrow> StoredMeta \<Rightarrow> ObjectMeta \<times> meta_nils" where
  "meta_view F h s = meta_value s
     (pointer_view (nested F times) (\<lambda>_ t. t) h (DeletionRef s), map_view (nested F string_maps) h (LabelsRef s),
      map_view (nested F string_maps) h (AnnotationsRef s), slice_view (nested F owner_slices) (\<lambda>_ x. x) h (OwnersRef s),
      slice_view (nested F string_slices) (\<lambda>_ x. x) h (FinalizersRef s))"

definition meta_refs :: "('c, library_cell) ctype \<Rightarrow> 'c heap \<Rightarrow> StoredMeta \<Rightarrow> addr set" where
  "meta_refs F h s = pointer_refs (nested F times) (\<lambda>_ _. {}) h (DeletionRef s) \<union>
     (set_option (LabelsRef s) \<union> (set_option (AnnotationsRef s) \<union>
      (slice_refs (nested F owner_slices) (\<lambda>_ _. {}) h (OwnersRef s) \<union>
       slice_refs (nested F string_slices) (\<lambda>_ _. {}) h (FinalizersRef s))))"

definition meta_ok :: "('c, library_cell) ctype \<Rightarrow> 'c heap \<Rightarrow> StoredMeta \<Rightarrow> bool" where
  "meta_ok F h s \<longleftrightarrow> pointer_ok (nested F times) (\<lambda>_ _. True) h (DeletionRef s) \<and>
     map_ok (nested F string_maps) h (LabelsRef s) \<and> map_ok (nested F string_maps) h (AnnotationsRef s) \<and>
     slice_ok (nested F owner_slices) (\<lambda>_ _. True) h (OwnersRef s) \<and>
     slice_ok (nested F string_slices) (\<lambda>_ _. True) h (FinalizersRef s)"

lemma meta_copies:
  assumes "lawful F"
  shows "deep_copy (copy_into (meta_copier F)) (meta_view F) (meta_refs F) (meta_ok F)"
proof -
  note T = lawful_library [THEN lawful_nested [OF assms]]
  note parts = deep_copy_pair [OF deep_copy_of_pointer [OF deep_copy_plain T(4)]
    deep_copy_pair [OF deep_copy_map [OF T(1)] deep_copy_pair [OF deep_copy_map [OF T(1)]
      deep_copy_pair [OF deep_copy_slice [OF deep_copy_plain T(3),
          where e = "\<lparr>OwnerKind = [], OwnerName = [], OwnerUID = [], Controller = False\<rparr>"]
        deep_copy_slice [OF deep_copy_plain T(2), where e = "[]"]]]]]
  show ?thesis
    using deep_copy_field [OF parts, where sel = meta_refs_of and upd = with_meta_refs and W = meta_value and view = "meta_view F"]
    by (simp add: meta_view_def meta_value_def meta_refs_of_def with_meta_refs_def meta_copier_def copy_meta_refs_def
        meta_refs_def [abs_def] meta_ok_def [abs_def] fun_eq_iff split_beta)
qed

section \<open>List metadata\<close>

record StoredListMeta =
  StoredListVersion :: string
  StoredContinue :: string
  RemainingRef :: "addr option"

definition list_meta_copier :: "('c, library_cell) ctype \<Rightarrow> ('c, StoredListMeta) copier" where
  "list_meta_copier F =
     \<lparr>copy_into = (\<lambda>s. do {
        r \<leftarrow> deep_copy_pointer (nested F counts) State_Monad.return (RemainingRef s);
        State_Monad.return (s\<lparr>RemainingRef := r\<rparr>) }),
      zero_of = \<lparr>StoredListVersion = [], StoredContinue = [], RemainingRef = None\<rparr>\<rparr>"

definition list_meta_value :: "StoredListMeta \<Rightarrow> int64 option \<Rightarrow> ListMeta" where
  "list_meta_value s r = \<lparr>ListResourceVersion = StoredListVersion s, Continue = StoredContinue s, RemainingItemCount = r\<rparr>"

definition list_meta_view :: "('c, library_cell) ctype \<Rightarrow> 'c heap \<Rightarrow> StoredListMeta \<Rightarrow> ListMeta" where
  "list_meta_view F h s = list_meta_value s (pointer_view (nested F counts) (\<lambda>_ n. n) h (RemainingRef s))"

definition list_meta_refs :: "('c, library_cell) ctype \<Rightarrow> 'c heap \<Rightarrow> StoredListMeta \<Rightarrow> addr set" where
  "list_meta_refs F h s = pointer_refs (nested F counts) (\<lambda>_ _. {}) h (RemainingRef s)"

definition list_meta_ok :: "('c, library_cell) ctype \<Rightarrow> 'c heap \<Rightarrow> StoredListMeta \<Rightarrow> bool" where
  "list_meta_ok F h s \<longleftrightarrow> pointer_ok (nested F counts) (\<lambda>_ _. True) h (RemainingRef s)"

lemma list_meta_copies:
  assumes "lawful F"
  shows "deep_copy (copy_into (list_meta_copier F)) (list_meta_view F) (list_meta_refs F) (list_meta_ok F)"
  using deep_copy_field [OF deep_copy_of_pointer [OF deep_copy_plain lawful_nested [OF assms lawful_library(5)]],
      where sel = RemainingRef and upd = "\<lambda>s r. s\<lparr>RemainingRef := r\<rparr>" and W = list_meta_value and view = "list_meta_view F"]
  by (simp add: list_meta_view_def list_meta_value_def list_meta_copier_def list_meta_refs_def [abs_def]
      list_meta_ok_def [abs_def] fun_eq_iff)

section \<open>Sources of environment variables\<close>

record StoredEnv =
  StoredPrefix :: string
  ConfigMapPtr :: "addr option"
  SecretPtr :: "addr option"

definition env_copier :: "('c, library_cell) ctype \<Rightarrow> ('c, StoredEnv) copier" where
  "env_copier F =
     \<lparr>copy_into = (\<lambda>s. do {
        r \<leftarrow> (\<lambda>(c, sec). do {
          c \<leftarrow> deep_copy_pointer (nested F texts) State_Monad.return c;
          sec \<leftarrow> deep_copy_pointer (nested F texts) State_Monad.return sec;
          State_Monad.return (c, sec) }) (ConfigMapPtr s, SecretPtr s);
        State_Monad.return ((\<lambda>(c, sec). s\<lparr>ConfigMapPtr := c, SecretPtr := sec\<rparr>) r) }),
      zero_of = \<lparr>StoredPrefix = [], ConfigMapPtr = None, SecretPtr = None\<rparr>\<rparr>"

definition env_value :: "StoredEnv \<Rightarrow> string option \<times> string option \<Rightarrow> EnvFromSource" where
  "env_value s r = \<lparr>Prefix = StoredPrefix s, ConfigMapRef = fst r, SecretRef = snd r\<rparr>"

definition env_view :: "('c, library_cell) ctype \<Rightarrow> 'c heap \<Rightarrow> StoredEnv \<Rightarrow> EnvFromSource" where
  "env_view F h s = env_value s (pointer_view (nested F texts) (\<lambda>_ t. t) h (ConfigMapPtr s),
     pointer_view (nested F texts) (\<lambda>_ t. t) h (SecretPtr s))"

definition env_refs :: "('c, library_cell) ctype \<Rightarrow> 'c heap \<Rightarrow> StoredEnv \<Rightarrow> addr set" where
  "env_refs F h s = pointer_refs (nested F texts) (\<lambda>_ _. {}) h (ConfigMapPtr s) \<union>
     pointer_refs (nested F texts) (\<lambda>_ _. {}) h (SecretPtr s)"

definition env_ok :: "('c, library_cell) ctype \<Rightarrow> 'c heap \<Rightarrow> StoredEnv \<Rightarrow> bool" where
  "env_ok F h s \<longleftrightarrow> pointer_ok (nested F texts) (\<lambda>_ _. True) h (ConfigMapPtr s) \<and>
     pointer_ok (nested F texts) (\<lambda>_ _. True) h (SecretPtr s)"

lemma env_copies:
  assumes "lawful F"
  shows "deep_copy (copy_into (env_copier F)) (env_view F) (env_refs F) (env_ok F)"
proof -
  note T = lawful_nested [OF assms lawful_library(6)]
  note parts = deep_copy_pair [OF deep_copy_of_pointer [OF deep_copy_plain T] deep_copy_of_pointer [OF deep_copy_plain T]]
  show ?thesis
    using deep_copy_field [OF parts, where sel = "\<lambda>s. (ConfigMapPtr s, SecretPtr s)"
        and upd = "\<lambda>s (c, sec). s\<lparr>ConfigMapPtr := c, SecretPtr := sec\<rparr>" and W = env_value and view = "env_view F"]
    by (simp add: env_view_def env_value_def env_copier_def env_refs_def [abs_def] env_ok_def [abs_def] fun_eq_iff split_beta)
qed

end
