(* ===== verification/DeepCopy_V1alpha1.thy ===== *)
theory DeepCopy_V1alpha1
  imports V1alpha1 Imported_Types
begin

text \<open>
  The generated deep copies of the v1alpha1 API types, \<open>api/v1alpha1/zz_generated.deepcopy.go\<close>, on the heap of
  theory Go_Heap. The types that hold references are given again as they lie in memory, with a
  reference (nil or an address) for every map and slice. A \<open>DeepCopyInto\<close> takes the struct behind its receiver
  and returns what it writes to \<open>*out\<close>, which its first statement overwrites as a whole. Object metadata and list metadata
  are types of other packages with deep copies of their own: here they are type parameters, and their copies
  are arguments of the definitions that call them, with the contract \<open>deep_copy\<close> of theory Go_Heap in the
  locale \<open>imports_V1alpha1\<close>. Conditions are of another package too, but hold no references: their copy is an
  assignment.
\<close>

section \<open>Types in memory\<close>

record StoredSpec =
  Image :: ImageSpec
  Replicas :: ReplicasSpec
  Service :: ServiceSpec
  Configuration :: "addr option"
  Autoscaling :: AutoscalingSpec
  Gateway :: GatewaySpec
  Observability :: ObservabilitySpec
  Security :: SecuritySpec
  Resources :: ResourcesSpec
  HealthChecks :: HealthChecksSpec
  Rollout :: RolloutSpec

record StoredStatus =
  ObservedGeneration :: int64
  ReadyReplicas :: int32
  URL :: string
  Conditions :: "addr option"
  DeployedVersion :: string

record 'm StoredApplication =
  TypeMeta :: TypeMeta
  ObjectMeta :: 'm
  Spec :: StoredSpec
  Status :: StoredStatus

record 'l StoredList =
  TypeMeta :: TypeMeta
  ListMeta :: 'l
  Items :: "addr option"

text \<open>One summand for each type of memory that a copy can allocate, and one for the memory that belongs to
  other packages.\<close>

datatype ('m, 'l, 'f) cell =
    MapCell gomap
  | ConditionsCell "Condition list"
  | ItemsCell "'m StoredApplication list"
  | SpecCell StoredSpec
  | StatusCell StoredStatus
  | ApplicationCell "'m StoredApplication"
  | ListCell "'l StoredList"
  | ResourcesCell ResourcesSpec
  | DefaulterCell unit
  | ValidatorCell unit
  | AutoscalingCell AutoscalingSpec
  | GatewayCell GatewaySpec
  | HealthChecksCell HealthChecksSpec
  | ImageCell ImageSpec
  | ObservabilityCell ObservabilitySpec
  | ReplicasCell ReplicasSpec
  | ResourceCell ResourceSpec
  | RolloutCell RolloutSpec
  | SecurityCell SecuritySpec
  | ServiceCell ServiceSpec
  | ForeignCell 'f

section \<open>Zero values\<close>

definition zero_AutoscalingSpec :: AutoscalingSpec where
  "zero_AutoscalingSpec = \<lparr>AutoscalingSpec.Enabled = False, TargetCPUUtilization = 0\<rparr>"

definition zero_GatewaySpec :: GatewaySpec where
  "zero_GatewaySpec = \<lparr>GatewaySpec.Enabled = False, Host = [], GatewayRef = [], PathPrefix = []\<rparr>"

definition zero_HealthChecksSpec :: HealthChecksSpec where
  "zero_HealthChecksSpec = \<lparr>LivenessPath = [], ReadinessPath = [], HealthChecksSpec.Port = 0\<rparr>"

definition zero_ImageSpec :: ImageSpec where
  "zero_ImageSpec = \<lparr>Repository = [], Tag = [], PullPolicy = []\<rparr>"

definition zero_ObservabilitySpec :: ObservabilitySpec where
  "zero_ObservabilitySpec = \<lparr>ObservabilitySpec.Metrics = False\<rparr>"

definition zero_ReplicasSpec :: ReplicasSpec where
  "zero_ReplicasSpec = \<lparr>Min = 0, Max = 0\<rparr>"

definition zero_ResourceSpec :: ResourceSpec where
  "zero_ResourceSpec = \<lparr>CPU = [], Memory = []\<rparr>"

definition zero_RolloutSpec :: RolloutSpec where
  "zero_RolloutSpec = \<lparr>RolloutSpec.Strategy = [], RolloutSpec.MaxUnavailable = [], RolloutSpec.MaxSurge = []\<rparr>"

definition zero_SecuritySpec :: SecuritySpec where
  "zero_SecuritySpec = \<lparr>SecuritySpec.NetworkPolicy = False\<rparr>"

definition zero_ServiceSpec :: ServiceSpec where
  "zero_ServiceSpec = \<lparr>ServiceSpec.Port = 0, ServiceSpec.Type = []\<rparr>"

definition zero_ResourcesSpec :: ResourcesSpec where
  "zero_ResourcesSpec = \<lparr>ResourcesSpec.Requests = zero_ResourceSpec, ResourcesSpec.Limits = zero_ResourceSpec\<rparr>"

definition zero_StoredSpec :: StoredSpec where
  "zero_StoredSpec =
     \<lparr>StoredSpec.Image = zero_ImageSpec, Replicas = zero_ReplicasSpec, Service = zero_ServiceSpec,
      Configuration = None, Autoscaling = zero_AutoscalingSpec, Gateway = zero_GatewaySpec,
      Observability = zero_ObservabilitySpec, Security = zero_SecuritySpec,
      Resources = zero_ResourcesSpec, HealthChecks = zero_HealthChecksSpec, Rollout = zero_RolloutSpec\<rparr>"

definition zero_StoredStatus :: StoredStatus where
  "zero_StoredStatus =
     \<lparr>StoredStatus.ObservedGeneration = 0, ReadyReplicas = 0, URL = [], Conditions = None, DeployedVersion = []\<rparr>"

definition zero_StoredApplication :: "'m \<Rightarrow> 'm StoredApplication" where
  "zero_StoredApplication m =
     \<lparr>StoredApplication.TypeMeta = zero_TypeMeta, ObjectMeta = m,
      Spec = zero_StoredSpec, Status = zero_StoredStatus\<rparr>"

definition zero_StoredList :: "'l \<Rightarrow> 'l StoredList" where
  "zero_StoredList l = \<lparr>StoredList.TypeMeta = zero_TypeMeta, ListMeta = l, Items = None\<rparr>"

section \<open>Types of cells\<close>

definition maps :: "(('m, 'l, 'f) cell, gomap) ctype" where
  "maps = \<lparr>inject = MapCell,
     project = (\<lambda>c. case c of MapCell v \<Rightarrow> Some v | _ \<Rightarrow> None), zero = []\<rparr>"

definition condition_slices :: "(('m, 'l, 'f) cell, Condition list) ctype" where
  "condition_slices = \<lparr>inject = ConditionsCell,
     project = (\<lambda>c. case c of ConditionsCell v \<Rightarrow> Some v | _ \<Rightarrow> None), zero = []\<rparr>"

definition item_slices :: "(('m, 'l, 'f) cell, 'm StoredApplication list) ctype" where
  "item_slices = \<lparr>inject = ItemsCell,
     project = (\<lambda>c. case c of ItemsCell v \<Rightarrow> Some v | _ \<Rightarrow> None), zero = []\<rparr>"

definition specs :: "(('m, 'l, 'f) cell, StoredSpec) ctype" where
  "specs = \<lparr>inject = SpecCell,
     project = (\<lambda>c. case c of SpecCell v \<Rightarrow> Some v | _ \<Rightarrow> None), zero = zero_StoredSpec\<rparr>"

definition statuses :: "(('m, 'l, 'f) cell, StoredStatus) ctype" where
  "statuses = \<lparr>inject = StatusCell,
     project = (\<lambda>c. case c of StatusCell v \<Rightarrow> Some v | _ \<Rightarrow> None), zero = zero_StoredStatus\<rparr>"

definition applications :: "'m \<Rightarrow> (('m, 'l, 'f) cell, 'm StoredApplication) ctype" where
  "applications m = \<lparr>inject = ApplicationCell,
     project = (\<lambda>c. case c of ApplicationCell v \<Rightarrow> Some v | _ \<Rightarrow> None), zero = zero_StoredApplication m\<rparr>"

definition lists :: "'l \<Rightarrow> (('m, 'l, 'f) cell, 'l StoredList) ctype" where
  "lists l = \<lparr>inject = ListCell,
     project = (\<lambda>c. case c of ListCell v \<Rightarrow> Some v | _ \<Rightarrow> None), zero = zero_StoredList l\<rparr>"

definition ResourcesSpecs :: "(('m, 'l, 'f) cell, ResourcesSpec) ctype" where
  "ResourcesSpecs = \<lparr>inject = ResourcesCell,
     project = (\<lambda>c. case c of ResourcesCell v \<Rightarrow> Some v | _ \<Rightarrow> None), zero = zero_ResourcesSpec\<rparr>"

definition defaulters :: "(('m, 'l, 'f) cell, unit) ctype" where
  "defaulters = \<lparr>inject = DefaulterCell,
     project = (\<lambda>c. case c of DefaulterCell v \<Rightarrow> Some v | _ \<Rightarrow> None), zero = ()\<rparr>"

definition validators :: "(('m, 'l, 'f) cell, unit) ctype" where
  "validators = \<lparr>inject = ValidatorCell,
     project = (\<lambda>c. case c of ValidatorCell v \<Rightarrow> Some v | _ \<Rightarrow> None), zero = ()\<rparr>"

definition AutoscalingSpecs :: "(('m, 'l, 'f) cell, AutoscalingSpec) ctype" where
  "AutoscalingSpecs = \<lparr>inject = AutoscalingCell,
     project = (\<lambda>c. case c of AutoscalingCell v \<Rightarrow> Some v | _ \<Rightarrow> None), zero = zero_AutoscalingSpec\<rparr>"

definition GatewaySpecs :: "(('m, 'l, 'f) cell, GatewaySpec) ctype" where
  "GatewaySpecs = \<lparr>inject = GatewayCell,
     project = (\<lambda>c. case c of GatewayCell v \<Rightarrow> Some v | _ \<Rightarrow> None), zero = zero_GatewaySpec\<rparr>"

definition HealthChecksSpecs :: "(('m, 'l, 'f) cell, HealthChecksSpec) ctype" where
  "HealthChecksSpecs = \<lparr>inject = HealthChecksCell,
     project = (\<lambda>c. case c of HealthChecksCell v \<Rightarrow> Some v | _ \<Rightarrow> None), zero = zero_HealthChecksSpec\<rparr>"

definition ImageSpecs :: "(('m, 'l, 'f) cell, ImageSpec) ctype" where
  "ImageSpecs = \<lparr>inject = ImageCell,
     project = (\<lambda>c. case c of ImageCell v \<Rightarrow> Some v | _ \<Rightarrow> None), zero = zero_ImageSpec\<rparr>"

definition ObservabilitySpecs :: "(('m, 'l, 'f) cell, ObservabilitySpec) ctype" where
  "ObservabilitySpecs = \<lparr>inject = ObservabilityCell,
     project = (\<lambda>c. case c of ObservabilityCell v \<Rightarrow> Some v | _ \<Rightarrow> None), zero = zero_ObservabilitySpec\<rparr>"

definition ReplicasSpecs :: "(('m, 'l, 'f) cell, ReplicasSpec) ctype" where
  "ReplicasSpecs = \<lparr>inject = ReplicasCell,
     project = (\<lambda>c. case c of ReplicasCell v \<Rightarrow> Some v | _ \<Rightarrow> None), zero = zero_ReplicasSpec\<rparr>"

definition ResourceSpecs :: "(('m, 'l, 'f) cell, ResourceSpec) ctype" where
  "ResourceSpecs = \<lparr>inject = ResourceCell,
     project = (\<lambda>c. case c of ResourceCell v \<Rightarrow> Some v | _ \<Rightarrow> None), zero = zero_ResourceSpec\<rparr>"

definition RolloutSpecs :: "(('m, 'l, 'f) cell, RolloutSpec) ctype" where
  "RolloutSpecs = \<lparr>inject = RolloutCell,
     project = (\<lambda>c. case c of RolloutCell v \<Rightarrow> Some v | _ \<Rightarrow> None), zero = zero_RolloutSpec\<rparr>"

definition SecuritySpecs :: "(('m, 'l, 'f) cell, SecuritySpec) ctype" where
  "SecuritySpecs = \<lparr>inject = SecurityCell,
     project = (\<lambda>c. case c of SecurityCell v \<Rightarrow> Some v | _ \<Rightarrow> None), zero = zero_SecuritySpec\<rparr>"

definition ServiceSpecs :: "(('m, 'l, 'f) cell, ServiceSpec) ctype" where
  "ServiceSpecs = \<lparr>inject = ServiceCell,
     project = (\<lambda>c. case c of ServiceCell v \<Rightarrow> Some v | _ \<Rightarrow> None), zero = zero_ServiceSpec\<rparr>"

text \<open>The memory of other packages; a value of it stands for the zero value.\<close>

definition foreign :: "'f \<Rightarrow> (('m, 'l, 'f) cell, 'f) ctype" where
  "foreign z = \<lparr>inject = ForeignCell,
     project = (\<lambda>c. case c of ForeignCell v \<Rightarrow> Some v | _ \<Rightarrow> None), zero = z\<rparr>"

lemma lawful_types_V1alpha1:
  "lawful maps"
  "lawful condition_slices"
  "lawful item_slices"
  "lawful specs"
  "lawful statuses"
  "lawful (applications m)"
  "lawful (lists l)"
  "lawful ResourcesSpecs"
  "lawful defaulters"
  "lawful validators"
  "lawful AutoscalingSpecs"
  "lawful GatewaySpecs"
  "lawful HealthChecksSpecs"
  "lawful ImageSpecs"
  "lawful ObservabilitySpecs"
  "lawful ReplicasSpecs"
  "lawful ResourceSpecs"
  "lawful RolloutSpecs"
  "lawful SecuritySpecs"
  "lawful ServiceSpecs"
  "lawful (foreign z)"
  by (simp_all add: lawful_def maps_def condition_slices_def item_slices_def specs_def statuses_def applications_def
      lists_def ResourcesSpecs_def defaulters_def validators_def AutoscalingSpecs_def
      GatewaySpecs_def HealthChecksSpecs_def ImageSpecs_def ObservabilitySpecs_def
      ReplicasSpecs_def ResourceSpecs_def RolloutSpecs_def SecuritySpecs_def ServiceSpecs_def foreign_def)

section \<open>The deep copies\<close>

text \<open>Structs without references.\<close>

definition AutoscalingSpec_DeepCopyInto :: "AutoscalingSpec \<Rightarrow> (('m, 'l, 'f) cell heap, AutoscalingSpec) state" where
  "AutoscalingSpec_DeepCopyInto src = State_Monad.return src"

definition AutoscalingSpec_DeepCopy :: "addr option \<Rightarrow> (('m, 'l, 'f) cell heap, addr option) state" where
  "AutoscalingSpec_DeepCopy p = deep_copy_pointer AutoscalingSpecs AutoscalingSpec_DeepCopyInto p"

definition GatewaySpec_DeepCopyInto :: "GatewaySpec \<Rightarrow> (('m, 'l, 'f) cell heap, GatewaySpec) state" where
  "GatewaySpec_DeepCopyInto src = State_Monad.return src"

definition GatewaySpec_DeepCopy :: "addr option \<Rightarrow> (('m, 'l, 'f) cell heap, addr option) state" where
  "GatewaySpec_DeepCopy p = deep_copy_pointer GatewaySpecs GatewaySpec_DeepCopyInto p"

definition HealthChecksSpec_DeepCopyInto :: "HealthChecksSpec \<Rightarrow> (('m, 'l, 'f) cell heap, HealthChecksSpec) state" where
  "HealthChecksSpec_DeepCopyInto src = State_Monad.return src"

definition HealthChecksSpec_DeepCopy :: "addr option \<Rightarrow> (('m, 'l, 'f) cell heap, addr option) state" where
  "HealthChecksSpec_DeepCopy p = deep_copy_pointer HealthChecksSpecs HealthChecksSpec_DeepCopyInto p"

definition ImageSpec_DeepCopyInto :: "ImageSpec \<Rightarrow> (('m, 'l, 'f) cell heap, ImageSpec) state" where
  "ImageSpec_DeepCopyInto src = State_Monad.return src"

definition ImageSpec_DeepCopy :: "addr option \<Rightarrow> (('m, 'l, 'f) cell heap, addr option) state" where
  "ImageSpec_DeepCopy p = deep_copy_pointer ImageSpecs ImageSpec_DeepCopyInto p"

definition ObservabilitySpec_DeepCopyInto :: "ObservabilitySpec \<Rightarrow> (('m, 'l, 'f) cell heap, ObservabilitySpec) state" where
  "ObservabilitySpec_DeepCopyInto src = State_Monad.return src"

definition ObservabilitySpec_DeepCopy :: "addr option \<Rightarrow> (('m, 'l, 'f) cell heap, addr option) state" where
  "ObservabilitySpec_DeepCopy p = deep_copy_pointer ObservabilitySpecs ObservabilitySpec_DeepCopyInto p"

definition ReplicasSpec_DeepCopyInto :: "ReplicasSpec \<Rightarrow> (('m, 'l, 'f) cell heap, ReplicasSpec) state" where
  "ReplicasSpec_DeepCopyInto src = State_Monad.return src"

definition ReplicasSpec_DeepCopy :: "addr option \<Rightarrow> (('m, 'l, 'f) cell heap, addr option) state" where
  "ReplicasSpec_DeepCopy p = deep_copy_pointer ReplicasSpecs ReplicasSpec_DeepCopyInto p"

definition ResourceSpec_DeepCopyInto :: "ResourceSpec \<Rightarrow> (('m, 'l, 'f) cell heap, ResourceSpec) state" where
  "ResourceSpec_DeepCopyInto src = State_Monad.return src"

definition ResourceSpec_DeepCopy :: "addr option \<Rightarrow> (('m, 'l, 'f) cell heap, addr option) state" where
  "ResourceSpec_DeepCopy p = deep_copy_pointer ResourceSpecs ResourceSpec_DeepCopyInto p"

definition RolloutSpec_DeepCopyInto :: "RolloutSpec \<Rightarrow> (('m, 'l, 'f) cell heap, RolloutSpec) state" where
  "RolloutSpec_DeepCopyInto src = State_Monad.return src"

definition RolloutSpec_DeepCopy :: "addr option \<Rightarrow> (('m, 'l, 'f) cell heap, addr option) state" where
  "RolloutSpec_DeepCopy p = deep_copy_pointer RolloutSpecs RolloutSpec_DeepCopyInto p"

definition SecuritySpec_DeepCopyInto :: "SecuritySpec \<Rightarrow> (('m, 'l, 'f) cell heap, SecuritySpec) state" where
  "SecuritySpec_DeepCopyInto src = State_Monad.return src"

definition SecuritySpec_DeepCopy :: "addr option \<Rightarrow> (('m, 'l, 'f) cell heap, addr option) state" where
  "SecuritySpec_DeepCopy p = deep_copy_pointer SecuritySpecs SecuritySpec_DeepCopyInto p"

definition ServiceSpec_DeepCopyInto :: "ServiceSpec \<Rightarrow> (('m, 'l, 'f) cell heap, ServiceSpec) state" where
  "ServiceSpec_DeepCopyInto src = State_Monad.return src"

definition ServiceSpec_DeepCopy :: "addr option \<Rightarrow> (('m, 'l, 'f) cell heap, addr option) state" where
  "ServiceSpec_DeepCopy p = deep_copy_pointer ServiceSpecs ServiceSpec_DeepCopyInto p"

definition PlatformApplicationDefaulter_DeepCopyInto :: "unit \<Rightarrow> (('m, 'l, 'f) cell heap, unit) state" where
  "PlatformApplicationDefaulter_DeepCopyInto src = State_Monad.return src"

definition PlatformApplicationDefaulter_DeepCopy :: "addr option \<Rightarrow> (('m, 'l, 'f) cell heap, addr option) state" where
  "PlatformApplicationDefaulter_DeepCopy p = deep_copy_pointer defaulters PlatformApplicationDefaulter_DeepCopyInto p"

definition PlatformApplicationValidator_DeepCopyInto :: "unit \<Rightarrow> (('m, 'l, 'f) cell heap, unit) state" where
  "PlatformApplicationValidator_DeepCopyInto src = State_Monad.return src"

definition PlatformApplicationValidator_DeepCopy :: "addr option \<Rightarrow> (('m, 'l, 'f) cell heap, addr option) state" where
  "PlatformApplicationValidator_DeepCopy p = deep_copy_pointer validators PlatformApplicationValidator_DeepCopyInto p"

definition ResourcesSpec_DeepCopyInto :: "ResourcesSpec \<Rightarrow> (('m, 'l, 'f) cell heap, ResourcesSpec) state" where
  "ResourcesSpec_DeepCopyInto src = do {
     let out = src;
     let out = out\<lparr>Requests := Requests src\<rparr>;
     let out = out\<lparr>Limits := Limits src\<rparr>;
     State_Monad.return out }"

definition ResourcesSpec_DeepCopy :: "addr option \<Rightarrow> (('m, 'l, 'f) cell heap, addr option) state" where
  "ResourcesSpec_DeepCopy p = deep_copy_pointer ResourcesSpecs ResourcesSpec_DeepCopyInto p"

text \<open>Structs with references.\<close>

definition PlatformApplicationSpec_DeepCopyInto :: "StoredSpec \<Rightarrow> (('m, 'l, 'f) cell heap, StoredSpec) state" where
  "PlatformApplicationSpec_DeepCopyInto src = do {
     let out = src;
     let out = out\<lparr>StoredSpec.Image := StoredSpec.Image src, Replicas := Replicas src, Service := Service src\<rparr>;
     configuration \<leftarrow> copy_map maps (Configuration src);
     let out = out\<lparr>Configuration := configuration\<rparr>;
     State_Monad.return (out
       \<lparr>Autoscaling := Autoscaling src, Gateway := Gateway src, Observability := Observability src,
        Security := Security src, Resources := Resources src, HealthChecks := HealthChecks src,
        Rollout := Rollout src\<rparr>) }"

definition PlatformApplicationSpec_DeepCopy :: "addr option \<Rightarrow> (('m, 'l, 'f) cell heap, addr option) state" where
  "PlatformApplicationSpec_DeepCopy p = deep_copy_pointer specs PlatformApplicationSpec_DeepCopyInto p"

definition zero_Condition :: Condition where
  "zero_Condition =
     \<lparr>Condition.Type = [], Condition.Status = [], Reason = [], Message = [], LastTransitionTime = 0\<rparr>"

definition PlatformApplicationStatus_DeepCopyInto :: "StoredStatus \<Rightarrow> (('m, 'l, 'f) cell heap, StoredStatus) state" where
  "PlatformApplicationStatus_DeepCopyInto src = do {
     let out = src;
     conditions \<leftarrow> copy_slice condition_slices zero_Condition State_Monad.return (Conditions src);
     State_Monad.return (out\<lparr>Conditions := conditions\<rparr>) }"

definition PlatformApplicationStatus_DeepCopy :: "addr option \<Rightarrow> (('m, 'l, 'f) cell heap, addr option) state" where
  "PlatformApplicationStatus_DeepCopy p = deep_copy_pointer statuses PlatformApplicationStatus_DeepCopyInto p"

definition PlatformApplication_DeepCopyInto ::
    "(('m, 'l, 'f) cell, 'm) copier \<Rightarrow> 'm StoredApplication \<Rightarrow> (('m, 'l, 'f) cell heap, 'm StoredApplication) state" where
  "PlatformApplication_DeepCopyInto M src = do {
     let out = src;
     let out = out\<lparr>StoredApplication.TypeMeta := StoredApplication.TypeMeta src\<rparr>;
     meta \<leftarrow> copy_into M (ObjectMeta src);
     let out = out\<lparr>ObjectMeta := meta\<rparr>;
     spec \<leftarrow> PlatformApplicationSpec_DeepCopyInto (Spec src);
     let out = out\<lparr>Spec := spec\<rparr>;
     status \<leftarrow> PlatformApplicationStatus_DeepCopyInto (Status src);
     State_Monad.return (out\<lparr>Status := status\<rparr>) }"

definition PlatformApplication_DeepCopy ::
    "(('m, 'l, 'f) cell, 'm) copier \<Rightarrow> addr option \<Rightarrow> (('m, 'l, 'f) cell heap, addr option) state" where
  "PlatformApplication_DeepCopy M p =
     deep_copy_pointer (applications (zero_of M)) (PlatformApplication_DeepCopyInto M) p"

definition PlatformApplication_DeepCopyObject ::
    "(('m, 'l, 'f) cell, 'm) copier \<Rightarrow> addr option \<Rightarrow> (('m, 'l, 'f) cell heap, addr option) state" where
  "PlatformApplication_DeepCopyObject M p = do {
     c \<leftarrow> PlatformApplication_DeepCopy M p;
     (case c of Some c \<Rightarrow> State_Monad.return (Some c) | None \<Rightarrow> State_Monad.return None) }"

definition PlatformApplicationList_DeepCopyInto ::
    "(('m, 'l, 'f) cell, 'm) copier \<Rightarrow> (('m, 'l, 'f) cell, 'l) copier \<Rightarrow> 'l StoredList \<Rightarrow> (('m, 'l, 'f) cell heap, 'l StoredList) state" where
  "PlatformApplicationList_DeepCopyInto M L src = do {
     let out = src;
     let out = out\<lparr>StoredList.TypeMeta := StoredList.TypeMeta src\<rparr>;
     meta \<leftarrow> copy_into L (ListMeta src);
     let out = out\<lparr>ListMeta := meta\<rparr>;
     items \<leftarrow> copy_slice item_slices (zero_StoredApplication (zero_of M)) (PlatformApplication_DeepCopyInto M) (Items src);
     State_Monad.return (out\<lparr>Items := items\<rparr>) }"

definition PlatformApplicationList_DeepCopy ::
    "(('m, 'l, 'f) cell, 'm) copier \<Rightarrow> (('m, 'l, 'f) cell, 'l) copier \<Rightarrow> addr option \<Rightarrow> (('m, 'l, 'f) cell heap, addr option) state" where
  "PlatformApplicationList_DeepCopy M L p =
     deep_copy_pointer (lists (zero_of L)) (PlatformApplicationList_DeepCopyInto M L) p"

definition PlatformApplicationList_DeepCopyObject ::
    "(('m, 'l, 'f) cell, 'm) copier \<Rightarrow> (('m, 'l, 'f) cell, 'l) copier \<Rightarrow> addr option \<Rightarrow> (('m, 'l, 'f) cell heap, addr option) state" where
  "PlatformApplicationList_DeepCopyObject M L p = do {
     c \<leftarrow> PlatformApplicationList_DeepCopy M L p;
     (case c of Some c \<Rightarrow> State_Monad.return (Some c) | None \<Rightarrow> State_Monad.return None) }"

section \<open>What a struct in memory says\<close>

text \<open>The value of theory V1alpha1 that a struct stands for, and which of its references are nil.\<close>

definition spec_value :: "StoredSpec \<Rightarrow> gomap option \<Rightarrow> PlatformApplicationSpec \<times> bool" where
  "spec_value s c = (
     (\<lparr>PlatformApplicationSpec.Image = Image s, Replicas = Replicas s, Service = Service s,
       PlatformApplicationSpec.Configuration = (case c of None \<Rightarrow> [] | Some m \<Rightarrow> m),
       PlatformApplicationSpec.Autoscaling = Autoscaling s, Gateway = Gateway s, Observability = Observability s,
       Security = Security s, Resources = Resources s, HealthChecks = HealthChecks s, Rollout = Rollout s\<rparr>,
      c = None))"

definition spec_view :: "('m, 'l, 'f) cell heap \<Rightarrow> StoredSpec \<Rightarrow> PlatformApplicationSpec \<times> bool" where
  "spec_view h s = spec_value s (map_view maps h (Configuration s))"

definition spec_refs :: "('m, 'l, 'f) cell heap \<Rightarrow> StoredSpec \<Rightarrow> addr set" where
  "spec_refs h s = set_option (Configuration s)"

definition spec_ok :: "('m, 'l, 'f) cell heap \<Rightarrow> StoredSpec \<Rightarrow> bool" where
  "spec_ok h s \<longleftrightarrow> map_ok maps h (Configuration s)"

definition status_value :: "StoredStatus \<Rightarrow> Condition list option \<Rightarrow> PlatformApplicationStatus \<times> bool" where
  "status_value s c =
     (\<lparr>PlatformApplicationStatus.ObservedGeneration = ObservedGeneration s, ReadyReplicas = ReadyReplicas s, URL = URL s,
       Conditions = (case c of None \<Rightarrow> [] | Some cs \<Rightarrow> cs), DeployedVersion = DeployedVersion s\<rparr>, c = None)"

definition status_view :: "('m, 'l, 'f) cell heap \<Rightarrow> StoredStatus \<Rightarrow> PlatformApplicationStatus \<times> bool" where
  "status_view h s = status_value s (slice_view condition_slices (\<lambda>_ c. c) h (Conditions s))"

definition status_refs :: "('m, 'l, 'f) cell heap \<Rightarrow> StoredStatus \<Rightarrow> addr set" where
  "status_refs h s = slice_refs condition_slices (\<lambda>_ _. {}) h (Conditions s)"

definition status_ok :: "('m, 'l, 'f) cell heap \<Rightarrow> StoredStatus \<Rightarrow> bool" where
  "status_ok h s \<longleftrightarrow> slice_ok condition_slices (\<lambda>_ _. True) h (Conditions s)"

type_synonym 'n application_view = "PlatformApplication \<times> 'n \<times> bool \<times> bool"

definition application_value ::
    "'m StoredApplication \<Rightarrow>
     (ObjectMeta \<times> 'n) \<times> (PlatformApplicationSpec \<times> bool) \<times> (PlatformApplicationStatus \<times> bool) \<Rightarrow>
     'n application_view" where
  "application_value x r = (case r of ((m, nm), (sp, nsp), (st, nst)) \<Rightarrow>
     (\<lparr>PlatformApplication.TypeMeta = StoredApplication.TypeMeta x, ObjectMeta = m, Spec = sp, Status = st\<rparr>,
      nm, nsp, nst))"

definition application_view ::
    "(('m, 'l, 'f) cell heap \<Rightarrow> 'm \<Rightarrow> ObjectMeta \<times> 'n) \<Rightarrow> ('m, 'l, 'f) cell heap \<Rightarrow> 'm StoredApplication \<Rightarrow> 'n application_view" where
  "application_view mview h x =
     application_value x (mview h (ObjectMeta x), spec_view h (Spec x), status_view h (Status x))"

definition application_refs ::
    "(('m, 'l, 'f) cell heap \<Rightarrow> 'm \<Rightarrow> addr set) \<Rightarrow> ('m, 'l, 'f) cell heap \<Rightarrow> 'm StoredApplication \<Rightarrow> addr set" where
  "application_refs mrefs h x = mrefs h (ObjectMeta x) \<union> (spec_refs h (Spec x) \<union> status_refs h (Status x))"

definition application_ok ::
    "(('m, 'l, 'f) cell heap \<Rightarrow> 'm \<Rightarrow> bool) \<Rightarrow> ('m, 'l, 'f) cell heap \<Rightarrow> 'm StoredApplication \<Rightarrow> bool" where
  "application_ok mok h x \<longleftrightarrow> mok h (ObjectMeta x) \<and> spec_ok h (Spec x) \<and> status_ok h (Status x)"

definition list_value ::
    "'l StoredList \<Rightarrow> 'lv \<times> 'n application_view list option \<Rightarrow> TypeMeta \<times> 'lv \<times> 'n application_view list option" where
  "list_value x r = (StoredList.TypeMeta x, r)"

definition list_view ::
    "(('m, 'l, 'f) cell heap \<Rightarrow> 'm \<Rightarrow> ObjectMeta \<times> 'n) \<Rightarrow> (('m, 'l, 'f) cell heap \<Rightarrow> 'l \<Rightarrow> 'lv) \<Rightarrow>
     ('m, 'l, 'f) cell heap \<Rightarrow> 'l StoredList \<Rightarrow> TypeMeta \<times> 'lv \<times> 'n application_view list option" where
  "list_view mview lview h x =
     list_value x (lview h (ListMeta x), slice_view item_slices (application_view mview) h (Items x))"

definition list_refs ::
    "(('m, 'l, 'f) cell heap \<Rightarrow> 'm \<Rightarrow> addr set) \<Rightarrow> (('m, 'l, 'f) cell heap \<Rightarrow> 'l \<Rightarrow> addr set) \<Rightarrow>
     ('m, 'l, 'f) cell heap \<Rightarrow> 'l StoredList \<Rightarrow> addr set" where
  "list_refs mrefs lrefs h x =
     lrefs h (ListMeta x) \<union> slice_refs item_slices (application_refs mrefs) h (Items x)"

definition list_ok ::
    "(('m, 'l, 'f) cell heap \<Rightarrow> 'm \<Rightarrow> bool) \<Rightarrow> (('m, 'l, 'f) cell heap \<Rightarrow> 'l \<Rightarrow> bool) \<Rightarrow> ('m, 'l, 'f) cell heap \<Rightarrow> 'l StoredList \<Rightarrow> bool" where
  "list_ok mok lok h x \<longleftrightarrow> lok h (ListMeta x) \<and> slice_ok item_slices (application_ok mok) h (Items x)"

section \<open>The contract holds\<close>

interpretation spec_copy: deep_copy PlatformApplicationSpec_DeepCopyInto spec_view spec_refs spec_ok
proof -
  show "deep_copy PlatformApplicationSpec_DeepCopyInto spec_view spec_refs spec_ok"
    using deep_copy_field [OF deep_copy_map [OF lawful_types_V1alpha1(1)], where sel = Configuration
        and upd = "\<lambda>s c. s\<lparr>Configuration := c\<rparr>" and W = spec_value and view = spec_view]
    by (simp add: spec_view_def spec_value_def fun_eq_iff PlatformApplicationSpec_DeepCopyInto_def [abs_def]
        spec_refs_def [abs_def] spec_ok_def [abs_def])
qed

interpretation status_copy: deep_copy PlatformApplicationStatus_DeepCopyInto status_view status_refs status_ok
proof -
  show "deep_copy PlatformApplicationStatus_DeepCopyInto status_view status_refs status_ok"
    using deep_copy_field [OF deep_copy_slice [OF deep_copy_plain lawful_types_V1alpha1(2), where e = zero_Condition],
        where sel = Conditions and upd = "\<lambda>s c. s\<lparr>Conditions := c\<rparr>" and W = status_value and view = status_view]
    by (simp add: status_view_def status_value_def fun_eq_iff PlatformApplicationStatus_DeepCopyInto_def [abs_def]
        status_refs_def [abs_def] status_ok_def [abs_def])
qed

text \<open>The contract of the imported types, under which the copies of the types that hold them are deep.\<close>

locale imports_V1alpha1 =
  meta: deep_copy "copy_into M" mview mrefs mok + list_meta: deep_copy "copy_into L" lview lrefs lok
  for M :: "(('m, 'l, 'f) cell, 'm) copier" and mview :: "('m, 'l, 'f) cell heap \<Rightarrow> 'm \<Rightarrow> ObjectMeta \<times> 'n" and mrefs mok
    and L :: "(('m, 'l, 'f) cell, 'l) copier" and lview :: "('m, 'l, 'f) cell heap \<Rightarrow> 'l \<Rightarrow> 'lv" and lrefs lok

sublocale imports_V1alpha1 \<subseteq> application_copy: deep_copy "PlatformApplication_DeepCopyInto M"
  "application_view mview" "application_refs mrefs" "application_ok mok"
proof -
  note parts = deep_copy_pair [OF meta.deep_copy_axioms deep_copy_pair [OF spec_copy.deep_copy_axioms status_copy.deep_copy_axioms]]
  show "deep_copy (PlatformApplication_DeepCopyInto M) (application_view mview) (application_refs mrefs)
      (application_ok mok)"
    using deep_copy_field [OF parts, where sel = "\<lambda>x. (ObjectMeta x, Spec x, Status x)"
        and upd = "\<lambda>x (m, sp, st). x\<lparr>ObjectMeta := m, Spec := sp, Status := st\<rparr>"
        and W = application_value and view = "application_view mview"]
    by (simp add: application_view_def application_value_def fun_eq_iff PlatformApplication_DeepCopyInto_def [abs_def]
        application_refs_def [abs_def] application_ok_def [abs_def] split_beta)
qed

sublocale imports_V1alpha1 \<subseteq> list_copy: deep_copy "PlatformApplicationList_DeepCopyInto M L"
  "list_view mview lview" "list_refs mrefs lrefs" "list_ok mok lok"
proof -
  note parts = deep_copy_pair [OF list_meta.deep_copy_axioms
    deep_copy_slice [OF application_copy.deep_copy_axioms lawful_types_V1alpha1(3), where e = "zero_StoredApplication (zero_of M)"]]
  show "deep_copy (PlatformApplicationList_DeepCopyInto M L) (list_view mview lview) (list_refs mrefs lrefs)
      (list_ok mok lok)"
    using deep_copy_field [OF parts, where sel = "\<lambda>x. (ListMeta x, Items x)" and upd = "\<lambda>x (m, i). x\<lparr>ListMeta := m, Items := i\<rparr>"
        and W = list_value and view = "list_view mview lview"]
    by (simp add: list_view_def list_value_def fun_eq_iff PlatformApplicationList_DeepCopyInto_def [abs_def]
        list_refs_def [abs_def] list_ok_def [abs_def] split_beta)
qed

sublocale imports_V1alpha1 \<subseteq> object_copy: deep_copy "PlatformApplicationList_DeepCopyObject M L"
  "pointer_view (lists (zero_of L)) (list_view mview lview)" "pointer_refs (lists (zero_of L)) (list_refs mrefs lrefs)"
  "pointer_ok (lists (zero_of L)) (list_ok mok lok)"
proof -
  have "PlatformApplicationList_DeepCopyObject M L =
      deep_copy_pointer (lists (zero_of L)) (PlatformApplicationList_DeepCopyInto M L)"
    by (rule ext, rule state.expand, rule ext)
      (simp add: PlatformApplicationList_DeepCopyObject_def PlatformApplicationList_DeepCopy_def split: prod.split option.split)
  then show "deep_copy (PlatformApplicationList_DeepCopyObject M L)
      (pointer_view (lists (zero_of L)) (list_view mview lview)) (pointer_refs (lists (zero_of L)) (list_refs mrefs lrefs))
      (pointer_ok (lists (zero_of L)) (list_ok mok lok))"
    using deep_copy_of_pointer [OF list_copy.deep_copy_axioms lawful_types_V1alpha1(7)] by simp
qed

context imports_V1alpha1
begin

lemmas object_copies = object_copy.copies object_copy.isolated

end

section \<open>Isolation\<close>

text \<open>C37. The deep copy of a list of v1alpha1 applications, whatever deep copies the library has for the
  metadata, says what the list says, down to the labels, annotations, owners and finalizers of
  its items, their maps and slices, and which of them are nil; it lies in new memory altogether; and the
  two are isolated: after any sequence of writes to memory that was there before, the copy says the same,
  and after any sequence of writes to other memory, the original does.\<close>

theorem list_copy_isolates_V1alpha1:
  assumes "imports_V1alpha1 M mview mrefs mok L lview lrefs lok"
    and "pointer_ok (lists (zero_of L)) (list_ok mok lok) h p"
    and "run_state (PlatformApplicationList_DeepCopyObject M L p) h = (q, h')"
  shows "pointer_view (lists (zero_of L)) (list_view mview lview) h' q =
      pointer_view (lists (zero_of L)) (list_view mview lview) h p \<and>
    pointer_refs (lists (zero_of L)) (list_refs mrefs lrefs) h' q \<subseteq> fresh_refs h h' \<and>
    pointer_view (lists (zero_of L)) (list_view mview lview) (write_all (filter (\<lambda>(a, c). a < limit h) ws) h') q =
      pointer_view (lists (zero_of L)) (list_view mview lview) h p \<and>
    pointer_view (lists (zero_of L)) (list_view mview lview) (write_all (filter (\<lambda>(a, c). limit h \<le> a) ws) h') p =
      pointer_view (lists (zero_of L)) (list_view mview lview) h p"
  using imports_V1alpha1.object_copies [OF assms] by simp

text \<open>The library of theory Imported_Types meets the contract.\<close>

abbreviation library_memory :: "((StoredMeta, StoredListMeta, library_cell) cell, library_cell) ctype" where
  "library_memory \<equiv> foreign (StringMapCell [])"

interpretation library: imports_V1alpha1 "meta_copier library_memory" "meta_view library_memory" "meta_refs library_memory" "meta_ok library_memory"
  "list_meta_copier library_memory" "list_meta_view library_memory" "list_meta_refs library_memory" "list_meta_ok library_memory"
  by (intro imports_V1alpha1.intro meta_copies list_meta_copies lawful_types_V1alpha1)

definition sample_heap :: "(StoredMeta, StoredListMeta, library_cell) cell heap" where
  "sample_heap = \<lparr>contents = (\<lambda>_. None)
     (0 \<mapsto> MapCell [(''MODE'', ''fast'')], Suc 0 \<mapsto> ConditionsCell [zero_Condition],
      2 \<mapsto> ForeignCell (StringMapCell [(''team'', ''web'')]), 3 \<mapsto> ForeignCell (StringsCell [''backup'']),
      4 \<mapsto> ForeignCell (CountCell 7),
      8 \<mapsto> ItemsCell [(zero_StoredApplication (zero_StoredMeta\<lparr>LabelsRef := Some 2, FinalizersRef := Some 3\<rparr>))
        \<lparr>Spec := zero_StoredSpec\<lparr>Configuration := Some 0\<rparr>, Status := zero_StoredStatus\<lparr>Conditions := Some (Suc 0)\<rparr>\<rparr>],
      9 \<mapsto> ListCell ((zero_StoredList \<lparr>StoredListVersion = [], StoredContinue = [], RemainingRef = Some 4\<rparr>)\<lparr>Items := Some 8\<rparr>)),
     limit = 10\<rparr>"

theorem list_copy_isolates_V1alpha1_witness:
  "\<exists>q h'. run_state (PlatformApplicationList_DeepCopyObject (meta_copier library_memory) (list_meta_copier library_memory) (Some 9))
       sample_heap = (q, h') \<and> q \<noteq> None \<and>
     pointer_view (lists (zero_of (list_meta_copier library_memory)))
         (list_view (meta_view library_memory) (list_meta_view library_memory))
         (write_all [(2, ForeignCell (StringMapCell [])), (3, ForeignCell (StringsCell [])), (0, MapCell [])] h') q =
       pointer_view (lists (zero_of (list_meta_copier library_memory)))
         (list_view (meta_view library_memory) (list_meta_view library_memory)) sample_heap (Some 9) \<and>
     9 \<notin> pointer_refs (lists (zero_of (list_meta_copier library_memory)))
         (list_refs (meta_refs library_memory) (list_meta_refs library_memory)) h' q"
proof -
  let ?copy = "PlatformApplicationList_DeepCopyObject (meta_copier library_memory) (list_meta_copier library_memory)"
  have ok: "pointer_ok (lists (zero_of (list_meta_copier library_memory)))
      (list_ok (meta_ok library_memory) (list_meta_ok library_memory)) sample_heap (Some 9)"
    by (simp add: sample_heap_def pointer_ok_def typed_def value_at_def list_ok_def slice_ok_def application_ok_def
        spec_ok_def status_ok_def map_ok_def wf_map_def zero_StoredList_def zero_StoredApplication_def
        zero_StoredSpec_def zero_StoredStatus_def zero_StoredMeta_def meta_ok_def list_meta_ok_def nested_def
        foreign_def library_types maps_def condition_slices_def item_slices_def lists_def)
  obtain q h' where run: "run_state (?copy (Some 9)) sample_heap = (q, h')"
    by (cases "run_state (?copy (Some 9)) sample_heap")
  from list_copy_isolates_V1alpha1 [OF library.imports_V1alpha1_axioms ok run,
      of "[(2, ForeignCell (StringMapCell [])), (3, ForeignCell (StringsCell [])), (0, MapCell [])]"] run show ?thesis
    by (auto simp: pointer_view_def fresh_refs_def sample_heap_def)
qed

end
