(* ===== verification/Spec2Isabelle.thy ===== *)
theory Spec2Isabelle
  imports Versions Recovery Quiescence Cost Interceptor Startup DeepCopy_V1alpha1 DeepCopy_V1beta1 DeepCopy_V1
begin

text \<open>
  The platform operator, a Kubernetes controller for the custom resource PlatformApplication.

  \<^bold>\<open>The program.\<close> A user writes a PlatformApplication in API version v1alpha1, v1beta1 or v1. The admission
  webhooks (\<open>api/*/webhook_platformapplication.go\<close>) fill in defaults and validate; the conversions
  (\<open>api/*/platformapplication_conversion.go\<close>) carry an object between a spoke version and the hub v1beta1.
  For each application the controller (\<open>internal/controller/platformapplication_controller.go\<close>) runs
  \<open>Reconcile\<close>: it reads the application, handles its finalizer, and calls seven sub-reconcilers
  (\<open>internal/controller/subreconcilers\<close>) in order, each of which builds one child object from the spec and
  applies or deletes it with the client (\<open>apply.go\<close>). Then it writes conditions
  (\<open>internal/status/conditions.go\<close>) and decides from the class of the error (\<open>internal/errors/errors.go\<close>)
  when to come back. Metrics and spans (\<open>internal/metrics\<close>, \<open>internal/tracing\<close>) are updated on the way.
  \<open>cmd/main.go\<close> puts the process together.

  \<^bold>\<open>The theories.\<close>
    \<^item> Go_Prelude: int32 arithmetic, decimal text, sorted map iteration, values or panics (type \<open>go\<close>),
      shared list and map lemmas.
    \<^item> V1alpha1, V1beta1, V1: the structs of the three API versions (\<open>platformapplication_types.go\<close>).
      Admission: the notion of an admitted object; Webhook_V1alpha1, Webhook_V1beta1: \<open>Default\<close>,
      \<open>validatePlatformApplication\<close> and the validator methods. Spoke: the locale of a spoke version;
      Conversion_V1alpha1, Conversion_V1: \<open>ConvertTo\<close> and \<open>ConvertFrom\<close>, with the interpretations. Versions:
      the properties of admission and conversion together.
    \<^item> Errors: Go error values, \<open>Classify\<close> and \<open>ClassifyOrWrap\<close>; the locale \<open>api_error_laws\<close> is the
      documentation of package apierrors. Status: the conditions, with \<open>SetCondition\<close> refining the update
      of a map. Metrics: the fourteen collectors and the observe helpers. Tracing: \<open>Init\<close>, \<open>Shutdown\<close>, spans.
    \<^item> K8s: the Kubernetes types that the builders fill. World: API objects, the environment of the
      operator (record \<open>env\<close>: the client, the clock, waiting, owner references, quantities, finalizers) and
      the log of what the operator does; the two logics \<open>logs\<close> and \<open>triple\<close>. The log is ghost state.
    \<^item> Apply (\<open>apply.go\<close>), Deployment (\<open>deployment.go\<close>), Workload (\<open>service.go\<close>, \<open>hpa.go\<close>, \<open>pdb.go\<close>),
      Networking (\<open>networking.go\<close>, \<open>servicemonitor.go\<close>): the builders and the reconcile functions.
      Children: what the seven children say to each other and to the webhooks.
    \<^item> Controller: \<open>Reconcile\<close> and everything it calls, its deferred calls included, and \<open>SetupWithManager\<close>.
    \<^item> Cluster, Reliable, Platform: three locales, each extending the one before. \<open>api_server\<close> is a server
      whose calls may fail at any time; \<open>reliable_server\<close> is one that is up; \<open>platform\<close> also stores the
      application. Under them the operations of Apply and Controller are verified with Hoare triples.
      Reference_Server: an executable server with a fault script, on which all three are interpreted.
    \<^item> Traces, Outcome, Reconcile_Facts: what every computation logs, as grammars of logs, from which the
      facts about writes, metrics, spans, status and results follow. Operation: the properties of the
      operator in operation. Cost: bounds on the calls and the waiting of a run.
    \<^item> Confinement: the family of slots of an application, and that a run writes inside its own. Steps: every
      computation of the operator is \<open>faithful\<close>, the outside moves only through the calls that its log shows.
      Lifecycle: the life of one application as an abstract machine, with the steps of the operator and those
      of everybody else, other replicas of the operator included, and the invariants \<open>sound\<close>, which all of them keep, and
      \<open>guarded_app\<close>, which those keep that leave the operator's finalizer alone. Linearization: the locale
      \<open>shared_server\<close>, an API server with optimistic concurrency and stale reads
      on which others act between any two calls, and
      the proof that a run of \<open>Reconcile\<close> is at most one step of the abstract machine. Versioned_Server
      and Shared_Server: the reference server alone, and with visitors and reads from a snapshot that lags
      behind, on which that locale is interpreted. Fleet: many applications.
      Recovery: the locale \<open>recovering_server\<close>, which joins \<open>platform\<close> and \<open>shared_server\<close> with a bound on the
      calls that are in trouble. Quiescence: the locale \<open>acknowledging_server\<close>, \<open>api_server\<close> with what an
      acknowledged write of the application promises, and the states in which the operator may fall silent.
    \<^item> Interceptor: the fault-injecting client of the chaos tests
      (\<open>internal/testing/fakeclient/interceptor.go\<close>), as a transformer of environments: which faults it injects
      into which calls; a sublocale shows that it preserves the contract \<open>api_server\<close>. Scheme: the registration of the API types
      (\<open>groupversion_info.go\<close>, the \<open>init\<close> functions), with the locale \<open>scheme_library\<close>. Startup: \<open>cmd/main.go\<close>.
    \<^item> Go_Heap, DeepCopy_V1alpha1, DeepCopy_V1beta1, DeepCopy_V1: the generated deep copies
      (\<open>zz_generated.deepcopy.go\<close>) over a heap of maps, slices and pointers; the locale \<open>deep_copy\<close> is the contract of a
      copying function, closed under maps, slices and pointers. The copies of metadata and environment sources are
      those of other packages: parameters under that contract, the locales \<open>imports_V1alpha1\<close> and so on, which
      are interpreted on the copies of theory Imported_Types.

  \<^bold>\<open>What is shown.\<close> Convergence: with a server that may fail, success of the sub-reconcilers means that all
  children are as wanted, and nothing else is ever touched; with one that is up, a reconciliation succeeds and
  reports what it achieved; a new application needs two reconciliations, a deleted one is released, and any
  number of applications can be reconciled one after the other without undoing each other; after trouble of
  n calls, n + 2 reconciliations settle an application whatever the failed ones left behind. The server keeps the
  ready replicas that a Deployment reports when it is applied again, so a ready application stays ready under
  reconciliation. Silence: whatever fails, a reconciliation that asks for no requeue leaves no work behind. Concurrency: a run
  is linearizable, that is, whatever happens between its calls it makes one legal step on the stored
  application or none; from this, and because what one worker guarantees the others tolerate, what a stored status says can be relied
  on at any time; workers write
  disjoint objects; and every run ends within constant bounds. Reporting
  and retrying: the status, the result and the error follow from the outcome; writes are few and in order.
  Children: names and slots are separate, selectors match their own pods only, ports and replica counts
  agree, builders panic only on unparsable quantities. Versions: what admission admits, which conversions
  lose nothing, and that webhooks and conversions commute. Errors, metrics, spans: total and consistent.
  Deep copies share no memory. The start of the process runs its plan or exits with 1.

  \<^bold>\<open>Bounds.\<close> No function runs on fuel. The only loop of the code that is not over a list is the retry loop
  of \<open>Apply\<close>; it makes at most four attempts with waits of 100, 200 and 400 milliseconds between them
  (\<open>maxApplyRetries\<close>), and its recursion is on the number of attempts left. Seven applies or deletions, the
  two reads of \<open>Reconcile\<close> and its status update make at most 30 reads, 29 writes and 4.9 seconds of waiting. Integers of type int32 are
  words; Go's int is an unbounded integer, used for counters, lengths and the result of \<open>Atoi\<close>, whose check of
  the 64-bit range is modelled.

  \<^bold>\<open>Assumptions.\<close> What is not source of this repository is a parameter: the client, the API machinery's
  predicates, owner references, semantic equality, quantities, finalizer helpers, the OpenTelemetry SDK and
  the manager. The contracts \<open>api_server\<close> to \<open>platform\<close> are for one writer, and reads see earlier writes: they
  describe a cache that has caught up. The contract \<open>shared_server\<close> is for many writers; it assumes that a read
  returns a version that was stored at some time, perhaps an old one. What a stored status says assumes that only
  the operator writes the status, that a change of the spec raises the generation, and that the applications
  stored at the start are sound; that a reported application has the operator's finalizer assumes moreover that nobody
  else removes it. Runs for the same key do not overlap in one
  process, which controller-runtime ensures; runs of other replicas may, as steps of others.
  Maps are association lists with distinct keys in the functional models and cells of a heap
  in the deep copies.

  \<^bold>\<open>Not modelled.\<close> Log lines. Cancellation of a context other than while waiting. The rate limiter and the
  work queue of controller-runtime; the lists of applications outside the deep copies.
\<close>

end
